(* ===== verification/Filesystem.thy ===== *)
theory Filesystem
  imports Go_Prelude
begin

text \<open>
  The directories of JSON files in which the program keeps its wallets, accounts, keys, intents
  and key shares, and the operations of package \<^verbatim>\<open>os\<close> it applies to them.

  A directory lists its entries in the order of \<^verbatim>\<open>os.ReadDir\<close> (sorted by name). A regular file
  is represented by what \<^verbatim>\<open>json.Unmarshal\<close> makes of its bytes: the decoded value, or the
  decoder's error. The three fault fields are the environment: which names cannot be written or
  removed, and whether the directory can be listed. A failed write leaves the file as it was;
  a subdirectory is taken to be nonempty, so it is never removed.
  Names are single path elements (no slash).

  Two interfaces are stated as locales: \<open>keyed_dir\<close>, the laws of a directory as a finite map
  with a sorted listing, and \<open>record_store\<close>, the contract every JSON store of the program has
  (a saved record is loaded back, the others keep their value).
\<close>

section \<open>Directories\<close>

datatype os_err = NotExist err | OsErr err

primrec os_msg :: "os_err \<Rightarrow> err" where
  "os_msg (NotExist e) = e"
| "os_msg (OsErr e) = e"

datatype 'a content = Json 'a | NotJson err

datatype 'a dirent = Subdir | File "'a content" | Unreadable err

type_synonym 'a entries = "(string \<times> 'a dirent) list"

record 'a dir =
  base :: string
  ents :: "'a entries"
  list_fault :: "err option"
  write_fault :: "string \<Rightarrow> err option"
  remove_fault :: "string \<Rightarrow> err option"

fun ents_put :: "string \<Rightarrow> 'e \<Rightarrow> (string \<times> 'e) list \<Rightarrow> (string \<times> 'e) list" where
  "ents_put n e [] = [(n, e)]"
| "ents_put n e ((m, f) # es) =
     (if n < m then (n, e) # (m, f) # es
      else if n = m then (n, e) # es
      else (m, f) # ents_put n e es)"

definition ents_del :: "string \<Rightarrow> (string \<times> 'e) list \<Rightarrow> (string \<times> 'e) list" where
  "ents_del n es = filter (\<lambda>p. fst p \<noteq> n) es"

definition ents_ok :: "(string \<times> 'e) list \<Rightarrow> bool" where
  "ents_ok es \<longleftrightarrow> sorted_wrt (<) (map fst es)"

definition look :: "'a dir \<Rightarrow> string \<Rightarrow> 'a dirent option" where
  "look d n = map_of (ents d) n"

definition dir_ok :: "'a dir \<Rightarrow> bool" where
  "dir_ok d \<longleftrightarrow> ents_ok (ents d)"

definition empty_dir :: "string \<Rightarrow> 'a dir" where
  "empty_dir p = \<lparr>base = p, ents = [], list_fault = None,
     write_fault = (\<lambda>_. None), remove_fault = (\<lambda>_. None)\<rparr>"

section \<open>Package \<^verbatim>\<open>os\<close>\<close>

definition full_path :: "'a dir \<Rightarrow> string \<Rightarrow> string" where
  "full_path d n = base d @ ''/'' @ n"

definition no_such_file :: "string \<Rightarrow> 'a dir \<Rightarrow> string \<Rightarrow> err" where
  "no_such_file op d n = op @ '' '' @ full_path d n @ '': no such file or directory''"

definition ReadFile :: "'a dir \<Rightarrow> string \<Rightarrow> os_err + 'a content" where
  "ReadFile d n =
     (case look d n of
        None \<Rightarrow> Inl (NotExist (no_such_file ''open'' d n))
      | Some Subdir \<Rightarrow> Inl (OsErr (''read '' @ full_path d n @ '': is a directory''))
      | Some (Unreadable e) \<Rightarrow> Inl (OsErr e)
      | Some (File c) \<Rightarrow> Inr c)"

definition WriteFile :: "'a dir \<Rightarrow> string \<Rightarrow> 'a \<Rightarrow> 'a dir res" where
  "WriteFile d n v =
     (case write_fault d n of
        Some e \<Rightarrow> Inl e
      | None \<Rightarrow>
          (case look d n of
             Some Subdir \<Rightarrow> Inl (''open '' @ full_path d n @ '': is a directory'')
           | Some (Unreadable e) \<Rightarrow> Inl e
           | _ \<Rightarrow> Inr (d\<lparr>ents := ents_put n (File (Json v)) (ents d)\<rparr>)))"

text \<open>Writing bytes that were read from a file, whether or not they decode.\<close>

definition WriteRaw :: "'a dir \<Rightarrow> string \<Rightarrow> 'a content \<Rightarrow> 'a dir res" where
  "WriteRaw d n c =
     (case write_fault d n of
        Some e \<Rightarrow> Inl e
      | None \<Rightarrow>
          (case look d n of
             Some Subdir \<Rightarrow> Inl (''open '' @ full_path d n @ '': is a directory'')
           | Some (Unreadable e) \<Rightarrow> Inl e
           | _ \<Rightarrow> Inr (d\<lparr>ents := ents_put n (File c) (ents d)\<rparr>)))"

definition Remove :: "'a dir \<Rightarrow> string \<Rightarrow> os_err + 'a dir" where
  "Remove d n =
     (case look d n of
        None \<Rightarrow> Inl (NotExist (no_such_file ''remove'' d n))
      | Some Subdir \<Rightarrow> Inl (OsErr (''remove '' @ full_path d n @ '': directory not empty''))
      | Some _ \<Rightarrow>
          (case remove_fault d n of
             Some e \<Rightarrow> Inl (OsErr e)
           | None \<Rightarrow> Inr (d\<lparr>ents := ents_del n (ents d)\<rparr>)))"

definition StatExists :: "'a dir \<Rightarrow> string \<Rightarrow> bool" where
  "StatExists d n \<longleftrightarrow> look d n \<noteq> None"

definition ReadDir :: "'a dir \<Rightarrow> 'a entries res" where
  "ReadDir d = (case list_fault d of Some e \<Rightarrow> Inl e | None \<Rightarrow> Inr (ents d))"

definition IsDir :: "string \<times> 'a dirent \<Rightarrow> bool" where
  "IsDir p \<longleftrightarrow> snd p = Subdir"

text \<open>The value \<^verbatim>\<open>os.ReadFile\<close> followed by \<^verbatim>\<open>json.Unmarshal\<close> yields, when both succeed.\<close>

definition decoded :: "'a dir \<Rightarrow> string \<Rightarrow> 'a option" where
  "decoded d n = (case ReadFile d n of Inr (Json v) \<Rightarrow> Some v | _ \<Rightarrow> None)"

text \<open>
  The loop body every listing in the program starts with: skip directories and names without the
  extension \<^verbatim>\<open>.json\<close>, skip files that cannot be read or decoded.
\<close>

definition json_names :: "'a entries \<Rightarrow> string list" where
  "json_names es = map fst (filter (\<lambda>p. \<not> IsDir p \<and> filepath_Ext (fst p) = ''.json'') es)"

definition json_values :: "'a dir \<Rightarrow> 'a entries \<Rightarrow> 'a list" where
  "json_values d es = List.map_filter (decoded d) (json_names es)"

section \<open>A directory is a finite map with a sorted listing\<close>

locale keyed_dir =
  fixes find :: "'d \<Rightarrow> string \<Rightarrow> 'e option"
    and put :: "string \<Rightarrow> 'e \<Rightarrow> 'd \<Rightarrow> 'd"
    and del :: "string \<Rightarrow> 'd \<Rightarrow> 'd"
    and listing :: "'d \<Rightarrow> (string \<times> 'e) list"
    and inv :: "'d \<Rightarrow> bool"
  assumes find_put: "inv d \<Longrightarrow> find (put n e d) m = (if m = n then Some e else find d m)"
    and find_del: "inv d \<Longrightarrow> find (del n d) m = (if m = n then None else find d m)"
    and inv_put: "inv d \<Longrightarrow> inv (put n e d)"
    and inv_del: "inv d \<Longrightarrow> inv (del n d)"
    and find_listing: "inv d \<Longrightarrow> find d n = Some e \<longleftrightarrow> (n, e) \<in> set (listing d)"
    and listing_sorted: "inv d \<Longrightarrow> sorted_wrt (<) (map fst (listing d))"
begin

lemma listing_distinct: "inv d \<Longrightarrow> distinct (map fst (listing d))"
  using listing_sorted strict_sorted_iff by blast

lemma listing_functional:
  "inv d \<Longrightarrow> (n, e) \<in> set (listing d) \<Longrightarrow> (n, f) \<in> set (listing d) \<Longrightarrow> e = f"
  by (metis find_listing option.inject)

text \<open>The listing is determined by the map: two directories with the same lookups list alike.\<close>

lemma listing_ext:
  assumes "inv d" and "inv d'" and eq: "\<And>n. find d n = find d' n"
  shows "listing d = listing d'"
proof -
  have same: "set (listing d) = set (listing d')"
    using find_listing [OF assms(1)] find_listing [OF assms(2)] eq by auto
  have keys: "map fst (listing d) = map fst (listing d')"
    using listing_sorted [OF assms(1)] listing_sorted [OF assms(2)] same
    by (metis list.set_map strict_sorted_equal)
  show ?thesis
  proof (rule nth_equalityI)
    show len: "length (listing d) = length (listing d')"
      using keys by (metis length_map)
    fix i assume i: "i < length (listing d)"
    obtain n e where ne: "listing d ! i = (n, e)" by fastforce
    obtain m f where mf: "listing d' ! i = (m, f)" by fastforce
    have "n = m" using keys i len ne mf by (metis fst_conv nth_map)
    moreover have "(n, e) \<in> set (listing d')" using same ne i nth_mem by force
    moreover have "(m, f) \<in> set (listing d')" using mf i len nth_mem by force
    ultimately show "listing d ! i = listing d' ! i"
      using listing_functional [OF assms(2)] ne mf by auto
  qed
qed

lemma put_put_same: "inv d \<Longrightarrow> listing (put n e (put n f d)) = listing (put n e d)"
  by (rule listing_ext) (simp_all add: inv_put find_put)

lemma put_commute: "inv d \<Longrightarrow> n \<noteq> m \<Longrightarrow> listing (put n e (put m f d)) = listing (put m f (put n e d))"
  by (rule listing_ext) (auto simp: inv_put find_put)

lemma del_put: "inv d \<Longrightarrow> find d n = None \<Longrightarrow> listing (del n (put n e d)) = listing d"
  by (rule listing_ext) (auto simp: inv_put inv_del find_put find_del)

end

lemma map_of_ents_put [simp]: "map_of (ents_put n e es) = (map_of es)(n \<mapsto> e)"
  by (induction es) (auto simp: fun_eq_iff)

lemma set_fst_ents_put: "fst ` set (ents_put n e es) = insert n (fst ` set es)"
  by (induction es) force+

lemma ents_ok_Cons: "ents_ok ((m, f) # es) \<longleftrightarrow> (\<forall>k \<in> fst ` set es. m < k) \<and> ents_ok es"
  by (simp add: ents_ok_def)

lemma ents_ok_put: "ents_ok es \<Longrightarrow> ents_ok (ents_put n e es)"
proof (induction es)
  case Nil
  then show ?case by (simp add: ents_ok_def)
next
  case (Cons p es)
  obtain m f where p: "p = (m, f)" by fastforce
  show ?case
  proof (cases "n < m")
    case True
    with Cons.prems p show ?thesis by (auto simp: ents_ok_Cons intro: less_trans)
  next
    case False
    with Cons p show ?thesis
      using set_fst_ents_put [of n e es] by (auto simp: ents_ok_Cons)
  qed
qed

lemma map_of_ents_del [simp]: "map_of (ents_del n es) m = (if m = n then None else map_of es m)"
  by (induction es) (auto simp: ents_del_def)

lemma ents_ok_del: "ents_ok es \<Longrightarrow> ents_ok (ents_del n es)"
  by (simp add: ents_ok_def ents_del_def sorted_wrt_map sorted_wrt_filter)

lemma ents_ok_distinct: "ents_ok es \<Longrightarrow> distinct (map fst es)"
  using strict_sorted_iff unfolding ents_ok_def by blast

interpretation ed: keyed_dir map_of ents_put ents_del "\<lambda>es. es" ents_ok
proof unfold_locales
  fix d :: "(string \<times> 'a) list" and n e
  assume "ents_ok d"
  then show "map_of d n = Some e \<longleftrightarrow> (n, e) \<in> set d"
    by (simp add: ents_ok_distinct map_of_eq_Some_iff)
next
  fix d :: "(string \<times> 'a) list"
  assume "ents_ok d"
  then show "sorted_wrt (<) (map fst d)" by (simp add: ents_ok_def)
qed (auto simp: ents_ok_put ents_ok_del)

section \<open>Facts about the operations\<close>

lemma dir_ok_empty [simp]: "dir_ok (empty_dir p)"
  by (simp add: dir_ok_def empty_dir_def ents_ok_def)

lemma WriteFile_Inr:
  "WriteFile d n v = Inr d' \<Longrightarrow> d' = d\<lparr>ents := ents_put n (File (Json v)) (ents d)\<rparr>"
  by (auto simp: WriteFile_def split: option.splits dirent.splits)

lemma look_WriteFile:
  "WriteFile d n v = Inr d' \<Longrightarrow> look d' m = (if m = n then Some (File (Json v)) else look d m)"
  by (auto dest!: WriteFile_Inr simp: look_def)

lemma dir_ok_WriteFile [wf_intros]: "WriteFile d n v = Inr d' \<Longrightarrow> dir_ok d \<Longrightarrow> dir_ok d'"
  by (auto dest!: WriteFile_Inr simp: dir_ok_def ents_ok_put)

lemma WriteFile_frame [frame_simps]:
  "WriteFile d n v = Inr d' \<Longrightarrow> base d' = base d"
  "WriteFile d n v = Inr d' \<Longrightarrow> list_fault d' = list_fault d"
  "WriteFile d n v = Inr d' \<Longrightarrow> write_fault d' = write_fault d"
  "WriteFile d n v = Inr d' \<Longrightarrow> remove_fault d' = remove_fault d"
  by (auto dest: WriteFile_Inr)

text \<open>A write to a name that holds a regular file, or to a new name, fails by a fault only.\<close>

lemma WriteFile_ok:
  "write_fault d n = None \<Longrightarrow> look d n = None \<or> look d n = Some (File c) \<Longrightarrow>
   WriteFile d n v = Inr (d\<lparr>ents := ents_put n (File (Json v)) (ents d)\<rparr>)"
  by (auto simp: WriteFile_def)

lemma ReadFile_WriteFile:
  "WriteFile d n v = Inr d' \<Longrightarrow> ReadFile d' m = (if m = n then Inr (Json v) else ReadFile d m)"
  using look_WriteFile [of d n v d' m] WriteFile_frame(1) [of d n v d']
  by (simp add: ReadFile_def full_path_def no_such_file_def split: option.split dirent.split)

lemma decoded_WriteFile:
  "WriteFile d n v = Inr d' \<Longrightarrow> decoded d' m = (if m = n then Some v else decoded d m)"
  by (simp add: decoded_def ReadFile_WriteFile)

lemma WriteRaw_Json: "WriteRaw d n (Json v) = WriteFile d n v"
  by (simp add: WriteRaw_def WriteFile_def)

lemma look_WriteRaw:
  "WriteRaw d n c = Inr d' \<Longrightarrow> look d' m = (if m = n then Some (File c) else look d m)"
  by (auto simp: WriteRaw_def look_def split: option.splits dirent.splits)

lemma Remove_Inr: "Remove d n = Inr d' \<Longrightarrow> d' = d\<lparr>ents := ents_del n (ents d)\<rparr> \<and> look d n \<noteq> None"
  by (auto simp: Remove_def split: option.splits dirent.splits)

lemma look_Remove: "Remove d n = Inr d' \<Longrightarrow> look d' m = (if m = n then None else look d m)"
  by (auto dest!: Remove_Inr simp: look_def)

lemma dir_ok_Remove [wf_intros]: "Remove d n = Inr d' \<Longrightarrow> dir_ok d \<Longrightarrow> dir_ok d'"
  by (auto dest!: Remove_Inr simp: dir_ok_def ents_ok_del)

lemma decoded_iff: "decoded d n = Some v \<longleftrightarrow> look d n = Some (File (Json v))"
  by (auto simp: decoded_def ReadFile_def split: option.splits dirent.splits content.splits)

lemma look_listing: "dir_ok d \<Longrightarrow> look d n = Some e \<longleftrightarrow> (n, e) \<in> set (ents d)"
  unfolding look_def dir_ok_def by (rule ed.find_listing)

lemma ReadDir_Inr: "ReadDir d = Inr es \<Longrightarrow> es = ents d \<and> list_fault d = None"
  by (auto simp: ReadDir_def split: option.splits)

lemma set_map_filter_iff [simp]: "v \<in> set (List.map_filter f xs) \<longleftrightarrow> (\<exists>x \<in> set xs. f x = Some v)"
  by (induction xs) (auto simp: List.map_filter_simps split: option.split)

lemma set_json_names:
  "n \<in> set (json_names es) \<longleftrightarrow>
   (\<exists>e. (n, e) \<in> set es \<and> e \<noteq> Subdir \<and> filepath_Ext n = ''.json'')"
  by (force simp: json_names_def IsDir_def)

lemma distinct_json_names: "dir_ok d \<Longrightarrow> distinct (json_names (ents d))"
proof -
  assume "dir_ok d"
  then have "distinct (map fst (ents d))"
    unfolding dir_ok_def by (rule ents_ok_distinct)
  then show ?thesis unfolding json_names_def by (rule distinct_map_filter)
qed

lemma set_json_values:
  "dir_ok d \<Longrightarrow>
   v \<in> set (json_values d (ents d)) \<longleftrightarrow> (\<exists>n. decoded d n = Some v \<and> filepath_Ext n = ''.json'')"
proof -
  assume ok: "dir_ok d"
  have "v \<in> set (json_values d (ents d)) \<longleftrightarrow> (\<exists>n \<in> set (json_names (ents d)). decoded d n = Some v)"
    by (simp add: json_values_def)
  also have "\<dots> \<longleftrightarrow> (\<exists>n. decoded d n = Some v \<and> filepath_Ext n = ''.json'')"
    using look_listing [OF ok] by (fastforce simp: set_json_names decoded_iff)
  finally show ?thesis .
qed

section \<open>The contract of a JSON store\<close>

locale record_store =
  fixes save :: "'s \<Rightarrow> 'v \<Rightarrow> 's res"
    and load :: "'s \<Rightarrow> 'k \<Rightarrow> 'v res"
    and key :: "'v \<Rightarrow> 'k"
  assumes load_save: "save s v = Inr s' \<Longrightarrow> load s' (key v) = Inr v"
    and load_save_other: "save s v = Inr s' \<Longrightarrow> k \<noteq> key v \<Longrightarrow> load s' k = load s k"
begin

text \<open>The last write to a key wins, whatever is saved under other keys in between.\<close>

fun save_all :: "'s \<Rightarrow> 'v list \<Rightarrow> 's res" where
  "save_all s [] = Inr s"
| "save_all s (v # vs) = (case save s v of Inl e \<Rightarrow> Inl e | Inr s' \<Rightarrow> save_all s' vs)"

lemma load_save_all_other:
  "save_all s vs = Inr s' \<Longrightarrow> k \<notin> key ` set vs \<Longrightarrow> load s' k = load s k"
  by (induction vs arbitrary: s) (auto split: sum.splits simp: load_save_other)

lemma last_write_wins:
  assumes "save_all s (us @ v # vs) = Inr s'" and "key v \<notin> key ` set vs"
  shows "load s' (key v) = Inr v"
  using assms
proof (induction us arbitrary: s)
  case Nil
  then obtain t where t: "save s v = Inr t" and "save_all t vs = Inr s'"
    by (auto split: sum.splits)
  with Nil(2) have "load s' (key v) = load t (key v)"
    using load_save_all_other by blast
  with t show ?case by (simp add: load_save)
next
  case (Cons u us)
  then show ?case by (auto split: sum.splits)
qed

lemma saves_commute:
  assumes "save s v = Inr s1" and "save s1 w = Inr s2"
    and "save s w = Inr t1" and "save t1 v = Inr t2" and "key v \<noteq> key w"
  shows "load s2 k = load t2 k"
  using assms load_save load_save_other by metis

lemma load_changed_by_save:
  "save s v = Inr s' \<Longrightarrow> load s' k \<noteq> load s k \<Longrightarrow> k = key v \<and> load s' k = Inr v"
  using load_save load_save_other by metis

end

end
