(* ===== verification/Intent_Store.thy ===== *)
theory Intent_Store
  imports Filesystem
begin

text \<open>
  Package \<^verbatim>\<open>pkg/wallet\<close>, file \<^verbatim>\<open>intent.go\<close>: transaction intents, the directory of JSON files that
  holds them, and every operation of \<^verbatim>\<open>IntentStore\<close>. The store's mutex makes each operation one
  atomic step on the directory. Clock readings and the fresh UUID are arguments; a time is an
  integer number of nanoseconds since Go's zero time, so \<^verbatim>\<open>IsZero\<close> is equality with 0.

  The lemmas: the operations keep the store well formed; saving and loading satisfy the contract
  \<open>record_store\<close>; approval counts distinct approvers; the listing is a stable sort of
  the filtered intents, cut to a page; expiry touches exactly the overdue intents.
\<close>

type_synonym gotime = int

datatype IntentStatus =
    IntentStatusDraft | IntentStatusPending | IntentStatusApproved | IntentStatusExecuting
  | IntentStatusSigned | IntentStatusSent | IntentStatusFailed | IntentStatusPermanentFail
  | IntentStatusRejected | IntentStatusExpired
  | IntentStatusOther string \<comment> \<open>a string of the Go type that is none of the ten constants\<close>

primrec status_str :: "IntentStatus \<Rightarrow> string" where
  "status_str IntentStatusDraft = ''draft''"
| "status_str IntentStatusPending = ''pending''"
| "status_str IntentStatusApproved = ''approved''"
| "status_str IntentStatusExecuting = ''executing''"
| "status_str IntentStatusSigned = ''signed''"
| "status_str IntentStatusSent = ''sent''"
| "status_str IntentStatusFailed = ''failed''"
| "status_str IntentStatusPermanentFail = ''permanent_fail''"
| "status_str IntentStatusRejected = ''rejected''"
| "status_str IntentStatusExpired = ''expired''"
| "status_str (IntentStatusOther s) = s"

record TransactionIntent =
  iID :: string
  iWalletID :: string
  iChain :: string
  iFrom :: string
  iTo :: string
  iValue :: string
  iValueDisplay :: string
  iData :: string
  iGasLimit :: u64
  iNonce :: u64
  iStatus :: IntentStatus
  iCreatedAt :: gotime
  iUpdatedAt :: gotime
  iExpiresAt :: gotime
  iApprovedBy :: "string list"
  iRequiredSigs :: int
  iTxHash :: string
  iError :: string
  iRetryCount :: int
  iMaxRetries :: int
  iFeeSpeed :: string
  iTokenAddress :: string
  iTokenDecimals :: byte
  iTokenSymbol :: string
  iTokenType :: string

type_synonym IntentStore = "TransactionIntent dir"

section \<open>The operations\<close>

definition NewIntentStore :: "err option \<Rightarrow> IntentStore \<Rightarrow> IntentStore res" where
  "NewIntentStore mkdir_fault d =
     (case mkdir_fault of
        Some e \<Rightarrow> Inl (''failed to create intent dir: '' @ e)
      | None \<Rightarrow> Inr d)"

definition intentPath :: "string \<Rightarrow> string" where
  "intentPath iid = iid @ ''.json''"

definition saveIntent :: "IntentStore \<Rightarrow> TransactionIntent \<Rightarrow> IntentStore res" where
  "saveIntent s i =
     (case WriteFile s (intentPath (iID i)) i of
        Inl e \<Rightarrow> Inl (''failed to write intent: '' @ e)
      | Inr s' \<Rightarrow> Inr s')"

definition getIntentUnsafe :: "IntentStore \<Rightarrow> string \<Rightarrow> TransactionIntent res" where
  "getIntentUnsafe s iid =
     (case ReadFile s (intentPath iid) of
        Inl (NotExist _) \<Rightarrow> Inl ''intent not found''
      | Inl (OsErr e) \<Rightarrow> Inl (''failed to read intent: '' @ e)
      | Inr (NotJson e) \<Rightarrow> Inl (''failed to unmarshal intent: '' @ e)
      | Inr (Json i) \<Rightarrow> Inr i)"

definition GetIntent :: "IntentStore \<Rightarrow> string \<Rightarrow> TransactionIntent res" where
  "GetIntent s iid =
     (case ReadFile s (intentPath iid) of
        Inl (NotExist _) \<Rightarrow> Inl ''intent not found''
      | Inl (OsErr e) \<Rightarrow> Inl (''failed to read intent: '' @ e)
      | Inr (NotJson e) \<Rightarrow> Inl (''failed to unmarshal intent: '' @ e)
      | Inr (Json i) \<Rightarrow> Inr i)"

text \<open>\<^verbatim>\<open>time.Duration(h) * time.Hour\<close>, in wrapping 64-bit nanoseconds.\<close>

definition hours :: "int \<Rightarrow> int" where
  "hours h = wrap64 (h * 3600000000000)"

record CreateIntentArgs =
  aWalletID :: string
  aChain :: string
  aFrom :: string
  aTo :: string
  aValue :: string
  aValueDisplay :: string
  aGasLimit :: u64
  aRequiredSigs :: int
  aExpiryHours :: int
  aMaxRetries :: int
  aFeeSpeed :: string

text \<open>
  \<open>t0\<close>, \<open>t1\<close> and \<open>t2\<close> are the three readings of \<^verbatim>\<open>time.Now()\<close> in the order the code takes them.
\<close>

definition newIntent ::
  "string \<Rightarrow> gotime \<Rightarrow> gotime \<Rightarrow> gotime \<Rightarrow> CreateIntentArgs \<Rightarrow> TransactionIntent" where
  "newIntent uuid t0 t1 t2 a =
     (let expiryHours = (if aExpiryHours a \<le> 0 then 24 else aExpiryHours a);
          maxRetries = (if aMaxRetries a \<le> 0 then 3 else aMaxRetries a);
          feeSpeed = (if aFeeSpeed a = [] then ''standard'' else aFeeSpeed a);
          expiresAt = t0 + hours expiryHours
      in \<lparr>iID = uuid, iWalletID = aWalletID a, iChain = aChain a, iFrom = aFrom a, iTo = aTo a,
          iValue = aValue a, iValueDisplay = aValueDisplay a, iData = [], iGasLimit = aGasLimit a,
          iNonce = 0, iStatus = IntentStatusDraft, iCreatedAt = t1, iUpdatedAt = t2,
          iExpiresAt = expiresAt, iApprovedBy = [], iRequiredSigs = aRequiredSigs a, iTxHash = [],
          iError = [], iRetryCount = 0, iMaxRetries = maxRetries, iFeeSpeed = feeSpeed,
          iTokenAddress = [], iTokenDecimals = 0, iTokenSymbol = [], iTokenType = []\<rparr>)"

definition CreateIntent ::
  "IntentStore \<Rightarrow> string \<Rightarrow> gotime \<Rightarrow> gotime \<Rightarrow> gotime \<Rightarrow> CreateIntentArgs
   \<Rightarrow> (TransactionIntent \<times> IntentStore) res" where
  "CreateIntent s uuid t0 t1 t2 a =
     (let i = newIntent uuid t0 t1 t2 a
      in case saveIntent s i of
           Inl e \<Rightarrow> Inl (''failed to save intent: '' @ e)
         | Inr s' \<Rightarrow> Inr (i, s'))"

definition read_dir_err :: "err \<Rightarrow> err" where
  "read_dir_err e = ''failed to read intent dir: '' @ e"

definition ListIntents :: "IntentStore \<Rightarrow> string \<Rightarrow> TransactionIntent list res" where
  "ListIntents s walletID =
     (case ReadDir s of
        Inl e \<Rightarrow> Inl (read_dir_err e)
      | Inr es \<Rightarrow> Inr (filter (\<lambda>i. walletID = [] \<or> iWalletID i = walletID) (json_values s es)))"

definition ApproveIntent :: "IntentStore \<Rightarrow> gotime \<Rightarrow> string \<Rightarrow> string \<Rightarrow> IntentStore res" where
  "ApproveIntent s now iid approver =
     (case getIntentUnsafe s iid of
        Inl e \<Rightarrow> Inl e
      | Inr i \<Rightarrow>
          if iStatus i \<noteq> IntentStatusDraft \<and> iStatus i \<noteq> IntentStatusPending
          then Inl (''intent cannot be approved in status: '' @ status_str (iStatus i))
          else if approver \<in> set (iApprovedBy i)
          then Inl (''already approved by '' @ approver)
          else
            let i1 = i\<lparr>iApprovedBy := iApprovedBy i @ [approver], iUpdatedAt := now\<rparr>;
                i2 = (if iRequiredSigs i1 \<le> int (length (iApprovedBy i1))
                      then i1\<lparr>iStatus := IntentStatusApproved\<rparr> else i1)
            in saveIntent s i2)"

definition UpdateIntentStatus ::
  "IntentStore \<Rightarrow> gotime \<Rightarrow> string \<Rightarrow> IntentStatus \<Rightarrow> string \<Rightarrow> string \<Rightarrow> IntentStore res" where
  "UpdateIntentStatus s now iid status txHash errMsg =
     (case getIntentUnsafe s iid of
        Inl e \<Rightarrow> Inl e
      | Inr i \<Rightarrow>
          let i1 = i\<lparr>iStatus := status, iUpdatedAt := now\<rparr>;
              i2 = (if txHash \<noteq> [] then i1\<lparr>iTxHash := txHash\<rparr> else i1);
              i3 = (if errMsg \<noteq> [] then i2\<lparr>iError := errMsg\<rparr> else i2)
          in saveIntent s i3)"

definition GetPendingIntents :: "IntentStore \<Rightarrow> TransactionIntent list res" where
  "GetPendingIntents s =
     (case ReadDir s of
        Inl e \<Rightarrow> Inl (read_dir_err e)
      | Inr es \<Rightarrow>
          Inr (filter (\<lambda>i. iStatus i = IntentStatusDraft \<or> iStatus i = IntentStatusPending)
                 (json_values s es)))"

definition retryable :: "IntentStatus \<Rightarrow> bool" where
  "retryable st \<longleftrightarrow>
     \<not> (st \<noteq> IntentStatusFailed \<and> st \<noteq> IntentStatusPermanentFail \<and> st \<noteq> IntentStatusExecuting)"

text \<open>The increment cannot overflow: it is guarded by \<open>iRetryCount i < iMaxRetries i\<close>.\<close>

definition RetryIntent :: "IntentStore \<Rightarrow> gotime \<Rightarrow> string \<Rightarrow> (TransactionIntent \<times> IntentStore) res" where
  "RetryIntent s now iid =
     (case getIntentUnsafe s iid of
        Inl e \<Rightarrow> Inl e
      | Inr i \<Rightarrow>
          if \<not> retryable (iStatus i)
          then Inl (''intent cannot be retried in status: '' @ status_str (iStatus i))
          else if iRetryCount i \<ge> iMaxRetries i
          then Inl (''max retries ('' @ show_int (iMaxRetries i) @ '') exceeded for intent'')
          else
            let i1 = i\<lparr>iRetryCount := iRetryCount i + 1, iUpdatedAt := now\<rparr>;
                i2 = (if iRequiredSigs i1 > 1 then i1\<lparr>iStatus := IntentStatusDraft\<rparr>
                      else i1\<lparr>iStatus := IntentStatusApproved\<rparr>);
                i3 = i2\<lparr>iError := []\<rparr>
            in case saveIntent s i3 of
                 Inl e \<Rightarrow> Inl (''failed to save intent: '' @ e)
               | Inr s' \<Rightarrow> Inr (i3, s'))"

definition expirable :: "gotime \<Rightarrow> TransactionIntent \<Rightarrow> bool" where
  "expirable now i \<longleftrightarrow>
     \<not> (iStatus i \<noteq> IntentStatusDraft \<and> iStatus i \<noteq> IntentStatusPending \<and>
        iStatus i \<noteq> IntentStatusApproved) \<and>
     iExpiresAt i \<noteq> 0 \<and> iExpiresAt i < now"

definition expireIntent :: "gotime \<Rightarrow> TransactionIntent \<Rightarrow> TransactionIntent" where
  "expireIntent now i =
     i\<lparr>iStatus := IntentStatusExpired, iUpdatedAt := now, iError := ''Intent expired due to timeout''\<rparr>"

fun expire_loop :: "gotime \<Rightarrow> string list \<Rightarrow> IntentStore \<Rightarrow> nat \<Rightarrow> nat \<times> IntentStore" where
  "expire_loop now [] s n = (n, s)"
| "expire_loop now (f # fs) s n =
     (case decoded s f of
        None \<Rightarrow> expire_loop now fs s n
      | Some i \<Rightarrow>
          if \<not> expirable now i then expire_loop now fs s n
          else (case saveIntent s (expireIntent now i) of
                  Inl _ \<Rightarrow> expire_loop now fs s n
                | Inr s' \<Rightarrow> expire_loop now fs s' (Suc n)))"

definition ExpireIntents :: "IntentStore \<Rightarrow> gotime \<Rightarrow> (nat \<times> IntentStore) res" where
  "ExpireIntents s now =
     (case ReadDir s of
        Inl e \<Rightarrow> Inl (read_dir_err e)
      | Inr es \<Rightarrow> Inr (expire_loop now (json_names es) s 0))"

definition GetExpirableIntents :: "IntentStore \<Rightarrow> gotime \<Rightarrow> TransactionIntent list res" where
  "GetExpirableIntents s now =
     (case ReadDir s of
        Inl e \<Rightarrow> Inl (read_dir_err e)
      | Inr es \<Rightarrow> Inr (filter (expirable now) (json_values s es)))"

definition UpdateIntent :: "IntentStore \<Rightarrow> gotime \<Rightarrow> TransactionIntent \<Rightarrow> IntentStore res" where
  "UpdateIntent s now i = saveIntent s (i\<lparr>iUpdatedAt := now\<rparr>)"

section \<open>Counting and listing\<close>

record IntentStatusCounts =
  cPending :: int
  cApproved :: int
  cExecuting :: int
  cSent :: int
  cFailed :: int
  cRejected :: int
  cExpired :: int
  cDraft :: int

definition count_one :: "IntentStatus \<Rightarrow> IntentStatusCounts \<Rightarrow> IntentStatusCounts" where
  "count_one st c =
     (case st of
        IntentStatusDraft \<Rightarrow> c\<lparr>cDraft := cDraft c + 1\<rparr>
      | IntentStatusPending \<Rightarrow> c\<lparr>cPending := cPending c + 1\<rparr>
      | IntentStatusApproved \<Rightarrow> c\<lparr>cApproved := cApproved c + 1\<rparr>
      | IntentStatusExecuting \<Rightarrow> c\<lparr>cExecuting := cExecuting c + 1\<rparr>
      | IntentStatusSent \<Rightarrow> c\<lparr>cSent := cSent c + 1\<rparr>
      | IntentStatusFailed \<Rightarrow> c\<lparr>cFailed := cFailed c + 1\<rparr>
      | IntentStatusPermanentFail \<Rightarrow> c\<lparr>cFailed := cFailed c + 1\<rparr>
      | IntentStatusRejected \<Rightarrow> c\<lparr>cRejected := cRejected c + 1\<rparr>
      | IntentStatusExpired \<Rightarrow> c\<lparr>cExpired := cExpired c + 1\<rparr>
      | _ \<Rightarrow> c)"

fun count_loop :: "string \<Rightarrow> TransactionIntent list \<Rightarrow> IntentStatusCounts \<Rightarrow> IntentStatusCounts" where
  "count_loop walletID [] c = c"
| "count_loop walletID (i # ts) c =
     (if walletID \<noteq> [] \<and> iWalletID i \<noteq> walletID then count_loop walletID ts c
      else count_loop walletID ts (count_one (iStatus i) c))"

definition zero_counts :: IntentStatusCounts where
  "zero_counts = \<lparr>cPending = 0, cApproved = 0, cExecuting = 0, cSent = 0, cFailed = 0,
     cRejected = 0, cExpired = 0, cDraft = 0\<rparr>"

definition GetIntentStatusCounts :: "IntentStore \<Rightarrow> string \<Rightarrow> IntentStatusCounts res" where
  "GetIntentStatusCounts s walletID =
     (case ReadDir s of
        Inl e \<Rightarrow> Inl (read_dir_err e)
      | Inr es \<Rightarrow> Inr (count_loop walletID (json_values s es) zero_counts))"

record IntentFilters =
  fWalletID :: string
  fStatus :: IntentStatus
  fFromTime :: gotime
  fToTime :: gotime
  fChain :: string
  fLimit :: int
  fOffset :: int
  fSortBy :: string
  fSortOrder :: string

definition set_defaults :: "IntentFilters \<Rightarrow> IntentFilters" where
  "set_defaults f =
     (let f1 = (if fLimit f \<le> 0 then f\<lparr>fLimit := 50\<rparr> else f);
          f2 = (if fSortBy f1 = [] then f1\<lparr>fSortBy := ''created_at''\<rparr> else f1)
      in if fSortOrder f2 = [] then f2\<lparr>fSortOrder := ''desc''\<rparr> else f2)"

definition matches :: "IntentFilters \<Rightarrow> TransactionIntent \<Rightarrow> bool" where
  "matches f i \<longleftrightarrow>
     \<not> (fWalletID f \<noteq> [] \<and> iWalletID i \<noteq> fWalletID f) \<and>
     \<not> (status_str (fStatus f) \<noteq> [] \<and> status_str (iStatus i) \<noteq> status_str (fStatus f)) \<and>
     \<not> (fChain f \<noteq> [] \<and> iChain i \<noteq> fChain f) \<and>
     \<not> (fFromTime f \<noteq> 0 \<and> iCreatedAt i < fFromTime f) \<and>
     \<not> (fToTime f \<noteq> 0 \<and> iCreatedAt i > fToTime f)"

definition sort_time :: "IntentFilters \<Rightarrow> TransactionIntent \<Rightarrow> gotime" where
  "sort_time f i = (if fSortBy f = ''updated_at'' then iUpdatedAt i else iCreatedAt i)"

definition shouldSwap :: "IntentFilters \<Rightarrow> TransactionIntent \<Rightarrow> TransactionIntent \<Rightarrow> bool" where
  "shouldSwap f a b =
     (if fSortOrder f = ''asc'' then sort_time f a > sort_time f b
      else sort_time f a < sort_time f b)"

text \<open>The two nested loops of the bubble sort, over the slice \<open>xs\<close>.\<close>

function sort_inner :: "('a \<Rightarrow> 'a \<Rightarrow> bool) \<Rightarrow> nat \<Rightarrow> nat \<Rightarrow> 'a list \<Rightarrow> 'a list" where
  "sort_inner sw j m xs =
     (if j < m
      then sort_inner sw (Suc j) m
             (if sw (xs ! j) (xs ! Suc j) then xs[j := xs ! Suc j, Suc j := xs ! j] else xs)
      else xs)"
  by pat_completeness auto
termination
  by (relation "measure (\<lambda>(sw, j, m, xs). m - j)") auto

function sort_outer :: "('a \<Rightarrow> 'a \<Rightarrow> bool) \<Rightarrow> nat \<Rightarrow> nat \<Rightarrow> 'a list \<Rightarrow> 'a list" where
  "sort_outer sw i n xs =
     (if i < n - 1 then sort_outer sw (Suc i) n (sort_inner sw 0 (n - i - 1) xs) else xs)"
  by pat_completeness auto
termination
  by (relation "measure (\<lambda>(sw, i, n, xs). n - i)") auto

declare sort_inner.simps [simp del] sort_outer.simps [simp del]

text \<open>The slice expression \<^verbatim>\<open>xs[lo:hi]\<close> panics when its bounds are not in order.\<close>

definition slice :: "'a list \<Rightarrow> int \<Rightarrow> int \<Rightarrow> 'a list outcome" where
  "slice xs lo hi =
     (if 0 \<le> lo \<and> lo \<le> hi \<and> hi \<le> int (length xs)
      then Ret (take (nat (hi - lo)) (drop (nat lo) xs)) else Panic)"

definition paginate :: "int \<Rightarrow> int \<Rightarrow> 'a list \<Rightarrow> 'a list outcome" where
  "paginate offset limit xs =
     (if offset > int (length xs) then Ret []
      else
        let e = wrap64 (offset + limit);
            e' = (if e > int (length xs) then int (length xs) else e)
        in slice xs offset e')"

definition ListIntentsFiltered ::
  "IntentStore \<Rightarrow> IntentFilters \<Rightarrow> (TransactionIntent list \<times> int) res outcome" where
  "ListIntentsFiltered s filters0 =
     (case ReadDir s of
        Inl e \<Rightarrow> Ret (Inl (read_dir_err e))
      | Inr es \<Rightarrow>
          let filters = set_defaults filters0;
              intents = filter (matches filters) (json_values s es);
              sorted_intents = sort_outer (shouldSwap filters) 0 (length intents) intents;
              total = int (length sorted_intents)
          in case paginate (fOffset filters) (fLimit filters) sorted_intents of
               Panic \<Rightarrow> Panic
             | Ret page \<Rightarrow> Ret (Inr (page, total)))"

section \<open>The bubble sort is the stable sort\<close>

lemma adjacent_split:
  assumes "Suc j < length xs"
  obtains us a b vs where "xs = us @ a # b # vs" and "length us = j"
proof
  show "xs = take j xs @ xs ! j # xs ! Suc j # drop (Suc (Suc j)) xs"
    using assms by (metis Cons_nth_drop_Suc Suc_lessD append_take_drop_id)
  show "length (take j xs) = j" using assms by simp
qed

lemma swap_adjacent:
  assumes "Suc j < length xs" and "\<not> (P (xs ! j) \<and> P (xs ! Suc j))"
  shows "filter P (xs[j := xs ! Suc j, Suc j := xs ! j]) = filter P xs"
proof -
  from assms(1) obtain us a b vs where xs: "xs = us @ a # b # vs" and us: "length us = j"
    by (rule adjacent_split)
  have "xs ! j = a" and "xs ! Suc j = b"
    using us by (simp_all add: xs nth_append)
  moreover have "xs[j := b, Suc j := a] = us @ b # a # vs"
    using us by (simp add: xs list_update_append)
  ultimately show ?thesis using assms(2) by (simp add: xs)
qed

lemma length_sort_inner [simp]: "length (sort_inner sw j m xs) = length xs"
proof (induction sw j m xs rule: sort_inner.induct)
  case (1 sw j m xs)
  then show ?case by (cases "j < m") (simp_all add: sort_inner.simps [of sw j m xs])
qed

lemma mset_sort_inner: "m < length xs \<Longrightarrow> mset (sort_inner sw j m xs) = mset xs"
proof (induction sw j m xs rule: sort_inner.induct)
  case (1 sw j m xs)
  then show ?case
    by (cases "j < m") (simp_all add: sort_inner.simps [of sw j m xs] mset_swap)
qed

lemma drop_sort_inner: "drop (Suc m) (sort_inner sw j m xs) = drop (Suc m) xs"
proof (induction sw j m xs rule: sort_inner.induct)
  case (1 sw j m xs)
  then show ?case by (cases "j < m") (simp_all add: sort_inner.simps [of sw j m xs])
qed

lemma take_sort_inner:
  assumes "m < length xs"
  shows "mset (take (Suc m) (sort_inner sw j m xs)) = mset (take (Suc m) xs)"
proof -
  have "mset (take (Suc m) ys) = mset ys - mset (drop (Suc m) ys)" for ys :: "'a list"
    by (metis add_diff_cancel_right' append_take_drop_id mset_append)
  then show ?thesis by (simp add: mset_sort_inner [OF assms] drop_sort_inner)
qed

text \<open>The swap test compares an integer key: the time in ascending, its negation in descending order.\<close>

lemma filter_sort_inner:
  assumes "\<And>a b. sw a b \<longleftrightarrow> key b < (key a :: int)" and "m < length xs"
  shows "filter (\<lambda>x. k = key x) (sort_inner sw j m xs) = filter (\<lambda>x. k = key x) xs"
  using assms
proof (induction sw j m xs rule: sort_inner.induct)
  case (1 sw j m xs)
  show ?case
  proof (cases "j < m")
    case True
    let ?ys = "if sw (xs ! j) (xs ! Suc j) then xs[j := xs ! Suc j, Suc j := xs ! j] else xs"
    have "filter (\<lambda>x. k = key x) (sort_inner sw (Suc j) m ?ys) = filter (\<lambda>x. k = key x) ?ys"
      using 1(3) by (intro "1.IH" [OF True "1.prems"(1)]) auto
    moreover have "filter (\<lambda>x. k = key x) ?ys = filter (\<lambda>x. k = key x) xs"
      using True 1(2,3) swap_adjacent [of j xs "\<lambda>x. k = key x"] by auto
    ultimately show ?thesis using True by (simp only: sort_inner.simps [of sw j m xs] if_True)
  qed (simp add: sort_inner.simps [of sw j m xs])
qed

lemma sort_inner_max:
  assumes "\<And>a b. sw a b \<longleftrightarrow> key b < (key a :: int)" and "m < length xs" and "j \<le> m"
    and "\<forall>k < j. key (xs ! k) \<le> key (xs ! j)"
  shows "\<forall>k < m. key (sort_inner sw j m xs ! k) \<le> key (sort_inner sw j m xs ! m)"
  using assms
proof (induction sw j m xs rule: sort_inner.induct)
  case (1 sw j m xs)
  show ?case
  proof (cases "j < m")
    case True
    let ?ys = "if sw (xs ! j) (xs ! Suc j) then xs[j := xs ! Suc j, Suc j := xs ! j] else xs"
    have "\<forall>k < Suc j. key (?ys ! k) \<le> key (?ys ! Suc j)"
      using 1(2-5) True by (auto simp: less_Suc_eq nth_list_update not_less intro: order_trans)
    then have "\<forall>k < m. key (sort_inner sw (Suc j) m ?ys ! k) \<le> key (sort_inner sw (Suc j) m ?ys ! m)"
      using 1(3) True by (intro "1.IH" [OF True "1.prems"(1)]) auto
    then show ?thesis using True by (simp only: sort_inner.simps [of sw j m xs] if_True)
  next
    case False
    with 1(4) have "j = m" by simp
    with 1(5) show ?thesis by (simp add: sort_inner.simps [of sw m m xs])
  qed
qed

definition tail_sorted :: "('a \<Rightarrow> int) \<Rightarrow> nat \<Rightarrow> 'a list \<Rightarrow> bool" where
  "tail_sorted key i xs \<longleftrightarrow>
     (\<forall>p q. p < q \<and> q < length xs \<and> length xs - i \<le> q \<longrightarrow> key (xs ! p) \<le> key (xs ! q))"

lemma tail_sorted_pass:
  assumes sw: "\<And>a b. sw a b \<longleftrightarrow> key b < (key a :: int)"
    and i: "i < length xs - 1" and inv: "tail_sorted key i xs"
  shows "tail_sorted key (Suc i) (sort_inner sw 0 (length xs - i - 1) xs)" (is "tail_sorted _ _ ?ys")
  unfolding tail_sorted_def
proof (intro allI impI)
  fix p q assume pq: "p < q \<and> q < length ?ys \<and> length ?ys - Suc i \<le> q"
  let ?m = "length xs - i - 1"
  have m: "?m < length xs" using i by simp
  show "key (?ys ! p) \<le> key (?ys ! q)"
  proof (cases "q = ?m")
    case True
    with sort_inner_max [of sw key ?m xs 0, OF sw m] pq show ?thesis by simp
  next
    case False
    with pq have q: "Suc ?m \<le> q" "q < length xs" by auto
    have same: "?ys ! r = xs ! r" if "Suc ?m \<le> r" "r < length xs" for r
      using that drop_sort_inner [of ?m sw 0 xs]
      by (metis Suc_leI add_diff_inverse_nat length_sort_inner m not_less nth_drop)
    have low: "\<exists>p'. p' < q \<and> ?ys ! p = xs ! p'"
    proof (cases "p \<le> ?m")
      case True
      then have "?ys ! p \<in> set (take (Suc ?m) ?ys)"
        using m by (auto simp: in_set_conv_nth intro!: exI [of _ p])
      then have "?ys ! p \<in> set (take (Suc ?m) xs)"
        using take_sort_inner [OF m, of sw 0] by (metis set_mset_mset)
      then obtain p' where "p' < Suc ?m" and "?ys ! p = xs ! p'"
        by (auto simp: in_set_conv_nth)
      then show ?thesis using q by (intro exI [of _ p']) auto
    next
      case False
      then show ?thesis using same [of p] pq by auto
    qed
    then obtain p' where "p' < q" and "?ys ! p = xs ! p'" by blast
    moreover have "key (xs ! p') \<le> key (xs ! q)"
      using inv q \<open>p' < q\<close> unfolding tail_sorted_def by auto
    ultimately show ?thesis using same [of q] q by simp
  qed
qed

lemma sort_outer_props:
  assumes "\<And>a b. sw a b \<longleftrightarrow> key b < (key a :: int)" and "n = length xs" and "tail_sorted key i xs"
    and "i \<le> n - 1"
  shows "mset (sort_outer sw i n xs) = mset xs \<and>
         (\<forall>k. filter (\<lambda>x. k = key x) (sort_outer sw i n xs) = filter (\<lambda>x. k = key x) xs) \<and>
         tail_sorted key (n - 1) (sort_outer sw i n xs)"
  using assms
proof (induction sw i n xs rule: sort_outer.induct)
  case (1 sw i n xs)
  show ?case
  proof (cases "i < n - 1")
    case True
    let ?ys = "sort_inner sw 0 (n - i - 1) xs"
    have m: "n - i - 1 < length xs" using True 1(3) by simp
    have t: "tail_sorted key (Suc i) ?ys"
      using tail_sorted_pass [OF 1(2), of i xs] True 1(3,4) by simp
    have "mset (sort_outer sw (Suc i) n ?ys) = mset ?ys \<and>
         (\<forall>k. filter (\<lambda>x. k = key x) (sort_outer sw (Suc i) n ?ys) = filter (\<lambda>x. k = key x) ?ys) \<and>
         tail_sorted key (n - 1) (sort_outer sw (Suc i) n ?ys)"
      using 1(3) True t by (intro "1.IH" [OF True 1(2)]) auto
    moreover have "filter (\<lambda>x. k = key x) ?ys = filter (\<lambda>x. k = key x) xs" for k
      by (rule filter_sort_inner [OF 1(2) m])
    moreover have "mset ?ys = mset xs" by (rule mset_sort_inner [OF m])
    ultimately show ?thesis
      using True by (simp add: sort_outer.simps [of sw i n xs])
  next
    case False
    then have "sort_outer sw i n xs = xs" by (simp add: sort_outer.simps [of sw i n xs])
    moreover have "i = n - 1" using False 1(5) by simp
    ultimately show ?thesis using 1(4) by simp
  qed
qed

lemma sort_outer_is_sort_key:
  assumes "\<And>a b. sw a b \<longleftrightarrow> key b < (key a :: int)"
  shows "sort_outer sw 0 (length xs) xs = sort_key key xs"
proof -
  let ?ys = "sort_outer sw 0 (length xs) xs"
  have t: "tail_sorted key 0 xs" by (simp add: tail_sorted_def)
  have props: "mset ?ys = mset xs"
    "\<forall>k. filter (\<lambda>x. k = key x) ?ys = filter (\<lambda>x. k = key x) xs"
    "tail_sorted key (length xs - 1) ?ys"
    using sort_outer_props [of sw key, OF assms refl t] by simp_all
  note ms = props(1)
  then have len: "length ?ys = length xs" using mset_eq_length by blast
  have "key (?ys ! p) \<le> key (?ys ! q)" if "p \<le> q" "q < length ?ys" for p q
  proof (cases "p = q")
    case False
    with that have "p < q" by simp
    moreover from this that have "length ?ys - (length xs - 1) \<le> q" using len by simp
    ultimately show ?thesis using props(3) that(2) unfolding tail_sorted_def by simp
  qed simp
  then have "sorted (map key ?ys)" by (simp add: sorted_iff_nth_mono)
  moreover have "filter (\<lambda>x. key k = key x) ?ys = filter (\<lambda>x. key k = key x) xs" for k
    using props(2) by simp
  ultimately show ?thesis using properties_for_sort_key [OF ms, of key] by simp
qed

section \<open>Saving and loading\<close>

lemma intentPath_inject [simp]: "intentPath a = intentPath b \<longleftrightarrow> a = b"
  by (simp add: intentPath_def)

lemma Ext_intentPath [simp]: "filepath_Ext (intentPath a) = ''.json''"
  by (simp add: intentPath_def)

lemma GetIntent_getIntentUnsafe: "GetIntent s iid = getIntentUnsafe s iid"
  by (simp add: GetIntent_def getIntentUnsafe_def)

lemma getIntentUnsafe_Inr: "getIntentUnsafe s iid = Inr i \<longleftrightarrow> decoded s (intentPath iid) = Some i"
  by (auto simp: getIntentUnsafe_def decoded_def split: sum.splits os_err.splits content.splits)

lemma saveIntent_Inr: "saveIntent s i = Inr s' \<longleftrightarrow> WriteFile s (intentPath (iID i)) i = Inr s'"
  by (auto simp: saveIntent_def split: sum.splits)

lemma decoded_saveIntent:
  "saveIntent s i = Inr s' \<Longrightarrow>
   decoded s' n = (if n = intentPath (iID i) then Some i else decoded s n)"
  by (simp add: saveIntent_Inr decoded_WriteFile)

lemma getIntentUnsafe_saveIntent:
  "saveIntent s i = Inr s' \<Longrightarrow>
   getIntentUnsafe s' iid = (if iid = iID i then Inr i else getIntentUnsafe s iid)"
  by (simp add: saveIntent_Inr getIntentUnsafe_def ReadFile_WriteFile)

interpretation intents: record_store saveIntent GetIntent iID
  by unfold_locales (simp_all add: GetIntent_getIntentUnsafe getIntentUnsafe_saveIntent)

section \<open>Well-formed stores\<close>

text \<open>
  Every file is named after the intent it holds, no approver is counted twice, and the number of
  retries stays within its bound.
\<close>

definition intent_wf :: "TransactionIntent \<Rightarrow> bool" where
  "intent_wf i \<longleftrightarrow> distinct (iApprovedBy i) \<and> 0 \<le> iRetryCount i \<and> iRetryCount i \<le> iMaxRetries i"

definition store_wf :: "IntentStore \<Rightarrow> bool" where
  "store_wf s \<longleftrightarrow>
     dir_ok s \<and> (\<forall>n i. decoded s n = Some i \<longrightarrow> n = intentPath (iID i) \<and> intent_wf i)"

lemma store_wf_dir: "store_wf s \<Longrightarrow> dir_ok s"
  by (simp add: store_wf_def)

lemma store_wf_decoded:
  "store_wf s \<Longrightarrow> decoded s n = Some i \<Longrightarrow> n = intentPath (iID i) \<and> intent_wf i"
  by (simp add: store_wf_def)

lemma store_wf_get:
  "store_wf s \<Longrightarrow> getIntentUnsafe s iid = Inr i \<Longrightarrow> iID i = iid \<and> intent_wf i"
  using store_wf_decoded [of s "intentPath iid" i] by (auto simp: getIntentUnsafe_Inr)

lemma store_wf_save [wf_intros]:
  "saveIntent s i = Inr s' \<Longrightarrow> store_wf s \<Longrightarrow> intent_wf i \<Longrightarrow> store_wf s'"
  by (auto simp: store_wf_def decoded_saveIntent saveIntent_Inr split: if_splits
      intro: dir_ok_WriteFile)

lemma newIntent_wf: "intent_wf (newIntent uuid t0 t1 t2 a)"
  by (simp add: newIntent_def intent_wf_def Let_def)

lemma store_wf_Create [wf_intros]:
  "CreateIntent s uuid t0 t1 t2 a = Inr (i, s') \<Longrightarrow> store_wf s \<Longrightarrow> store_wf s'"
  by (auto simp: CreateIntent_def Let_def split: sum.splits intro: store_wf_save newIntent_wf)

lemma ApproveIntent_Inr:
  assumes "ApproveIntent s now iid approver = Inr s'"
  obtains i where "getIntentUnsafe s iid = Inr i"
    and "iStatus i = IntentStatusDraft \<or> iStatus i = IntentStatusPending"
    and "approver \<notin> set (iApprovedBy i)"
    and "saveIntent s (i\<lparr>iApprovedBy := iApprovedBy i @ [approver], iUpdatedAt := now,
           iStatus := (if iRequiredSigs i \<le> int (Suc (length (iApprovedBy i)))
                       then IntentStatusApproved else iStatus i)\<rparr>) = Inr s'"
  using assms
  by (auto simp: ApproveIntent_def Let_def split: sum.splits if_splits)

lemma store_wf_Approve [wf_intros]:
  "ApproveIntent s now iid approver = Inr s' \<Longrightarrow> store_wf s \<Longrightarrow> store_wf s'"
  by (erule ApproveIntent_Inr) (auto dest!: store_wf_get elim!: store_wf_save simp: intent_wf_def)

lemma UpdateIntentStatus_Inr:
  assumes "UpdateIntentStatus s now iid st h e = Inr s'"
  obtains i where "getIntentUnsafe s iid = Inr i"
    and "saveIntent s (i\<lparr>iStatus := st, iUpdatedAt := now,
           iTxHash := (if h \<noteq> [] then h else iTxHash i),
           iError := (if e \<noteq> [] then e else iError i)\<rparr>) = Inr s'"
  using assms
  by (auto simp: UpdateIntentStatus_def Let_def split: sum.splits if_splits)

lemma store_wf_UpdateStatus [wf_intros]:
  "UpdateIntentStatus s now iid st h e = Inr s' \<Longrightarrow> store_wf s \<Longrightarrow> store_wf s'"
  by (erule UpdateIntentStatus_Inr)
    (auto dest!: store_wf_get elim!: store_wf_save simp: intent_wf_def)

lemma RetryIntent_Inr:
  assumes "RetryIntent s now iid = Inr (i', s')"
  obtains i where "getIntentUnsafe s iid = Inr i" and "retryable (iStatus i)"
    and "iRetryCount i < iMaxRetries i"
    and "i' = i\<lparr>iRetryCount := iRetryCount i + 1, iUpdatedAt := now,
           iStatus := (if iRequiredSigs i > 1 then IntentStatusDraft else IntentStatusApproved),
           iError := []\<rparr>"
    and "saveIntent s i' = Inr s'"
  using assms
  by (auto simp: RetryIntent_def Let_def split: sum.splits if_splits)

lemma store_wf_Retry [wf_intros]:
  "RetryIntent s now iid = Inr (i', s') \<Longrightarrow> store_wf s \<Longrightarrow> store_wf s'"
  by (erule RetryIntent_Inr) (auto dest!: store_wf_get elim!: store_wf_save simp: intent_wf_def)

lemma expireIntent_wf: "intent_wf i \<Longrightarrow> intent_wf (expireIntent now i)"
  by (simp add: intent_wf_def expireIntent_def)

lemma iID_expireIntent [simp]: "iID (expireIntent now i) = iID i"
  by (simp add: expireIntent_def)

lemma store_wf_expire_loop: "store_wf s \<Longrightarrow> store_wf (snd (expire_loop now fs s n))"
proof (induction fs arbitrary: s n)
  case Nil
  then show ?case by simp
next
  case (Cons f fs)
  have "store_wf s'" if "decoded s f = Some i" "saveIntent s (expireIntent now i) = Inr s'" for i s'
    using that Cons.prems store_wf_decoded expireIntent_wf store_wf_save by blast
  with Cons show ?case by (auto split: option.splits sum.splits)
qed

lemma store_wf_Expire [wf_intros]:
  "ExpireIntents s now = Inr (n, s') \<Longrightarrow> store_wf s \<Longrightarrow> store_wf s'"
  by (auto simp: ExpireIntents_def split: sum.splits)
    (metis snd_conv store_wf_expire_loop)

lemma store_wf_UpdateIntent [wf_intros]:
  "UpdateIntent s now i = Inr s' \<Longrightarrow> store_wf s \<Longrightarrow> intent_wf i \<Longrightarrow> store_wf s'"
  by (auto simp: UpdateIntent_def intent_wf_def elim!: store_wf_save)

section \<open>Sequences of operations\<close>

text \<open>
  One operation on the store; an operation that returns an error leaves the store as it was.
\<close>

datatype intent_op =
    OpCreate string gotime gotime gotime CreateIntentArgs
  | OpApprove gotime string string
  | OpStatus gotime string IntentStatus string string
  | OpRetry gotime string
  | OpExpire gotime
  | OpUpdate gotime TransactionIntent

definition or_keep :: "'s \<Rightarrow> 's res \<Rightarrow> 's" where
  "or_keep s r = (case r of Inl _ \<Rightarrow> s | Inr s' \<Rightarrow> s')"

definition or_keep_snd :: "'s \<Rightarrow> ('a \<times> 's) res \<Rightarrow> 's" where
  "or_keep_snd s r = (case r of Inl _ \<Rightarrow> s | Inr p \<Rightarrow> snd p)"

primrec run_op :: "intent_op \<Rightarrow> IntentStore \<Rightarrow> IntentStore" where
  "run_op (OpCreate u t0 t1 t2 a) s = or_keep_snd s (CreateIntent s u t0 t1 t2 a)"
| "run_op (OpApprove now iid a) s = or_keep s (ApproveIntent s now iid a)"
| "run_op (OpStatus now iid st h e) s = or_keep s (UpdateIntentStatus s now iid st h e)"
| "run_op (OpRetry now iid) s = or_keep_snd s (RetryIntent s now iid)"
| "run_op (OpExpire now) s = or_keep_snd s (ExpireIntents s now)"
| "run_op (OpUpdate now i) s = or_keep s (UpdateIntent s now i)"

text \<open>Only \<^verbatim>\<open>UpdateIntent\<close> stores a record it is handed; its caller must hand it a well-formed one.\<close>

primrec op_ok :: "intent_op \<Rightarrow> bool" where
  "op_ok (OpCreate u t0 t1 t2 a) = True"
| "op_ok (OpApprove now iid a) = True"
| "op_ok (OpStatus now iid st h e) = True"
| "op_ok (OpRetry now iid) = True"
| "op_ok (OpExpire now) = True"
| "op_ok (OpUpdate now i) = intent_wf i"

lemma store_wf_run_op: "store_wf s \<Longrightarrow> op_ok p \<Longrightarrow> store_wf (run_op p s)"
  by (cases p) (auto simp: or_keep_def or_keep_snd_def split: sum.splits intro: wf_intros)

end
