(* ===== verification/Wallet_Store.thy ===== *)
theory Wallet_Store
  imports Filesystem
begin

text \<open>
  Package \<^verbatim>\<open>pkg/wallet\<close>, files \<^verbatim>\<open>wallet.go\<close> and \<^verbatim>\<open>store.go\<close>: wallets, their chain accounts, the index of
  wallet ids, and every operation of \<^verbatim>\<open>Store\<close>. The base directory holds one file per wallet and
  \<^verbatim>\<open>index.json\<close>; the subdirectory \<^verbatim>\<open>accounts\<close> holds one file per account. An operation that fails
  half way keeps the effects it had so far, so every operation returns its result together with
  the store it leaves behind.

  The lemmas: account file names determine wallet, chain and index; the index lists exactly the
  wallets on disk, through creation and deletion; deleting a wallet removes its accounts and no
  others; \<^verbatim>\<open>GetAccount\<close> prefers index 0.
\<close>

section \<open>Data\<close>

record Wallet =
  wID :: string
  wName :: string
  wCreatedAt :: int

record Account =
  acWalletID :: string
  acChain :: string
  acAddress :: string
  acPubKey :: "byte list"
  acSignerType :: string
  acIndex :: u32

text \<open>The base directory holds two kinds of JSON documents: objects (wallets) and the index array.\<close>

datatype wallet_file = WalletFile Wallet | IndexFile "string list"

record Store =
  walletDir :: "wallet_file dir"
  accountDir :: "Account dir"

section \<open>Operations\<close>

text \<open>
  \<open>home\<close> is the result of \<^verbatim>\<open>os.UserHomeDir\<close> and \<open>mkdir_fault\<close> the error of \<^verbatim>\<open>os.MkdirAll\<close> on a path;
  the result is the base directory of the new store.
\<close>

fun make_dirs :: "(string \<Rightarrow> err option) \<Rightarrow> string list \<Rightarrow> unit res" where
  "make_dirs mkdir_fault [] = Inr ()"
| "make_dirs mkdir_fault (d # ds) =
     (case mkdir_fault d of
        Some e \<Rightarrow> Inl (''failed to create dir '' @ d @ '': '' @ e)
      | None \<Rightarrow> make_dirs mkdir_fault ds)"

definition NewStore :: "string res \<Rightarrow> (string \<Rightarrow> err option) \<Rightarrow> string \<Rightarrow> string res" where
  "NewStore home mkdir_fault baseDir0 =
     (case (if baseDir0 = [] then
              (case home of
                 Inl e \<Rightarrow> Inl (''failed to get home dir: '' @ e)
               | Inr h \<Rightarrow> Inr (h @ ''/.hsm/wallets''))
            else Inr baseDir0) of
        Inl e \<Rightarrow> Inl e
      | Inr baseDir \<Rightarrow>
          (case make_dirs mkdir_fault [baseDir, baseDir @ ''/accounts''] of
             Inl e \<Rightarrow> Inl e
           | Inr _ \<Rightarrow> Inr baseDir))"

definition indexName :: string where
  "indexName = ''index.json''"

definition walletName :: "string \<Rightarrow> string" where
  "walletName wid = wid @ ''.json''"

text \<open>The ids \<^verbatim>\<open>updateIndex\<close> and \<^verbatim>\<open>removeFromIndex\<close> start from: none when the index is missing or no array.\<close>

definition indexIDs :: "wallet_file dir \<Rightarrow> string list" where
  "indexIDs d = (case ReadFile d indexName of Inr (Json (IndexFile ids)) \<Rightarrow> ids | _ \<Rightarrow> [])"

definition writeIndex :: "wallet_file dir \<Rightarrow> string list \<Rightarrow> unit res \<times> wallet_file dir" where
  "writeIndex d ids =
     (case WriteFile d indexName (IndexFile ids) of
        Inl e \<Rightarrow> (Inl (''failed to write index: '' @ e), d)
      | Inr d' \<Rightarrow> (Inr (), d'))"

definition updateIndex :: "wallet_file dir \<Rightarrow> string \<Rightarrow> unit res \<times> wallet_file dir" where
  "updateIndex d walletID =
     (let ids = indexIDs d
      in if walletID \<in> set ids then (Inr (), d) else writeIndex d (ids @ [walletID]))"

definition removeFromIndex :: "wallet_file dir \<Rightarrow> string \<Rightarrow> unit res \<times> wallet_file dir" where
  "removeFromIndex d walletID = writeIndex d (filter (\<lambda>i. i \<noteq> walletID) (indexIDs d))"

text \<open>\<open>uuid\<close> is the fresh identifier, \<open>now\<close> the UTC clock reading.\<close>

definition CreateWallet :: "Store \<Rightarrow> string \<Rightarrow> int \<Rightarrow> string \<Rightarrow> Wallet res \<times> Store" where
  "CreateWallet s uuid now name =
     (let w = \<lparr>wID = uuid, wName = name, wCreatedAt = now\<rparr>
      in case WriteFile (walletDir s) (walletName (wID w)) (WalletFile w) of
           Inl e \<Rightarrow> (Inl (''failed to write wallet: '' @ e), s)
         | Inr d \<Rightarrow>
             (case updateIndex d (wID w) of
                (Inl e, d') \<Rightarrow> (Inl e, s\<lparr>walletDir := d'\<rparr>)
              | (Inr _, d') \<Rightarrow> (Inr w, s\<lparr>walletDir := d'\<rparr>)))"

text \<open>The file name \<^verbatim>\<open>%s_%s_%d.json\<close>, shared by the accounts and the key store.\<close>

definition accountName :: "string \<Rightarrow> string \<Rightarrow> u32 \<Rightarrow> string" where
  "accountName walletID chain index =
     walletID @ ''_'' @ chain @ ''_'' @ show_nat (unat index) @ ''.json''"

definition SaveAccount :: "Store \<Rightarrow> Account \<Rightarrow> Store res" where
  "SaveAccount s a =
     (case WriteFile (accountDir s) (accountName (acWalletID a) (acChain a) (acIndex a)) a of
        Inl e \<Rightarrow> Inl (''failed to write account: '' @ e)
      | Inr d \<Rightarrow> Inr (s\<lparr>accountDir := d\<rparr>))"

definition GetWallet :: "Store \<Rightarrow> string \<Rightarrow> Wallet res" where
  "GetWallet s wid =
     (case ReadFile (walletDir s) (walletName wid) of
        Inl (NotExist _) \<Rightarrow> Inl (''wallet not found: '' @ wid)
      | Inl (OsErr e) \<Rightarrow> Inl (''failed to read wallet: '' @ e)
      | Inr (NotJson e) \<Rightarrow> Inl (''failed to unmarshal wallet: '' @ e)
      | Inr (Json (IndexFile _)) \<Rightarrow>
          Inl (''failed to unmarshal wallet: '' @
               ''json: cannot unmarshal array into Go value of type wallet.Wallet'')
      | Inr (Json (WalletFile w)) \<Rightarrow> Inr w)"

definition containsPrefix :: "string \<Rightarrow> string \<Rightarrow> bool" where
  "containsPrefix s prefix \<longleftrightarrow> length prefix \<le> length s \<and> take (length prefix) s = prefix"

definition GetAccountsForWallet :: "Store \<Rightarrow> string \<Rightarrow> Account list res" where
  "GetAccountsForWallet s walletID =
     (case ReadDir (accountDir s) of
        Inl e \<Rightarrow> Inl (''failed to read accounts dir: '' @ e)
      | Inr es \<Rightarrow>
          Inr (List.map_filter (decoded (accountDir s))
                 (filter (\<lambda>n. containsPrefix n (walletID @ ''_'')) (json_names es))))"

definition GetAccount :: "Store \<Rightarrow> string \<Rightarrow> string \<Rightarrow> Account res" where
  "GetAccount s walletID chain =
     (case GetAccountsForWallet s walletID of
        Inl e \<Rightarrow> Inl e
      | Inr accounts \<Rightarrow>
          (case find (\<lambda>a. acChain a = chain \<and> acIndex a = 0) accounts of
             Some a \<Rightarrow> Inr a
           | None \<Rightarrow>
               (case find (\<lambda>a. acChain a = chain) accounts of
                  Some a \<Rightarrow> Inr a
                | None \<Rightarrow> Inl (''account not found for '' @ walletID @ '' on '' @ chain))))"

definition ListWallets :: "Store \<Rightarrow> string list res" where
  "ListWallets s =
     (case ReadFile (walletDir s) indexName of
        Inl (NotExist _) \<Rightarrow> Inr []
      | Inl (OsErr e) \<Rightarrow> Inl (''failed to read index: '' @ e)
      | Inr (NotJson e) \<Rightarrow> Inl (''failed to unmarshal index: '' @ e)
      | Inr (Json (WalletFile _)) \<Rightarrow>
          Inl (''failed to unmarshal index: '' @
               ''json: cannot unmarshal object into Go value of type []string'')
      | Inr (Json (IndexFile ids)) \<Rightarrow> Inr ids)"

text \<open>The removal loop of \<^verbatim>\<open>DeleteWallet\<close>; the errors of \<^verbatim>\<open>os.Remove\<close> are ignored.\<close>

fun removeFiles :: "'a dir \<Rightarrow> string list \<Rightarrow> 'a dir" where
  "removeFiles d [] = d"
| "removeFiles d (n # ns) = (case Remove d n of Inl _ \<Rightarrow> removeFiles d ns | Inr d' \<Rightarrow> removeFiles d' ns)"

definition removeAccounts :: "Account dir \<Rightarrow> string \<Rightarrow> Account dir" where
  "removeAccounts d walletID =
     (case ReadDir d of
        Inl _ \<Rightarrow> d
      | Inr es \<Rightarrow>
          removeFiles d (map fst (filter (\<lambda>p. \<not> IsDir p \<and> containsPrefix (fst p) (walletID @ ''_'')) es)))"

definition DeleteWallet :: "Store \<Rightarrow> string \<Rightarrow> unit res \<times> Store" where
  "DeleteWallet s walletID =
     (if \<not> StatExists (walletDir s) (walletName walletID)
      then (Inl (''wallet not found: '' @ walletID), s)
      else
        let s1 = s\<lparr>accountDir := removeAccounts (accountDir s) walletID\<rparr>
        in case Remove (walletDir s1) (walletName walletID) of
             Inl e \<Rightarrow> (Inl (''failed to delete wallet: '' @ os_msg e), s1)
           | Inr d \<Rightarrow>
               (case removeFromIndex d walletID of
                  (r, d') \<Rightarrow> (r, s1\<lparr>walletDir := d'\<rparr>)))"

definition DeleteAccount :: "Store \<Rightarrow> string \<Rightarrow> string \<Rightarrow> u32 \<Rightarrow> Store res" where
  "DeleteAccount s walletID chain index =
     (if \<not> StatExists (walletDir s) (walletName walletID)
      then Inl (''wallet not found: '' @ walletID)
      else if \<not> StatExists (accountDir s) (accountName walletID chain index)
      then Inl (''account not found for '' @ walletID @ '' on '' @ chain @ '' at index '' @
                show_nat (unat index))
      else (case Remove (accountDir s) (accountName walletID chain index) of
              Inl e \<Rightarrow> Inl (''failed to delete account: '' @ os_msg e)
            | Inr d \<Rightarrow> Inr (s\<lparr>accountDir := d\<rparr>)))"

section \<open>File names\<close>

lemma containsPrefix_HasPrefix: "containsPrefix s p \<longleftrightarrow> HasPrefix s p"
  by (auto simp: containsPrefix_def HasPrefix_def) (metis length_take min.cobounded1)

lemma HasPrefix_iff: "HasPrefix s p \<longleftrightarrow> (\<exists>r. s = p @ r)"
  by (metis HasPrefix_append HasPrefix_def append_take_drop_id)

lemma walletName_inject [simp]: "walletName a = walletName b \<longleftrightarrow> a = b"
  by (simp add: walletName_def)

lemma walletName_index [simp]: "walletName a = indexName \<longleftrightarrow> a = ''index''"
proof -
  have "indexName = walletName ''index''" by (simp add: indexName_def walletName_def)
  then show ?thesis by (metis walletName_inject)
qed

lemma index_walletName [simp]: "indexName = walletName a \<longleftrightarrow> a = ''index''"
  using walletName_index by metis

lemma split_first:
  "x \<notin> set a \<Longrightarrow> x \<notin> set b \<Longrightarrow> a @ x # s = b @ x # t \<longleftrightarrow> a = b \<and> s = t"
proof (induction a arbitrary: b)
  case Nil
  then show ?case by (cases b) auto
next
  case (Cons y a)
  then show ?case by (cases b) auto
qed

lemma split_last:
  assumes "x \<notin> set s" and "x \<notin> set t"
  shows "a @ x # s = b @ x # t \<longleftrightarrow> a = b \<and> s = t"
proof -
  have "a @ x # s = b @ x # t \<longleftrightarrow> rev s @ x # rev a = rev t @ x # rev b"
    by (metis append.assoc append_Cons append_Nil rev.simps(2) rev_append rev_rev_ident)
  then show ?thesis using split_first [of x "rev s" "rev t" "rev a" "rev b"] assms by auto
qed

text \<open>
  A wallet id without an underscore (a UUID has none) is recovered from the file name, and so are
  the chain, whatever its text, and the index.
\<close>

lemma accountName_inject:
  assumes "CHR ''_'' \<notin> set w" and "CHR ''_'' \<notin> set w'"
  shows "accountName w c i = accountName w' c' i' \<longleftrightarrow> w = w' \<and> c = c' \<and> i = i'"
proof
  assume eq: "accountName w c i = accountName w' c' i'"
  have nd: "CHR ''_'' \<notin> set (show_nat n @ ''.json'')" for n
    using show_nat_no_char [of "CHR ''_''" n] by (simp add: is_digit_def)
  from eq have "w = w'" and rest: "c @ CHR ''_'' # (show_nat (unat i) @ ''.json'') =
      c' @ CHR ''_'' # (show_nat (unat i') @ ''.json'')"
    using split_first [OF assms] by (auto simp: accountName_def)
  from rest show "w = w' \<and> c = c' \<and> i = i'"
    using split_last [OF nd nd] \<open>w = w'\<close> by (simp add: word_unat_eq_iff)
qed simp

lemma accountName_prefix: "containsPrefix (accountName w c i) (w @ ''_'')"
  by (simp add: containsPrefix_HasPrefix HasPrefix_iff accountName_def)

lemma Ext_accountName [simp]: "filepath_Ext (accountName w c i) = ''.json''"
  using filepath_Ext_json [of "w @ ''_'' @ c @ ''_'' @ show_nat (unat i)"]
  by (simp add: accountName_def)

lemma accountName_prefix_iff:
  assumes "CHR ''_'' \<notin> set w" and "CHR ''_'' \<notin> set v"
  shows "containsPrefix (accountName w c i) (v @ ''_'') \<longleftrightarrow> w = v"
  using split_first [OF assms(1,2)] accountName_prefix
  by (auto simp: containsPrefix_HasPrefix HasPrefix_iff accountName_def)

section \<open>The index lists exactly the wallets on disk\<close>

definition wallet_at :: "wallet_file dir \<Rightarrow> string \<Rightarrow> bool" where
  "wallet_at d wid \<longleftrightarrow> (\<exists>w. decoded d (walletName wid) = Some (WalletFile w))"

definition index_ok :: "wallet_file dir \<Rightarrow> bool" where
  "index_ok d \<longleftrightarrow>
     dir_ok d \<and> write_fault d indexName = None \<and>
     (look d indexName = None \<or> (\<exists>ids. look d indexName = Some (File (Json (IndexFile ids))))) \<and>
     distinct (indexIDs d) \<and> (\<forall>wid. wid \<in> set (indexIDs d) \<longleftrightarrow> wallet_at d wid)"

lemma indexIDs_look:
  "indexIDs d = (case look d indexName of Some (File (Json (IndexFile ids))) \<Rightarrow> ids | _ \<Rightarrow> [])"
  by (simp add: indexIDs_def ReadFile_def split: option.split dirent.split)

lemma writeIndex_ok:
  assumes "index_ok d"
  obtains d' where "writeIndex d ids = (Inr (), d')"
    and "WriteFile d indexName (IndexFile ids) = Inr d'"
  using assms WriteFile_ok [of d indexName]
  by (auto simp: index_ok_def writeIndex_def)

lemma wallet_at_look: "wallet_at d wid \<longleftrightarrow> (\<exists>w. look d (walletName wid) = Some (File (Json (WalletFile w))))"
  by (simp add: wallet_at_def decoded_iff)

lemma index_ok_write:
  assumes "WriteFile d indexName (IndexFile ids) = Inr d'" and "dir_ok d"
    and "write_fault d indexName = None" and "distinct ids"
    and "\<And>wid. wid \<noteq> ''index'' \<Longrightarrow> wid \<in> set ids \<longleftrightarrow> wallet_at d wid" and "''index'' \<notin> set ids"
  shows "index_ok d'"
  using assms look_WriteFile [OF assms(1)]
  by (auto simp: index_ok_def indexIDs_look wallet_at_look frame_simps intro: wf_intros)

lemma index_ok_no_index: "index_ok d \<Longrightarrow> ''index'' \<notin> set (indexIDs d)"
proof
  assume ok: "index_ok d" and "''index'' \<in> set (indexIDs d)"
  then have "wallet_at d ''index''" by (simp add: index_ok_def)
  then have "\<exists>w. look d indexName = Some (File (Json (WalletFile w)))"
    unfolding wallet_at_look by (metis walletName_index)
  with ok show False by (auto simp: index_ok_def)
qed

lemma CreateWallet_ok:
  assumes ok: "index_ok (walletDir s)" and u: "uuid \<noteq> ''index''"
    and wr: "WriteFile (walletDir s) (walletName uuid) (WalletFile w) = Inr d"
  shows "\<exists>d'. updateIndex d uuid = (Inr (), d') \<and> index_ok d' \<and>
    set (indexIDs d') = insert uuid (set (indexIDs (walletDir s))) \<and>
    (\<forall>n. n \<noteq> indexName \<longrightarrow> look d' n = look d n)"
proof -
  let ?d0 = "walletDir s"
  note lk = look_WriteFile [OF wr]
  have ids: "indexIDs d = indexIDs ?d0" using u by (simp add: indexIDs_look lk)
  have fr: "write_fault d indexName = None" "dir_ok d"
    using ok wr by (auto simp: index_ok_def frame_simps intro: wf_intros)
  have at: "wallet_at d wid \<longleftrightarrow> wid = uuid \<or> wallet_at ?d0 wid" for wid
    by (auto simp: wallet_at_look lk)
  show ?thesis
  proof (cases "uuid \<in> set (indexIDs ?d0)")
    case True
    with ok at fr u have "index_ok d" unfolding index_ok_def ids by (auto simp: lk)
    with True ids show ?thesis by (auto simp: updateIndex_def)
  next
    case False
    have "look d indexName = look ?d0 indexName" using u by (simp add: lk)
    then obtain d' where d': "WriteFile d indexName (IndexFile (indexIDs ?d0 @ [uuid])) = Inr d'"
      using ok fr(1) WriteFile_ok [of d indexName] by (auto simp: index_ok_def)
    have "index_ok d'"
      using ok at u index_ok_no_index [OF ok] False
      by (intro index_ok_write [OF d' fr(2,1)]) (auto simp: index_ok_def)
    with d' False ids look_WriteFile [OF d'] show ?thesis
      by (auto simp: updateIndex_def writeIndex_def indexIDs_look)
  qed
qed

lemma DeleteWallet_index:
  assumes ok: "index_ok d" and rm: "Remove d (walletName wid) = Inr d1" and w: "wid \<noteq> ''index''"
  shows "\<exists>d'. removeFromIndex d1 wid = (Inr (), d') \<and> index_ok d' \<and>
    set (indexIDs d') = set (indexIDs d) - {wid} \<and>
    (\<forall>n. n \<noteq> indexName \<longrightarrow> look d' n = look d1 n)"
proof -
  note lk = look_Remove [OF rm]
  have fr: "write_fault d1 indexName = None" "dir_ok d1"
    using ok rm Remove_Inr [OF rm] by (auto simp: index_ok_def intro: wf_intros)
  have same: "look d1 indexName = look d indexName" using w by (simp add: lk)
  then have ids: "indexIDs d1 = indexIDs d" by (simp add: indexIDs_look)
  obtain d' where d': "WriteFile d1 indexName (IndexFile (filter (\<lambda>i. i \<noteq> wid) (indexIDs d))) = Inr d'"
    using ok fr(1) same WriteFile_ok [of d1 indexName] by (auto simp: index_ok_def)
  have "index_ok d'"
    using ok index_ok_no_index [OF ok]
    by (intro index_ok_write [OF d' fr(2,1)]) (auto simp: index_ok_def wallet_at_look lk)
  with d' ids look_WriteFile [OF d'] show ?thesis
    by (auto simp: removeFromIndex_def writeIndex_def indexIDs_look)
qed

text \<open>A run of wallet operations; \<open>WDelete\<close> and \<open>WCreate\<close> are the two that touch the index.\<close>

datatype wallet_op =
    WCreate string int string
  | WDelete string
  | WSaveAccount Account
  | WDeleteAccount string string u32

primrec run_wallet :: "wallet_op \<Rightarrow> Store \<Rightarrow> Store" where
  "run_wallet (WCreate uuid now name) s = snd (CreateWallet s uuid now name)"
| "run_wallet (WDelete wid) s = snd (DeleteWallet s wid)"
| "run_wallet (WSaveAccount a) s = (case SaveAccount s a of Inl _ \<Rightarrow> s | Inr s' \<Rightarrow> s')"
| "run_wallet (WDeleteAccount wid c i) s = (case DeleteAccount s wid c i of Inl _ \<Rightarrow> s | Inr s' \<Rightarrow> s')"

primrec names_wallet :: "wallet_op \<Rightarrow> bool" where
  "names_wallet (WCreate uuid now name) = (uuid \<noteq> ''index'')"
| "names_wallet (WDelete wid) = (wid \<noteq> ''index'')"
| "names_wallet (WSaveAccount a) = True"
| "names_wallet (WDeleteAccount wid c i) = True"

lemma index_ok_step:
  assumes ok: "index_ok (walletDir s)" and "names_wallet p"
  shows "index_ok (walletDir (run_wallet p s))"
proof (cases p)
  case (WCreate uuid now name)
  let ?w = "\<lparr>wID = uuid, wName = name, wCreatedAt = now\<rparr>"
  show ?thesis
  proof (cases "WriteFile (walletDir s) (walletName uuid) (WalletFile ?w)")
    case (Inr d)
    with CreateWallet_ok [OF ok _ Inr] WCreate assms(2) show ?thesis
      by (auto simp: CreateWallet_def Let_def)
  qed (use ok WCreate in \<open>simp add: CreateWallet_def Let_def\<close>)
next
  case (WDelete wid)
  show ?thesis
  proof (cases "Remove (walletDir s) (walletName wid)")
    case (Inr d)
    with DeleteWallet_index [OF ok Inr] WDelete assms(2) ok show ?thesis
      by (auto simp: DeleteWallet_def Let_def)
  qed (use ok WDelete in \<open>simp add: DeleteWallet_def Let_def\<close>)
next
  case (WSaveAccount a)
  with ok show ?thesis by (simp add: SaveAccount_def split: sum.split)
next
  case (WDeleteAccount wid c i)
  with ok show ?thesis by (simp add: DeleteAccount_def split: sum.split)
qed

text \<open>
  Through any sequence of wallet and account operations the index lists every wallet id
  exactly once, and it lists exactly the ids whose wallet file is on disk, as long as the index
  file itself can be written and no wallet is called index.
\<close>

theorem index_exact_run:
  assumes "index_ok (walletDir s)" and "list_all names_wallet ops"
  shows "index_ok (walletDir (fold run_wallet ops s)) \<and>
    (\<exists>ids. ListWallets (fold run_wallet ops s) = Inr ids \<and> distinct ids \<and>
       (\<forall>wid. wid \<in> set ids \<longleftrightarrow> is_ok (GetWallet (fold run_wallet ops s) wid)))"
proof -
  have ok: "index_ok (walletDir (fold run_wallet ops s))"
    using assms by (induction ops arbitrary: s) (auto intro: index_ok_step)
  have "ListWallets t = Inr (indexIDs (walletDir t))" if "index_ok (walletDir t)" for t
    using that by (auto simp: index_ok_def ListWallets_def indexIDs_def ReadFile_def)
  moreover have "is_ok (GetWallet t wid) \<longleftrightarrow> wallet_at (walletDir t) wid" for t wid
    by (auto simp: GetWallet_def wallet_at_def decoded_def
        split: sum.split os_err.split content.split wallet_file.split)
  ultimately show ?thesis using ok by (auto simp: index_ok_def)
qed

definition no_wallets :: Store where
  "no_wallets = \<lparr>walletDir = empty_dir ''w'', accountDir = empty_dir ''w/accounts''\<rparr>"

lemma no_wallets_ok: "index_ok (walletDir no_wallets)"
  by (simp add: no_wallets_def index_ok_def indexIDs_look wallet_at_look look_def empty_dir_def
      dir_ok_def ents_ok_def)

theorem index_exact_run_witness:
  "\<exists>ids. ListWallets (fold run_wallet [WCreate ''u1'' 5 ''A'', WCreate ''u2'' 6 ''B'', WDelete ''u1'']
      no_wallets) = Inr ids \<and> distinct ids"
  using index_exact_run [OF no_wallets_ok,
      of "[WCreate ''u1'' 5 ''A'', WCreate ''u2'' 6 ''B'', WDelete ''u1'']"]
  by auto

section \<open>Accounts\<close>

text \<open>
  A created wallet is found under its id with the data it was created with, and the other
  wallets are found as before.
\<close>

theorem CreateWallet_found:
  assumes "CreateWallet s uuid now name = (Inr w, s')" and "uuid \<noteq> ''index''"
  shows "GetWallet s' uuid = Inr w \<and> wID w = uuid \<and> wName w = name \<and>
    (\<forall>v. v \<noteq> uuid \<and> v \<noteq> ''index'' \<longrightarrow> GetWallet s' v = GetWallet s v)"
proof -
  obtain d d' where w: "w = \<lparr>wID = uuid, wName = name, wCreatedAt = now\<rparr>"
    and wr: "WriteFile (walletDir s) (walletName uuid) (WalletFile w) = Inr d"
    and up: "updateIndex d uuid = (Inr (), d')" and s': "s' = s\<lparr>walletDir := d'\<rparr>"
    using assms(1) by (auto simp: CreateWallet_def Let_def split: sum.splits prod.splits)
  have keep: "ReadFile d' n = ReadFile d n" if "n \<noteq> indexName" for n
    using up that ReadFile_WriteFile [of d indexName _ d' n]
    by (auto simp: updateIndex_def writeIndex_def Let_def split: if_splits sum.splits)
  have "ReadFile d' (walletName v) =
      (if v = uuid then Inr (Json (WalletFile w)) else ReadFile (walletDir s) (walletName v))"
    if "v \<noteq> ''index''" for v
    using that keep [of "walletName v"] ReadFile_WriteFile [OF wr, of "walletName v"] by simp
  then show ?thesis using assms(2) s' w by (simp add: GetWallet_def)
qed

theorem CreateWallet_found_witness:
  "\<exists>w s'. CreateWallet no_wallets ''u1'' 5 ''A'' = (Inr w, s') \<and> GetWallet s' ''u1'' = Inr w"
proof -
  have "is_ok (fst (CreateWallet no_wallets ''u1'' 5 ''A''))" by code_simp
  then obtain w s' where "CreateWallet no_wallets ''u1'' 5 ''A'' = (Inr w, s')"
    by (metis is_ok_iff prod.collapse)
  with CreateWallet_found [OF this] show ?thesis by auto
qed

lemma ents_removeFiles:
  assumes "\<And>n. remove_fault d n = None" and "\<And>n. n \<in> set ns \<Longrightarrow> look d n \<noteq> Some Subdir"
  shows "ents (removeFiles d ns) = filter (\<lambda>p. fst p \<notin> set ns) (ents d) \<and>
    list_fault (removeFiles d ns) = list_fault d"
  using assms
proof (induction ns arbitrary: d)
  case Nil
  then show ?case by simp
next
  case (Cons n ns)
  show ?case
  proof (cases "look d n")
    case None
    then have "n \<notin> fst ` set (ents d)" by (simp add: look_def map_of_eq_None_iff)
    then have "filter (\<lambda>p. fst p \<notin> set (n # ns)) (ents d) = filter (\<lambda>p. fst p \<notin> set ns) (ents d)"
      by (intro filter_cong) auto
    moreover have "removeFiles d (n # ns) = removeFiles d ns" using None by (simp add: Remove_def)
    ultimately show ?thesis using Cons by simp
  next
    case (Some e)
    let ?d = "d\<lparr>ents := ents_del n (ents d)\<rparr>"
    have rm: "Remove d n = Inr ?d"
      using Some Cons.prems by (cases e) (auto simp: Remove_def)
    have "ents (removeFiles ?d ns) = filter (\<lambda>p. fst p \<notin> set ns) (ents ?d) \<and>
      list_fault (removeFiles ?d ns) = list_fault ?d"
      using Cons.prems by (intro Cons.IH) (auto simp: look_def)
    with rm show ?thesis
      by (simp add: ents_del_def conj_commute)
  qed
qed

lemma json_names_filter:
  "json_names (filter (\<lambda>p. P (fst p)) es) = filter P (json_names es)"
  by (induction es) (auto simp: json_names_def)

lemma DeleteWallet_accountDir:
  "DeleteWallet s wid = (Inr (), s') \<Longrightarrow> accountDir s' = removeAccounts (accountDir s) wid"
  by (auto simp: DeleteWallet_def Let_def split: if_splits sum.splits prod.splits)

lemma removeAccounts_ents:
  assumes "dir_ok d" and "list_fault d = None" and "\<And>n. remove_fault d n = None"
  shows "list_fault (removeAccounts d wid) = None \<and>
    ents (removeAccounts d wid) =
      filter (\<lambda>p. \<not> (\<not> IsDir p \<and> containsPrefix (fst p) (wid @ ''_''))) (ents d)"
proof -
  let ?ns = "map fst (filter (\<lambda>p. \<not> IsDir p \<and> containsPrefix (fst p) (wid @ ''_'')) (ents d))"
  have nosub: "look d n \<noteq> Some Subdir" if "n \<in> set ?ns" for n
    using that by (auto simp: IsDir_def look_listing [OF assms(1)])
      (metis look_listing [OF assms(1)] option.inject)
  have "p \<in> set (ents d) \<Longrightarrow>
      fst p \<notin> set ?ns \<longleftrightarrow> \<not> (\<not> IsDir p \<and> containsPrefix (fst p) (wid @ ''_''))" for p
    by (cases p) (auto simp: IsDir_def image_iff, metis look_listing [OF assms(1)] option.inject)
  then have "filter (\<lambda>p. fst p \<notin> set ?ns) (ents d) =
      filter (\<lambda>p. \<not> (\<not> IsDir p \<and> containsPrefix (fst p) (wid @ ''_''))) (ents d)"
    by (rule filter_cong [OF refl])
  moreover have "removeAccounts d wid = removeFiles d ?ns"
    using assms(2) by (simp add: removeAccounts_def ReadDir_def)
  ultimately show ?thesis
    using ents_removeFiles [of d ?ns, OF assms(3) nosub] assms(2) by simp
qed

lemma containsPrefix_two:
  assumes "CHR ''_'' \<notin> set v" and "CHR ''_'' \<notin> set w"
    and "containsPrefix n (v @ ''_'')" and "containsPrefix n (w @ ''_'')"
  shows "v = w"
  using assms split_first [OF assms(1,2)] by (auto simp: containsPrefix_HasPrefix HasPrefix_iff)

lemma map_filter_decoded_cong:
  "(\<And>n. n \<in> set ns \<Longrightarrow> decoded d' n = decoded d n) \<Longrightarrow>
   List.map_filter (decoded d') ns = List.map_filter (decoded d) ns"
  by (induction ns) (auto simp: List.map_filter_simps split: option.split)

text \<open>
  C16: Deleting a wallet removes the wallet and every one of its accounts, and leaves the
  accounts of every other wallet in place, as long as the account files can be removed.
\<close>

theorem DeleteWallet_accounts:
  assumes del: "DeleteWallet s wid = (Inr (), s')" and ok: "dir_ok (accountDir s)"
    and nf: "list_fault (accountDir s) = None" "\<forall>n. remove_fault (accountDir s) n = None"
    and us: "CHR ''_'' \<notin> set wid"
  shows "GetAccountsForWallet s' wid = Inr [] \<and>
    (\<forall>v. v \<noteq> wid \<and> CHR ''_'' \<notin> set v \<longrightarrow> GetAccountsForWallet s' v = GetAccountsForWallet s v)"
proof -
  let ?d = "accountDir s" and ?d' = "accountDir s'"
  have d': "list_fault ?d' = None"
    "ents ?d' = filter (\<lambda>p. \<not> (\<not> IsDir p \<and> containsPrefix (fst p) (wid @ ''_''))) (ents ?d)"
    using removeAccounts_ents [OF ok nf(1)] nf(2) DeleteWallet_accountDir [OF del] by simp_all
  have names: "json_names (ents ?d') =
      filter (\<lambda>n. \<not> containsPrefix n (wid @ ''_'')) (json_names (ents ?d))"
    unfolding d'(2) json_names_def by (simp add: filter_map comp_def) (metis (lifting))
  have same: "GetAccountsForWallet s' v = GetAccountsForWallet s v"
    if v: "v \<noteq> wid" "CHR ''_'' \<notin> set v" for v
  proof -
    have "filter (\<lambda>n. containsPrefix n (v @ ''_'')) (json_names (ents ?d')) =
        filter (\<lambda>n. containsPrefix n (v @ ''_'')) (json_names (ents ?d))"
      unfolding names filter_filter
      using containsPrefix_two [OF v(2) us] v(1) by (intro filter_cong) auto
    moreover have "look ?d' n = look ?d n" if "containsPrefix n (v @ ''_'')" for n
    proof -
      have "map_of (filter (\<lambda>p. \<not> (\<not> IsDir p \<and> containsPrefix (fst p) (wid @ ''_''))) es) n =
          map_of es n" for es :: "Account entries"
        using that containsPrefix_two [OF v(2) us that] v(1)
        by (induction es) auto
      then show ?thesis by (simp add: look_def d'(2))
    qed
    then have "List.map_filter (decoded ?d')
          (filter (\<lambda>n. containsPrefix n (v @ ''_'')) (json_names (ents ?d))) =
        List.map_filter (decoded ?d)
          (filter (\<lambda>n. containsPrefix n (v @ ''_'')) (json_names (ents ?d)))"
      by (intro map_filter_decoded_cong) (simp add: decoded_def ReadFile_def split: option.split dirent.split)
    ultimately show ?thesis using d'(1) nf(1) by (simp add: GetAccountsForWallet_def ReadDir_def)
  qed
  have "filter (\<lambda>n. containsPrefix n (wid @ ''_'')) (json_names (ents ?d')) = []"
    unfolding names by (simp add: filter_empty_conv)
  with d'(1) same show ?thesis
    by (simp add: GetAccountsForWallet_def ReadDir_def List.map_filter_simps)
qed

definition demo_account :: "string \<Rightarrow> u32 \<Rightarrow> Account" where
  "demo_account w i = \<lparr>acWalletID = w, acChain = ''ethereum'', acAddress = ''0xa'', acPubKey = [1],
     acSignerType = ''ecdsa'', acIndex = i\<rparr>"

definition demo_wallets :: Store where
  "demo_wallets = fold run_wallet [WCreate ''u1'' 5 ''A'', WSaveAccount (demo_account ''u1'' 1),
     WSaveAccount (demo_account ''u2'' 0)] no_wallets"

theorem DeleteWallet_accounts_witness:
  "\<exists>s'. DeleteWallet demo_wallets ''u1'' = (Inr (), s') \<and>
     GetAccountsForWallet s' ''u1'' = Inr [] \<and>
     GetAccountsForWallet s' ''u2'' = Inr [demo_account ''u2'' 0]"
proof -
  have "is_ok (fst (DeleteWallet demo_wallets ''u1''))" by code_simp
  then obtain s' where del: "DeleteWallet demo_wallets ''u1'' = (Inr (), s')"
    by (metis is_ok_iff old.unit.exhaust prod.collapse)
  have d: "accountDir demo_wallets = (empty_dir ''w/accounts'')\<lparr>ents :=
      [(''u1_ethereum_1.json'', File (Json (demo_account ''u1'' 1))),
       (''u2_ethereum_0.json'', File (Json (demo_account ''u2'' 0)))]\<rparr>"
    by (simp add: demo_wallets_def no_wallets_def SaveAccount_def CreateWallet_def WriteFile_def
        empty_dir_def look_def Let_def updateIndex_def indexIDs_def ReadFile_def writeIndex_def
        demo_account_def accountName_def show_nat.simps walletName_def indexName_def)
  have "GetAccountsForWallet demo_wallets ''u2'' = Inr [demo_account ''u2'' 0]" by code_simp
  with DeleteWallet_accounts [OF del] del d show ?thesis
    by (simp add: dir_ok_def ents_ok_def empty_dir_def)
qed

definition accounts_ok :: "Account dir \<Rightarrow> bool" where
  "accounts_ok d \<longleftrightarrow> dir_ok d \<and> (\<forall>n a. decoded d n = Some a \<longrightarrow>
     n = accountName (acWalletID a) (acChain a) (acIndex a) \<and> CHR ''_'' \<notin> set (acWalletID a))"

lemma accounts_ok_Save [wf_intros]:
  "SaveAccount s a = Inr s' \<Longrightarrow> accounts_ok (accountDir s) \<Longrightarrow> CHR ''_'' \<notin> set (acWalletID a) \<Longrightarrow>
   accounts_ok (accountDir s')"
  by (auto simp: SaveAccount_def accounts_ok_def decoded_WriteFile split: sum.splits if_splits
      intro: wf_intros)

lemma accounts_listed:
  assumes ok: "accounts_ok (accountDir s)" and w: "CHR ''_'' \<notin> set w"
    and l: "GetAccountsForWallet s w = Inr accs"
  shows "a \<in> set accs \<longleftrightarrow>
    acWalletID a = w \<and> decoded (accountDir s) (accountName w (acChain a) (acIndex a)) = Some a"
proof -
  let ?d = "accountDir s"
  have "a \<in> set accs \<longleftrightarrow>
      (\<exists>n. n \<in> set (json_names (ents ?d)) \<and> containsPrefix n (w @ ''_'') \<and> decoded ?d n = Some a)"
    using l by (auto simp: GetAccountsForWallet_def split: sum.splits dest!: ReadDir_Inr)
  also have "\<dots> \<longleftrightarrow> (\<exists>n. containsPrefix n (w @ ''_'') \<and> decoded ?d n = Some a)"
    using ok by (auto simp: accounts_ok_def set_json_names decoded_iff look_listing) fastforce
  also have "\<dots> \<longleftrightarrow> acWalletID a = w \<and>
      decoded ?d (accountName w (acChain a) (acIndex a)) = Some a"
    using ok accountName_prefix_iff [OF _ w] accountName_prefix unfolding accounts_ok_def by metis
  finally show ?thesis .
qed

text \<open>
  An account saved at index 0 is the one \<^verbatim>\<open>GetAccount\<close> returns for its wallet and chain,
  whatever other accounts the wallet has.
\<close>

theorem SaveAccount_GetAccount:
  assumes sv: "SaveAccount s a = Inr s'" and ok: "accounts_ok (accountDir s)"
    and w: "CHR ''_'' \<notin> set (acWalletID a)" and i: "acIndex a = 0"
    and lf: "list_fault (accountDir s) = None"
  shows "GetAccount s' (acWalletID a) (acChain a) = Inr a"
proof -
  let ?P = "\<lambda>b. acChain b = acChain a \<and> acIndex b = 0"
  have ok': "accounts_ok (accountDir s')" by (rule accounts_ok_Save [OF sv ok w])
  have dec: "decoded (accountDir s') (accountName (acWalletID a) (acChain a) 0) = Some a"
    and "list_fault (accountDir s') = None"
    using sv i lf by (auto simp: SaveAccount_def decoded_WriteFile frame_simps split: sum.splits)
  then obtain accs where l: "GetAccountsForWallet s' (acWalletID a) = Inr accs"
    by (simp add: GetAccountsForWallet_def ReadDir_def)
  note listed = accounts_listed [OF ok' w l]
  have "a \<in> set accs" using listed [of a] dec i by simp
  then have "find ?P accs \<noteq> None" using i unfolding find_None_iff by blast
  then obtain b where f: "find ?P accs = Some b" by blast
  then have "b \<in> set accs" and P: "?P b" by (auto simp: find_Some_iff)
  then have "decoded (accountDir s') (accountName (acWalletID a) (acChain b) (acIndex b)) = Some b"
    using listed by blast
  then have "b = a" using dec P by (metis option.inject)
  with f l show ?thesis by (simp add: GetAccount_def)
qed

theorem SaveAccount_GetAccount_witness:
  "\<exists>s'. SaveAccount no_wallets (demo_account ''u1'' 0) = Inr s' \<and>
     GetAccount s' ''u1'' ''ethereum'' = Inr (demo_account ''u1'' 0)"
proof -
  have "is_ok (SaveAccount no_wallets (demo_account ''u1'' 0))" by code_simp
  then obtain s' where sv: "SaveAccount no_wallets (demo_account ''u1'' 0) = Inr s'"
    by (auto simp: is_ok_iff)
  with SaveAccount_GetAccount [OF sv] show ?thesis
    by (simp add: demo_account_def no_wallets_def empty_dir_def accounts_ok_def dir_ok_def ents_ok_def
        decoded_iff look_def)
qed

end
