(* ===== verification/Crypto.thy ===== *)
theory Crypto
  imports Go_Prelude
begin

text \<open>
  The cryptographic primitives the program calls, as a record of functions that every definition
  using them takes as its argument: \<^verbatim>\<open>argon2.IDKey\<close>, \<^verbatim>\<open>sha256.Sum256\<close>, and sealing and opening
  with AES-GCM. \<open>crypto_ok\<close> states what their documentation promises: a derived key has the
  requested length, a hash has 32 bytes, and opening a sealed message under the same key and nonce
  returns it. The wrong-key behaviour is not assumed.

  \<^verbatim>\<open>aes.NewCipher\<close> accepts keys of 16, 24 and 32 bytes, and \<^verbatim>\<open>cipher.NewGCM\<close> uses a nonce of 12
  bytes; both are part of the model.
\<close>

record crypto =
  IDKey :: "byte list \<Rightarrow> byte list \<Rightarrow> u32 \<Rightarrow> u32 \<Rightarrow> byte \<Rightarrow> u32 \<Rightarrow> byte list"
  Sum256 :: "byte list \<Rightarrow> byte list"
  Seal :: "byte list \<Rightarrow> byte list \<Rightarrow> byte list \<Rightarrow> byte list"
  Open :: "byte list \<Rightarrow> byte list \<Rightarrow> byte list \<Rightarrow> byte list res"

definition crypto_ok :: "crypto \<Rightarrow> bool" where
  "crypto_ok C \<longleftrightarrow>
     (\<forall>p s t m l k. length (IDKey C p s t m l k) = unat k) \<and>
     (\<forall>p. length (Sum256 C p) = 32) \<and>
     (\<forall>k n p. length k = 32 \<longrightarrow> length n = 12 \<longrightarrow> Open C k n (Seal C k n p) = Inr p)"

definition NonceSize :: nat where
  "NonceSize = 12"

definition NewCipher :: "byte list \<Rightarrow> byte list res" where
  "NewCipher key =
     (if length key = 16 \<or> length key = 24 \<or> length key = 32 then Inr key
      else Inl (''crypto/aes: invalid key size '' @ show_nat (length key)))"

lemma NewCipher_32 [simp]: "length key = 32 \<Longrightarrow> NewCipher key = Inr key"
  by (simp add: NewCipher_def)

lemma IDKey_length: "crypto_ok C \<Longrightarrow> length (IDKey C p s t m l 32) = 32"
  by (simp add: crypto_ok_def)

lemma Sum256_length: "crypto_ok C \<Longrightarrow> length (Sum256 C p) = 32"
  by (simp add: crypto_ok_def)

lemma Open_Seal:
  "crypto_ok C \<Longrightarrow> length k = 32 \<Longrightarrow> length n = NonceSize \<Longrightarrow> Open C k n (Seal C k n p) = Inr p"
  by (simp add: crypto_ok_def NonceSize_def)

text \<open>
  A concrete instance for the witnesses: the password padded to the key length, and a seal that
  prepends the key, so that opening under another key fails.
\<close>

definition pad :: "nat \<Rightarrow> byte list \<Rightarrow> byte list" where
  "pad n bs = take n (bs @ replicate n 0)"

definition toy :: crypto where
  "toy = \<lparr>IDKey = (\<lambda>p s t m l k. pad (unat k) p), Sum256 = pad 32, Seal = (\<lambda>k n p. k @ p),
     Open = (\<lambda>k n c. if take (length k) c = k then Inr (drop (length k) c)
                     else Inl ''cipher: message authentication failed'')\<rparr>"

lemma length_pad [simp]: "length (pad n bs) = n"
  by (simp add: pad_def)

lemma toy_ok: "crypto_ok toy"
  by (simp add: crypto_ok_def toy_def)

end
