(* ===== verification/Key_Store.thy ===== *)
theory Key_Store
  imports Wallet_Store Crypto
begin

text \<open>
  Package \<^verbatim>\<open>pkg/wallet\<close>, file \<^verbatim>\<open>keystore.go\<close>: encrypted private keys on disk, in the current Argon2id
  format and in the legacy SHA-256 format, with the lazy migration of \<^verbatim>\<open>LoadKey\<close>.

  The files of both formats decode to the record \<open>StoredKeyV2\<close>; a legacy file has the zero values
  in the fields it lacks. Salt and nonce are the results of reading \<^verbatim>\<open>rand.Reader\<close>. The goroutine
  that \<^verbatim>\<open>LoadKey\<close> starts is returned as a pending migration, which \<open>runMigration\<close> performs at any
  later time.
\<close>

definition KeyVersionV1 :: int where "KeyVersionV1 = 1"
definition KeyVersionV2 :: int where "KeyVersionV2 = 2"
definition Argon2Time :: u32 where "Argon2Time = 3"
definition Argon2MemoryKB :: u32 where "Argon2MemoryKB = 65536"
definition Argon2Parallelism :: byte where "Argon2Parallelism = 4"
definition Argon2KeyLength :: u32 where "Argon2KeyLength = 32"
definition Argon2SaltLength :: nat where "Argon2SaltLength = 16"

record StoredKeyV2 =
  kVersion :: int
  kKDF :: string
  kWalletID :: string
  kChain :: string
  kIndex :: u32
  kAddress :: string
  kTimeCost :: u32
  kMemoryCost :: u32
  kParallelism :: byte
  kSalt :: string
  kKeyHex :: string

type_synonym KeyStore = "StoredKeyV2 dir"

definition NewKeyStore :: "err option \<Rightarrow> KeyStore \<Rightarrow> KeyStore res" where
  "NewKeyStore mkdir_fault d =
     (case mkdir_fault of Some e \<Rightarrow> Inl (''failed to create key dir: '' @ e) | None \<Rightarrow> Inr d)"

definition keyPath :: "string \<Rightarrow> string \<Rightarrow> u32 \<Rightarrow> string" where
  "keyPath walletID chain index =
     walletID @ ''_'' @ chain @ ''_'' @ show_nat (unat index) @ ''.json''"

section \<open>Encryption\<close>

text \<open>\<open>nonce\<close> is what \<^verbatim>\<open>io.ReadFull(rand.Reader, nonce)\<close> returns.\<close>

definition encryptWithKey :: "crypto \<Rightarrow> byte list res \<Rightarrow> byte list \<Rightarrow> byte list \<Rightarrow> byte list res" where
  "encryptWithKey C nonce key plaintext =
     (case NewCipher key of
        Inl e \<Rightarrow> Inl e
      | Inr k \<Rightarrow>
          (case nonce of
             Inl e \<Rightarrow> Inl e
           | Inr n \<Rightarrow> Inr (n @ Seal C k n plaintext)))"

definition decryptWithKey :: "crypto \<Rightarrow> byte list \<Rightarrow> byte list \<Rightarrow> byte list res" where
  "decryptWithKey C key ciphertext =
     (case NewCipher key of
        Inl e \<Rightarrow> Inl e
      | Inr k \<Rightarrow>
          if length ciphertext < NonceSize then Inl ''ciphertext too short''
          else Open C k (take NonceSize ciphertext) (drop NonceSize ciphertext))"

definition decryptKeyV2 :: "crypto \<Rightarrow> StoredKeyV2 \<Rightarrow> string \<Rightarrow> string res" where
  "decryptKeyV2 C stored password =
     (case hex_decode (kSalt stored) of
        Inl e \<Rightarrow> Inl (''invalid salt: '' @ e)
      | Inr salt \<Rightarrow>
          (case hex_decode (kKeyHex stored) of
             Inl e \<Rightarrow> Inl (''invalid ciphertext: '' @ e)
           | Inr ciphertext \<Rightarrow>
               let derivedKey = IDKey C (bytes_of password) salt (kTimeCost stored)
                     (kMemoryCost stored) (kParallelism stored) Argon2KeyLength
               in case decryptWithKey C derivedKey ciphertext of
                    Inl e \<Rightarrow> Inl (''decryption failed: '' @ e)
                  | Inr plaintext \<Rightarrow> Inr (string_of plaintext)))"

definition deriveKeySHA256 :: "crypto \<Rightarrow> string \<Rightarrow> byte list" where
  "deriveKeySHA256 C password = Sum256 C (bytes_of password)"

definition decryptKeyV1 :: "crypto \<Rightarrow> string \<Rightarrow> string \<Rightarrow> string res" where
  "decryptKeyV1 C encryptedHex password =
     (case hex_decode encryptedHex of
        Inl e \<Rightarrow> Inl (''invalid hex: '' @ e)
      | Inr ciphertext \<Rightarrow>
          (case decryptWithKey C (deriveKeySHA256 C password) ciphertext of
             Inl e \<Rightarrow> Inl (''decryption failed: '' @ e)
           | Inr plaintext \<Rightarrow> Inr (string_of plaintext)))"

section \<open>Operations\<close>

record KeyArgs =
  kaWalletID :: string
  kaChain :: string
  kaIndex :: u32
  kaAddress :: string
  kaKeyHex :: string
  kaPassword :: string

definition SaveKeyV2 ::
  "crypto \<Rightarrow> byte list res \<Rightarrow> byte list res \<Rightarrow> KeyStore \<Rightarrow> KeyArgs \<Rightarrow> KeyStore res" where
  "SaveKeyV2 C salt0 nonce ks a =
     (case salt0 of
        Inl e \<Rightarrow> Inl (''failed to generate salt: '' @ e)
      | Inr salt \<Rightarrow>
          let derivedKey = IDKey C (bytes_of (kaPassword a)) salt Argon2Time Argon2MemoryKB
                Argon2Parallelism Argon2KeyLength
          in case encryptWithKey C nonce derivedKey (bytes_of (kaKeyHex a)) of
               Inl e \<Rightarrow> Inl (''failed to encrypt key: '' @ e)
             | Inr encrypted \<Rightarrow>
                 let stored = \<lparr>kVersion = KeyVersionV2, kKDF = ''argon2id'',
                       kWalletID = kaWalletID a, kChain = kaChain a, kIndex = kaIndex a,
                       kAddress = kaAddress a, kTimeCost = Argon2Time,
                       kMemoryCost = Argon2MemoryKB, kParallelism = Argon2Parallelism,
                       kSalt = hex_encode salt, kKeyHex = hex_encode encrypted\<rparr>
                 in case WriteFile ks (keyPath (kaWalletID a) (kaChain a) (kaIndex a)) stored of
                      Inl e \<Rightarrow> Inl (''failed to write key: '' @ e)
                    | Inr ks' \<Rightarrow> Inr ks')"

definition SaveKey ::
  "crypto \<Rightarrow> byte list res \<Rightarrow> byte list res \<Rightarrow> KeyStore \<Rightarrow> KeyArgs \<Rightarrow> KeyStore res" where
  "SaveKey C salt nonce ks a = SaveKeyV2 C salt nonce ks a"

text \<open>The loaded address and key, and the arguments of the migration goroutine if one is started.\<close>

definition LoadKey ::
  "crypto \<Rightarrow> KeyStore \<Rightarrow> string \<Rightarrow> string \<Rightarrow> u32 \<Rightarrow> string \<Rightarrow> (string \<times> string \<times> KeyArgs option) res"
where
  "LoadKey C ks walletID chain index password =
     (case ReadFile ks (keyPath walletID chain index) of
        Inl (NotExist _) \<Rightarrow> Inl ''key not found''
      | Inl (OsErr e) \<Rightarrow> Inl (''failed to read key: '' @ e)
      | Inr (NotJson e) \<Rightarrow> Inl (''failed to parse key metadata: '' @ e)
      | Inr (Json k) \<Rightarrow>
          if kVersion k = KeyVersionV2 \<and> kKDF k = ''argon2id'' then
            (case decryptKeyV2 C k password of
               Inl e \<Rightarrow> Inl (''failed to decrypt key: '' @ e)
             | Inr key \<Rightarrow> Inr (kAddress k, key, None))
          else if kVersion k = KeyVersionV1 \<or> kKDF k = ''sha256'' \<or> kVersion k = 0 \<and> kKDF k = [] then
            (case decryptKeyV1 C (kKeyHex k) password of
               Inl e \<Rightarrow> Inl (''failed to decrypt key: '' @ e)
             | Inr key \<Rightarrow>
                 Inr (kAddress k, key,
                   Some \<lparr>kaWalletID = walletID, kaChain = chain, kaIndex = index,
                     kaAddress = kAddress k, kaKeyHex = key, kaPassword = password\<rparr>))
          else Inl (''unknown key version: '' @ show_int (kVersion k)))"

definition runMigration ::
  "crypto \<Rightarrow> byte list res \<Rightarrow> byte list res \<Rightarrow> KeyStore \<Rightarrow> KeyArgs \<Rightarrow> KeyStore" where
  "runMigration C salt nonce ks a =
     (case SaveKeyV2 C salt nonce ks a of Inl _ \<Rightarrow> ks | Inr ks' \<Rightarrow> ks')"

definition ListKeys :: "KeyStore \<Rightarrow> string \<Rightarrow> StoredKeyV2 list res" where
  "ListKeys ks walletID =
     (case ReadDir ks of
        Inl e \<Rightarrow> Inl (''failed to read key dir: '' @ e)
      | Inr es \<Rightarrow>
          Inr (List.map_filter (decoded ks)
                 (filter (\<lambda>n. containsPrefix n (walletID @ ''_'')) (json_names es))))"

definition DeleteKey :: "KeyStore \<Rightarrow> string \<Rightarrow> string \<Rightarrow> u32 \<Rightarrow> KeyStore res" where
  "DeleteKey ks walletID chain index =
     (case Remove ks (keyPath walletID chain index) of
        Inl (NotExist _) \<Rightarrow> Inl ''key not found''
      | Inl (OsErr e) \<Rightarrow> Inl (''failed to delete key: '' @ e)
      | Inr ks' \<Rightarrow> Inr ks')"

section \<open>Round trips\<close>

lemma keyPath_accountName: "keyPath = accountName"
  by (intro ext) (simp add: keyPath_def accountName_def)

lemma decrypt_encrypt:
  assumes "crypto_ok C" and "length key = 32" and "nonce = Inr n" and "length n = NonceSize"
    and "encryptWithKey C nonce key p = Inr c"
  shows "decryptWithKey C key c = Inr p"
  using assms by (auto simp: encryptWithKey_def decryptWithKey_def Open_Seal)

lemma SaveKeyV2_Inr:
  assumes "SaveKeyV2 C salt nonce ks a = Inr ks'"
  obtains s enc where "salt = Inr s"
    and "encryptWithKey C nonce (IDKey C (bytes_of (kaPassword a)) s Argon2Time Argon2MemoryKB
           Argon2Parallelism Argon2KeyLength) (bytes_of (kaKeyHex a)) = Inr enc"
    and "WriteFile ks (keyPath (kaWalletID a) (kaChain a) (kaIndex a))
           \<lparr>kVersion = KeyVersionV2, kKDF = ''argon2id'',
            kWalletID = kaWalletID a, kChain = kaChain a, kIndex = kaIndex a,
            kAddress = kaAddress a, kTimeCost = Argon2Time,
            kMemoryCost = Argon2MemoryKB, kParallelism = Argon2Parallelism,
            kSalt = hex_encode s, kKeyHex = hex_encode enc\<rparr> = Inr ks'"
  using assms by (auto simp: SaveKeyV2_def Let_def split: sum.splits)

lemma SaveKeyV2_LoadKey:
  assumes ok: "crypto_ok C" and sv: "SaveKeyV2 C salt (Inr n) ks a = Inr ks'"
    and n: "length n = NonceSize"
  shows "LoadKey C ks' (kaWalletID a) (kaChain a) (kaIndex a) (kaPassword a) =
    Inr (kaAddress a, kaKeyHex a, None)"
  using sv
proof (rule SaveKeyV2_Inr)
  fix s enc
  let ?key = "IDKey C (bytes_of (kaPassword a)) s Argon2Time Argon2MemoryKB Argon2Parallelism
     Argon2KeyLength"
  assume enc: "encryptWithKey C (Inr n) ?key (bytes_of (kaKeyHex a)) = Inr enc"
    and wr: "WriteFile ks (keyPath (kaWalletID a) (kaChain a) (kaIndex a))
           \<lparr>kVersion = KeyVersionV2, kKDF = ''argon2id'',
            kWalletID = kaWalletID a, kChain = kaChain a, kIndex = kaIndex a,
            kAddress = kaAddress a, kTimeCost = Argon2Time,
            kMemoryCost = Argon2MemoryKB, kParallelism = Argon2Parallelism,
            kSalt = hex_encode s, kKeyHex = hex_encode enc\<rparr> = Inr ks'"
  have "decryptWithKey C ?key enc = Inr (bytes_of (kaKeyHex a))"
    using enc n by (intro decrypt_encrypt [OF ok _ refl]) (simp_all add: IDKey_length [OF ok] Argon2KeyLength_def)
  with ReadFile_WriteFile [OF wr] show ?thesis by (simp add: LoadKey_def decryptKeyV2_def Let_def)
qed

lemma SaveKeyV2_other:
  assumes sv: "SaveKeyV2 C salt nonce ks a = Inr ks'"
    and d: "CHR ''_'' \<notin> set (kaWalletID a)" "CHR ''_'' \<notin> set w"
    and ne: "(w, c, i) \<noteq> (kaWalletID a, kaChain a, kaIndex a)"
  shows "LoadKey C ks' w c i p = LoadKey C ks w c i p"
proof -
  have "keyPath w c i \<noteq> keyPath (kaWalletID a) (kaChain a) (kaIndex a)"
    using accountName_inject [OF d(2,1)] ne by (simp add: keyPath_accountName)
  with sv show ?thesis
    by (auto elim!: SaveKeyV2_Inr simp: LoadKey_def ReadFile_WriteFile)
qed


definition demo_key :: KeyArgs where
  "demo_key = \<lparr>kaWalletID = ''u1'', kaChain = ''ethereum'', kaIndex = 0, kaAddress = ''0xa'',
     kaKeyHex = ''00ff'', kaPassword = ''pw''\<rparr>"



definition legacy_store :: KeyStore where
  "legacy_store = (empty_dir ''keys'')\<lparr>ents := [(''u1_ethereum_0.json'', File (Json
     \<lparr>kVersion = 0, kKDF = [], kWalletID = ''u1'', kChain = ''ethereum'', kIndex = 0,
      kAddress = ''0xa'', kTimeCost = 0, kMemoryCost = 0, kParallelism = 0, kSalt = [],
      kKeyHex = hex_encode (replicate 12 0 @ pad 32 (bytes_of ''pw'') @ bytes_of ''00ff'')\<rparr>))]\<rparr>"


end
