(* ===== verification/Base64.thy ===== *)
theory Base64
  imports Go_Prelude
begin

text \<open>
  \<^verbatim>\<open>base64.StdEncoding\<close>: encoding with padding, and the decoder with the checks of Go's
  \<^verbatim>\<open>decodeQuantum\<close> (line breaks are skipped, padding only where it belongs, nothing after it) and
  the input position its error reports. The round trip is proved for every byte string.
\<close>

text \<open>The standard alphabet: A-Z, a-z, 0-9, plus and slash.\<close>

definition b64_char :: "nat \<Rightarrow> char" where
  "b64_char n =
     char_of (if n < 26 then 65 + n else if n < 52 then 71 + n else if n < 62 then n - 4
              else if n = 62 then 43 else 47)"

definition b64_val :: "char \<Rightarrow> nat option" where
  "b64_val c =
     (let n = (of_char c :: nat)
      in if 65 \<le> n \<and> n \<le> 90 then Some (n - 65)
         else if 97 \<le> n \<and> n \<le> 122 then Some (n - 71)
         else if 48 \<le> n \<and> n \<le> 57 then Some (n + 4)
         else if n = 43 then Some 62
         else if n = 47 then Some 63
         else None)"

section \<open>Encoding\<close>

fun EncodeToString :: "byte list \<Rightarrow> string" where
  "EncodeToString [] = []"
| "EncodeToString [a] =
     (let v = unat a * 65536
      in [b64_char (v div 262144), b64_char (v div 4096 mod 64), CHR ''='', CHR ''=''])"
| "EncodeToString [a, b] =
     (let v = unat a * 65536 + unat b * 256
      in [b64_char (v div 262144), b64_char (v div 4096 mod 64), b64_char (v div 64 mod 64), CHR ''=''])"
| "EncodeToString (a # b # c # bs) =
     (let v = unat a * 65536 + unat b * 256 + unat c
      in [b64_char (v div 262144), b64_char (v div 4096 mod 64), b64_char (v div 64 mod 64),
          b64_char (v mod 64)] @ EncodeToString bs)"

section \<open>Decoding\<close>

definition is_newline :: "char \<Rightarrow> bool" where
  "is_newline c \<longleftrightarrow> (of_char c :: nat) = 10 \<or> (of_char c :: nat) = 13"

definition corrupt :: "nat \<Rightarrow> err" where
  "corrupt n = ''illegal base64 data at input byte '' @ show_nat n"

text \<open>The bytes of a quantum of two, three or four six-bit groups.\<close>

fun quantum :: "nat list \<Rightarrow> byte list" where
  "quantum [p, q] = [word_of_nat ((p * 262144 + q * 4096) div 65536)]"
| "quantum [p, q, r] =
     (let v = p * 262144 + q * 4096 + r * 64
      in [word_of_nat (v div 65536), word_of_nat (v div 256 mod 256)])"
| "quantum [p, q, r, t] =
     (let v = p * 262144 + q * 4096 + r * 64 + t
      in [word_of_nat (v div 65536), word_of_nat (v div 256 mod 256), word_of_nat (v mod 256)])"
| "quantum _ = []"

text \<open>
  What follows the first padding character at position \<open>si - 1\<close>: a second one when the quantum has
  two groups, then line breaks only.
\<close>

definition skip_newlines :: "nat \<Rightarrow> string \<Rightarrow> nat \<times> string" where
  "skip_newlines si s =
     (let k = length (takeWhile is_newline s) in (si + k, drop k s))"

definition end_after_pad :: "nat \<Rightarrow> string \<Rightarrow> byte list \<Rightarrow> byte list res" where
  "end_after_pad si s out =
     (case skip_newlines si s of (sj, rest) \<Rightarrow> if rest = [] then Inr out else Inl (corrupt sj))"

definition padding :: "nat \<Rightarrow> string \<Rightarrow> nat list \<Rightarrow> byte list res" where
  "padding si s dbuf =
     (if length dbuf < 2 then Inl (corrupt (si - 1))
      else if length dbuf = 2 then
        (case skip_newlines si s of
           (sj, []) \<Rightarrow> Inl (corrupt sj)
         | (sj, c # rest) \<Rightarrow>
             if c \<noteq> CHR ''='' then Inl (corrupt (sj - 1))
             else end_after_pad (Suc sj) rest (quantum dbuf))
      else end_after_pad si s (quantum dbuf))"

text \<open>\<open>si\<close> is the position of the next character, \<open>dbuf\<close> the groups of the current quantum.\<close>

fun decode64 :: "nat \<Rightarrow> nat list \<Rightarrow> string \<Rightarrow> byte list res" where
  "decode64 si dbuf [] =
     (if dbuf = [] then Inr [] else Inl (corrupt (si - length dbuf)))"
| "decode64 si dbuf (c # s) =
     (case b64_val c of
        Some v \<Rightarrow>
          if length dbuf = 3
          then (case decode64 (Suc si) [] s of
                  Inl e \<Rightarrow> Inl e
                | Inr bs \<Rightarrow> Inr (quantum (dbuf @ [v]) @ bs))
          else decode64 (Suc si) (dbuf @ [v]) s
      | None \<Rightarrow>
          if is_newline c then decode64 (Suc si) dbuf s
          else if c \<noteq> CHR ''='' then Inl (corrupt si)
          else padding (Suc si) s dbuf)"

definition DecodeString :: "string \<Rightarrow> byte list res" where
  "DecodeString s = decode64 0 [] s"

section \<open>Round trip\<close>

lemma b64_val_char [simp]: "n < 64 \<Longrightarrow> b64_val (b64_char n) = Some n"
  by (auto simp: b64_char_def b64_val_def of_char_of Let_def)

lemma b64_val_pad [simp]: "b64_val CHR ''='' = None"
  by code_simp

lemma not_newline_pad [simp]: "\<not> is_newline CHR ''=''"
  by code_simp

lemma word_byte [simp]: "word_of_nat (unat (b :: byte)) = b"
  by simp

lemma recombine:
  "z * 64 + p = y \<Longrightarrow> y * 64 + q = x \<Longrightarrow> x * 64 + r = v \<Longrightarrow>
   z * 262144 + p * 4096 + q * 64 + r = (v :: nat)"
  by simp

lemma groups3:
  assumes "a < 256" and "b < 256" and "c < (256 :: nat)"
  defines "v \<equiv> a * 65536 + b * 256 + c"
  shows "v div 262144 * 262144 + v div 4096 mod 64 * 4096 + v div 64 mod 64 * 64 + v mod 64 = v"
    and "v div 262144 < 64" and "v div 65536 = a" and "v div 256 mod 256 = b" and "v mod 256 = c"
proof -
  have "v div 4096 = v div 64 div 64" and "v div 262144 = v div 64 div 64 div 64"
    by (simp_all flip: div_mult2_eq)
  then show "v div 262144 * 262144 + v div 4096 mod 64 * 4096 + v div 64 mod 64 * 64 + v mod 64 = v"
    by (simp only:) (rule recombine; rule div_mult_mod_eq)
  have d: "v div 256 = a * 256 + b"
    using assms by (intro div_nat_eqI) simp_all
  then show "v mod 256 = c" using div_mult_mod_eq [of v 256] by (simp add: v_def)
  show "v div 256 mod 256 = b" using assms(2) by (simp add: d mod_nat_eqI)
  show "v div 262144 < 64" "v div 65536 = a"
    using assms by simp_all
qed

lemma quantum_bytes:
  fixes a b c :: byte
  defines "v \<equiv> unat a * 65536 + unat b * 256 + unat c"
  shows "quantum [v div 262144, v div 4096 mod 64, v div 64 mod 64, v mod 64] = [a, b, c]"
    and "v div 262144 < 64"
  using groups3 [OF unat_byte_less [of a] unat_byte_less [of b] unat_byte_less [of c]]
  by (simp_all add: v_def Let_def)

lemma decode_encode: "decode64 si [] (EncodeToString bs) = Inr bs"
proof (induction bs arbitrary: si rule: EncodeToString.induct)
  case (2 a)
  have "unat a * 65536 div 262144 < 64" using unat_byte_less [of a] by simp
  moreover have "unat a * 65536 div 262144 * 262144 + unat a * 65536 div 4096 mod 64 * 4096 = unat a * 65536"
    using groups3(1) [of "unat a" 0 0] unat_byte_less [of a] by simp
  ultimately show ?case
    by (simp add: Let_def padding_def skip_newlines_def end_after_pad_def)
next
  case (3 a b)
  let ?v = "unat a * 65536 + unat b * 256"
  have "?v div 262144 < 64"
    using unat_byte_less [of a] unat_byte_less [of b] by simp
  moreover have "?v div 262144 * 262144 + ?v div 4096 mod 64 * 4096 + ?v div 64 mod 64 * 64 = ?v"
    using groups3(1) [of "unat a" "unat b" 0] unat_byte_less [of a] unat_byte_less [of b] by simp
  moreover have "?v div 65536 = unat a" "?v div 256 mod 256 = unat b"
    using groups3(3,4) [of "unat a" "unat b" 0] unat_byte_less [of a] unat_byte_less [of b] by simp_all
  ultimately show ?case
    by (simp add: Let_def padding_def skip_newlines_def end_after_pad_def)
next
  case (4 a b c bs)
  show ?case
    using quantum_bytes [of a b c] 4 [OF refl]
    by (simp add: Let_def del: quantum.simps)
qed simp

lemma DecodeString_EncodeToString [simp]: "DecodeString (EncodeToString bs) = Inr bs"
  by (simp add: DecodeString_def decode_encode)

end
