(* ===== verification/Share_Store.thy ===== *)
theory Share_Store
  imports Filesystem Crypto Base64
begin

text \<open>
  Package \<^verbatim>\<open>pkg/mpc/node\<close>, file \<^verbatim>\<open>share_store.go\<close>: the encrypted key shares of the MPC nodes, one
  directory \<^verbatim>\<open>node_<id>\<close> per node with the file \<^verbatim>\<open>share.json\<close> and its backups. The directory of a node
  that has none yet is the empty directory; \<open>mkdir_faults\<close> says for which nodes \<^verbatim>\<open>os.MkdirAll\<close>
  fails. The random salt and nonce, and the clock, are arguments.
\<close>

definition argon2Time :: u32 where "argon2Time = 3"
definition argon2Memory :: u32 where "argon2Memory = 64 * 1024"
definition argon2Threads :: byte where "argon2Threads = 4"
definition argon2KeyLen :: u32 where "argon2KeyLen = 32"
definition saltLen :: nat where "saltLen = 16"
definition version :: int where "version = 1"

record EncryptedShare =
  esVersion :: int
  esNodeID :: string
  esClusterID :: string
  esShare :: string
  esPublicKey :: string
  esCreatedAt :: int

record ShareStore =
  nodeDirs :: "u32 \<Rightarrow> EncryptedShare dir"
  mkdir_faults :: "u32 \<Rightarrow> err option"

definition NewShareStore :: "(u32 \<Rightarrow> EncryptedShare dir) \<Rightarrow> (u32 \<Rightarrow> err option) \<Rightarrow> ShareStore" where
  "NewShareStore dirs faults = \<lparr>nodeDirs = dirs, mkdir_faults = faults\<rparr>"

definition shareName :: string where
  "shareName = ''share.json''"

text \<open>The file \<^verbatim>\<open>GetSharePath\<close> names: the directory of the node and the name in it.\<close>

definition GetSharePath :: "ShareStore \<Rightarrow> u32 \<Rightarrow> EncryptedShare dir \<times> string" where
  "GetSharePath s nodeID = (nodeDirs s nodeID, shareName)"

definition set_node_dir :: "ShareStore \<Rightarrow> u32 \<Rightarrow> EncryptedShare dir \<Rightarrow> ShareStore" where
  "set_node_dir s nodeID d = s\<lparr>nodeDirs := (nodeDirs s)(nodeID := d)\<rparr>"

section \<open>Encryption\<close>

definition shareKey :: "crypto \<Rightarrow> string \<Rightarrow> byte list \<Rightarrow> byte list" where
  "shareKey C password salt =
     IDKey C (bytes_of password) salt argon2Time argon2Memory argon2Threads argon2KeyLen"

definition encryptShare ::
  "crypto \<Rightarrow> byte list res \<Rightarrow> byte list res \<Rightarrow> byte list \<Rightarrow> string \<Rightarrow> string res" where
  "encryptShare C salt0 nonce0 share password =
     (case salt0 of
        Inl e \<Rightarrow> Inl (''failed to generate salt: '' @ e)
      | Inr salt \<Rightarrow>
          (case NewCipher (shareKey C password salt) of
             Inl e \<Rightarrow> Inl (''failed to create cipher: '' @ e)
           | Inr key \<Rightarrow>
               (case nonce0 of
                  Inl e \<Rightarrow> Inl (''failed to generate nonce: '' @ e)
                | Inr nonce \<Rightarrow>
                    let ciphertext = nonce @ Seal C key nonce share
                    in Inr (EncodeToString (salt @ ciphertext)))))"

definition decryptShare :: "crypto \<Rightarrow> string \<Rightarrow> string \<Rightarrow> byte list res" where
  "decryptShare C encrypted password =
     (case DecodeString encrypted of
        Inl e \<Rightarrow> Inl (''failed to decode encrypted data: '' @ e)
      | Inr data \<Rightarrow>
          if length data < saltLen + 1 then Inl ''encrypted data too short''
          else
            let salt = take saltLen data;
                ciphertext = drop saltLen data
            in case NewCipher (shareKey C password salt) of
                 Inl e \<Rightarrow> Inl (''failed to create cipher: '' @ e)
               | Inr key \<Rightarrow>
                   if length ciphertext < NonceSize then Inl ''ciphertext too short''
                   else (case Open C key (take NonceSize ciphertext) (drop NonceSize ciphertext) of
                           Inl e \<Rightarrow> Inl (''failed to decrypt: '' @ e)
                         | Inr plaintext \<Rightarrow> Inr plaintext))"

section \<open>Operations\<close>

definition SaveShare ::
  "crypto \<Rightarrow> byte list res \<Rightarrow> byte list res \<Rightarrow> int \<Rightarrow> ShareStore \<Rightarrow> u32 \<Rightarrow> string \<Rightarrow> byte list \<Rightarrow> byte list
   \<Rightarrow> string \<Rightarrow> ShareStore res" where
  "SaveShare C salt nonce now s nodeID clusterID share publicKey password =
     (if nodeID = 0 then Inl ''node_id cannot be zero''
      else if password = [] then Inl ''password cannot be empty''
      else
        (case encryptShare C salt nonce share password of
           Inl e \<Rightarrow> Inl (''failed to encrypt share: '' @ e)
         | Inr encrypted \<Rightarrow>
             let shareFile = \<lparr>esVersion = version, esNodeID = ''node'' @ show_nat (unat nodeID),
                   esClusterID = clusterID, esShare = encrypted,
                   esPublicKey = EncodeToString publicKey, esCreatedAt = now\<rparr>
             in case mkdir_faults s nodeID of
                  Some e \<Rightarrow> Inl (''failed to create node directory: '' @ e)
                | None \<Rightarrow>
                    (case WriteFile (nodeDirs s nodeID) shareName shareFile of
                       Inl e \<Rightarrow> Inl (''failed to write share file: '' @ e)
                     | Inr d \<Rightarrow> Inr (set_node_dir s nodeID d))))"

definition LoadShare ::
  "crypto \<Rightarrow> ShareStore \<Rightarrow> u32 \<Rightarrow> string \<Rightarrow> (string \<times> byte list \<times> byte list) res" where
  "LoadShare C s nodeID password =
     (if nodeID = 0 then Inl ''node_id cannot be zero''
      else if password = [] then Inl ''password cannot be empty''
      else
        (case ReadFile (nodeDirs s nodeID) shareName of
           Inl e \<Rightarrow> Inl (''failed to read share file: '' @ os_msg e)
         | Inr (NotJson e) \<Rightarrow> Inl (''failed to parse share file: '' @ e)
         | Inr (Json es) \<Rightarrow>
             if esVersion es \<noteq> version
             then Inl (''unsupported share version: got '' @ show_int (esVersion es) @
                       '', want '' @ show_int version)
             else
               (case decryptShare C (esShare es) password of
                  Inl e \<Rightarrow> Inl (''failed to decrypt share: '' @ e)
                | Inr share \<Rightarrow>
                    (case DecodeString (esPublicKey es) of
                       Inl e \<Rightarrow> Inl (''failed to decode public key: '' @ e)
                     | Inr publicKey \<Rightarrow> Inr (esClusterID es, share, publicKey)))))"

definition DeleteShare :: "ShareStore \<Rightarrow> u32 \<Rightarrow> ShareStore res" where
  "DeleteShare s nodeID =
     (if nodeID = 0 then Inl ''node_id cannot be zero''
      else
        (case Remove (nodeDirs s nodeID) shareName of
           Inl e \<Rightarrow> Inl (''failed to delete share: '' @ os_msg e)
         | Inr d \<Rightarrow> Inr (set_node_dir s nodeID d)))"

definition ShareExists :: "ShareStore \<Rightarrow> u32 \<Rightarrow> bool" where
  "ShareExists s nodeID \<longleftrightarrow> nodeID \<noteq> 0 \<and> StatExists (nodeDirs s nodeID) shareName"

text \<open>\<open>unix\<close> is \<^verbatim>\<open>time.Now().Unix()\<close>.\<close>

definition BackupShare :: "int \<Rightarrow> ShareStore \<Rightarrow> u32 \<Rightarrow> ShareStore res" where
  "BackupShare unix s nodeID =
     (if nodeID = 0 then Inl ''node_id cannot be zero''
      else
        (case ReadFile (nodeDirs s nodeID) shareName of
           Inl e \<Rightarrow> Inl (''failed to read share for backup: '' @ os_msg e)
         | Inr data \<Rightarrow>
             (case WriteRaw (nodeDirs s nodeID) (shareName @ ''.backup.'' @ show_int unix) data of
                Inl e \<Rightarrow> Inl (''failed to write backup: '' @ e)
              | Inr d \<Rightarrow> Inr (set_node_dir s nodeID d))))"

definition GetClusterID :: "ShareStore \<Rightarrow> u32 \<Rightarrow> string \<Rightarrow> string res" where
  "GetClusterID s nodeID password =
     (if nodeID = 0 then Inl ''node_id cannot be zero''
      else
        (case ReadFile (nodeDirs s nodeID) shareName of
           Inl e \<Rightarrow> Inl (''failed to read share file: '' @ os_msg e)
         | Inr (NotJson e) \<Rightarrow> Inl (''failed to parse share file: '' @ e)
         | Inr (Json es) \<Rightarrow> Inr (esClusterID es)))"

section \<open>Facts\<close>

lemma decryptShare_encryptShare:
  assumes ok: "crypto_ok C" and enc: "encryptShare C (Inr salt) (Inr nonce) share password = Inr e"
    and l: "length salt = saltLen" "length nonce = NonceSize"
  shows "decryptShare C e password = Inr share"
proof -
  have k: "length (shareKey C password salt) = 32"
    by (simp add: shareKey_def argon2KeyLen_def IDKey_length [OF ok])
  with enc have "e = EncodeToString (salt @ nonce @ Seal C (shareKey C password salt) nonce share)"
    by (simp add: encryptShare_def)
  with k l show ?thesis
    by (simp add: decryptShare_def Open_Seal [OF ok k l(2)] NonceSize_def)
qed

text \<open>
  A saved share is loaded back, with its cluster and public key, by the same node under the
  same password; the shares of the other nodes are untouched.
\<close>

theorem share_roundtrip:
  assumes "crypto_ok C" and "length salt = saltLen" and "length nonce = NonceSize"
    and "SaveShare C (Inr salt) (Inr nonce) now s node cluster share pk password = Inr s'"
  shows "LoadShare C s' node password = Inr (cluster, share, pk) \<and>
    GetClusterID s' node p = Inr cluster \<and> ShareExists s' node \<and>
    (\<forall>m q. m \<noteq> node \<longrightarrow> LoadShare C s' m q = LoadShare C s m q)"
proof -
  obtain enc d where nz: "node \<noteq> 0" "password \<noteq> []"
    and enc: "encryptShare C (Inr salt) (Inr nonce) share password = Inr enc"
    and wr: "WriteFile (nodeDirs s node) shareName
       \<lparr>esVersion = version, esNodeID = ''node'' @ show_nat (unat node), esClusterID = cluster,
        esShare = enc, esPublicKey = EncodeToString pk, esCreatedAt = now\<rparr> = Inr d"
    and s': "s' = set_node_dir s node d"
    using assms(4) by (auto simp: SaveShare_def Let_def split: if_splits sum.splits option.splits)
  have "decryptShare C enc password = Inr share"
    using decryptShare_encryptShare [OF assms(1) enc assms(2,3)] .
  with nz s' ReadFile_WriteFile [OF wr] look_WriteFile [OF wr] show ?thesis
    by (simp add: LoadShare_def GetClusterID_def ShareExists_def StatExists_def set_node_dir_def)
qed

definition no_shares :: ShareStore where
  "no_shares = NewShareStore (\<lambda>n. empty_dir (''shares/node_'' @ show_nat (unat n))) (\<lambda>_. None)"

theorem share_roundtrip_witness:
  "\<exists>s'. SaveShare toy (Inr (replicate 16 1)) (Inr (replicate 12 2)) 5 no_shares 3 ''c'' [1, 2] [9] ''pw''
       = Inr s' \<and>
     LoadShare toy s' 3 ''pw'' = Inr (''c'', [1, 2], [9])"
proof -
  have "is_ok (SaveShare toy (Inr (replicate 16 1)) (Inr (replicate 12 2)) 5 no_shares 3 ''c'' [1, 2]
      [9] ''pw'')"
    by (simp add: SaveShare_def encryptShare_def shareKey_def toy_def argon2KeyLen_def
        no_shares_def NewShareStore_def empty_dir_def WriteFile_def look_def Let_def
        del: EncodeToString.simps)
  then obtain s' where sv: "SaveShare toy (Inr (replicate 16 1)) (Inr (replicate 12 2)) 5 no_shares 3
      ''c'' [1, 2] [9] ''pw'' = Inr s'" by (auto simp: is_ok_iff)
  with share_roundtrip [OF toy_ok _ _ sv] show ?thesis by (simp add: saltLen_def NonceSize_def)
qed

lemma LoadShare_BackupShare:
  assumes "BackupShare unix s node = Inr s1"
  shows "LoadShare C s1 m p = LoadShare C s m p"
proof -
  let ?b = "shareName @ ''.backup.'' @ show_int unix"
  obtain c d where rd: "ReadFile (nodeDirs s node) shareName = Inr c"
    and wr: "WriteRaw (nodeDirs s node) ?b c = Inr d" and s1: "s1 = set_node_dir s node d"
    using assms by (auto simp: BackupShare_def split: if_splits sum.splits)
  from rd have "look (nodeDirs s node) shareName = Some (File c)"
    by (auto simp: ReadFile_def split: option.splits dirent.splits)
  then have "ReadFile d shareName = Inr c" using look_WriteRaw [OF wr] by (simp add: ReadFile_def)
  with rd s1 show ?thesis by (simp add: LoadShare_def set_node_dir_def)
qed

text \<open>
  A backup leaves the share itself as it was and holds the same bytes under a name of its
  own, so that deleting the share afterwards keeps the backup.
\<close>

theorem backup_survives_delete:
  assumes "BackupShare unix s node = Inr s1" and "DeleteShare s1 node = Inr s2"
  shows "LoadShare C s1 m p = LoadShare C s m p \<and> \<not> ShareExists s2 node \<and>
    look (nodeDirs s2 node) (shareName @ ''.backup.'' @ show_int unix) =
      look (nodeDirs s node) shareName"
proof -
  let ?b = "shareName @ ''.backup.'' @ show_int unix"
  obtain c d where nz: "node \<noteq> 0" and rd: "ReadFile (nodeDirs s node) shareName = Inr c"
    and wr: "WriteRaw (nodeDirs s node) ?b c = Inr d" and s1: "s1 = set_node_dir s node d"
    using assms(1) by (auto simp: BackupShare_def split: if_splits sum.splits)
  obtain d2 where rm: "Remove d shareName = Inr d2" and s2: "s2 = set_node_dir s1 node d2"
    using assms(2) s1 by (auto simp: DeleteShare_def set_node_dir_def split: if_splits sum.splits)
  have orig: "look (nodeDirs s node) shareName = Some (File c)"
    using rd by (auto simp: ReadFile_def split: option.splits dirent.splits)
  then have "look d ?b = Some (File c)"
    using look_WriteRaw [OF wr] by simp
  with orig nz s1 s2 look_Remove [OF rm] LoadShare_BackupShare [OF assms(1)] show ?thesis
    by (simp add: set_node_dir_def ShareExists_def StatExists_def)
qed

definition one_share :: ShareStore where
  "one_share = set_node_dir no_shares 3 ((empty_dir ''shares/node_3'')\<lparr>ents :=
     [(''share.json'', File (Json \<lparr>esVersion = 1, esNodeID = ''node3'', esClusterID = ''c'',
        esShare = [], esPublicKey = [], esCreatedAt = 5\<rparr>))]\<rparr>)"

theorem backup_survives_delete_witness:
  "\<exists>s1 s2. BackupShare 7 one_share 3 = Inr s1 \<and> DeleteShare s1 3 = Inr s2 \<and>
     look (nodeDirs s2 3) ''share.json.backup.7'' = look (nodeDirs one_share 3) ''share.json''"
proof -
  have "case BackupShare 7 one_share 3 of Inl _ \<Rightarrow> False | Inr s1 \<Rightarrow> is_ok (DeleteShare s1 3)"
    by code_simp
  then obtain s1 s2 where s: "BackupShare 7 one_share 3 = Inr s1" "DeleteShare s1 3 = Inr s2"
    by (auto simp: is_ok_iff split: sum.splits)
  with backup_survives_delete [OF s] show ?thesis
    by (simp add: shareName_def show_int_def show_nat.simps)
qed

end
