(* ===== verification/Policy_Engine.thy ===== *)
theory Policy_Engine
  imports Complex_Main Go_Prelude
begin

text \<open>
  Package \<^verbatim>\<open>pkg/policy\<close>: rules with a condition and an action, evaluated in order, the first match
  deciding. A value of type \<^verbatim>\<open>interface{}\<close> is a float64, an int or something else; a float64 is
  not-a-number, an infinity or a finite (rational) number, and compares as IEEE 754 prescribes.
\<close>

datatype f64 = NaN | PosInf | NegInf | Finite rat

fun f64_less :: "f64 \<Rightarrow> f64 \<Rightarrow> bool" where
  "f64_less NaN _ = False"
| "f64_less _ NaN = False"
| "f64_less NegInf y = (y \<noteq> NegInf)"
| "f64_less _ NegInf = False"
| "f64_less PosInf _ = False"
| "f64_less (Finite a) PosInf = True"
| "f64_less (Finite a) (Finite b) = (a < b)"

definition f64_eq :: "f64 \<Rightarrow> f64 \<Rightarrow> bool" where
  "f64_eq x y \<longleftrightarrow> x \<noteq> NaN \<and> x = y"

datatype any = FloatVal f64 | IntVal int | OtherVal

record Condition =
  cType :: string
  cField :: string
  cOperator :: string
  cValue :: any

record Action =
  aType :: string
  aActionValue :: any

record Rule =
  rName :: string
  rCondition :: Condition
  rAction :: Action

record PolicyRequest =
  prClusterID :: string
  prData :: "string \<rightharpoonup> any"

record PolicyDecision =
  pdAllowed :: bool
  pdReason :: string

type_synonym PolicyEngine = "Rule list"

definition NewPolicyEngine :: PolicyEngine where
  "NewPolicyEngine = []"

definition AddRule :: "PolicyEngine \<Rightarrow> Rule \<Rightarrow> PolicyEngine" where
  "AddRule e rule = e @ [rule]"

definition matchesCondition :: "Condition \<Rightarrow> PolicyRequest \<Rightarrow> bool" where
  "matchesCondition cond request =
     (if cField cond = ''amount'' then
        (case prData request ''amount'' of
           Some (FloatVal amount) \<Rightarrow>
             (case cValue cond of
                FloatVal threshold \<Rightarrow>
                  if cOperator cond = ''gt'' then f64_less threshold amount
                  else if cOperator cond = ''lt'' then f64_less amount threshold
                  else if cOperator cond = ''eq'' then f64_eq amount threshold
                  else False
              | _ \<Rightarrow> False)
         | _ \<Rightarrow> False)
      else if cField cond = ''signers'' then
        (case prData request ''signers'' of
           Some (IntVal signers) \<Rightarrow>
             (case cValue cond of IntVal threshold \<Rightarrow> signers \<ge> threshold | _ \<Rightarrow> False)
         | _ \<Rightarrow> False)
      else False)"

fun evaluate_rules :: "Rule list \<Rightarrow> PolicyRequest \<Rightarrow> PolicyDecision" where
  "evaluate_rules [] request = \<lparr>pdAllowed = True, pdReason = ''default''\<rparr>"
| "evaluate_rules (rule # rules) request =
     (if matchesCondition (rCondition rule) request
      then \<lparr>pdAllowed = (aType (rAction rule) = ''allow''), pdReason = rName rule\<rparr>
      else evaluate_rules rules request)"

definition Evaluate :: "PolicyEngine \<Rightarrow> PolicyRequest \<Rightarrow> PolicyDecision res" where
  "Evaluate e request = Inr (evaluate_rules e request)"

record RateLimitConfig =
  MaxRequestsPerMinute :: int
  MaxValuePerHour :: int

definition ValidateRateLimit :: "RateLimitConfig \<Rightarrow> PolicyRequest \<Rightarrow> err option" where
  "ValidateRateLimit cfg request = Some ''rate limit not implemented''"

section \<open>Decisions\<close>

lemma evaluate_rules_append:
  "evaluate_rules (e @ e') request =
    (if \<exists>r \<in> set e. matchesCondition (rCondition r) request
     then evaluate_rules e request else evaluate_rules e' request)"
  by (induction e) auto

text \<open>
  C18: A request is refused exactly when the first rule that matches it is not an allow rule;
  a request no rule matches is allowed. In particular a rule added later never overrides an
  earlier match.
\<close>

theorem first_match_decides:
  "(\<exists>d. Evaluate e request = Inr d \<and> \<not> pdAllowed d) \<longleftrightarrow>
   (\<exists>pre rule post. e = pre @ rule # post \<and> matchesCondition (rCondition rule) request \<and>
      aType (rAction rule) \<noteq> ''allow'' \<and>
      list_all (\<lambda>r. \<not> matchesCondition (rCondition r) request) pre)"
    (is "?refused \<longleftrightarrow> ?deny e")
proof -
  have "\<not> pdAllowed (evaluate_rules e request) \<longleftrightarrow> ?deny e"
  proof (induction e)
    case Nil
    then show ?case by simp
  next
    case (Cons r e)
    show ?case
    proof (cases "matchesCondition (rCondition r) request")
      case True
      have "?deny (r # e) \<longleftrightarrow> aType (rAction r) \<noteq> ''allow''"
      proof
        assume "?deny (r # e)"
        with True show "aType (rAction r) \<noteq> ''allow''" by (auto simp: Cons_eq_append_conv)
      next
        assume "aType (rAction r) \<noteq> ''allow''"
        with True show "?deny (r # e)" by (intro exI [of _ "[]"]) simp
      qed
      with True show ?thesis by simp
    next
      case False
      have "?deny (r # e) \<longleftrightarrow> ?deny e"
      proof
        assume "?deny (r # e)"
        with False show "?deny e" by (auto simp: Cons_eq_append_conv) blast
      next
        assume "?deny e"
        then obtain pre rule post where "e = pre @ rule # post"
          "matchesCondition (rCondition rule) request" "aType (rAction rule) \<noteq> ''allow''"
          "list_all (\<lambda>r. \<not> matchesCondition (rCondition r) request) pre" by blast
        with False show "?deny (r # e)" by (intro exI [of _ "r # pre"]) auto
      qed
      with False Cons show ?thesis by simp
    qed
  qed
  then show ?thesis by (simp add: Evaluate_def)
qed

lemma f64_less_irrefl: "\<not> f64_less x x"
  by (cases x) auto

lemma f64_trichotomy: "x \<noteq> NaN \<Longrightarrow> y \<noteq> NaN \<Longrightarrow> f64_less x y \<or> f64_eq x y \<or> f64_less y x"
  by (cases x; cases y) (auto simp: f64_eq_def)

text \<open>
  For amounts that are numbers, exactly one of the operators gt, eq and lt matches; an
  amount or threshold that is not a number matches none of them, so a limit rule does not catch
  it and the request falls through to the rules after it.
\<close>

theorem amount_operators:
  assumes "prData request ''amount'' = Some (FloatVal x)" and "cField c = ''amount''"
    and "cValue c = FloatVal y"
  shows "length (filter (\<lambda>op. matchesCondition (c\<lparr>cOperator := op\<rparr>) request) [''gt'', ''eq'', ''lt'']) =
    (if x = NaN \<or> y = NaN then 0 else 1)"
proof (cases "x = NaN \<or> y = NaN")
  case True
  then show ?thesis
    using assms by (cases x; cases y) (auto simp: matchesCondition_def f64_eq_def)
next
  case False
  then show ?thesis
    using assms by (cases x; cases y) (auto simp: matchesCondition_def f64_eq_def)
qed

theorem amount_operators_witness:
  "length (filter (\<lambda>op. matchesCondition \<lparr>cType = ''limit'', cField = ''amount'', cOperator = op,
      cValue = FloatVal (Finite 10)\<rparr> \<lparr>prClusterID = ''c'', prData = [''amount'' \<mapsto> FloatVal (Finite 3)]\<rparr>)
      [''gt'', ''eq'', ''lt'']) = 1"
  using amount_operators [of "\<lparr>prClusterID = ''c'', prData = [''amount'' \<mapsto> FloatVal (Finite 3)]\<rparr>"
      "Finite 3" "\<lparr>cType = ''limit'', cField = ''amount'', cOperator = [], cValue = FloatVal (Finite 10)\<rparr>"
      "Finite 10"]
  by simp

end
