(* ===== verification/Config.thy ===== *)
theory Config
  imports Go_Prelude
begin

text \<open>
  Package \<^verbatim>\<open>pkg/config\<close>: the configuration of an MPC node, its defaults and its validation. Reading
  the file and parsing YAML are arguments of \<open>LoadNodeConfig\<close>; the order in which Go iterates over
  the peer map is an argument of \<open>GetAllNodeIDs\<close>.
\<close>

record NodeConfig =
  NodeID :: u32
  ClusterID :: string
  Threshold :: u32
  TotalNodes :: u32
  ListenAddr :: string
  EnclaveAddr :: string
  PeerAddrs :: "u32 \<rightharpoonup> string"
  TLSEnabled :: bool
  MetricsAddr :: string
  ShareFile :: string

definition defaultNodeConfig :: NodeConfig where
  "defaultNodeConfig = \<lparr>NodeID = 1, ClusterID = [], Threshold = 2, TotalNodes = 3,
     ListenAddr = ''localhost:8001'', EnclaveAddr = ''localhost:7002'', PeerAddrs = Map.empty,
     TLSEnabled = False, MetricsAddr = [], ShareFile = []\<rparr>"

definition LoadNodeConfig ::
  "(string \<Rightarrow> 'bytes res) \<Rightarrow> ('bytes \<Rightarrow> NodeConfig res) \<Rightarrow> string \<Rightarrow> NodeConfig res" where
  "LoadNodeConfig readFile unmarshal path =
     (if path = [] then Inr defaultNodeConfig
      else
        (case readFile path of
           Inl e \<Rightarrow> Inl (''failed to read config file: '' @ e)
         | Inr data \<Rightarrow>
             (case unmarshal data of
                Inl e \<Rightarrow> Inl (''failed to parse config file: '' @ e)
              | Inr config \<Rightarrow> Inr config)))"

definition Validate :: "NodeConfig \<Rightarrow> err option" where
  "Validate c =
     (if NodeID c = 0 then Some ''node_id must be non-zero''
      else if Threshold c = 0 then Some ''threshold must be non-zero''
      else if TotalNodes c = 0 then Some ''total_nodes must be non-zero''
      else if Threshold c > TotalNodes c
      then Some (''threshold ('' @ show_nat (unat (Threshold c)) @ '') cannot exceed total_nodes ('' @
                 show_nat (unat (TotalNodes c)) @ '')'')
      else if ListenAddr c = [] then Some ''listen_addr is required''
      else if EnclaveAddr c = [] then Some ''enclave_addr is required''
      else None)"

definition GetPeerAddr :: "NodeConfig \<Rightarrow> u32 \<Rightarrow> string \<times> bool" where
  "GetPeerAddr c nodeID =
     (case PeerAddrs c nodeID of None \<Rightarrow> ([], False) | Some addr \<Rightarrow> (addr, True))"

definition GetAllNodeIDs :: "NodeConfig \<Rightarrow> u32 list \<Rightarrow> u32 list" where
  "GetAllNodeIDs c order = NodeID c # order"

section \<open>Lists of peers\<close>

text \<open>\<^verbatim>\<open>strconv.ParseUint(s, 10, 32)\<close>, without the error text.\<close>

definition ParseUint32 :: "string \<Rightarrow> u32 option" where
  "ParseUint32 s =
     (case ParseUint64 s of Inl _ \<Rightarrow> None | Inr v \<Rightarrow> if unat v < 2 ^ 32 then Some (word_of_nat (unat v)) else None)"

text \<open>
  A list of addresses separated by commas, numbered from 1, as the wallet service and the command-line
  programs read it.
\<close>

fun number_peers :: "nat \<Rightarrow> string list \<Rightarrow> (u32 \<rightharpoonup> string) \<Rightarrow> (u32 \<rightharpoonup> string)" where
  "number_peers i [] m = m"
| "number_peers i (a # as) m = number_peers (Suc i) as (m(word_of_nat (Suc i) \<mapsto> TrimSpace a))"

text \<open>The number of entries of that map (of fewer than 2 to the 32 peers).\<close>

definition peer_count :: "string \<Rightarrow> nat" where
  "peer_count peersStr = (if peersStr = [] then 0 else length (Split peersStr CHR '',''))"

section \<open>Validation\<close>

text \<open>
  A configuration is valid exactly when its node id is nonzero, 1 <= threshold <=
  total nodes as numbers, and both addresses are given; the default configuration is valid, and
  so is every configuration loaded from the empty path.
\<close>

theorem Validate_iff:
  "(Validate c = None \<longleftrightarrow>
     NodeID c \<noteq> 0 \<and> 1 \<le> unat (Threshold c) \<and> unat (Threshold c) \<le> unat (TotalNodes c) \<and>
     ListenAddr c \<noteq> [] \<and> EnclaveAddr c \<noteq> []) \<and>
   map_sum (\<lambda>e. e) Validate (LoadNodeConfig rf um []) = Inr None"
proof
  have "0 < unat w \<longleftrightarrow> w \<noteq> 0" for w :: u32
    by (simp add: unat_gt_0)
  then show "Validate c = None \<longleftrightarrow>
     NodeID c \<noteq> 0 \<and> 1 \<le> unat (Threshold c) \<and> unat (Threshold c) \<le> unat (TotalNodes c) \<and>
     ListenAddr c \<noteq> [] \<and> EnclaveAddr c \<noteq> []"
    by (auto simp: Validate_def word_le_nat_alt Suc_le_eq not_less word_less_nat_alt)
  show "map_sum (\<lambda>e. e) Validate (LoadNodeConfig rf um []) = Inr None"
    by (simp add: LoadNodeConfig_def Validate_def defaultNodeConfig_def)
qed

end
