(* ===== verification/Json.thy ===== *)
theory Json
  imports Go_Prelude
begin

text \<open>
  What the RPC clients use of package \<^verbatim>\<open>encoding/json\<close>: documents, and the decoding of a document
  into Go values by \<^verbatim>\<open>json.Unmarshal\<close>.

  A document is a tree. A number keeps its literal and a string the characters between its
  quotation marks as they were sent, escapes included, so that the text of a raw message that is a
  number or a string is known exactly; \<open>unquote\<close> reads the escapes. The text of a document that is
  not valid JSON is never a tree: the clients' network reports it as such.

  Decoding works into an existing Go value, as in Go: \<^verbatim>\<open>null\<close> leaves a string, a number or a struct as it is, a key is
  matched with a field by its exact name or else without regard to case, later keys overwrite
  earlier ones, and a value of the wrong type is reported as an error while decoding goes on.
\<close>

section \<open>Documents\<close>

datatype json =
    JNull
  | JBool bool
  | JNum string
  | JStr string
  | JArr "json list"
  | JObj "(string \<times> json) list"

text \<open>Escapes of a string literal: the simple ones, and code points, written in UTF-8.\<close>

definition utf8 :: "nat \<Rightarrow> string" where
  "utf8 n =
     map char_of
       (if n < 0x80 then [n]
        else if n < 0x800 then [0xC0 + n div 64, 0x80 + n mod 64]
        else if n < 0x10000 then [0xE0 + n div 4096, 0x80 + n div 64 mod 64, 0x80 + n mod 64]
        else [0xF0 + n div 262144, 0x80 + n div 4096 mod 64, 0x80 + n div 64 mod 64, 0x80 + n mod 64])"

definition hex4 :: "string \<Rightarrow> nat option" where
  "hex4 s =
     (case map hex_val s of
        [Some a, Some b, Some c, Some d] \<Rightarrow> Some (4096 * a + 256 * b + 16 * c + d)
      | _ \<Rightarrow> None)"

definition simple_escape :: "char \<Rightarrow> char" where
  "simple_escape c =
     (if c = CHR ''b'' then CHR 0x08 else if c = CHR ''f'' then CHR 0x0C
      else if c = CHR ''n'' then CHR 0x0A else if c = CHR ''r'' then CHR 0x0D
      else if c = CHR ''t'' then CHR 0x09 else c)"

text \<open>The low half of a surrogate pair, if the text goes on with one.\<close>

definition low_surrogate :: "string \<Rightarrow> nat option" where
  "low_surrogate s =
     (if take 2 s = [CHR 0x5C, CHR ''u'']
      then (case hex4 (take 4 (drop 2 s)) of
              Some l \<Rightarrow> if 0xDC00 \<le> l \<and> l < 0xE000 then Some l else None
            | None \<Rightarrow> None)
      else None)"

function unquote :: "string \<Rightarrow> string" where
  "unquote [] = []"
| "unquote (c # s) =
     (if c \<noteq> CHR 0x5C then c # unquote s
      else (case s of
              [] \<Rightarrow> []
            | e # t \<Rightarrow>
                if e \<noteq> CHR ''u'' then simple_escape e # unquote t
                else (case hex4 (take 4 t) of
                        None \<Rightarrow> []
                      | Some h \<Rightarrow>
                          if 0xD800 \<le> h \<and> h < 0xE000
                          then (case if h < 0xDC00 then low_surrogate (drop 4 t) else None of
                                  Some l \<Rightarrow>
                                    utf8 (0x10000 + (h - 0xD800) * 1024 + (l - 0xDC00)) @ unquote (drop 10 t)
                                | None \<Rightarrow> utf8 0xFFFD @ unquote (drop 4 t))
                          else utf8 h @ unquote (drop 4 t))))"
  by pat_completeness auto

termination unquote
  by (relation "measure length") auto

lemma unquote_plain: "CHR 0x5C \<notin> set s \<Longrightarrow> unquote s = s"
  by (induction s) auto

text \<open>The escapes \<^verbatim>\<open>json.Marshal\<close> writes, for ASCII text; other bytes are sent as they are.\<close>

definition escape_char :: "char \<Rightarrow> string" where
  "escape_char c =
     (if c = CHR 0x22 \<or> c = CHR 0x5C then [CHR 0x5C, c]
      else if c = CHR 0x08 then [CHR 0x5C, CHR ''b''] else if c = CHR 0x0C then [CHR 0x5C, CHR ''f'']
      else if c = CHR 0x0A then [CHR 0x5C, CHR ''n''] else if c = CHR 0x0D then [CHR 0x5C, CHR ''r'']
      else if c = CHR 0x09 then [CHR 0x5C, CHR ''t'']
      else if (of_char c :: nat) < 32 \<or> c = CHR ''<'' \<or> c = CHR ''>'' \<or> c = CHR ''&''
      then [CHR 0x5C, CHR ''u'', CHR ''0'', CHR ''0'', hex_digit (of_char c div 16), hex_digit (of_char c mod 16)]
      else [c])"

definition JString :: "string \<Rightarrow> json" where
  "JString s = JStr (concat (map escape_char s))"

lemma hex4_byte: "n < 256 \<Longrightarrow> hex4 [CHR ''0'', CHR ''0'', hex_digit (n div 16), hex_digit (n mod 16)] = Some n"
proof -
  assume "n < 256"
  then have "n div 16 < 16" by simp
  moreover have "hex_val CHR ''0'' = Some 0" by (simp add: hex_val_def)
  ultimately show ?thesis by (simp add: hex4_def)
qed

lemma unquote_u: "n < 128 \<Longrightarrow> unquote ([CHR 0x5C, CHR ''u'', CHR ''0'', CHR ''0'', hex_digit (n div 16),
    hex_digit (n mod 16)] @ s) = char_of n # unquote s"
  using hex4_byte [of n] by (simp add: utf8_def)

lemma unquote_escape_char: "unquote (escape_char c @ s) = c # unquote s"
proof (cases "escape_char c = [c] \<or> (\<exists>e. escape_char c = [CHR 0x5C, e])")
  case True
  then show ?thesis by (auto simp: escape_char_def simple_escape_def split: if_splits)
next
  case False
  then have "(of_char c :: nat) < 32 \<or> c = CHR ''<'' \<or> c = CHR ''>'' \<or> c = CHR ''&''"
    and u: "escape_char c = [CHR 0x5C, CHR ''u'', CHR ''0'', CHR ''0'', hex_digit (of_char c div 16),
        hex_digit (of_char c mod 16)]"
    by (auto simp: escape_char_def split: if_splits)
  then have "(of_char c :: nat) < 128" by auto
  from unquote_u [OF this, of s] show ?thesis unfolding u by simp
qed

lemma unquote_JString: "unquote (concat (map escape_char s)) = s"
  by (induction s) (simp_all add: unquote_escape_char)

definition quotes :: "string \<Rightarrow> string" where
  "quotes s = CHR 0x22 # s @ [CHR 0x22]"

text \<open>The text of a document, in compact form.\<close>

fun text_of :: "json \<Rightarrow> string" and texts_of :: "json list \<Rightarrow> string" and
    members_of :: "(string \<times> json) list \<Rightarrow> string" where
  "text_of JNull = ''null''"
| "text_of (JBool b) = (if b then ''true'' else ''false'')"
| "text_of (JNum n) = n"
| "text_of (JStr s) = quotes s"
| "text_of (JArr js) = ''['' @ texts_of js @ '']''"
| "text_of (JObj ms) = ''{'' @ members_of ms @ ''}''"
| "texts_of [] = []"
| "texts_of (j # js) = text_of j @ (if js = [] then [] else '','' @ texts_of js)"
| "members_of [] = []"
| "members_of ((k, j) # ms) =
     quotes k @ '':'' @ text_of j @ (if ms = [] then [] else '','' @ members_of ms)"

section \<open>Decoding\<close>

text \<open>
  A decoder takes a document and the current value, and returns the type errors in the order they
  are found, and the new value. \<open>ctx\<close> is the part of the error text that names the place.
\<close>

type_synonym 'a decoder = "json \<Rightarrow> 'a \<Rightarrow> err list \<times> 'a"

fun kind :: "json \<Rightarrow> string" where
  "kind JNull = ''null''"
| "kind (JBool _) = ''bool''"
| "kind (JNum _) = ''number''"
| "kind (JStr _) = ''string''"
| "kind (JArr _) = ''array''"
| "kind (JObj _) = ''object''"

definition type_error :: "string \<Rightarrow> string \<Rightarrow> string \<Rightarrow> err" where
  "type_error what place gotype = ''json: cannot unmarshal '' @ what @ '' into Go '' @ place @ '' of type '' @ gotype"

definition at_value :: string where
  "at_value = ''value''"

definition at_field :: "string \<Rightarrow> string \<Rightarrow> string" where
  "at_field struct path = ''struct field '' @ struct @ ''.'' @ path"

fun dec_string :: "string \<Rightarrow> string decoder" where
  "dec_string place (JStr s) old = ([], unquote s)"
| "dec_string place JNull old = ([], old)"
| "dec_string place j old = ([type_error (kind j) place ''string''], old)"

lemma dec_string_JString [simp]: "dec_string place (JString s) old = ([], s)"
  by (simp add: JString_def unquote_JString)

fun dec_uint64 :: "string \<Rightarrow> u64 decoder" where
  "dec_uint64 place (JNum n) old =
     (case ParseUint64 n of
        Inl _ \<Rightarrow> ([type_error (''number '' @ n) place ''uint64''], old)
      | Inr v \<Rightarrow> ([], v))"
| "dec_uint64 place JNull old = ([], old)"
| "dec_uint64 place j old = ([type_error (kind j) place ''uint64''], old)"

text \<open>\<^verbatim>\<open>strconv.ParseInt(s, 10, 64)\<close> on the literal of a JSON number.\<close>

definition ParseInt64 :: "string \<Rightarrow> int option" where
  "ParseInt64 s =
     (let neg = (s \<noteq> [] \<and> hd s = CHR ''-'');
          d = (if neg then tl s else s);
          v = (if neg then - int (dec_val d) else int (dec_val d))
      in if d \<noteq> [] \<and> list_all is_digit d \<and> int64_range v then Some v else None)"

fun dec_int :: "string \<Rightarrow> int decoder" where
  "dec_int place (JNum n) old =
     (case ParseInt64 n of
        None \<Rightarrow> ([type_error (''number '' @ n) place ''int''], old)
      | Some v \<Rightarrow> ([], v))"
| "dec_int place JNull old = ([], old)"
| "dec_int place j old = ([type_error (kind j) place ''int''], old)"

text \<open>\<^verbatim>\<open>json.RawMessage\<close> takes every document.\<close>

definition dec_raw :: "json option decoder" where
  "dec_raw j old = ([], Some j)"

text \<open>
  A value of type \<^verbatim>\<open>interface{}\<close> takes every document too, but its numbers become \<^verbatim>\<open>float64\<close>: a literal
  that rounds to more than the largest one is an error. \<^verbatim>\<open>null\<close> makes the interface nil.
\<close>

definition decimal_exponent :: "string \<Rightarrow> int" where
  "decimal_exponent s =
     (if s = [] then 0
      else let t = tl s
           in if t \<noteq> [] \<and> hd t = CHR ''-'' then - int (dec_val (tl t))
              else if t \<noteq> [] \<and> hd t = CHR ''+'' then int (dec_val (tl t))
              else int (dec_val t))"

definition float64_overflows :: "string \<Rightarrow> bool" where
  "float64_overflows s =
     (let t = (if s \<noteq> [] \<and> hd s = CHR ''-'' then tl s else s);
          whole = takeWhile is_digit t;
          r = dropWhile is_digit t;
          point = (r \<noteq> [] \<and> hd r = CHR ''.'');
          fraction = (if point then takeWhile is_digit (tl r) else []);
          e = decimal_exponent (if point then dropWhile is_digit (tl r) else r);
          m = dec_val (whole @ fraction);
          x = e - int (length fraction);
          limit = 2 ^ 1024 - 2 ^ 970
      in if 0 \<le> x then limit \<le> m * 10 ^ nat x else limit * 10 ^ nat (- x) \<le> m)"

definition float_error :: "string \<Rightarrow> err" where
  "float_error n = type_error (''number '' @ n) at_value ''float64''"

fun float_errors :: "json \<Rightarrow> err list" and float_errors_elems :: "json list \<Rightarrow> err list" and
    float_errors_members :: "(string \<times> json) list \<Rightarrow> err list" where
  "float_errors (JNum n) = (if float64_overflows n then [float_error n] else [])"
| "float_errors (JArr js) = float_errors_elems js"
| "float_errors (JObj ms) = float_errors_members ms"
| "float_errors _ = []"
| "float_errors_elems [] = []"
| "float_errors_elems (j # js) = float_errors j @ float_errors_elems js"
| "float_errors_members [] = []"
| "float_errors_members ((_, j) # ms) = float_errors j @ float_errors_members ms"

fun dec_any :: "json option decoder" where
  "dec_any JNull old = ([], None)"
| "dec_any (JNum n) old = (if float64_overflows n then ([float_error n], old) else ([], Some (JNum n)))"
| "dec_any j old = (float_errors j, Some j)"

text \<open>
  A slice: element by element, into the elements it has already; \<^verbatim>\<open>null\<close> makes it nil, which has
  length 0.
\<close>

fun dec_elems :: "'a decoder \<Rightarrow> 'a \<Rightarrow> json list \<Rightarrow> 'a list \<Rightarrow> err list \<times> 'a list" where
  "dec_elems d z [] old = ([], [])"
| "dec_elems d z (j # js) old =
     (case d j (case old of [] \<Rightarrow> z | v # _ \<Rightarrow> v) of
        (es, v) \<Rightarrow> (case dec_elems d z js (tl old) of (es', vs) \<Rightarrow> (es @ es', v # vs)))"

fun dec_slice :: "'a decoder \<Rightarrow> 'a \<Rightarrow> string \<Rightarrow> string \<Rightarrow> 'a list decoder" where
  "dec_slice d z place gotype (JArr js) old = dec_elems d z js old"
| "dec_slice d z place gotype JNull old = ([], [])"
| "dec_slice d z place gotype j old = ([type_error (kind j) place gotype], old)"

text \<open>A pointer: \<^verbatim>\<open>null\<close> makes it nil, anything else is decoded into what it points to or a zero value.\<close>

fun dec_ptr :: "'a decoder \<Rightarrow> 'a \<Rightarrow> 'a option decoder" where
  "dec_ptr d z JNull old = ([], None)"
| "dec_ptr d z j old = (case d j (case old of None \<Rightarrow> z | Some v \<Rightarrow> v) of (es, v) \<Rightarrow> (es, Some v))"

definition to_lower :: "char \<Rightarrow> char" where
  "to_lower c = (let n = (of_char c :: nat) in if 65 \<le> n \<and> n \<le> 90 then char_of (n + 32) else c)"

definition find_field :: "string \<Rightarrow> (string \<times> 'r decoder) list \<Rightarrow> 'r decoder option" where
  "find_field key fs =
     (case map_of fs key of
        Some d \<Rightarrow> Some d
      | None \<Rightarrow> map_option snd (find (\<lambda>(n, d). map to_lower n = map to_lower key) fs))"

fun dec_members :: "(string \<times> 'r decoder) list \<Rightarrow> (string \<times> json) list \<Rightarrow> 'r \<Rightarrow> err list \<times> 'r" where
  "dec_members fs [] r = ([], r)"
| "dec_members fs ((k, j) # ms) r =
     (case find_field (unquote k) fs of
        None \<Rightarrow> dec_members fs ms r
      | Some d \<Rightarrow>
          (case d j r of (es, r') \<Rightarrow> (case dec_members fs ms r' of (es', r'') \<Rightarrow> (es @ es', r''))))"

fun dec_struct :: "(string \<times> 'r decoder) list \<Rightarrow> string \<Rightarrow> string \<Rightarrow> 'r decoder" where
  "dec_struct fs place gotype (JObj ms) r = dec_members fs ms r"
| "dec_struct fs place gotype JNull r = ([], r)"
| "dec_struct fs place gotype j r = ([type_error (kind j) place gotype], r)"

text \<open>A field of a struct, by its projection and update.\<close>

definition field :: "'a decoder \<Rightarrow> ('r \<Rightarrow> 'a) \<Rightarrow> ('a \<Rightarrow> 'r \<Rightarrow> 'r) \<Rightarrow> 'r decoder" where
  "field d get put j r = (case d j (get r) of (es, v) \<Rightarrow> (es, put v r))"

text \<open>
  \<^verbatim>\<open>json.Unmarshal\<close> of a raw message: an absent message is the empty text, which is no JSON; otherwise
  the first type error is the result.
\<close>

definition Unmarshal :: "'a decoder \<Rightarrow> 'a \<Rightarrow> json option \<Rightarrow> 'a res" where
  "Unmarshal d z raw =
     (case raw of
        None \<Rightarrow> Inl ''unexpected end of JSON input''
      | Some j \<Rightarrow> (case d j z of (es, v) \<Rightarrow> (case es of [] \<Rightarrow> Inr v | e # _ \<Rightarrow> Inl e)))"

lemma Unmarshal_string:
  "Unmarshal (dec_string place) z (Some (JStr s)) = Inr (unquote s)"
  "Unmarshal (dec_string place) z (Some JNull) = Inr z"
  by (simp_all add: Unmarshal_def)

lemma Unmarshal_string_Inr:
  "Unmarshal (dec_string place) z raw = Inr s \<longleftrightarrow>
   (\<exists>t. raw = Some (JStr t) \<and> s = unquote t) \<or> raw = Some JNull \<and> s = z"
  by (cases raw; cases "the raw") (auto simp: Unmarshal_def)

section \<open>Computations over a network\<close>

text \<open>
  A call of the program over a network in state \<open>w\<close> returns a result or an error, or panics, with
  the network's next state. \<open>attempt\<close> is the Go idiom of a call followed by a test of its error,
  which it wraps and returns; a panic is not caught.
\<close>

type_synonym ('a, 'w) action = "'w \<Rightarrow> 'a res outcome \<times> 'w"

definition attempt ::
  "('a, 'w) action \<Rightarrow> (err \<Rightarrow> err) \<Rightarrow> ('a \<Rightarrow> ('b, 'w) action) \<Rightarrow> ('b, 'w) action" where
  "attempt m wrap k w =
     (case m w of
        (Panic, w') \<Rightarrow> (Panic, w')
      | (Ret (Inl e), w') \<Rightarrow> (Ret (Inl (wrap e)), w')
      | (Ret (Inr v), w') \<Rightarrow> k v w')"

text \<open>A call whose error the caller looks at itself.\<close>

definition observe :: "('a, 'w) action \<Rightarrow> ('a res \<Rightarrow> ('b, 'w) action) \<Rightarrow> ('b, 'w) action" where
  "observe m k w = (case m w of (Panic, w') \<Rightarrow> (Panic, w') | (Ret r, w') \<Rightarrow> k r w')"

definition give :: "'a \<Rightarrow> ('a, 'w) action" where
  "give v w = (Ret (Inr v), w)"

definition fail :: "err \<Rightarrow> ('a, 'w) action" where
  "fail e w = (Ret (Inl e), w)"

definition crash :: "('a, 'w) action" where
  "crash w = (Panic, w)"

definition pure :: "'a res \<Rightarrow> ('a, 'w) action" where
  "pure r w = (Ret r, w)"

lemmas action_defs = attempt_def observe_def give_def fail_def crash_def pure_def

lemma attempt_simps [simp]:
  "m w = (Panic, w') \<Longrightarrow> attempt m wrap k w = (Panic, w')"
  "m w = (Ret (Inl e), w') \<Longrightarrow> attempt m wrap k w = (Ret (Inl (wrap e)), w')"
  "m w = (Ret (Inr v), w') \<Longrightarrow> attempt m wrap k w = k v w'"
  by (simp_all add: attempt_def)

lemma observe_simps [simp]:
  "m w = (Panic, w') \<Longrightarrow> observe m k w = (Panic, w')"
  "m w = (Ret r, w') \<Longrightarrow> observe m k w = k r w'"
  by (simp_all add: observe_def)

lemma action_simps [simp]:
  "give v w = (Ret (Inr v), w)" "fail e w = (Ret (Inl e), w)" "crash w = (Panic, w)"
  "pure r w = (Ret r, w)"
  by (simp_all add: action_defs)

lemma attempt_Inr:
  "attempt m wrap k w = (Ret (Inr v), w'') \<longleftrightarrow>
   (\<exists>u w'. m w = (Ret (Inr u), w') \<and> k u w' = (Ret (Inr v), w''))"
  by (auto simp: attempt_def split: prod.splits outcome.splits sum.splits)

lemma observe_Inr:
  "observe m k w = (Ret (Inr v), w'') \<longleftrightarrow>
   (\<exists>r w'. m w = (Ret r, w') \<and> k r w' = (Ret (Inr v), w''))"
  by (auto simp: observe_def split: prod.splits outcome.splits)

section \<open>JSON-RPC\<close>

text \<open>
  The request and response types of the two RPC clients, which are the same in both packages. What
  the network does with a request to a URL is the argument of the clients: the URL may be invalid,
  the request may fail, reading the body may fail, the body may be no JSON text (each with its
  error), or a document arrives.
\<close>

record RPCRequest =
  rqJSONRPC :: string
  rqMethod :: string
  rqParams :: "json list"
  rqID :: int

record RPCError =
  Code :: int
  ErrMessage :: string

record RPCResponse =
  rsJSONRPC :: string
  rsID :: int
  rsResult :: "json option"
  rsError :: "RPCError option"

datatype rpc_reply = BadURL err | NoReply err | ReadFailed err | BadBody err | Document json

record 'w RPCClient =
  rpcURL :: string
  rpcDo :: "string \<Rightarrow> RPCRequest \<Rightarrow> 'w \<Rightarrow> rpc_reply \<times> 'w"

definition dec_RPCError :: "RPCError decoder" where
  "dec_RPCError = dec_struct
     [(''code'', field (dec_int (at_field ''RPCResponse'' ''error.code'')) Code (\<lambda>v r. r\<lparr>Code := v\<rparr>)),
      (''message'', field (dec_string (at_field ''RPCResponse'' ''error.message'')) ErrMessage
         (\<lambda>v r. r\<lparr>ErrMessage := v\<rparr>))]
     (at_field ''RPCResponse'' ''error'') ''RPCError''"

definition dec_RPCResponse :: "RPCResponse decoder" where
  "dec_RPCResponse = dec_struct
     [(''jsonrpc'', field (dec_string (at_field ''RPCResponse'' ''jsonrpc'')) rsJSONRPC
         (\<lambda>v r. r\<lparr>rsJSONRPC := v\<rparr>)),
      (''id'', field (dec_int (at_field ''RPCResponse'' ''id'')) rsID (\<lambda>v r. r\<lparr>rsID := v\<rparr>)),
      (''result'', field dec_raw rsResult (\<lambda>v r. r\<lparr>rsResult := v\<rparr>)),
      (''error'', field (dec_ptr dec_RPCError \<lparr>Code = 0, ErrMessage = []\<rparr>) rsError
         (\<lambda>v r. r\<lparr>rsError := v\<rparr>))]
     at_value ''RPCResponse''"

definition zero_response :: RPCResponse where
  "zero_response = \<lparr>rsJSONRPC = [], rsID = 0, rsResult = None, rsError = None\<rparr>"

definition rpc_request :: "string \<Rightarrow> json list \<Rightarrow> RPCRequest" where
  "rpc_request meth params = \<lparr>rqJSONRPC = ''2.0'', rqMethod = meth, rqParams = params, rqID = 1\<rparr>"

text \<open>A normal response carries its result as the raw message, \<^verbatim>\<open>null\<close> included.\<close>

definition ok_response :: "json \<Rightarrow> json" where
  "ok_response j = JObj [(''jsonrpc'', JStr ''2.0''), (''id'', JNum ''1''), (''result'', j)]"

lemma unquote_names [simp]:
  "unquote ''jsonrpc'' = ''jsonrpc''" "unquote ''id'' = ''id''" "unquote ''result'' = ''result''"
  "unquote ''2.0'' = ''2.0''"
  by (simp_all add: unquote_plain)

lemma ParseInt64_1 [simp]: "ParseInt64 ''1'' = Some 1"
  by code_simp

lemma Unmarshal_ok_response:
  "Unmarshal dec_RPCResponse zero_response (Some (ok_response j)) =
   Inr \<lparr>rsJSONRPC = ''2.0'', rsID = 1, rsResult = Some j, rsError = None\<rparr>"
  by (simp add: Unmarshal_def ok_response_def dec_RPCResponse_def find_field_def field_def dec_raw_def
      zero_response_def)

end
