(* ===== verification/Json_Text.thy ===== *)
theory Json_Text
  imports Json
begin

text \<open>
  The text side of \<^verbatim>\<open>encoding/json\<close>: the scanner that checks a text and splits it into a document, with
  the messages of its syntax errors and the limit on nesting. The parser descends recursively with a
  fuel that bounds the number of steps; running out of fuel is the empty message, and
  \<open>parse_value_fuel\<close> shows that the length of the text is always enough. The main result is that the
  compact text of a document whose literals are well formed is read back as that document.
\<close>

section \<open>Syntax errors\<close>

definition eof_error :: err where
  "eof_error = ''unexpected end of JSON input''"

definition hex2 :: "nat \<Rightarrow> string" where
  "hex2 n = [hex_digit (n div 16), hex_digit (n mod 16)]"

text \<open>\<^verbatim>\<open>quoteChar\<close>: the character between single quotes, escaped as \<^verbatim>\<open>strconv.Quote\<close> does.\<close>

definition quote_char :: "char \<Rightarrow> string" where
  "quote_char c =
     (let n = (of_char c :: nat); bs = CHR 0x5C
      in if c = CHR 0x27 then [CHR 0x27, bs, CHR 0x27, CHR 0x27]
         else CHR 0x27 #
           (if c = bs then [bs, bs]
            else if n = 7 then [bs, CHR ''a''] else if n = 8 then [bs, CHR ''b'']
            else if n = 9 then [bs, CHR ''t''] else if n = 10 then [bs, CHR ''n'']
            else if n = 11 then [bs, CHR ''v''] else if n = 12 then [bs, CHR ''f'']
            else if n = 13 then [bs, CHR ''r'']
            else if n < 32 \<or> n = 127 then [bs, CHR ''x''] @ hex2 n
            else if n < 127 then [c]
            else if n < 161 \<or> n = 173 then [bs, CHR ''u'', CHR ''0'', CHR ''0''] @ hex2 n
            else utf8 n) @ [CHR 0x27])"

definition invalid_char :: "char \<Rightarrow> string \<Rightarrow> 'a res" where
  "invalid_char c context = Inl (''invalid character '' @ quote_char c @ '' '' @ context)"

text \<open>At the end of the text the scanner looks at one more space.\<close>

fun unexpected :: "string \<Rightarrow> string \<Rightarrow> 'a res" where
  "unexpected [] context = invalid_char CHR '' '' context"
| "unexpected (c # _) context = invalid_char c context"

fun expected :: "string \<Rightarrow> string \<Rightarrow> 'a res" where
  "expected [] context = Inl eof_error"
| "expected (c # _) context = invalid_char c context"

section \<open>Literals\<close>

definition skip_space :: "string \<Rightarrow> string" where
  "skip_space s = dropWhile (\<lambda>c. (of_char c :: nat) \<in> {9, 10, 13, 32}) s"

text \<open>\<open>rest\<close> is what is still to come of the literal \<open>whole\<close>.\<close>

fun scan_literal :: "string \<Rightarrow> string \<Rightarrow> string \<Rightarrow> string res" where
  "scan_literal whole [] s = Inr s"
| "scan_literal whole (e # rest) s =
     (if s \<noteq> [] \<and> hd s = e then scan_literal whole rest (tl s)
      else unexpected s (''in literal '' @ whole @ '' (expecting '' @ [CHR 0x27, e, CHR 0x27] @ '')''))"

definition digits :: "string \<Rightarrow> string" where
  "digits s = takeWhile is_digit s"

definition after_digits :: "string \<Rightarrow> string" where
  "after_digits s = dropWhile is_digit s"

definition starts_digit :: "string \<Rightarrow> bool" where
  "starts_digit s \<longleftrightarrow> s \<noteq> [] \<and> is_digit (hd s)"

definition split_sign :: "char set \<Rightarrow> string \<Rightarrow> string \<times> string" where
  "split_sign signs s = (if s \<noteq> [] \<and> hd s \<in> signs then ([hd s], tl s) else ([], s))"

text \<open>The three parts of a number; each returns the part it has read and the remaining text.\<close>

definition scan_int :: "string \<Rightarrow> (string \<times> string) res" where
  "scan_int s =
     (case split_sign {CHR ''-''} s of
        (sign, t) \<Rightarrow>
          if \<not> starts_digit t then unexpected t ''in numeric literal''
          else if hd t = CHR ''0'' then Inr (sign @ ''0'', tl t)
          else Inr (sign @ digits t, after_digits t))"

definition scan_frac :: "string \<Rightarrow> (string \<times> string) res" where
  "scan_frac s =
     (if s \<noteq> [] \<and> hd s = CHR ''.''
      then (if starts_digit (tl s) then Inr (CHR ''.'' # digits (tl s), after_digits (tl s))
            else unexpected (tl s) ''after decimal point in numeric literal'')
      else Inr ([], s))"

definition scan_exp :: "string \<Rightarrow> (string \<times> string) res" where
  "scan_exp s =
     (if s \<noteq> [] \<and> (hd s = CHR ''e'' \<or> hd s = CHR ''E'')
      then (case split_sign {CHR ''+'', CHR ''-''} (tl s) of
              (sign, t) \<Rightarrow>
                if starts_digit t then Inr (hd s # sign @ digits t, after_digits t)
                else unexpected t ''in exponent of numeric literal'')
      else Inr ([], s))"

definition scan_number :: "string \<Rightarrow> (string \<times> string) res" where
  "scan_number s =
     (case scan_int s of
        Inl e \<Rightarrow> Inl e
      | Inr (i, s1) \<Rightarrow>
          (case scan_frac s1 of
             Inl e \<Rightarrow> Inl e
           | Inr (f, s2) \<Rightarrow>
               (case scan_exp s2 of Inl e \<Rightarrow> Inl e | Inr (x, s3) \<Rightarrow> Inr (i @ f @ x, s3))))"

text \<open>
  The characters of a string up to the closing quotation mark, as they stand. The scanner is in the
  middle of the string, after a backslash, or has hexadecimal digits of a code point still to read;
  a step leads to the next state, or to the end of the string.
\<close>

datatype in_string = Plain | Escape | Digits nat

definition is_hex :: "char \<Rightarrow> bool" where
  "is_hex c \<longleftrightarrow> hex_val c \<noteq> None"

definition is_escape :: "char \<Rightarrow> bool" where
  "is_escape c \<longleftrightarrow> c \<in> {CHR ''b'', CHR ''f'', CHR ''n'', CHR ''r'', CHR ''t'', CHR 0x5C, CHR ''/'', CHR 0x22}"

definition in_escape :: string where
  "in_escape = ''in string escape code''"

definition in_digits :: string where
  "in_digits = ''in '' @ [CHR 0x5C] @ ''u hexadecimal character escape''"

fun string_step :: "in_string \<Rightarrow> char \<Rightarrow> in_string option res" where
  "string_step Plain c =
     (if c = CHR 0x22 then Inr None
      else if c = CHR 0x5C then Inr (Some Escape)
      else if (of_char c :: nat) < 32 then invalid_char c ''in string literal''
      else Inr (Some Plain))"
| "string_step Escape c =
     (if c = CHR ''u'' then Inr (Some (Digits 3))
      else if is_escape c then Inr (Some Plain)
      else invalid_char c in_escape)"
| "string_step (Digits n) c =
     (if is_hex c then Inr (Some (if n = 0 then Plain else Digits (n - 1)))
      else invalid_char c in_digits)"

fun string_end :: "in_string \<Rightarrow> (string \<times> string) res" where
  "string_end Plain = Inl eof_error"
| "string_end Escape = unexpected [] in_escape"
| "string_end (Digits n) = unexpected [] in_digits"

primrec scan_string_from :: "string \<Rightarrow> in_string \<Rightarrow> (string \<times> string) res" where
  "scan_string_from [] m = string_end m"
| "scan_string_from (c # s) m =
     (case string_step m c of
        Inl e \<Rightarrow> Inl e
      | Inr None \<Rightarrow> Inr ([], s)
      | Inr (Some m') \<Rightarrow> (case scan_string_from s m' of Inl e \<Rightarrow> Inl e | Inr (v, r) \<Rightarrow> Inr (c # v, r)))"

definition scan_string :: "string \<Rightarrow> (string \<times> string) res" where
  "scan_string s = scan_string_from s Plain"

section \<open>Documents\<close>

definition maxNestingDepth :: nat where
  "maxNestingDepth = 10000"

definition too_deep :: "char \<Rightarrow> 'a res" where
  "too_deep c = invalid_char c ''exceeded max depth''"

text \<open>A continuation of a scan.\<close>

definition then_scan :: "'a res \<Rightarrow> ('a \<Rightarrow> 'b res) \<Rightarrow> 'b res" where
  "then_scan r k = (case r of Inl e \<Rightarrow> Inl e | Inr v \<Rightarrow> k v)"

lemma then_scan_simps [simp]:
  "then_scan (Inl e) k = Inl e" "then_scan (Inr v) k = k v"
  by (simp_all add: then_scan_def)

lemma then_scan_cong [fundef_cong]:
  "r = r' \<Longrightarrow> (\<And>v. r' = Inr v \<Longrightarrow> k v = k' v) \<Longrightarrow> then_scan r k = then_scan r' k'"
  by (cases r') simp_all

text \<open>A value that is neither array nor object, from its first character.\<close>

definition parse_scalar :: "char \<Rightarrow> string \<Rightarrow> (json \<times> string) res" where
  "parse_scalar c t =
     (if c = CHR 0x22 then then_scan (scan_string t) (\<lambda>(v, r). Inr (JStr v, r))
      else if c = CHR ''-'' \<or> is_digit c then then_scan (scan_number (c # t)) (\<lambda>(v, r). Inr (JNum v, r))
      else if c = CHR ''t'' then then_scan (scan_literal ''true'' ''rue'' t) (\<lambda>r. Inr (JBool True, r))
      else if c = CHR ''f'' then then_scan (scan_literal ''false'' ''alse'' t) (\<lambda>r. Inr (JBool False, r))
      else if c = CHR ''n'' then then_scan (scan_literal ''null'' ''ull'' t) (\<lambda>r. Inr (JNull, r))
      else invalid_char c ''looking for beginning of value'')"

text \<open>After an opening bracket: the end of an empty array or object, or what \<open>inside\<close> reads.\<close>

definition after_bracket ::
  "char \<Rightarrow> char \<Rightarrow> nat \<Rightarrow> string \<Rightarrow> json \<Rightarrow> (json \<times> string) res \<Rightarrow> (json \<times> string) res" where
  "after_bracket opening closing depth t zero inside =
     (if depth \<ge> maxNestingDepth then too_deep opening
      else (case skip_space t of
              [] \<Rightarrow> Inl eof_error
            | d # u \<Rightarrow> if d = closing then Inr (zero, u) else inside))"

text \<open>
  \<open>depth\<close> counts the arrays and objects that are open. \<open>parse_elems\<close> and \<open>parse_members\<close> read the
  elements of a nonempty array or object up to its closing bracket.
\<close>

fun parse_value :: "nat \<Rightarrow> nat \<Rightarrow> string \<Rightarrow> (json \<times> string) res" and
    parse_elems :: "nat \<Rightarrow> nat \<Rightarrow> string \<Rightarrow> (json list \<times> string) res" and
    parse_members :: "nat \<Rightarrow> nat \<Rightarrow> string \<Rightarrow> ((string \<times> json) list \<times> string) res" where
  "parse_value 0 depth s = Inl []"
| "parse_value (Suc n) depth s =
     (case skip_space s of
        [] \<Rightarrow> Inl eof_error
      | c # t \<Rightarrow>
          if c = CHR ''{''
          then after_bracket c CHR ''}'' depth t (JObj [])
                 (then_scan (parse_members n (Suc depth) t) (\<lambda>(ms, r). Inr (JObj ms, r)))
          else if c = CHR ''[''
          then after_bracket c CHR '']'' depth t (JArr [])
                 (then_scan (parse_elems n (Suc depth) t) (\<lambda>(js, r). Inr (JArr js, r)))
          else parse_scalar c t)"
| "parse_elems 0 depth s = Inl []"
| "parse_elems (Suc n) depth s =
     then_scan (parse_value n depth s)
       (\<lambda>(j, r). let r' = skip_space r
          in if r' \<noteq> [] \<and> hd r' = CHR '','' then then_scan (parse_elems n depth (tl r')) (\<lambda>(js, q). Inr (j # js, q))
             else if r' \<noteq> [] \<and> hd r' = CHR '']'' then Inr ([j], tl r')
             else expected r' ''after array element'')"
| "parse_members 0 depth s = Inl []"
| "parse_members (Suc n) depth s =
     (case skip_space s of
        [] \<Rightarrow> Inl eof_error
      | c # t \<Rightarrow>
          if c \<noteq> CHR 0x22 then invalid_char c ''looking for beginning of object key string''
          else then_scan (scan_string t)
            (\<lambda>(k, r). let r1 = skip_space r
               in if r1 = [] \<or> hd r1 \<noteq> CHR '':'' then expected r1 ''after object key''
                  else then_scan (parse_value n depth (tl r1))
                    (\<lambda>(j, q). let q' = skip_space q
                       in if q' \<noteq> [] \<and> hd q' = CHR '',''
                          then then_scan (parse_members n depth (tl q')) (\<lambda>(ms, z). Inr ((k, j) # ms, z))
                          else if q' \<noteq> [] \<and> hd q' = CHR ''}'' then Inr ([(k, j)], tl q')
                          else expected q' ''after object key:value pair'')))"

definition parse_json :: "string \<Rightarrow> json res" where
  "parse_json s =
     then_scan (parse_value (2 * length s + 1) 0 s)
       (\<lambda>(j, r). case skip_space r of [] \<Rightarrow> Inr j | c # _ \<Rightarrow> invalid_char c ''after top-level value'')"

text \<open>\<^verbatim>\<open>json.Unmarshal\<close> of a text: nothing is decoded when the text is not valid.\<close>

definition json_Unmarshal :: "'a decoder \<Rightarrow> 'a \<Rightarrow> byte list \<Rightarrow> 'a res" where
  "json_Unmarshal d z b = then_scan (parse_json (string_of b)) (\<lambda>j. Unmarshal d z (Some j))"

definition json_Marshal :: "json \<Rightarrow> byte list" where
  "json_Marshal j = bytes_of (text_of j)"

section \<open>The fuel is enough\<close>

lemma skip_space_length: "length (skip_space s) \<le> length s"
  unfolding skip_space_def by (rule length_dropWhile_le)

lemma skip_space_Cons: "skip_space s = c # t \<Longrightarrow> length t < length s"
  using skip_space_length [of s] by simp

lemma invalid_char_ne [simp]: "invalid_char c x \<noteq> Inl []" "Inl [] \<noteq> invalid_char c x"
  by (simp_all add: invalid_char_def)

lemma invalid_char_no [simp]: "invalid_char c x \<noteq> Inr v" "unexpected s x \<noteq> Inr v" "expected s x \<noteq> Inr v"
    "too_deep c \<noteq> Inr v"
  by (cases s; simp add: invalid_char_def too_deep_def)+

lemma error_ne [simp]:
  "unexpected s x \<noteq> Inl []" "expected s x \<noteq> Inl []" "eof_error \<noteq> []" "too_deep c \<noteq> Inl []"
  by (cases s; simp add: eof_error_def too_deep_def)+

lemma then_scan_Inr: "then_scan r k = Inr v \<longleftrightarrow> (\<exists>u. r = Inr u \<and> k u = Inr v)"
  by (cases r) auto

lemma then_scan_fuel: "then_scan r k = Inl [] \<longleftrightarrow> r = Inl [] \<or> (\<exists>u. r = Inr u \<and> k u = Inl [])"
  by (cases r) auto

text \<open>What the scanners accept is a prefix of the text.\<close>

lemma string_step_None: "string_step m c = Inr None \<longleftrightarrow> m = Plain \<and> c = CHR 0x22"
  by (cases m) auto

lemma string_step_ne: "string_step m c \<noteq> Inl []"
  by (cases m) auto

lemma scan_string_from_text: "scan_string_from s m = Inr (v, r) \<Longrightarrow> s = v @ CHR 0x22 # r"
proof (induction s arbitrary: m v)
  case Nil
  then show ?case by (cases m) auto
next
  case (Cons c s)
  then show ?case by (auto simp: string_step_None split: sum.splits option.splits)
qed

lemma scan_string_from_ne: "scan_string_from s m \<noteq> Inl []"
proof (induction s arbitrary: m)
  case Nil
  then show ?case by (cases m) auto
next
  case (Cons c s)
  then show ?case using string_step_ne [of m c] by (auto split: sum.splits option.splits)
qed

lemma scan_string_text: "scan_string s = Inr (v, r) \<Longrightarrow> s = v @ CHR 0x22 # r"
  unfolding scan_string_def by (rule scan_string_from_text)

lemma scan_string_ne: "scan_string s \<noteq> Inl []"
  unfolding scan_string_def by (rule scan_string_from_ne)

lemma digits_after [simp]: "digits s @ after_digits s = s"
  by (simp add: digits_def after_digits_def)

lemma split_sign_text: "split_sign S s = (v, t) \<Longrightarrow> s = v @ t"
  by (auto simp: split_sign_def split: if_split_asm)

lemma digits_nonempty: "starts_digit s \<Longrightarrow> digits s \<noteq> []"
  by (cases s) (simp_all add: digits_def starts_digit_def)

lemma scan_int_text: "scan_int s = Inr (v, r) \<Longrightarrow> s = v @ r \<and> v \<noteq> []"
  by (auto simp: scan_int_def starts_digit_def digits_nonempty split: prod.splits if_split_asm
      dest!: split_sign_text) (metis list.collapse)

lemma scan_frac_text: "scan_frac s = Inr (v, r) \<Longrightarrow> s = v @ r"
  by (cases s) (auto simp: scan_frac_def split: if_splits)

lemma scan_exp_text: "scan_exp s = Inr (v, r) \<Longrightarrow> s = v @ r"
  by (cases s) (auto simp: scan_exp_def split: prod.splits if_split_asm dest!: split_sign_text)

lemma scan_number_text: "scan_number s = Inr (v, r) \<Longrightarrow> s = v @ r \<and> v \<noteq> []"
  using scan_int_text [of s] scan_frac_text scan_exp_text
  by (auto simp: scan_number_def split: sum.splits)

lemma scan_parts_ne: "scan_int s \<noteq> Inl []" "scan_frac s \<noteq> Inl []" "scan_exp s \<noteq> Inl []"
  by (simp_all add: scan_int_def scan_frac_def scan_exp_def split: prod.split)

lemma scan_number_ne: "scan_number s \<noteq> Inl []"
  using scan_parts_ne by (auto simp: scan_number_def split: sum.splits)

lemma scan_literal_length: "scan_literal w e s = Inr r \<Longrightarrow> length r \<le> length s"
  by (induction w e s rule: scan_literal.induct) (auto split: if_splits)

lemma scan_literal_ne: "scan_literal w e s \<noteq> Inl []"
  by (induction w e s rule: scan_literal.induct) auto

lemma scan_lengths:
  "scan_string t = Inr (v, r) \<Longrightarrow> length r \<le> length t"
  "scan_number (c # t) = Inr (v, r) \<Longrightarrow> length r \<le> length t"
  using scan_string_text [of t v r] scan_number_text [of "c # t" v r] by (auto simp: Cons_eq_append_conv)

lemma parse_scalar_length: "parse_scalar c t = Inr (j, r) \<Longrightarrow> length r \<le> length t"
  unfolding parse_scalar_def
  by (auto simp: then_scan_Inr split: if_split_asm dest: scan_lengths scan_literal_length)

lemma parse_scalar_ne: "parse_scalar c t \<noteq> Inl []"
  unfolding parse_scalar_def
  using scan_string_ne scan_number_ne scan_literal_ne by (simp add: then_scan_fuel split: prod.splits)

lemma after_bracket_Inr:
  "after_bracket o' c d t z k = Inr (j, r) \<Longrightarrow>
    (\<exists>e. skip_space t = e # r \<and> j = z) \<or> (\<exists>u. skip_space t = u \<and> u \<noteq> []) \<and> k = Inr (j, r)"
  by (auto simp: after_bracket_def split: if_split_asm list.splits)

lemma after_bracket_fuel: "after_bracket o' c d t z k = Inl [] \<Longrightarrow> k = Inl []"
  by (auto simp: after_bracket_def split: if_split_asm list.splits)

lemma skip_tl: "skip_space r \<noteq> [] \<Longrightarrow> Suc (length (tl (skip_space r))) \<le> length r"
  using skip_space_length [of r] by (cases "skip_space r") auto

lemma parse_shorter:
  "parse_value n d s = Inr (j, r) \<Longrightarrow> length r < length s"
  "parse_elems n d s = Inr (js, r) \<Longrightarrow> length r < length s"
  "parse_members n d s = Inr (ms, r) \<Longrightarrow> length r < length s"
proof (induction n arbitrary: d s j r js ms)
  case (Suc n)
  {
    case 1
    show ?case
    proof (cases "skip_space s")
      case (Cons c t)
      have "length r \<le> length t"
        using 1 Suc.IH(2,3) [of _ t, THEN less_imp_le] skip_space_Cons [of t, THEN less_imp_le]
        by (auto simp: Cons then_scan_Inr split: if_split_asm
            dest!: after_bracket_Inr dest: parse_scalar_length)
      with skip_space_Cons [OF Cons] show ?thesis by simp
    qed (use 1 in simp)
  next
    case 2
    then obtain x q where q: "parse_value n d s = Inr (x, q)" "skip_space q \<noteq> []"
      and r: "length r \<le> length (tl (skip_space q))"
      by (fastforce simp: then_scan_Inr Let_def split: if_split_asm dest: Suc.IH(2))
    from Suc.IH(1) [OF q(1)] skip_tl [OF q(2)] r show ?case by simp
  next
    case 3
    then obtain c t k u x q where c: "skip_space s = c # t" "scan_string t = Inr (k, u)" "skip_space u \<noteq> []"
      and q: "parse_value n d (tl (skip_space u)) = Inr (x, q)" "skip_space q \<noteq> []"
      and r: "length r \<le> length (tl (skip_space q))"
      by (fastforce simp: then_scan_Inr Let_def split: if_split_asm list.splits dest: Suc.IH(3))
    from Suc.IH(1) [OF q(1)] skip_tl [OF q(2)] skip_tl [OF c(3)] skip_space_Cons [OF c(1)] r
      scan_string_text [OF c(2)]
    show ?case by simp
  }
qed simp_all

lemma parse_fuel:
  "2 * length s < n \<Longrightarrow> parse_value n d s \<noteq> Inl []"
  "2 * length s + 1 < n \<Longrightarrow> parse_elems n d s \<noteq> Inl []"
  "2 * length s + 1 < n \<Longrightarrow> parse_members n d s \<noteq> Inl []"
proof (induction n arbitrary: d s)
  case (Suc n)
  {
    case 1
    show ?case
    proof (cases "skip_space s")
      case (Cons c t)
      with 1 skip_space_Cons [OF Cons] have "2 * length t + 1 < n" by simp
      from Suc.IH(2,3) [OF this] show ?thesis
        by (auto simp: Cons then_scan_fuel parse_scalar_ne split: if_split_asm dest!: after_bracket_fuel)
    qed simp
  next
    case 2
    have v: "parse_value n d s \<noteq> Inl []" using 2 by (intro Suc.IH(1)) simp
    have e: "parse_elems n d (tl (skip_space q)) \<noteq> Inl []" if "parse_value n d s = Inr (x, q)" "skip_space q \<noteq> []" for x q
      using 2 parse_shorter(1) [OF that(1)] skip_tl [OF that(2)] by (intro Suc.IH(2)) simp
    from v e show ?case by (auto simp: then_scan_fuel Let_def split: if_split_asm)
  next
    case 3
    show ?case
    proof (cases "skip_space s")
      case (Cons c t)
      have l: "Suc (length (tl (skip_space r))) < length s" if "scan_string t = Inr (k, r)" "skip_space r \<noteq> []" for k r
        using skip_tl [OF that(2)] scan_string_text [OF that(1)] skip_space_Cons [OF Cons] by simp
      have v: "parse_value n d (tl (skip_space r)) \<noteq> Inl []"
        if "scan_string t = Inr (k, r)" "skip_space r \<noteq> []" for k r
        using 3 l [OF that] by (intro Suc.IH(1)) simp
      have m: "parse_members n d (tl (skip_space q)) \<noteq> Inl []"
        if "scan_string t = Inr (k, r)" "skip_space r \<noteq> []" "parse_value n d (tl (skip_space r)) = Inr (x, q)"
          "skip_space q \<noteq> []" for k r x q
        using 3 l [OF that(1,2)] parse_shorter(1) [OF that(3)] skip_tl [OF that(4)] by (intro Suc.IH(3)) simp
      from v m show ?thesis
        by (auto simp: Cons then_scan_fuel Let_def scan_string_ne split: if_split_asm)
    qed simp
  }
qed simp_all

text \<open>So the parser answers every text with a document or with a syntax error.\<close>

lemma parse_json_answers: "parse_json s \<noteq> Inl []"
  using parse_fuel(1) [of s "2 * length s + 1" 0]
  by (auto simp: parse_json_def then_scan_fuel split: list.splits)


section \<open>Reading what was written\<close>

definition valid_string :: "string \<Rightarrow> bool" where
  "valid_string s \<longleftrightarrow> scan_string (s @ [CHR 0x22]) = Inr (s, [])"

definition valid_number :: "string \<Rightarrow> bool" where
  "valid_number s \<longleftrightarrow> scan_number s = Inr (s, [])"

text \<open>Documents whose literals are well formed and whose nesting is within the limit.\<close>

fun well_formed :: "nat \<Rightarrow> json \<Rightarrow> bool" and well_formed_elems :: "nat \<Rightarrow> json list \<Rightarrow> bool" and
    well_formed_members :: "nat \<Rightarrow> (string \<times> json) list \<Rightarrow> bool" where
  "well_formed d JNull = True"
| "well_formed d (JBool b) = True"
| "well_formed d (JNum s) = valid_number s"
| "well_formed d (JStr s) = valid_string s"
| "well_formed d (JArr js) = (d < maxNestingDepth \<and> well_formed_elems (Suc d) js)"
| "well_formed d (JObj ms) = (d < maxNestingDepth \<and> well_formed_members (Suc d) ms)"
| "well_formed_elems d [] = True"
| "well_formed_elems d (j # js) = (well_formed d j \<and> well_formed_elems d js)"
| "well_formed_members d [] = True"
| "well_formed_members d ((k, j) # ms) = (valid_string k \<and> well_formed d j \<and> well_formed_members d ms)"

lemma scan_string_from_extend:
  "scan_string_from s m = Inr (v, r) \<Longrightarrow> scan_string_from (s @ t) m = Inr (v, r @ t)"
proof (induction s arbitrary: m v)
  case Nil
  then show ?case by (cases m) auto
next
  case (Cons c s)
  then show ?case by (auto split: sum.splits option.splits)
qed

lemma scan_valid_string: "valid_string s \<Longrightarrow> scan_string (s @ CHR 0x22 # r) = Inr (s, r)"
  using scan_string_from_extend [of "s @ [CHR 0x22]" Plain s "[]" r] by (simp add: valid_string_def scan_string_def)

definition ends_number :: "string \<Rightarrow> bool" where
  "ends_number s \<longleftrightarrow> s = [] \<or> \<not> is_digit (hd s) \<and> hd s \<notin> {CHR ''.'', CHR ''e'', CHR ''E''}"

lemma digits_append:
  assumes "after_digits s \<noteq> [] \<or> \<not> starts_digit t"
  shows "digits (s @ t) = digits s \<and> after_digits (s @ t) = after_digits s @ t"
proof (cases "\<forall>c\<in>set s. is_digit c")
  case True
  then have "after_digits s = []" by (simp add: after_digits_def)
  with assms have "takeWhile is_digit t = [] \<and> dropWhile is_digit t = t"
    by (cases t) (auto simp: starts_digit_def)
  with True show ?thesis
    by (simp add: digits_def after_digits_def takeWhile_append2 dropWhile_append2 takeWhile_eq_all_conv [THEN iffD2])
next
  case False
  then obtain c where "c \<in> set s" "\<not> is_digit c" by blast
  then show ?thesis by (simp add: digits_def after_digits_def takeWhile_append1 dropWhile_append1)
qed

lemma starts_digit_append: "starts_digit s \<Longrightarrow> starts_digit (s @ t)"
  by (cases s) (simp_all add: starts_digit_def)

lemma ends_not_digit: "ends_number t \<Longrightarrow> \<not> starts_digit t"
  by (auto simp: ends_number_def starts_digit_def)

lemma split_sign_append:
  "split_sign S s = (v, u) \<Longrightarrow> u \<noteq> [] \<Longrightarrow> split_sign S (s @ t) = (v, u @ t)"
  by (cases s) (auto simp: split_sign_def split: if_split_asm)

lemma scan_int_extend:
  assumes "scan_int s = Inr (v, r)" and "r \<noteq> [] \<or> ends_number t"
  shows "scan_int (s @ t) = Inr (v, r @ t)"
proof -
  obtain sign u where p: "split_sign {CHR ''-''} s = (sign, u)" by (cases "split_sign {CHR ''-''} s")
  with assms(1) have u: "starts_digit u" "u \<noteq> []" by (auto simp: scan_int_def starts_digit_def split: if_split_asm)
  have "after_digits u \<noteq> [] \<or> \<not> starts_digit t" if "hd u \<noteq> CHR ''0''"
    using assms that u p ends_not_digit by (auto simp: scan_int_def)
  with assms(1) p u split_sign_append [OF p u(2), of t] starts_digit_append [OF u(1), of t] digits_append [of u t]
  show ?thesis by (auto simp: scan_int_def)
qed

lemma scan_frac_extend:
  assumes "scan_frac s = Inr (v, r)" and "r \<noteq> [] \<or> ends_number t"
  shows "scan_frac (s @ t) = Inr (v, r @ t)"
proof (cases s)
  case Nil
  with assms show ?thesis by (auto simp: scan_frac_def ends_number_def)
next
  case (Cons c u)
  have "after_digits u \<noteq> [] \<or> \<not> starts_digit t" if "c = CHR ''.''"
    using assms that ends_not_digit by (auto simp: Cons scan_frac_def split: if_split_asm)
  with assms(1) digits_append [of u t] starts_digit_append [of u t] show ?thesis
    by (auto simp: Cons scan_frac_def split: if_split_asm)
qed

lemma scan_exp_extend:
  assumes "scan_exp s = Inr (v, r)" and "r \<noteq> [] \<or> ends_number t"
  shows "scan_exp (s @ t) = Inr (v, r @ t)"
proof (cases "s \<noteq> [] \<and> (hd s = CHR ''e'' \<or> hd s = CHR ''E'')")
  case True
  let ?S = "{CHR ''+'', CHR ''-''}"
  obtain sign u where p: "split_sign ?S (tl s) = (sign, u)" by (cases "split_sign ?S (tl s)")
  with assms(1) True have u: "starts_digit u" "u \<noteq> []" and v: "v = hd s # sign @ digits u" "r = after_digits u"
    by (auto simp: scan_exp_def starts_digit_def split: if_split_asm)
  have "after_digits u \<noteq> [] \<or> \<not> starts_digit t" using assms(2) v ends_not_digit by auto
  from digits_append [OF this] starts_digit_append [OF u(1), of t] True v split_sign_append [OF p u(2), of t]
  show ?thesis by (auto simp: scan_exp_def)
next
  case False
  with assms show ?thesis by (cases s) (auto simp: scan_exp_def ends_number_def)
qed

lemma scan_valid_number:
  assumes "valid_number s" and "ends_number t"
  shows "scan_number (s @ t) = Inr (s, t)"
proof -
  obtain i f x s1 s2 where p: "scan_int s = Inr (i, s1)" "scan_frac s1 = Inr (f, s2)" "scan_exp s2 = Inr (x, [])"
    "s = i @ f @ x"
    using assms(1) by (auto simp: valid_number_def scan_number_def split: sum.splits)
  have "scan_int (s @ t) = Inr (i, s1 @ t)" "scan_frac (s1 @ t) = Inr (f, s2 @ t)" "scan_exp (s2 @ t) = Inr (x, t)"
    using scan_int_extend [OF p(1)] scan_frac_extend [OF p(2)] scan_exp_extend [OF p(3)] assms(2) by auto
  with p(4) show ?thesis by (simp add: scan_number_def)
qed

lemma valid_number_starts: "valid_number s \<Longrightarrow> s \<noteq> [] \<and> (hd s = CHR ''-'' \<or> is_digit (hd s))"
  by (auto simp: valid_number_def scan_number_def scan_int_def starts_digit_def split_sign_def
      split: sum.splits if_split_asm)

text \<open>The first characters of a value.\<close>

definition starts_value :: "string \<Rightarrow> bool" where
  "starts_value s \<longleftrightarrow> s \<noteq> [] \<and> (\<forall>r. skip_space (s @ r) = s @ r) \<and> hd s \<noteq> CHR '']''"

lemma skip_space_Cons_id: "(of_char c :: nat) \<notin> {9, 10, 13, 32} \<Longrightarrow> skip_space (c # s) = c # s"
  by (simp add: skip_space_def)

lemma digit_not_space: "is_digit c \<or> c = CHR ''-'' \<Longrightarrow> (of_char c :: nat) \<notin> {9, 10, 13, 32} \<and> c \<noteq> CHR '']'' \<and>
    c \<noteq> CHR ''{'' \<and> c \<noteq> CHR ''['' \<and> c \<noteq> CHR 0x22"
  by (auto simp: is_digit_def)

lemma skip_literal [simp]:
  "skip_space (CHR 0x22 # s) = CHR 0x22 # s" "skip_space (CHR ''{'' # s) = CHR ''{'' # s"
  "skip_space (CHR ''['' # s) = CHR ''['' # s" "skip_space (CHR ''n'' # s) = CHR ''n'' # s"
  "skip_space (CHR ''t'' # s) = CHR ''t'' # s" "skip_space (CHR ''f'' # s) = CHR ''f'' # s"
  "skip_space (CHR '','' # s) = CHR '','' # s" "skip_space (CHR '']'' # s) = CHR '']'' # s"
  "skip_space (CHR ''}'' # s) = CHR ''}'' # s" "skip_space (CHR '':'' # s) = CHR '':'' # s"
  by (simp_all add: skip_space_Cons_id)

lemma starts_value_number: "valid_number s \<Longrightarrow> starts_value s"
  using valid_number_starts [of s] digit_not_space [of "hd s"]
  by (cases s) (auto simp: starts_value_def skip_space_Cons_id)

lemma text_of_starts: "well_formed d j \<Longrightarrow> starts_value (text_of j)"
  by (cases j) (simp_all add: starts_value_number, simp_all add: starts_value_def quotes_def)

lemma ends_number_delim [simp]:
  "ends_number []" "ends_number (CHR '','' # s)" "ends_number (CHR '']'' # s)" "ends_number (CHR ''}'' # s)"
  by (simp_all add: ends_number_def is_digit_def)

lemma parse_scalars:
  "parse_scalar CHR ''n'' (''ull'' @ r) = Inr (JNull, r)"
  "parse_scalar CHR ''t'' (''rue'' @ r) = Inr (JBool True, r)"
  "parse_scalar CHR ''f'' (''alse'' @ r) = Inr (JBool False, r)"
  "valid_string s \<Longrightarrow> parse_scalar CHR 0x22 (s @ CHR 0x22 # r) = Inr (JStr s, r)"
  by (simp_all add: parse_scalar_def is_digit_def scan_valid_string)

lemma parse_scalar_number:
  "valid_number (c # s) \<Longrightarrow> ends_number r \<Longrightarrow> parse_scalar c (s @ r) = Inr (JNum (c # s), r)"
  using scan_valid_number [of "c # s" r] valid_number_starts [of "c # s"] digit_not_space [of c]
  by (auto simp: parse_scalar_def)

lemma parse_text:
  "well_formed d j \<Longrightarrow> ends_number r \<Longrightarrow> 2 * length (text_of j) < n \<Longrightarrow>
    parse_value n d (text_of j @ r) = Inr (j, r)"
  "well_formed_elems d js \<Longrightarrow> js \<noteq> [] \<Longrightarrow> 2 * length (texts_of js) + 1 < n \<Longrightarrow>
    parse_elems n d (texts_of js @ CHR '']'' # r) = Inr (js, r)"
  "well_formed_members d ms \<Longrightarrow> ms \<noteq> [] \<Longrightarrow> 2 * length (members_of ms) + 1 < n \<Longrightarrow>
    parse_members n d (members_of ms @ CHR ''}'' # r) = Inr (ms, r)"
proof (induction j and js and ms arbitrary: d r n and d r n and d r n rule: text_of_texts_of_members_of.induct)
  case 1
  then show ?case using parse_scalars(1) [of r] by (cases n) auto
next
  case (2 b)
  then show ?case using parse_scalars(2,3) [of r] by (cases n) auto
next
  case (3 s)
  then obtain c t m where "s = c # t" "n = Suc m" using valid_number_starts [of s] by (cases s; cases n) auto
  with 3 show ?case
    using parse_scalar_number [of c t r] valid_number_starts [of s] digit_not_space [of c]
    by (auto simp: skip_space_Cons_id)
next
  case (4 s)
  then show ?case by (cases n) (auto simp: quotes_def parse_scalars(4))
next
  case (5 js)
  then obtain m where n: "n = Suc m" by (cases n) auto
  show ?case
  proof (cases js)
    case Nil
    with 5 show ?thesis by (simp add: n after_bracket_def)
  next
    case (Cons j js')
    have "starts_value (text_of j)" using 5 Cons by (auto intro: text_of_starts)
    then obtain e u where "skip_space (texts_of js @ CHR '']'' # r) = e # u" "e \<noteq> CHR '']''"
      by (cases "text_of j") (auto simp: Cons starts_value_def)
    with 5 Cons show ?thesis by (simp add: n after_bracket_def)
  qed
next
  case (6 ms)
  then obtain m where n: "n = Suc m" by (cases n) auto
  show ?case
  proof (cases ms)
    case Nil
    with 6 show ?thesis by (simp add: n after_bracket_def)
  next
    case (Cons kj ms')
    with 6 show ?thesis by (cases kj) (simp add: n after_bracket_def quotes_def)
  qed
next
  case (8 j js)
  then obtain m where n: "n = Suc m" by (cases n) auto
  have "text_of j \<noteq> []" using 8 text_of_starts [of d j] by (auto simp: starts_value_def)
  with 8 show ?case by (cases js) (auto simp: n)
next
  case (10 k j ms)
  then obtain m where n: "n = Suc m" by (cases n) auto
  from 10 show ?case by (cases ms) (auto simp: n quotes_def scan_valid_string)
qed simp_all

theorem parse_text_of: "well_formed 0 j \<Longrightarrow> parse_json (text_of j) = Inr j"
  using parse_text(1) [of 0 j "[]" "2 * length (text_of j) + 1"]
  by (simp add: parse_json_def skip_space_def)

corollary Unmarshal_Marshal: "well_formed 0 j \<Longrightarrow> json_Unmarshal d z (json_Marshal j) = Unmarshal d z (Some j)"
  by (simp add: json_Unmarshal_def json_Marshal_def parse_text_of)

end
