(* ===== verification/Enclave_Client.thy ===== *)
theory Enclave_Client
  imports Go_Prelude
begin

text \<open>
  Package \<^verbatim>\<open>pkg/enclave\<close>: the HTTP client through which a node drives its enclave (distributed key
  generation, FROST signing rounds, aggregation, share refresh, attestation).

  The remote end is the argument \<open>http\<close>: it takes the URL, the method, the request document and
  the state of the outside world, and yields how the exchange ended together with the new state.
  A response document carries the fields of all response structs; a field a response lacks has its
  zero value, as after \<^verbatim>\<open>json.Decode\<close>. Maps from node ids to packages are association lists
  without repeated keys; their order stands for Go's iteration order.
\<close>

section \<open>Package maps\<close>

type_synonym pkgs = "(u32 \<times> byte list) list"

fun mput :: "'k \<Rightarrow> 'v \<Rightarrow> ('k \<times> 'v) list \<Rightarrow> ('k \<times> 'v) list" where
  "mput k v [] = [(k, v)]"
| "mput k v ((l, u) # m) = (if k = l then (k, v) # m else (l, u) # mput k v m)"

lemma map_of_mput [simp]: "map_of (mput k v m) = (map_of m)(k \<mapsto> v)"
  by (induction m) (auto simp: fun_eq_iff)

lemma keys_mput [simp]: "fst ` set (mput k v m) = insert k (fst ` set m)"
  by (induction m) force+

lemma distinct_mput: "distinct (map fst m) \<Longrightarrow> distinct (map fst (mput k v m))"
proof (induction m)
  case (Cons p m)
  obtain l u where "p = (l, u)" by fastforce
  with Cons show ?case using keys_mput [of k v m] by auto
qed simp

section \<open>Requests and responses\<close>

datatype enclave_request =
    InitRequest string
  | DkgStartRequest u32 u32
  | DKGPart1Request string u32 u32
  | DKGPart2Request string pkgs
  | DKGPart3Request string pkgs pkgs
  | SignStartRequest string "byte list" "u32 list"
  | SignRound1Request string
  | SignRound2Request string "byte list"
  | SignAbortRequest string
  | AggregateRequest "byte list" pkgs "byte list" string
  | VerifyRequest "byte list" "byte list"
  | RefreshRound1Request "u32 list"
  | RefreshApplyRequest pkgs

record enclave_response =
  erSuccess :: bool
  erError :: string
  erState :: string
  erEpoch :: u32
  erPublicKey :: "byte list"
  erInitialized :: bool
  erIdentityPubkey :: "byte list"
  erSecretPackage :: "byte list"
  erRound1Package :: "byte list"
  erRound2Packages :: pkgs
  erKeyPackage :: "byte list"
  erPubkeyPackage :: "byte list"
  erNonceCommitment :: "byte list"
  erCommitment :: "byte list"
  erPartialSignature :: "byte list"
  erSignature :: "byte list"
  erTxHash :: string
  erValid :: bool
  erQuote :: "byte list"
  erMeasurement :: "byte list"
  erIsSimulation :: bool
  erEvaluations :: pkgs
  erVerifyingKey :: "byte list"

text \<open>How an exchange ends: no request, no answer, or a status with a body that decodes or not.\<close>

datatype http_result =
    BadRequest err
  | NoAnswer err
  | Answer nat "err + enclave_response"

record 'w enclave_client =
  addr :: string
  tls :: bool
  http :: "string \<Rightarrow> string \<Rightarrow> enclave_request option \<Rightarrow> 'w \<Rightarrow> http_result \<times> 'w"

definition NewClient ::
  "(string \<Rightarrow> string \<Rightarrow> enclave_request option \<Rightarrow> 'w \<Rightarrow> http_result \<times> 'w) \<Rightarrow> string
   \<Rightarrow> 'w enclave_client res" where
  "NewClient h a = Inr \<lparr>addr = a, tls = False, http = h\<rparr>"

text \<open>
  \<open>keypair\<close> is the error of \<^verbatim>\<open>tls.X509KeyPair\<close>, \<open>append_certs\<close> the result of \<^verbatim>\<open>AppendCertsFromPEM\<close>,
  and \<open>h\<close> the transport of the new HTTP client.
\<close>

definition NewClientWithTLS ::
  "('b \<Rightarrow> 'b \<Rightarrow> err option) \<Rightarrow> ('b \<Rightarrow> bool) \<Rightarrow>
   (string \<Rightarrow> string \<Rightarrow> enclave_request option \<Rightarrow> 'w \<Rightarrow> http_result \<times> 'w) \<Rightarrow>
   string \<Rightarrow> 'b \<Rightarrow> 'b \<Rightarrow> 'b \<Rightarrow> 'w enclave_client res" where
  "NewClientWithTLS keypair append_certs h a caCert clientCert clientKey =
     (case keypair clientCert clientKey of
        Some e \<Rightarrow> Inl (''failed to load client cert: '' @ e)
      | None \<Rightarrow>
          if \<not> append_certs caCert then Inl ''failed to add CA cert''
          else Inr \<lparr>addr = a, tls = True, http = h\<rparr>)"

definition loadTLSCertsFromFiles ::
  "(string \<Rightarrow> 'b res) \<Rightarrow> ('b \<Rightarrow> 'b \<Rightarrow> err option) \<Rightarrow> ('b \<Rightarrow> bool) \<Rightarrow>
   (string \<Rightarrow> string \<Rightarrow> enclave_request option \<Rightarrow> 'w \<Rightarrow> http_result \<times> 'w) \<Rightarrow>
   'w enclave_client \<Rightarrow> string \<Rightarrow> string \<Rightarrow> string \<Rightarrow> 'w enclave_client res" where
  "loadTLSCertsFromFiles readFile keypair append_certs h c caFile certFile keyFile =
     (case readFile caFile of
        Inl e \<Rightarrow> Inl (''failed to read CA cert: '' @ e)
      | Inr caCert \<Rightarrow>
          (case readFile certFile of
             Inl e \<Rightarrow> Inl (''failed to read client cert: '' @ e)
           | Inr clientCert \<Rightarrow>
               (case readFile keyFile of
                  Inl e \<Rightarrow> Inl (''failed to read client key: '' @ e)
                | Inr clientKey \<Rightarrow>
                    (case NewClientWithTLS keypair append_certs h (addr c) caCert clientCert clientKey of
                       Inl e \<Rightarrow> Inl e
                     | Inr n \<Rightarrow> Inr (c\<lparr>http := http n, tls := True\<rparr>)))))"

section \<open>The exchange\<close>

definition doRequest ::
  "'w enclave_client \<Rightarrow> string \<Rightarrow> string \<Rightarrow> enclave_request option \<Rightarrow> 'w \<Rightarrow> enclave_response res \<times> 'w" where
  "doRequest c meth path reqBody w =
     (let scheme = (if tls c then ''https'' else ''http'')
      in case http c (scheme @ ''://'' @ addr c @ path) meth reqBody w of
           (BadRequest e, w1) \<Rightarrow> (Inl (''failed to create request: '' @ e), w1)
         | (NoAnswer e, w1) \<Rightarrow> (Inl (''failed to send request: '' @ e), w1)
         | (Answer _ (Inl e), w1) \<Rightarrow> (Inl (''failed to decode response: '' @ e), w1)
         | (Answer _ (Inr resp), w1) \<Rightarrow> (Inr resp, w1))"

text \<open>
  The shape of most operations: post the request, pass on a transport error, turn a response
  without success into the error \<open>label\<close> followed by the enclave's message, and otherwise read the
  result from the response.
\<close>

definition post ::
  "'w enclave_client \<Rightarrow> string \<Rightarrow> enclave_request \<Rightarrow> string \<Rightarrow> (enclave_response \<Rightarrow> 'a) \<Rightarrow> 'w
   \<Rightarrow> 'a res \<times> 'w" where
  "post c path req label f w =
     (case doRequest c ''POST'' path (Some req) w of
        (Inl e, w1) \<Rightarrow> (Inl e, w1)
      | (Inr resp, w1) \<Rightarrow>
          if \<not> erSuccess resp then (Inl (label @ '': '' @ erError resp), w1) else (Inr (f resp), w1))"

definition get ::
  "'w enclave_client \<Rightarrow> string \<Rightarrow> (enclave_response \<Rightarrow> 'a) \<Rightarrow> 'w \<Rightarrow> 'a res \<times> 'w" where
  "get c path f w =
     (case doRequest c ''GET'' path None w of
        (Inl e, w1) \<Rightarrow> (Inl e, w1)
      | (Inr resp, w1) \<Rightarrow> (Inr (f resp), w1))"

definition Initialize :: "'w enclave_client \<Rightarrow> string \<Rightarrow> u32 \<Rightarrow> u32 \<Rightarrow> 'w \<Rightarrow> unit res \<times> 'w" where
  "Initialize c clusterID threshold totalShares =
     post c ''/initialize'' (InitRequest clusterID) ''initialization failed'' (\<lambda>_. ())"

definition GetStatus ::
  "'w enclave_client \<Rightarrow> 'w \<Rightarrow> (string \<times> u32 \<times> byte list \<times> bool \<times> byte list) res \<times> 'w" where
  "GetStatus c =
     get c ''/status''
       (\<lambda>r. (erState r, erEpoch r, erPublicKey r, erInitialized r, erIdentityPubkey r))"

definition StartDKG :: "'w enclave_client \<Rightarrow> u32 \<Rightarrow> u32 \<Rightarrow> 'w \<Rightarrow> unit res \<times> 'w" where
  "StartDKG c minSigners maxSigners w =
     (case doRequest c ''POST'' ''/dkg/start'' (Some (DkgStartRequest minSigners maxSigners)) w of
        (Inl e, w1) \<Rightarrow> (Inl e, w1)
      | (Inr resp, w1) \<Rightarrow> if \<not> erSuccess resp then (Inl ''DKG failed'', w1) else (Inr (), w1))"

definition DKGPart1 ::
  "'w enclave_client \<Rightarrow> string \<Rightarrow> u32 \<Rightarrow> u32 \<Rightarrow> 'w \<Rightarrow> (byte list \<times> byte list) res \<times> 'w" where
  "DKGPart1 c sessionID minSigners maxSigners =
     post c ''/dkg/part1'' (DKGPart1Request sessionID minSigners maxSigners) ''DKG part1 failed''
       (\<lambda>r. (erSecretPackage r, erRound1Package r))"

definition DKGPart2 ::
  "'w enclave_client \<Rightarrow> string \<Rightarrow> byte list \<Rightarrow> pkgs \<Rightarrow> 'w \<Rightarrow> (byte list \<times> pkgs) res \<times> 'w" where
  "DKGPart2 c sessionID secretPackage round1Packages =
     post c ''/dkg/part2'' (DKGPart2Request sessionID round1Packages) ''DKG part2 failed''
       (\<lambda>r. (erSecretPackage r, erRound2Packages r))"

definition DKGPart3 ::
  "'w enclave_client \<Rightarrow> string \<Rightarrow> byte list \<Rightarrow> pkgs \<Rightarrow> pkgs \<Rightarrow> 'w \<Rightarrow> (byte list \<times> byte list) res \<times> 'w" where
  "DKGPart3 c sessionID secretPackage round1Packages round2Packages =
     post c ''/dkg/part3'' (DKGPart3Request sessionID round1Packages round2Packages)
       ''DKG part3 failed'' (\<lambda>r. (erKeyPackage r, erPubkeyPackage r))"

definition GetPublicKey :: "'w enclave_client \<Rightarrow> 'w \<Rightarrow> byte list res \<times> 'w" where
  "GetPublicKey c = get c ''/public-key'' erPublicKey"

definition SignStart ::
  "'w enclave_client \<Rightarrow> string \<Rightarrow> byte list \<Rightarrow> u32 list \<Rightarrow> 'w \<Rightarrow> unit res \<times> 'w" where
  "SignStart c sessionID message participants =
     post c ''/sign/start'' (SignStartRequest sessionID message participants) ''sign start failed''
       (\<lambda>_. ())"

definition SignRound1 ::
  "'w enclave_client \<Rightarrow> string \<Rightarrow> 'w \<Rightarrow> (byte list \<times> byte list) res \<times> 'w" where
  "SignRound1 c sessionID =
     post c ''/sign/round1'' (SignRound1Request sessionID) ''sign round1 failed''
       (\<lambda>r. (erNonceCommitment r, erCommitment r))"

definition SignRound2 ::
  "'w enclave_client \<Rightarrow> string \<Rightarrow> byte list \<Rightarrow> 'w \<Rightarrow> (byte list \<times> byte list) res \<times> 'w" where
  "SignRound2 c sessionID signingPackage =
     post c ''/sign/round2'' (SignRound2Request sessionID signingPackage) ''sign round2 failed''
       (\<lambda>r. (erPartialSignature r, erCommitment r))"

definition SignAbort :: "'w enclave_client \<Rightarrow> string \<Rightarrow> 'w \<Rightarrow> unit res \<times> 'w" where
  "SignAbort c sessionID =
     post c ''/sign/abort'' (SignAbortRequest sessionID) ''sign abort failed'' (\<lambda>_. ())"

definition GetPubkeyPackage :: "'w enclave_client \<Rightarrow> 'w \<Rightarrow> byte list res \<times> 'w" where
  "GetPubkeyPackage c = get c ''/public-key'' erPublicKey"

definition AggregateSignatures ::
  "'w enclave_client \<Rightarrow> byte list \<Rightarrow> pkgs \<Rightarrow> byte list \<Rightarrow> string \<Rightarrow> 'w \<Rightarrow> (byte list \<times> string) res \<times> 'w" where
  "AggregateSignatures c message partialSignatures unsignedTx rpcURL =
     post c ''/aggregate'' (AggregateRequest message partialSignatures unsignedTx rpcURL)
       ''aggregate failed'' (\<lambda>r. (erSignature r, erTxHash r))"

definition VerifySignature ::
  "'w enclave_client \<Rightarrow> byte list \<Rightarrow> byte list \<Rightarrow> 'w \<Rightarrow> bool res \<times> 'w" where
  "VerifySignature c signature message w =
     (case doRequest c ''POST'' ''/verify'' (Some (VerifyRequest signature message)) w of
        (Inl e, w1) \<Rightarrow> (Inl e, w1)
      | (Inr resp, w1) \<Rightarrow> (Inr (erValid resp), w1))"

definition Sign_stub :: "'w enclave_client \<Rightarrow> byte list \<Rightarrow> u32 list \<Rightarrow> 'w \<Rightarrow> byte list option res \<times> 'w" where
  "Sign_stub c message signers w = (Inr None, w)"

definition EvolveKey :: "'w enclave_client \<Rightarrow> 'w \<Rightarrow> (u32 \<times> byte list \<times> byte list) res \<times> 'w" where
  "EvolveKey c w = (Inr (1, [], []), w)"

definition GetAttestation ::
  "'w enclave_client \<Rightarrow> 'w \<Rightarrow> (byte list \<times> byte list \<times> bool) res \<times> 'w" where
  "GetAttestation c w =
     (case http c (''http://'' @ addr c @ ''/attest'') ''GET'' None w of
        (BadRequest e, w1) \<Rightarrow> (Inl (''failed to create request: '' @ e), w1)
      | (NoAnswer e, w1) \<Rightarrow> (Inl (''failed to get attestation: '' @ e), w1)
      | (Answer status body, w1) \<Rightarrow>
          if status \<noteq> 200 then (Inl (''attestation endpoint returned status '' @ show_nat status), w1)
          else (case body of
                  Inl e \<Rightarrow> (Inl (''failed to decode attestation: '' @ e), w1)
                | Inr r \<Rightarrow> (Inr (erQuote r, erMeasurement r, erIsSimulation r), w1)))"

definition RefreshRound1 :: "'w enclave_client \<Rightarrow> u32 list \<Rightarrow> 'w \<Rightarrow> pkgs res \<times> 'w" where
  "RefreshRound1 c participantIDs =
     post c ''/refresh/round1'' (RefreshRound1Request participantIDs) ''refresh round1 failed''
       erEvaluations"

definition RefreshApply :: "'w enclave_client \<Rightarrow> pkgs \<Rightarrow> 'w \<Rightarrow> byte list res \<times> 'w" where
  "RefreshApply c receivedEvaluations =
     post c ''/refresh/apply'' (RefreshApplyRequest receivedEvaluations) ''refresh apply failed''
       erVerifyingKey"

section \<open>Facts\<close>

text \<open>An operation succeeds exactly when the enclave answers with a decodable success.\<close>

lemma post_Inr_iff:
  "post c path req label f w = (Inr v, w1) \<longleftrightarrow>
   (\<exists>st r. http c ((if tls c then ''https'' else ''http'') @ ''://'' @ addr c @ path) ''POST'' (Some req) w =
        (Answer st (Inr r), w1) \<and> erSuccess r \<and> v = f r)"
  by (auto simp: post_def doRequest_def Let_def split: prod.splits http_result.splits sum.splits)

text \<open>
  The attestation of a TLS client still travels over plain http, while every other request
  of that client goes to https: what the https side of the world answers has no influence on the
  attestation the client accepts.
\<close>

theorem attestation_ignores_tls:
  assumes "tls c" and "d = c\<lparr>http := (\<lambda>url meth body w.
      if HasPrefix url ''https://'' then (NoAnswer ''down'', w) else http c url meth body w)\<rparr>"
  shows "GetAttestation d w = GetAttestation c w \<and>
    (\<forall>meth path body v. doRequest d meth path body v = (Inl ''failed to send request: down'', v))"
proof -
  have "\<not> HasPrefix (''http://'' @ s) ''https://''" for s
    by (simp add: HasPrefix_def)
  moreover have "HasPrefix (''https://'' @ s) ''https://''" for s
    by (rule HasPrefix_append)
  ultimately show ?thesis
    using assms by (simp add: GetAttestation_def doRequest_def Let_def)
qed

definition quiet_client :: "unit enclave_client" where
  "quiet_client = \<lparr>addr = ''e'', tls = True, http = (\<lambda>u m b w. (NoAnswer ''off'', w))\<rparr>"

theorem attestation_ignores_tls_witness:
  "GetAttestation (quiet_client\<lparr>http := (\<lambda>url meth body w.
      if HasPrefix url ''https://'' then (NoAnswer ''down'', w) else http quiet_client url meth body w)\<rparr>) () =
   GetAttestation quiet_client ()"
  using attestation_ignores_tls [of quiet_client, OF _ refl, of "()"]
  by (simp add: quiet_client_def)

end
