(* ===== verification/Mpc_Codec.thy ===== *)
theory Mpc_Codec
  imports Json_Text Base64 Enclave_Client
begin

text \<open>
  The JSON messages of package \<^verbatim>\<open>pkg/mpc/node\<close>: what \<^verbatim>\<open>json.Marshal\<close> makes of the maps and structs the
  nodes exchange, and what \<^verbatim>\<open>json.Unmarshal\<close> reads from a payload. A map with node numbers as keys is
  written with the keys as decimal text, sorted as text, and the byte slices in base64; an empty
  slice is written as a nil one. The main lemma is that a map of packages is read back as the same map.
\<close>

section \<open>Writing\<close>

definition json_bytes :: "byte list \<Rightarrow> json" where
  "json_bytes b = (if b = [] then JNull else JStr (EncodeToString b))"

definition json_uint :: "nat \<Rightarrow> json" where
  "json_uint n = JNum (show_nat n)"

definition key_text :: "u32 \<Rightarrow> string" where
  "key_text k = show_nat (unat k)"

definition json_pkgs :: "pkgs \<Rightarrow> json" where
  "json_pkgs m = JObj (map (\<lambda>(k, b). (key_text k, json_bytes b)) (sort_key (\<lambda>(k, _). key_text k) m))"

definition enc_pkgs :: "pkgs \<Rightarrow> byte list" where
  "enc_pkgs m = json_Marshal (json_pkgs m)"

definition enc_rounds :: "pkgs \<Rightarrow> pkgs \<Rightarrow> byte list" where
  "enc_rounds r1 r2 = json_Marshal (JObj [(''round1'', json_pkgs r1), (''round2'', json_pkgs r2)])"

definition enc_sign1 :: "byte list \<Rightarrow> byte list \<Rightarrow> byte list" where
  "enc_sign1 nonceCommit commitment =
     json_Marshal (JObj [(''NonceCommitment'', json_bytes nonceCommit), (''Commitment'', json_bytes commitment)])"

definition enc_sign2 :: "byte list \<Rightarrow> byte list" where
  "enc_sign2 partialSig = json_Marshal (JObj [(''PartialSignature'', json_bytes partialSig)])"

section \<open>Reading\<close>

fun dec_uint8 :: "string \<Rightarrow> byte decoder" where
  "dec_uint8 place (JNum n) old =
     (case ParseUint64 n of
        Inr v \<Rightarrow> if unat v < 256 then ([], word_of_nat (unat v))
                 else ([type_error (''number '' @ n) place ''uint8''], old)
      | Inl _ \<Rightarrow> ([type_error (''number '' @ n) place ''uint8''], old))"
| "dec_uint8 place JNull old = ([], old)"
| "dec_uint8 place j old = ([type_error (kind j) place ''uint8''], old)"

text \<open>A byte slice: base64 text, or an array of numbers.\<close>

fun dec_bytes :: "string \<Rightarrow> byte list decoder" where
  "dec_bytes place (JStr s) old =
     (case DecodeString (unquote s) of Inl e \<Rightarrow> ([e], old) | Inr b \<Rightarrow> ([], b))"
| "dec_bytes place j old = dec_slice (dec_uint8 place) 0 place ''[]uint8'' j old"

definition dec_key32 :: "string \<Rightarrow> u32 res" where
  "dec_key32 s =
     (case ParseUint64 s of
        Inr n \<Rightarrow> if unat n < 2 ^ 32 then Inr (word_of_nat (unat n))
                 else Inl (type_error (''number '' @ s) at_value ''uint32'')
      | Inl _ \<Rightarrow> Inl (type_error (''number '' @ s) at_value ''uint32''))"

text \<open>A map: the value is decoded before the key is looked at; a bad key drops the entry.\<close>

fun dec_pkg_members :: "(string \<times> json) list \<Rightarrow> pkgs \<Rightarrow> err list \<times> pkgs" where
  "dec_pkg_members [] m = ([], m)"
| "dec_pkg_members ((k, j) # ms) m =
     (case dec_bytes at_value j [] of
        (es, b) \<Rightarrow>
          (case dec_key32 (unquote k) of
             Inl e \<Rightarrow> (case dec_pkg_members ms m of (es', m') \<Rightarrow> (es @ e # es', m'))
           | Inr i \<Rightarrow> (case dec_pkg_members ms (mput i b m) of (es', m') \<Rightarrow> (es @ es', m'))))"

fun dec_pkgs_value :: "pkgs decoder" where
  "dec_pkgs_value (JObj ms) old = dec_pkg_members ms old"
| "dec_pkgs_value JNull old = ([], [])"
| "dec_pkgs_value j old = ([type_error (kind j) at_value ''map[uint32][]uint8''], old)"

definition dec_pkgs :: "byte list \<Rightarrow> pkgs res" where
  "dec_pkgs b = json_Unmarshal dec_pkgs_value [] b"

text \<open>A \<^verbatim>\<open>map[string]interface{}\<close>: the decoded values are kept as documents.\<close>

fun put_members :: "(string \<times> json) list \<Rightarrow> (string \<times> json) list \<Rightarrow> (string \<times> json) list" where
  "put_members [] m = m"
| "put_members ((k, j) # ms) m = put_members ms (mput (unquote k) j m)"

fun dec_object_value :: "(string \<times> json) list decoder" where
  "dec_object_value (JObj ms) old = (float_errors_members ms, put_members ms old)"
| "dec_object_value JNull old = ([], [])"
| "dec_object_value j old = ([type_error (kind j) at_value ''map[string]interface {}''], old)"

definition dec_object :: "byte list \<Rightarrow> (string \<times> json) list res" where
  "dec_object b = json_Unmarshal dec_object_value [] b"

section \<open>What is written is read back\<close>

definition plain_char :: "char \<Rightarrow> bool" where
  "plain_char c \<longleftrightarrow> c \<noteq> CHR 0x22 \<and> c \<noteq> CHR 0x5C \<and> 32 \<le> (of_char c :: nat)"

lemma valid_string_plain: "\<forall>c\<in>set s. plain_char c \<Longrightarrow> valid_string s"
  unfolding valid_string_def scan_string_def by (induction s) (auto simp: plain_char_def)

lemma unquote_plain_chars: "\<forall>c\<in>set s. plain_char c \<Longrightarrow> unquote s = s"
  by (rule unquote_plain) (auto simp: plain_char_def)

lemma plain_digit: "is_digit c \<Longrightarrow> plain_char c"
  by (auto simp: is_digit_def plain_char_def)

lemma plain_char_of:
  fixes n :: nat
  assumes "32 \<le> n" "n < 256" "n \<noteq> 34" "n \<noteq> 92"
  shows "plain_char (char_of n)"
proof -
  have "(of_char (char_of n :: char) :: nat) = n" using assms(2) by (simp add: of_char_of)
  moreover have "(of_char CHR 0x22 :: nat) = 34" "(of_char CHR 0x5C :: nat) = 92" by simp_all
  ultimately show ?thesis using assms unfolding plain_char_def by metis
qed

lemma plain_b64_char: "plain_char (b64_char n)"
  unfolding b64_char_def by (rule plain_char_of) auto

lemma plain_EncodeToString: "\<forall>c\<in>set (EncodeToString b). plain_char c"
proof -
  have "plain_char CHR ''=''" by (simp add: plain_char_def)
  then show ?thesis by (induction b rule: EncodeToString.induct) (simp_all add: Let_def plain_b64_char)
qed

lemma plain_show_nat: "\<forall>c\<in>set (show_nat n). plain_char c"
  using show_nat_digits plain_digit by blast

lemma hd_show_nat: "hd (show_nat n) = CHR ''0'' \<longleftrightarrow> n = 0"
proof (induction n rule: show_nat.induct)
  case (1 n)
  have "digit_char n = CHR ''0'' \<longleftrightarrow> n = 0" if "n < 10"
    using that digit_val_digit_char [of n] digit_val_digit_char [of 0] by (metis digit_char_simps(1) zero_less_numeral)
  with 1 show ?case by (cases "n < 10") (simp_all add: show_nat.simps [of n])
qed

lemma valid_number_show_nat: "valid_number (show_nat n)"
proof -
  have d: "list_all is_digit (show_nat n)" using show_nat_digits by (simp add: list_all_iff)
  then have h: "is_digit (hd (show_nat n))" by (simp add: list_all_iff)
  then have m: "hd (show_nat n) \<noteq> CHR ''-''" by (auto simp: is_digit_def)
  have "digits (show_nat n) = show_nat n \<and> after_digits (show_nat n) = []"
    using d by (simp add: digits_def after_digits_def takeWhile_eq_all_conv list_all_iff)
  moreover have "show_nat n = ''0''" if "hd (show_nat n) = CHR ''0''"
    using that by (simp only: hd_show_nat) (simp add: show_nat.simps)
  ultimately have "scan_int (show_nat n) = Inr (show_nat n, [])"
    using h m by (auto simp: scan_int_def split_sign_def starts_digit_def)
  then show ?thesis by (simp add: valid_number_def scan_number_def scan_frac_def scan_exp_def)
qed

lemma well_formed_bytes: "well_formed d (json_bytes b)"
  by (simp add: json_bytes_def valid_string_plain plain_EncodeToString)

lemma dec_json_bytes: "dec_bytes place (json_bytes b) [] = ([], b)"
  by (simp add: json_bytes_def unquote_plain_chars plain_EncodeToString)

lemma dec_key_text: "dec_key32 (unquote (key_text k)) = Inr k"
proof -
  have "unat k < 4294967296" by (rule unat_u32_less)
  have "dec_key32 (show_nat n) = Inr (word_of_nat n)" if "n < 4294967296" for n
  proof -
    have "ParseUint64 (show_nat n) = Inr (word_of_nat n)" using that by (intro ParseUint64_show_nat) simp
    moreover have "unat (word_of_nat n :: u64) = n" using that by (simp only: unat_of_nat) simp
    ultimately show ?thesis using that by (simp add: dec_key32_def)
  qed
  from this [OF \<open>unat k < 4294967296\<close>] show ?thesis
    by (simp add: key_text_def unquote_plain_chars plain_show_nat)
qed

lemma well_formed_pkgs: "d < maxNestingDepth \<Longrightarrow> well_formed d (json_pkgs m)"
proof -
  have "well_formed_members (Suc d) (map (\<lambda>(k, b). (key_text k, json_bytes b)) ps)" for ps
    by (induction ps) (auto simp: well_formed_bytes key_text_def valid_string_plain plain_show_nat)
  then show "d < maxNestingDepth \<Longrightarrow> ?thesis" by (simp add: json_pkgs_def)
qed

lemma mput_new: "k \<notin> fst ` set m \<Longrightarrow> mput k v m = m @ [(k, v)]"
  by (induction m) auto

lemma dec_written_members:
  "distinct (map fst (m @ ps)) \<Longrightarrow>
   dec_pkg_members (map (\<lambda>(k, b). (key_text k, json_bytes b)) ps) m = ([], m @ ps)"
proof (induction ps arbitrary: m)
  case (Cons p ps)
  then show ?case by (cases p) (simp add: dec_json_bytes dec_key_text mput_new)
qed simp

text \<open>The order in which a map is read back is that of the text, its keys sorted.\<close>

lemma dec_enc_pkgs:
  assumes "distinct (map fst m)"
  shows "dec_pkgs (enc_pkgs m) = Inr (sort_key (\<lambda>(k, _). key_text k) m)"
proof -
  let ?s = "sort_key (\<lambda>(k, _). key_text k) m"
  have "distinct (map fst ?s)"
    using assms by (metis distinct_map distinct_sort inj_on_def set_sort)
  from dec_written_members [of "[]" ?s] this
  have "Unmarshal dec_pkgs_value [] (Some (json_pkgs m)) = Inr ?s" by (simp add: Unmarshal_def json_pkgs_def)
  moreover have "well_formed 0 (json_pkgs m)" by (simp add: well_formed_pkgs maxNestingDepth_def)
  ultimately show ?thesis by (simp add: dec_pkgs_def enc_pkgs_def Unmarshal_Marshal)
qed

lemma map_of_sorted: "distinct (map fst m) \<Longrightarrow> map_of (sort_key f m) = map_of m"
  by (rule map_of_eqI) (auto simp: distinct_map)

corollary dec_enc_pkgs_map: "distinct (map fst m) \<Longrightarrow> \<exists>m'. dec_pkgs (enc_pkgs m) = Inr m' \<and> map_of m' = map_of m"
  by (simp add: dec_enc_pkgs map_of_sorted)

lemma float_errors_pkgs: "float_errors (json_pkgs m) = []"
proof -
  have "float_errors_members (map (\<lambda>(k, b). (key_text k, json_bytes b)) ps) = []" for ps
    by (induction ps) (auto simp: json_bytes_def)
  then show ?thesis by (simp add: json_pkgs_def)
qed

lemma dec_enc_rounds:
  "dec_object (enc_rounds r1 r2) = Inr [(''round1'', json_pkgs r1), (''round2'', json_pkgs r2)]"
proof -
  have "valid_string ''round1''" "valid_string ''round2''" by (simp_all add: valid_string_plain plain_char_def)
  then have w: "well_formed 0 (JObj [(''round1'', json_pkgs r1), (''round2'', json_pkgs r2)])"
    by (simp add: maxNestingDepth_def well_formed_pkgs)
  show ?thesis
    by (simp add: dec_object_def enc_rounds_def Unmarshal_Marshal [OF w] Unmarshal_def float_errors_pkgs
        unquote_plain)
qed

end
