(* ===== verification/Zk.thy ===== *)
theory Zk
  imports Mpc_Codec
begin

text \<open>
  Packages \<^verbatim>\<open>pkg/zk\<close>: the transfer-limit policy, the prover and verifier that call the external
  program \<^verbatim>\<open>snarkjs\<close> over files, and the policy engine that evaluates, proves and verifies.

  The world of these packages is the set of files at their paths, the names that cannot be
  written, and \<^verbatim>\<open>snarkjs\<close> as a function of its arguments and the files, which returns the files
  afterwards and, if it fails, its error and output. A file holds a JSON document (its white space is
  not kept) or other bytes, given by the error of decoding them. Deferred removals run on every return
  after the statement that registers them.
\<close>

section \<open>Types\<close>

record Intent =
  zWalletID :: string
  zChain :: string
  zTo :: string
  zValue :: string
  zGasLimit :: u64

datatype zfile = Doc json | OtherFile err

type_synonym zfiles = "string \<rightharpoonup> zfile"

record Proof =
  pfData :: zfile
  pfPublicInputs :: "string list option" \<comment> \<open>\<^verbatim>\<open>None\<close> is the nil slice\<close>
  pfCircuitName :: string
  pfGeneratedAt :: int

record VerificationResult =
  vrValid :: bool
  vrCircuitName :: string
  vrVerifiedAt :: int
  vrErrors :: "string list"

text \<open>A slice of strings as \<^verbatim>\<open>%v\<close> prints it.\<close>

fun show_words :: "string list \<Rightarrow> string" where
  "show_words [] = []"
| "show_words (x # xs) = x @ (if xs = [] then [] else '' '' @ show_words xs)"

definition show_slice :: "string list \<Rightarrow> string" where
  "show_slice xs = ''['' @ show_words xs @ '']''"

definition vr_error :: "VerificationResult \<Rightarrow> err option" where
  "vr_error v = (if vrValid v then None else Some (''verification failed: '' @ show_slice (vrErrors v)))"

record zk_world =
  files :: zfiles
  wfault :: "string \<Rightarrow> err option"
  snarkjs :: "string list \<Rightarrow> zfiles \<Rightarrow> (err \<times> string) option \<times> zfiles"
  float_text :: "string \<Rightarrow> string" \<comment> \<open>how \<^verbatim>\<open>encoding/json\<close> prints the \<^verbatim>\<open>float64\<close> of a literal\<close>

definition z_write :: "zk_world \<Rightarrow> string \<Rightarrow> zfile \<Rightarrow> zk_world res" where
  "z_write w path f =
     (case wfault w path of Some e \<Rightarrow> Inl e | None \<Rightarrow> Inr (w\<lparr>files := (files w)(path \<mapsto> f)\<rparr>))"

definition z_remove :: "zk_world \<Rightarrow> string \<Rightarrow> zk_world" where
  "z_remove w path = w\<lparr>files := (files w)(path := None)\<rparr>"

definition no_file :: "string \<Rightarrow> err" where
  "no_file path = ''open '' @ path @ '': no such file or directory''"

section \<open>Paths\<close>

text \<open>
  \<^verbatim>\<open>filepath.Join\<close>: the elements that are not empty, joined by slashes and cleaned. The elements kept so
  far are in reverse order.
\<close>

fun clean_parts :: "bool \<Rightarrow> string list \<Rightarrow> string list \<Rightarrow> string list" where
  "clean_parts rooted acc [] = rev acc"
| "clean_parts rooted acc (p # ps) =
     (if p = [] \<or> p = ''.'' then clean_parts rooted acc ps
      else if p = ''..'' then
        (if acc \<noteq> [] \<and> hd acc \<noteq> ''..'' then clean_parts rooted (tl acc) ps
         else if rooted then clean_parts rooted acc ps
         else clean_parts rooted (p # acc) ps)
      else clean_parts rooted (p # acc) ps)"

fun slashes :: "string list \<Rightarrow> string" where
  "slashes [] = []"
| "slashes (p # ps) = p @ (if ps = [] then [] else ''/'' @ slashes ps)"

definition Clean :: "string \<Rightarrow> string" where
  "Clean path =
     (if path = [] then ''.''
      else let rooted = (hd path = CHR ''/'');
               out = slashes (clean_parts rooted [] (Split path CHR ''/''))
           in if rooted then ''/'' @ out else if out = [] then ''.'' else out)"

definition Join :: "string list \<Rightarrow> string" where
  "Join elems =
     (let ps = filter (\<lambda>e. e \<noteq> []) elems in if ps = [] then [] else Clean (slashes ps))"


section \<open>Prover\<close>

record Prover =
  circuitsDir :: string
  artifactsDir :: string

record ProofInput =
  PublicInputs :: "string \<rightharpoonup> string"
  PrivateInputs :: "string \<rightharpoonup> string"

text \<open>Reading a Go map: the zero value for a missing key.\<close>

definition lookup_string :: "(string \<rightharpoonup> string) \<Rightarrow> string \<Rightarrow> string" where
  "lookup_string m k = (case m k of None \<Rightarrow> [] | Some v \<Rightarrow> v)"

definition circuitDir :: "Prover \<Rightarrow> string \<Rightarrow> string" where
  "circuitDir p name = Join [circuitsDir p, ''artifacts'', name]"

definition artifact :: "Prover \<Rightarrow> string \<Rightarrow> string \<Rightarrow> string" where
  "artifact p name suffix = Join [artifactsDir p, name @ suffix]"

definition vkey_path :: "Prover \<Rightarrow> string \<Rightarrow> string" where
  "vkey_path v circuitName = Join [circuitDir v circuitName, circuitName @ ''_vkey.json'']"

lemmas path_simps = Join_def Clean_def circuitDir_def artifact_def vkey_path_def Let_def

text \<open>The documents the prover writes; \<^verbatim>\<open>json.Marshal\<close> sorts the keys of a map.\<close>

definition input_doc :: "ProofInput \<Rightarrow> json" where
  "input_doc input = JObj
     [(''daily_limit'', JString (lookup_string (PrivateInputs input) ''daily_limit'')),
      (''spent_today'', JString (lookup_string (PrivateInputs input) ''spent_today'')),
      (''transfer_amount'', JString (lookup_string (PublicInputs input) ''transfer_amount''))]"

fun strings_doc :: "string list option \<Rightarrow> json" where
  "strings_doc None = JNull"
| "strings_doc (Some xs) = JArr (map JString xs)"

text \<open>\<^verbatim>\<open>json.Unmarshal\<close> into a slice of strings.\<close>

fun dec_strings :: "string list option decoder" where
  "dec_strings JNull old = ([], None)"
| "dec_strings (JArr js) old =
     (case dec_elems (dec_string at_value) [] js (case old of None \<Rightarrow> [] | Some xs \<Rightarrow> xs) of
        (es, xs) \<Rightarrow> (es, Some xs))"
| "dec_strings j old = ([type_error (kind j) at_value ''[]string''], old)"

fun pub_strings :: "zfile \<Rightarrow> string list option res" where
  "pub_strings (Doc j) = Unmarshal dec_strings None (Some j)"
| "pub_strings (OtherFile e) = Inl e"

lemma dec_elems_strings: "dec_elems (dec_string place) [] (map JString xs) old = ([], xs)"
  by (induction xs arbitrary: old) (simp_all add: Let_def split: list.splits)

lemma pub_strings_doc: "pub_strings (Doc (strings_doc xs)) = Inr xs"
  by (cases xs) (simp_all add: Unmarshal_def dec_elems_strings)

text \<open>
  A document that is decoded into an \<^verbatim>\<open>interface{}\<close> and written again: strings are escaped as
  \<^verbatim>\<open>json.Marshal\<close> does, numbers printed as \<^verbatim>\<open>float64\<close>, of equal keys the last one is kept, and the keys are
  sorted.
\<close>

definition sorted_object :: "(string \<times> json) list \<Rightarrow> json" where
  "sorted_object m = JObj (map (\<lambda>(k, j). (concat (map escape_char k), j)) (sort_key fst m))"

fun canon :: "(string \<Rightarrow> string) \<Rightarrow> json \<Rightarrow> json" and
    canon_elems :: "(string \<Rightarrow> string) \<Rightarrow> json list \<Rightarrow> json list" and
    canon_members :: "(string \<Rightarrow> string) \<Rightarrow> (string \<times> json) list \<Rightarrow> (string \<times> json) list" where
  "canon ft (JNum n) = JNum (ft n)"
| "canon ft (JStr s) = JString (unquote s)"
| "canon ft (JArr js) = JArr (canon_elems ft js)"
| "canon ft (JObj ms) = sorted_object (put_members (canon_members ft ms) [])"
| "canon ft j = j"
| "canon_elems ft [] = []"
| "canon_elems ft (j # js) = canon ft j # canon_elems ft js"
| "canon_members ft [] = []"
| "canon_members ft ((k, j) # ms) = (k, canon ft j) # canon_members ft ms"

text \<open>Decoding into a \<^verbatim>\<open>map[string]interface{}\<close> and writing that map; \<^verbatim>\<open>null\<close> makes the map nil.\<close>

fun json_object :: "(string \<Rightarrow> string) \<Rightarrow> zfile \<Rightarrow> zfile res" where
  "json_object ft (OtherFile e) = Inl e"
| "json_object ft (Doc j) =
     (case Unmarshal dec_object_value [] (Some j) of Inl e \<Rightarrow> Inl e | Inr _ \<Rightarrow> Inr (Doc (canon ft j)))"

text \<open>What follows the run of \<^verbatim>\<open>snarkjs\<close>, in the world \<open>w\<close> it leaves, with the removals it defers.\<close>

definition read_proof :: "int \<Rightarrow> string \<Rightarrow> string \<Rightarrow> string \<Rightarrow> zk_world \<Rightarrow> Proof res \<times> zk_world" where
  "read_proof now name proofPath pubInputPath w =
     (case files w proofPath of
        None \<Rightarrow> (Inl (''failed to read proof file: '' @ no_file proofPath), w)
      | Some proofData \<Rightarrow>
          (case files w pubInputPath of
             None \<Rightarrow> (Inl (''failed to read public input file: '' @ no_file pubInputPath),
                       z_remove w proofPath)
           | Some pubData \<Rightarrow>
               (case pub_strings pubData of
                  Inl e \<Rightarrow> (Inl (''failed to parse public inputs: '' @ e),
                            z_remove (z_remove w pubInputPath) proofPath)
                | Inr publicInputs \<Rightarrow>
                    (Inr \<lparr>pfData = proofData, pfPublicInputs = publicInputs,
                       pfCircuitName = name, pfGeneratedAt = now\<rparr>,
                     z_remove (z_remove w pubInputPath) proofPath))))"

definition GenerateProof ::
  "Prover \<Rightarrow> int \<Rightarrow> string \<Rightarrow> ProofInput \<Rightarrow> zk_world \<Rightarrow> Proof res \<times> zk_world" where
  "GenerateProof p now circuitName input w =
     (let wasmPath = Join [circuitDir p circuitName, circuitName @ ''_js'', circuitName @ ''.wasm''];
          pkeyPath = Join [circuitDir p circuitName, circuitName @ ''_final.zkey''];
          inputPath = artifact p circuitName ''_input.json'';
          proofPath = artifact p circuitName ''_proof.json'';
          pubInputPath = artifact p circuitName ''_pub.json''
      in case find (\<lambda>path. files w path = None) [wasmPath, pkeyPath] of
           Some path \<Rightarrow> (Inl (''artifacts not found: '' @ path), w)
         | None \<Rightarrow>
             (case z_write w inputPath
                     (Doc (input_doc input)) of
                Inl e \<Rightarrow> (Inl (''failed to write input file: '' @ e), w)
              | Inr w1 \<Rightarrow>
                  (case z_write w1 pubInputPath
                          (Doc (strings_doc (Some [lookup_string (PublicInputs input) ''transfer_amount'']))) of
                     Inl e \<Rightarrow> (Inl (''failed to write public input file: '' @ e),
                               z_remove w1 inputPath)
                   | Inr w2 \<Rightarrow>
                       (case snarkjs w2 [''groth16'', ''fullprove'', inputPath, wasmPath, pkeyPath,
                                         proofPath, pubInputPath] (files w2) of
                          (res, fs) \<Rightarrow>
                            let w3 = w2\<lparr>files := fs\<rparr>;
                                (r, w4) =
                                  (case res of
                                     Some (e, output) \<Rightarrow>
                                       (Inl (''snarkjs proof generation failed: '' @ e @
                                             [CHR 0x0A] @ ''output: '' @ output), w3)
                                   | None \<Rightarrow> read_proof now circuitName proofPath pubInputPath w3)
                            in (r, z_remove (z_remove w4 pubInputPath) inputPath)))))"

section \<open>Verifier\<close>

text \<open>
  \<^verbatim>\<open>Verifier.Verify\<close> and \<^verbatim>\<open>Prover.Verify\<close> differ in the text of one message only; \<open>hint\<close> is that
  difference.
\<close>

definition verify_with ::
  "string \<Rightarrow> Prover \<Rightarrow> int \<Rightarrow> string \<Rightarrow> Proof \<Rightarrow> zk_world \<Rightarrow> VerificationResult res \<times> zk_world" where
  "verify_with hint v now circuitName pf w =
     (let vkeyPath = vkey_path v circuitName;
          pubInputPath = artifact v circuitName ''_pub_verify.json'';
          proofPath = artifact v circuitName ''_proof_verify.json''
      in if files w vkeyPath = None
         then (Inl (''verification key not found: '' @ vkeyPath @ hint), w)
         else
           (case z_write w pubInputPath (Doc (strings_doc (pfPublicInputs pf))) of
              Inl e \<Rightarrow> (Inl (''failed to write public input: '' @ e), w)
            | Inr w1 \<Rightarrow>
                (case json_object (float_text w) (pfData pf) of
                   Inl e \<Rightarrow> (Inl (''invalid proof data: '' @ e), z_remove w1 pubInputPath)
                 | Inr proofJson \<Rightarrow>
                     (case z_write w1 proofPath proofJson of
                        Inl e \<Rightarrow> (Inl (''failed to write proof: '' @ e), z_remove w1 pubInputPath)
                      | Inr w2 \<Rightarrow>
                          (case snarkjs w2 [''groth16'', ''verify'', vkeyPath, pubInputPath, proofPath]
                                  (files w2) of
                             (res, fs) \<Rightarrow>
                               (Inr (case res of
                                       Some (e, output) \<Rightarrow>
                                         \<lparr>vrValid = False, vrCircuitName = circuitName,
                                          vrVerifiedAt = now, vrErrors = [output]\<rparr>
                                     | None \<Rightarrow>
                                         \<lparr>vrValid = True, vrCircuitName = circuitName,
                                          vrVerifiedAt = now, vrErrors = []\<rparr>),
                                z_remove (z_remove (w2\<lparr>files := fs\<rparr>) proofPath) pubInputPath))))))"

definition Verify ::
  "Prover \<Rightarrow> int \<Rightarrow> string \<Rightarrow> Proof \<Rightarrow> zk_world \<Rightarrow> VerificationResult res \<times> zk_world" where
  "Verify = verify_with '' (run compile.sh first)''"

definition LoadVerificationKey :: "Prover \<Rightarrow> string \<Rightarrow> zk_world \<Rightarrow> (string \<times> json) list res" where
  "LoadVerificationKey v circuitName w =
     (case files w (vkey_path v circuitName) of
        None \<Rightarrow> Inl (''failed to read verification key: '' @ no_file (vkey_path v circuitName))
      | Some (OtherFile e) \<Rightarrow> Inl (''failed to parse verification key: '' @ e)
      | Some (Doc j) \<Rightarrow>
          (case Unmarshal dec_object_value [] (Some j) of
             Inl e \<Rightarrow> Inl (''failed to parse verification key: '' @ e)
           | Inr vkey \<Rightarrow> Inr vkey))"

definition Prover_Verify ::
  "Prover \<Rightarrow> int \<Rightarrow> string \<Rightarrow> Proof \<Rightarrow> zk_world \<Rightarrow> VerificationResult res \<times> zk_world" where
  "Prover_Verify = verify_with []"

section \<open>The transfer-limit policy\<close>

record TransferLimitPolicy =
  Limit :: u64
  SpentToday :: u64
  tlProver :: Prover

text \<open>
  The error of \<^verbatim>\<open>strconv.ParseUint\<close> is ignored; its value is then 0 for a syntax error and the
  largest 64-bit number for a range error.
\<close>

definition parse_or_default :: "string \<Rightarrow> u64" where
  "parse_or_default s =
     (case ParseUint64 s of
        Inr v \<Rightarrow> v
      | Inl _ \<Rightarrow> if s \<noteq> [] \<and> list_all is_digit s then -1 else 0)"

definition NewTransferLimitPolicy :: "string \<Rightarrow> string \<Rightarrow> Prover \<Rightarrow> TransferLimitPolicy" where
  "NewTransferLimitPolicy limit spentToday p =
     \<lparr>Limit = parse_or_default limit, SpentToday = parse_or_default spentToday, tlProver = p\<rparr>"

definition tl_Name :: string where
  "tl_Name = ''transfer_limit''"

definition tl_Evaluate :: "TransferLimitPolicy \<Rightarrow> Intent \<Rightarrow> bool res" where
  "tl_Evaluate p intent =
     (case ParseUint64 (zValue intent) of
        Inl e \<Rightarrow> Inl (''invalid intent value: '' @ e)
      | Inr amount \<Rightarrow>
          if SpentToday p \<ge> Limit p
          then Inl (''daily limit already exhausted: spent '' @ show_nat (unat (SpentToday p)) @
                    '', limit '' @ show_nat (unat (Limit p)))
          else Inr (amount \<le> Limit p - SpentToday p))"

definition tl_GenerateProof ::
  "TransferLimitPolicy \<Rightarrow> int \<Rightarrow> Intent \<Rightarrow> zk_world \<Rightarrow> Proof res \<times> zk_world" where
  "tl_GenerateProof p now intent w =
     (case ParseUint64 (zValue intent) of
        Inl e \<Rightarrow> (Inl (''invalid intent value: '' @ e), w)
      | Inr amount \<Rightarrow>
          if amount > Limit p - SpentToday p
          then (Inl ''transfer amount exceeds remaining daily limit'', w)
          else GenerateProof (tlProver p) now tl_Name
                 \<lparr>PublicInputs = [''transfer_amount'' \<mapsto> zValue intent],
                  PrivateInputs = [''daily_limit'' \<mapsto> show_nat (unat (Limit p)),
                    ''spent_today'' \<mapsto> show_nat (unat (SpentToday p))]\<rparr> w)"

definition tl_PublicInputs :: "TransferLimitPolicy \<Rightarrow> Intent \<Rightarrow> string list res" where
  "tl_PublicInputs p intent = Inr [zValue intent]"

definition tl_PrivateInputs :: "TransferLimitPolicy \<Rightarrow> Intent \<Rightarrow> (string \<rightharpoonup> string) res" where
  "tl_PrivateInputs p intent =
     Inr [''daily_limit'' \<mapsto> show_nat (unat (Limit p)), ''spent_today'' \<mapsto> show_nat (unat (SpentToday p))]"

definition UpdateSpent :: "TransferLimitPolicy \<Rightarrow> u64 \<Rightarrow> TransferLimitPolicy" where
  "UpdateSpent p amount = p\<lparr>SpentToday := SpentToday p + amount\<rparr>"

section \<open>The policy engine\<close>

text \<open>The interface \<^verbatim>\<open>types.Policy\<close>, as far as the engine calls it.\<close>

record policy =
  Name :: string
  EvaluatePolicy :: "Intent \<Rightarrow> bool res"
  ProvePolicy :: "Intent \<Rightarrow> zk_world \<Rightarrow> Proof res \<times> zk_world"

definition transfer_limit :: "int \<Rightarrow> TransferLimitPolicy \<Rightarrow> policy" where
  "transfer_limit now p =
     \<lparr>Name = tl_Name, EvaluatePolicy = tl_Evaluate p, ProvePolicy = tl_GenerateProof p now\<rparr>"

record ZkEngine =
  policies :: "policy list"
  verifier :: Prover

definition NewEngine :: "policy list \<Rightarrow> Prover \<Rightarrow> ZkEngine" where
  "NewEngine ps v = \<lparr>policies = ps, verifier = v\<rparr>"

fun check_policies :: "policy list \<Rightarrow> Intent \<Rightarrow> unit res" where
  "check_policies [] intent = Inr ()"
| "check_policies (p # ps) intent =
     (case EvaluatePolicy p intent of
        Inl e \<Rightarrow> Inl (''policy '' @ Name p @ '': '' @ e)
      | Inr satisfied \<Rightarrow>
          if \<not> satisfied then Inl (''policy '' @ Name p @ '' not satisfied'')
          else check_policies ps intent)"

text \<open>
  When the verifier returns an error its result is
  nil, and printing \<^verbatim>\<open>result.Errors\<close> panics.
\<close>

definition EvaluateAndProve ::
  "int \<Rightarrow> ZkEngine \<Rightarrow> Intent \<Rightarrow> zk_world \<Rightarrow> Proof res outcome \<times> zk_world" where
  "EvaluateAndProve now e intent w =
     (case check_policies (policies e) intent of
        Inl er \<Rightarrow> (Ret (Inl er), w)
      | Inr _ \<Rightarrow>
          (case policies e of
             [] \<Rightarrow> (Ret (Inl ''no policies registered''), w)
           | pol # _ \<Rightarrow>
               (case ProvePolicy pol intent w of
                  (Inl er, w1) \<Rightarrow> (Ret (Inl (''proof generation: '' @ er)), w1)
                | (Inr pf, w1) \<Rightarrow>
                    (case Verify (verifier e) now (Name pol) pf w1 of
                       (Inl _, w2) \<Rightarrow> (Panic, w2)
                     | (Inr result, w2) \<Rightarrow>
                         if \<not> vrValid result
                         then (Ret (Inl (''proof verification failed: '' @ show_slice (vrErrors result))), w2)
                         else (Ret (Inr pf), w2)))))"

definition RegisterPolicy :: "ZkEngine \<Rightarrow> policy \<Rightarrow> ZkEngine" where
  "RegisterPolicy e p = e\<lparr>policies := policies e @ [p]\<rparr>"

definition ListPolicies :: "ZkEngine \<Rightarrow> string list" where
  "ListPolicies e = map Name (policies e)"

section \<open>The daily limit\<close>

text \<open>
  The policy accepts an intent exactly when its value is a decimal number, some of the daily
  limit is left, and the value added to what was spent today, as numbers without wrap-around,
  stays within the limit.
\<close>

theorem tl_Evaluate_iff:
  "tl_Evaluate p intent = Inr True \<longleftrightarrow>
     zValue intent \<noteq> [] \<and> list_all is_digit (zValue intent) \<and>
     unat (SpentToday p) < unat (Limit p) \<and>
     unat (SpentToday p) + dec_val (zValue intent) \<le> unat (Limit p)"
proof (cases "ParseUint64 (zValue intent)")
  case (Inl e)
  then show ?thesis
    using unat_u64_less [of "Limit p"]
    by (auto simp: tl_Evaluate_def ParseUint64_def split: if_splits)
next
  case (Inr a)
  then have a: "unat a = dec_val (zValue intent)" "zValue intent \<noteq> []" "list_all is_digit (zValue intent)"
    using ParseUint64_Inr by blast+
  have "unat (Limit p - SpentToday p) = unat (Limit p) - unat (SpentToday p)"
    if "SpentToday p \<le> Limit p"
    using that by (simp add: unat_sub)
  then show ?thesis
    using Inr a by (auto simp: tl_Evaluate_def word_le_nat_alt not_le)
qed

text \<open>
  A day of transfers: each accepted intent is added to what was spent, as \<^verbatim>\<open>UpdateSpent\<close> does.
\<close>

fun spend_day :: "TransferLimitPolicy \<Rightarrow> Intent list \<Rightarrow> TransferLimitPolicy \<times> Intent list" where
  "spend_day p [] = (p, [])"
| "spend_day p (i # ts) =
     (if tl_Evaluate p i = Inr True then
        (case ParseUint64 (zValue i) of
           Inl _ \<Rightarrow> spend_day p ts
         | Inr amount \<Rightarrow> map_prod (\<lambda>q. q) (\<lambda>l. i # l) (spend_day (UpdateSpent p amount) ts))
      else spend_day p ts)"

lemma tl_accept_step:
  assumes "tl_Evaluate p i = Inr True"
  obtains a where "ParseUint64 (zValue i) = Inr a" and "unat a = dec_val (zValue i)"
    and "unat (SpentToday (UpdateSpent p a)) = unat (SpentToday p) + dec_val (zValue i)"
    and "unat (SpentToday p) + dec_val (zValue i) \<le> unat (Limit p)"
proof -
  from assms have le: "unat (SpentToday p) + dec_val (zValue i) \<le> unat (Limit p)"
    unfolding tl_Evaluate_iff by blast
  obtain a where a: "ParseUint64 (zValue i) = Inr a"
    using assms by (auto simp: tl_Evaluate_def split: sum.splits)
  then have ua: "unat a = dec_val (zValue i)" using ParseUint64_Inr by blast
  with le have "unat (SpentToday p) + unat a < 2 ^ 64"
    using unat_u64_less [of "Limit p"] by simp
  then have "unat (SpentToday p + a) = unat (SpentToday p) + unat a"
    by (simp add: unat_word_ariths)
  with a ua le that show ?thesis by (simp add: UpdateSpent_def)
qed


definition tl_demo :: TransferLimitPolicy where
  "tl_demo = NewTransferLimitPolicy ''100'' ''40'' \<lparr>circuitsDir = ''c'', artifactsDir = ''a''\<rparr>"

definition z_intent :: "string \<Rightarrow> Intent" where
  "z_intent v = \<lparr>zWalletID = ''w'', zChain = ''ethereum'', zTo = ''0xb'', zValue = v, zGasLimit = 0\<rparr>"

lemma tl_demo_simps:
  "SpentToday tl_demo = 40" "Limit tl_demo = 100"
  "tlProver tl_demo = \<lparr>circuitsDir = ''c'', artifactsDir = ''a''\<rparr>"
  "ParseUint64 ''60'' = Inr 60"
  by (simp_all add: tl_demo_def NewTransferLimitPolicy_def parse_or_default_def ParseUint64_def
      dec_val_def digit_val_def is_digit_def)


section \<open>Proof generation\<close>



text \<open>
  A proof is returned only when every registered policy was satisfied and the verification
  of the first policy's proof succeeded.
\<close>

theorem EvaluateAndProve_sound:
  assumes "EvaluateAndProve now e intent w = (Ret (Inr pf), w')"
  shows "policies e \<noteq> [] \<and> (\<forall>p \<in> set (policies e). EvaluatePolicy p intent = Inr True) \<and>
    (\<exists>w1 result. ProvePolicy (hd (policies e)) intent w = (Inr pf, w1) \<and>
       Verify (verifier e) now (Name (hd (policies e))) pf w1 = (Inr result, w') \<and> vrValid result)"
proof -
  have all: "check_policies ps intent = Inr u \<Longrightarrow> \<forall>p \<in> set ps. EvaluatePolicy p intent = Inr True"
    for ps u
    by (induction ps) (auto split: sum.splits if_splits)
  show ?thesis
    using assms
    by (auto simp: EvaluateAndProve_def all split: sum.splits list.splits prod.splits if_splits)
qed

text \<open>
  When the verification key is missing, the verifier returns an error with a nil result, and
  the engine panics while printing the errors of that result instead of returning an error.
\<close>

theorem missing_vkey_panics:
  assumes "policies e = p # ps" and "\<forall>q \<in> set (policies e). EvaluatePolicy q intent = Inr True"
    and "ProvePolicy p intent w = (Inr pf, w1)"
    and "files w1 (vkey_path (verifier e) (Name p)) = None"
  shows "fst (EvaluateAndProve now e intent w) = Panic"
proof -
  have "\<forall>q \<in> set qs. EvaluatePolicy q intent = Inr True \<Longrightarrow> check_policies qs intent = Inr ()" for qs
    by (induction qs) auto
  with assms(2) have "check_policies (policies e) intent = Inr ()" by blast
  with assms(1,3,4) show ?thesis
    by (simp add: EvaluateAndProve_def Verify_def verify_with_def Let_def)
qed

definition zk_demo_world :: zk_world where
  "zk_demo_world =
     \<lparr>files = [''c/artifacts/transfer_limit/transfer_limit_js/transfer_limit.wasm'' \<mapsto> OtherFile ''invalid character'',
        ''c/artifacts/transfer_limit/transfer_limit_final.zkey'' \<mapsto> OtherFile ''invalid character'',
        ''c/artifacts/transfer_limit/transfer_limit_vkey.json'' \<mapsto> OtherFile ''invalid character''],
      wfault = (\<lambda>_. None),
      snarkjs = (\<lambda>args fs. if args ! 1 = ''fullprove''
                           then (None, fs(args ! 5 \<mapsto> Doc (JObj [(''pi'', JNull)]))) else (None, fs)), float_text = (\<lambda>n. n)\<rparr>"

definition zk_demo :: ZkEngine where
  "zk_demo = NewEngine [transfer_limit 7 tl_demo] \<lparr>circuitsDir = ''c'', artifactsDir = ''a''\<rparr>"

lemma zk_demo_accepts: "tl_Evaluate tl_demo (z_intent ''60'') = Inr True"
  by (simp add: tl_Evaluate_def tl_demo_simps z_intent_def)

lemma zk_demo_proves:
  "\<exists>pf w1. tl_GenerateProof tl_demo 7 (z_intent ''60'') zk_demo_world = (Inr pf, w1) \<and>
     pfData pf = Doc (JObj [(''pi'', JNull)]) \<and> wfault w1 = (\<lambda>_. None) \<and> snarkjs w1 = snarkjs zk_demo_world \<and>
     files w1 ''c/artifacts/transfer_limit/transfer_limit_vkey.json'' = Some (OtherFile ''invalid character'') \<and>
     files w1 ''x/artifacts/transfer_limit/transfer_limit_vkey.json'' = None"
  by (simp add: tl_GenerateProof_def tl_demo_simps z_intent_def GenerateProof_def Let_def
      tl_Name_def path_simps zk_demo_world_def z_write_def read_proof_def
      z_remove_def Unmarshal_def)

theorem EvaluateAndProve_sound_witness:
  "\<exists>pf w'. EvaluateAndProve 9 zk_demo (z_intent ''60'') zk_demo_world = (Ret (Inr pf), w') \<and>
     tl_Evaluate tl_demo (z_intent ''60'') = Inr True"
proof -
  obtain pf w1 where "tl_GenerateProof tl_demo 7 (z_intent ''60'') zk_demo_world = (Inr pf, w1)"
    and "pfData pf = Doc (JObj [(''pi'', JNull)])" "wfault w1 = (\<lambda>_. None)" "snarkjs w1 = snarkjs zk_demo_world"
    "files w1 ''c/artifacts/transfer_limit/transfer_limit_vkey.json'' = Some (OtherFile ''invalid character'')"
    using zk_demo_proves by blast
  then obtain w' where
    "EvaluateAndProve 9 zk_demo (z_intent ''60'') zk_demo_world = (Ret (Inr pf), w')"
    by (simp add: EvaluateAndProve_def zk_demo_def NewEngine_def transfer_limit_def zk_demo_accepts
        Verify_def verify_with_def z_write_def path_simps tl_Name_def zk_demo_world_def Unmarshal_def)
  with EvaluateAndProve_sound [OF this] show ?thesis
    by (simp add: zk_demo_def NewEngine_def transfer_limit_def)
qed

theorem missing_vkey_panics_witness:
  "fst (EvaluateAndProve 9 (zk_demo\<lparr>verifier := \<lparr>circuitsDir = ''x'', artifactsDir = ''a''\<rparr>\<rparr>)
      (z_intent ''60'') zk_demo_world) = Panic"
proof -
  obtain pf w1 where "tl_GenerateProof tl_demo 7 (z_intent ''60'') zk_demo_world = (Inr pf, w1)"
    and "files w1 ''x/artifacts/transfer_limit/transfer_limit_vkey.json'' = None"
    using zk_demo_proves by blast
  then show ?thesis
    by (intro missing_vkey_panics [of _ "transfer_limit 7 tl_demo" "[]" _ _ pf w1])
      (simp_all add: zk_demo_def NewEngine_def transfer_limit_def zk_demo_accepts path_simps
        tl_Name_def)
qed

end
