(* ===== verification/Mpc_Node.thy ===== *)
theory Mpc_Node
  imports Config Mpc_Codec
begin

text \<open>
  Package \<^verbatim>\<open>pkg/mpc/node\<close>, file \<^verbatim>\<open>node.go\<close>: an MPC node with its configuration, its state and its
  peers, the peer handshake, distributed key generation with retries, and threshold signing with
  retries and a randomly chosen aggregator.

  The outside world (the other nodes, the enclaves, the network) is a state of type \<open>'w\<close>. Remote
  calls are the functions of the record \<open>net\<close>; the enclave is reached through its client. Payloads
  are written and read as in \<open>Mpc_Codec\<close>. Fresh session ids and random numbers are arguments. The
  list of peers is in the order in which Go iterates over the peer map.
\<close>

section \<open>Messages\<close>

record NodeMessage =
  MessageType :: string
  FromNode :: u32
  ToNode :: u32
  Payload :: "byte list"

record HandshakeRequest =
  hqNodeId :: u32
  hqClusterId :: string
  hqAttestation :: "byte list"

record HandshakeResponse =
  hrAccepted :: bool
  hrNodeId :: u32
  hrClusterId :: string
  hrPublicKey :: "byte list"

record TriggerSignResponse =
  tsAccepted :: bool
  tsSessionId :: string
  tsError :: string

record AggregateResponse =
  agSuccess :: bool
  agSignature :: "byte list"
  agError :: string
  agTxHash :: string

record DirectMessageResponse =
  dmSuccess :: bool
  dmPayload :: "byte list"
  dmError :: string

text \<open>The remote procedures of the node service, by the endpoint they are called at.\<close>

record 'w net =
  rpcDial :: "string \<Rightarrow> err option"
  rpcHandshake :: "string \<Rightarrow> HandshakeRequest \<Rightarrow> 'w \<Rightarrow> HandshakeResponse res \<times> 'w"
  rpcDKG :: "string \<Rightarrow> NodeMessage \<Rightarrow> 'w \<Rightarrow> NodeMessage res \<times> 'w"
  rpcSign :: "string \<Rightarrow> NodeMessage \<Rightarrow> 'w \<Rightarrow> NodeMessage res \<times> 'w"
  rpcTrigger :: "string \<Rightarrow> byte list \<Rightarrow> u32 list \<Rightarrow> string \<Rightarrow> 'w \<Rightarrow> TriggerSignResponse res \<times> 'w"
  rpcAggregate ::
    "string \<Rightarrow> byte list \<Rightarrow> pkgs \<Rightarrow> byte list \<Rightarrow> string \<Rightarrow> 'w \<Rightarrow> AggregateResponse res \<times> 'w"
  rpcDirect ::
    "string \<Rightarrow> string \<Rightarrow> string \<Rightarrow> u32 \<Rightarrow> u32 \<Rightarrow> byte list \<Rightarrow> 'w \<Rightarrow> DirectMessageResponse res \<times> 'w"
  rpcHeartbeat :: "string \<Rightarrow> u32 \<Rightarrow> u64 \<Rightarrow> 'w \<Rightarrow> unit res \<times> 'w"
  rpcAbort :: "string \<Rightarrow> string \<Rightarrow> 'w \<Rightarrow> (bool \<times> err) res \<times> 'w"

section \<open>State\<close>

datatype NodeState =
    StateInitializing | StateKeyGeneration | StateReady | StateSigning | StateResharing
  | StateRecovering | StateFailed

primrec state_num :: "NodeState \<Rightarrow> nat" where
  "state_num StateInitializing = 0"
| "state_num StateKeyGeneration = 1"
| "state_num StateReady = 2"
| "state_num StateSigning = 3"
| "state_num StateResharing = 4"
| "state_num StateRecovering = 5"
| "state_num StateFailed = 6"

record Peer =
  pNodeID :: u32
  pEndpoint :: string
  pClient :: bool \<comment> \<open>the client pointer is not nil\<close>

record dkgSessionInfo =
  dsSessionID :: string
  dsMinSigners :: u32
  dsMaxSigners :: u32
  dsSecretPkg1 :: "byte list"
  dsSecretPkg2 :: "byte list"
  dsStartTime :: u64
  dsRound :: u32

record signingSessionInfo =
  ssSessionID :: string
  ssMessage :: "byte list"
  ssParticipants :: "u32 list"
  ssStartTime :: u64
  ssRound :: u32

record 'w MPCNode =
  ncfg :: NodeConfig
  nstate :: NodeState
  npeers :: "(u32 \<times> Peer) list"
  nenclave :: "'w enclave_client"
  ndkg :: "dkgSessionInfo option"
  nsign :: "signingSessionInfo option"

section \<open>Peers\<close>

definition no_client :: err where
  "no_client = ''no client connection''"

definition SendSignMessage ::
  "'w net \<Rightarrow> Peer \<Rightarrow> string \<Rightarrow> byte list \<Rightarrow> 'w \<Rightarrow> NodeMessage res \<times> 'w" where
  "SendSignMessage N p msgType payload w =
     (if \<not> pClient p then (Inl no_client, w)
      else rpcSign N (pEndpoint p)
             \<lparr>MessageType = msgType, FromNode = pNodeID p, ToNode = 0, Payload = payload\<rparr> w)"

definition SendDKGMessage ::
  "'w net \<Rightarrow> Peer \<Rightarrow> string \<Rightarrow> byte list \<Rightarrow> 'w \<Rightarrow> NodeMessage res \<times> 'w" where
  "SendDKGMessage N p msgType payload w =
     (if \<not> pClient p then (Inl no_client, w)
      else rpcDKG N (pEndpoint p)
             \<lparr>MessageType = msgType, FromNode = pNodeID p, ToNode = 0, Payload = payload\<rparr> w)"

definition TriggerSign ::
  "'w net \<Rightarrow> Peer \<Rightarrow> byte list \<Rightarrow> u32 list \<Rightarrow> string \<Rightarrow> 'w \<Rightarrow> string res \<times> 'w" where
  "TriggerSign N p message signers sessionID w =
     (if \<not> pClient p then (Inl no_client, w)
      else
        (case rpcTrigger N (pEndpoint p) message signers sessionID w of
           (Inl e, w1) \<Rightarrow> (Inl e, w1)
         | (Inr resp, w1) \<Rightarrow>
             if \<not> tsAccepted resp then (Inl (''sign start rejected: '' @ tsError resp), w1)
             else (Inr (tsSessionId resp), w1)))"

definition Aggregate ::
  "'w net \<Rightarrow> Peer \<Rightarrow> byte list \<Rightarrow> pkgs \<Rightarrow> 'w \<Rightarrow> byte list res \<times> 'w" where
  "Aggregate N p message partialSigs w =
     (if \<not> pClient p then (Inl no_client, w)
      else
        (case rpcAggregate N (pEndpoint p) message partialSigs [] [] w of
           (Inl e, w1) \<Rightarrow> (Inl e, w1)
         | (Inr resp, w1) \<Rightarrow>
             if \<not> agSuccess resp then (Inl (''aggregation failed: '' @ agError resp), w1)
             else (Inr (agSignature resp), w1)))"

definition DirectMessage ::
  "'w net \<Rightarrow> Peer \<Rightarrow> string \<Rightarrow> string \<Rightarrow> u32 \<Rightarrow> u32 \<Rightarrow> byte list \<Rightarrow> 'w \<Rightarrow> byte list res \<times> 'w" where
  "DirectMessage N p sessionID msgType fromNode toNode payload w =
     (if \<not> pClient p then (Inl no_client, w)
      else
        (case rpcDirect N (pEndpoint p) sessionID msgType fromNode toNode payload w of
           (Inl e, w1) \<Rightarrow> (Inl e, w1)
         | (Inr resp, w1) \<Rightarrow>
             if \<not> dmSuccess resp then (Inl (''direct message failed: '' @ dmError resp), w1)
             else (Inr (dmPayload resp), w1)))"

section \<open>Life cycle\<close>

definition NewNode ::
  "(string \<Rightarrow> string \<Rightarrow> enclave_request option \<Rightarrow> 'w \<Rightarrow> http_result \<times> 'w) \<Rightarrow> NodeConfig
   \<Rightarrow> 'w MPCNode res" where
  "NewNode h cfg =
     (case NewClient h (EnclaveAddr cfg) of
        Inl e \<Rightarrow> Inl (''failed to create enclave client: '' @ e)
      | Inr c \<Rightarrow> Inr \<lparr>ncfg = cfg, nstate = StateInitializing, npeers = [], nenclave = c,
                     ndkg = None, nsign = None\<rparr>)"

definition setState :: "'w MPCNode \<Rightarrow> NodeState \<Rightarrow> 'w MPCNode" where
  "setState n st = n\<lparr>nstate := st\<rparr>"

definition getState :: "'w MPCNode \<Rightarrow> NodeState" where
  "getState n = nstate n"

definition GetNodeStatus :: "'w MPCNode \<Rightarrow> NodeState \<times> u32 \<times> byte list" where
  "GetNodeStatus n = (nstate n, 0, [])"

text \<open>The attestation a node presents to its peers: its enclave's quote in simulation mode only.\<close>

definition localAttestation :: "'w MPCNode \<Rightarrow> 'w \<Rightarrow> byte list \<times> 'w" where
  "localAttestation n w =
     (case GetAttestation (nenclave n) w of
        (Inl _, w1) \<Rightarrow> ([], w1)
      | (Inr (quote, _, isSim), w1) \<Rightarrow> (if isSim then quote else [], w1))"

text \<open>\<open>ids\<close> is the order in which Go iterates over the configured peers.\<close>

fun connect_loop ::
  "'w net \<Rightarrow> NodeConfig \<Rightarrow> byte list \<Rightarrow> u32 list \<Rightarrow> (u32 \<times> Peer) list \<Rightarrow> 'w \<Rightarrow> (u32 \<times> Peer) list \<times> 'w" where
  "connect_loop N cfg attestation [] ps w = (ps, w)"
| "connect_loop N cfg attestation (i # ids) ps w =
     (case PeerAddrs cfg i of
        None \<Rightarrow> connect_loop N cfg attestation ids ps w
      | Some a \<Rightarrow>
          if i = NodeID cfg then connect_loop N cfg attestation ids ps w
          else
            (case rpcDial N a of
               Some _ \<Rightarrow> connect_loop N cfg attestation ids ps w
             | None \<Rightarrow>
                 (case rpcHandshake N a \<lparr>hqNodeId = NodeID cfg, hqClusterId = ClusterID cfg,
                         hqAttestation = attestation\<rparr> w of
                    (Inl _, w1) \<Rightarrow> connect_loop N cfg attestation ids ps w1
                  | (Inr resp, w1) \<Rightarrow>
                      if \<not> hrAccepted resp then connect_loop N cfg attestation ids ps w1
                      else connect_loop N cfg attestation ids
                             (mput i \<lparr>pNodeID = i, pEndpoint = a, pClient = True\<rparr> ps) w1)))"

definition connectToPeers :: "'w net \<Rightarrow> u32 list \<Rightarrow> 'w MPCNode \<Rightarrow> 'w \<Rightarrow> 'w MPCNode \<times> 'w" where
  "connectToPeers N ids n w =
     (case localAttestation n w of
        (attestation, w1) \<Rightarrow>
          (case connect_loop N (ncfg n) attestation ids (npeers n) w1 of
             (ps, w2) \<Rightarrow> (n\<lparr>npeers := ps\<rparr>, w2)))"

text \<open>\<^verbatim>\<open>Start\<close>; the server, heartbeat and message-loop goroutines it spawns change no node state.\<close>

definition Start :: "'w net \<Rightarrow> u32 list \<Rightarrow> 'w MPCNode \<Rightarrow> 'w \<Rightarrow> unit res \<times> 'w MPCNode \<times> 'w" where
  "Start N ids n w =
     (case Initialize (nenclave n) (ClusterID (ncfg n)) (Threshold (ncfg n)) (TotalNodes (ncfg n)) w of
        (Inl e, w1) \<Rightarrow> (Inl (''failed to initialize enclave: '' @ e), n, w1)
      | (Inr _, w1) \<Rightarrow>
          (case connectToPeers N ids n w1 of
             (n1, w2) \<Rightarrow> (Inr (), setState n1 StateReady, w2)))"

definition Stop :: "'w MPCNode \<Rightarrow> 'w MPCNode" where
  "Stop n = setState n StateInitializing"

text \<open>\<open>clock\<close> is the clock reading sent as the sequence number; failures are only logged.\<close>

fun checkPeersHealth :: "'w net \<Rightarrow> u32 \<Rightarrow> u64 \<Rightarrow> (u32 \<times> Peer) list \<Rightarrow> 'w \<Rightarrow> 'w" where
  "checkPeersHealth N self clock [] w = w"
| "checkPeersHealth N self clock ((_, p) # ps) w =
     checkPeersHealth N self clock ps (snd (rpcHeartbeat N (pEndpoint p) self clock w))"

section \<open>Distributed key generation\<close>

definition maxRetries :: nat where
  "maxRetries = 3"

text \<open>Ask every peer; a peer that answers, whatever it answers, contributes its payload.\<close>

fun collect_dkg ::
  "'w net \<Rightarrow> string \<Rightarrow> byte list \<Rightarrow> (u32 \<times> Peer) list \<Rightarrow> pkgs \<Rightarrow> 'w \<Rightarrow> pkgs \<times> 'w" where
  "collect_dkg N msgType payload [] acc w = (acc, w)"
| "collect_dkg N msgType payload ((i, p) # ps) acc w =
     (case SendDKGMessage N p msgType payload w of
        (Inl _, w1) \<Rightarrow> collect_dkg N msgType payload ps acc w1
      | (Inr resp, w1) \<Rightarrow> collect_dkg N msgType payload ps (mput i (Payload resp) acc) w1)"

definition doRunDKG ::
  "'w net \<Rightarrow> 'w MPCNode \<Rightarrow> string \<Rightarrow> u32 list \<Rightarrow> 'w \<Rightarrow> unit res \<times> 'w" where
  "doRunDKG N n sessionID participants w =
     (let self = NodeID (ncfg n); E = nenclave n
      in case DKGPart1 E sessionID (Threshold (ncfg n)) (TotalNodes (ncfg n)) w of
           (Inl e, w1) \<Rightarrow> (Inl (''DKG part1 failed: '' @ e), w1)
         | (Inr (ourSecretPkg1, round1Pkg), w1) \<Rightarrow>
             (case collect_dkg N ''dkg_round1'' (bytes_of sessionID) (npeers n) [(self, round1Pkg)] w1 of
                (round1Packages, w2) \<Rightarrow>
                  (case DKGPart2 E sessionID ourSecretPkg1 round1Packages w2 of
                     (Inl e, w3) \<Rightarrow> (Inl (''DKG part2 failed: '' @ e), w3)
                   | (Inr (ourSecretPkg2, round2Packages), w3) \<Rightarrow>
                       let own = (case map_of round2Packages self of
                                    None \<Rightarrow> [] | Some pkg \<Rightarrow> [(self, pkg)])
                       in case collect_dkg N ''dkg_round2'' (enc_pkgs round1Packages) (npeers n) own w3 of
                            (allRound2Packages, w4) \<Rightarrow>
                              (case DKGPart3 E sessionID ourSecretPkg2 round1Packages allRound2Packages w4 of
                                 (Inl e, w5) \<Rightarrow> (Inl (''DKG part3 failed: '' @ e), w5)
                               | (Inr _, w5) \<Rightarrow>
                                   (Inr (), snd (collect_dkg N ''dkg_round3''
                                       (enc_rounds round1Packages allRound2Packages)
                                       (npeers n) [] w5))))))"

definition excludeFailedParticipants :: "u32 list \<Rightarrow> u32 list" where
  "excludeFailedParticipants participants =
     (if length participants \<le> 1 then participants else butlast participants)"

definition not_enough :: "string \<Rightarrow> nat \<Rightarrow> u32 \<Rightarrow> err" where
  "not_enough what have need =
     ''not enough '' @ what @ '': have '' @ show_nat have @ '', need '' @ show_nat (unat need)"

text \<open>\<open>sess k\<close> is the fresh session id of attempt \<open>k\<close>; \<open>left\<close> counts the attempts that remain.\<close>

fun dkg_loop ::
  "'w net \<Rightarrow> 'w MPCNode \<Rightarrow> (nat \<Rightarrow> string) \<Rightarrow> nat \<Rightarrow> u32 list \<Rightarrow> err \<Rightarrow> 'w \<Rightarrow> unit res \<times> 'w" where
  "dkg_loop N n sess 0 participants lastErr w =
     (Inl (''DKG failed after '' @ show_nat maxRetries @ '' attempts: '' @ lastErr), w)"
| "dkg_loop N n sess (Suc left) participants lastErr w =
     (if length participants < unat (Threshold (ncfg n))
      then (Inl (not_enough ''participants'' (length participants) (Threshold (ncfg n))), w)
      else
        (case doRunDKG N n (sess (maxRetries - Suc left)) participants w of
           (Inr _, w1) \<Rightarrow> (Inr (), w1)
         | (Inl e, w1) \<Rightarrow> dkg_loop N n sess left (excludeFailedParticipants participants) e w1))"

definition RunDKG :: "'w net \<Rightarrow> 'w MPCNode \<Rightarrow> (nat \<Rightarrow> string) \<Rightarrow> 'w \<Rightarrow> unit res \<times> 'w" where
  "RunDKG N n sess w =
     dkg_loop N n sess maxRetries (NodeID (ncfg n) # map fst (npeers n)) [] w"

section \<open>Signing\<close>

definition peer_not_found :: "u32 \<Rightarrow> err" where
  "peer_not_found i = ''peer '' @ show_nat (unat i) @ '' not found''"

definition for_peer :: "string \<Rightarrow> u32 \<Rightarrow> err \<Rightarrow> err" where
  "for_peer what i e = what @ '' failed for peer '' @ show_nat (unat i) @ '': '' @ e"

fun sign_start_all ::
  "'w net \<Rightarrow> 'w MPCNode \<Rightarrow> string \<Rightarrow> byte list \<Rightarrow> u32 list \<Rightarrow> u32 list \<Rightarrow> 'w \<Rightarrow> unit res \<times> 'w" where
  "sign_start_all N n sessionID message signers [] w = (Inr (), w)"
| "sign_start_all N n sessionID message signers (i # ids) w =
     (if i = NodeID (ncfg n) then
        (case SignStart (nenclave n) sessionID message signers w of
           (Inl e, w1) \<Rightarrow> (Inl (''sign start failed for node '' @ show_nat (unat i) @ '': '' @ e), w1)
         | (Inr _, w1) \<Rightarrow> sign_start_all N n sessionID message signers ids w1)
      else
        (case map_of (npeers n) i of
           None \<Rightarrow> (Inl (peer_not_found i), w)
         | Some p \<Rightarrow>
             (case SendSignMessage N p ''sign_start'' (bytes_of sessionID) w of
                (Inl e, w1) \<Rightarrow> (Inl (for_peer ''sign start'' i e), w1)
              | (Inr _, w1) \<Rightarrow> sign_start_all N n sessionID message signers ids w1)))"

fun sign_round1_all ::
  "'w net \<Rightarrow> 'w MPCNode \<Rightarrow> string \<Rightarrow> u32 list \<Rightarrow> pkgs \<Rightarrow> 'w \<Rightarrow> pkgs res \<times> 'w" where
  "sign_round1_all N n sessionID [] acc w = (Inr acc, w)"
| "sign_round1_all N n sessionID (i # ids) acc w =
     (if i = NodeID (ncfg n) then
        (case SignRound1 (nenclave n) sessionID w of
           (Inl e, w1) \<Rightarrow> (Inl (''sign round1 failed: '' @ e), w1)
         | (Inr (_, commitment), w1) \<Rightarrow> sign_round1_all N n sessionID ids (mput i commitment acc) w1)
      else
        (case map_of (npeers n) i of
           None \<Rightarrow> (Inl (peer_not_found i), w)
         | Some p \<Rightarrow>
             (case DirectMessage N p sessionID ''round1_commitment'' (NodeID (ncfg n)) i [] w of
                (Inl e, w1) \<Rightarrow> (Inl (for_peer ''round1'' i e), w1)
              | (Inr payload, w1) \<Rightarrow> sign_round1_all N n sessionID ids (mput i payload acc) w1)))"

text \<open>The broadcast of the commitments; failures are only logged.\<close>

fun broadcast :: "'w net \<Rightarrow> 'w MPCNode \<Rightarrow> byte list \<Rightarrow> u32 list \<Rightarrow> 'w \<Rightarrow> 'w" where
  "broadcast N n commitmentsJSON [] w = w"
| "broadcast N n commitmentsJSON (i # ids) w =
     (if i = NodeID (ncfg n) then broadcast N n commitmentsJSON ids w
      else
        (case map_of (npeers n) i of
           None \<Rightarrow> broadcast N n commitmentsJSON ids w
         | Some p \<Rightarrow>
             broadcast N n commitmentsJSON ids (snd (SendSignMessage N p ''commitments'' commitmentsJSON w))))"

fun sign_round2_all ::
  "'w net \<Rightarrow> 'w MPCNode \<Rightarrow> string \<Rightarrow> byte list \<Rightarrow> u32 list \<Rightarrow> pkgs \<Rightarrow> 'w \<Rightarrow> pkgs res \<times> 'w" where
  "sign_round2_all N n sessionID commitmentsJSON [] acc w = (Inr acc, w)"
| "sign_round2_all N n sessionID commitmentsJSON (i # ids) acc w =
     (if i = NodeID (ncfg n) then
        (case SignRound2 (nenclave n) sessionID [] w of
           (Inl e, w1) \<Rightarrow> (Inl (''sign round2 failed: '' @ e), w1)
         | (Inr (partialSig, _), w1) \<Rightarrow>
             sign_round2_all N n sessionID commitmentsJSON ids (mput i partialSig acc) w1)
      else
        (case map_of (npeers n) i of
           None \<Rightarrow> (Inl (peer_not_found i), w)
         | Some p \<Rightarrow>
             (case DirectMessage N p sessionID ''round2_partial'' (NodeID (ncfg n)) i commitmentsJSON w of
                (Inl e, w1) \<Rightarrow> (Inl (for_peer ''round2'' i e), w1)
              | (Inr payload, w1) \<Rightarrow>
                  sign_round2_all N n sessionID commitmentsJSON ids (mput i payload acc) w1)))"

text \<open>
  \<open>rnd k\<close> is the result of \<^verbatim>\<open>rand.Int(rand.Reader, k)\<close>, a number below \<open>k\<close> when it succeeds. When it
  fails the code uses the number \<open>k\<close> itself, one past the last index.
\<close>

definition availableAggregators :: "'w MPCNode \<Rightarrow> u32 list \<Rightarrow> u32 list" where
  "availableAggregators n signers =
     filter (\<lambda>i. i = NodeID (ncfg n) \<or>
                 (case map_of (npeers n) i of None \<Rightarrow> False | Some p \<Rightarrow> pClient p)) signers"

definition doAggregate ::
  "'w net \<Rightarrow> (nat \<Rightarrow> nat res) \<Rightarrow> 'w MPCNode \<Rightarrow> byte list \<Rightarrow> pkgs \<Rightarrow> u32 list \<Rightarrow> 'w
   \<Rightarrow> byte list res outcome \<times> 'w" where
  "doAggregate N rnd n message partialSignatures signers w =
     (let available = availableAggregators n signers
      in if available = [] then (Ret (Inl ''no available aggregators''), w)
         else
           let k = (case rnd (length available) of Inr r \<Rightarrow> r | Inl _ \<Rightarrow> length available)
           in if k \<ge> length available then (Panic, w)
              else if available ! k = NodeID (ncfg n) then
                (case AggregateSignatures (nenclave n) message partialSignatures [] [] w of
                   (Inl e, w1) \<Rightarrow> (Ret (Inl e), w1)
                 | (Inr (sig, _), w1) \<Rightarrow> (Ret (Inr sig), w1))
              else
                (case map_of (npeers n) (available ! k) of
                   None \<Rightarrow> (Ret (Inl ''aggregator peer not found''), w)
                 | Some p \<Rightarrow>
                     (case Aggregate N p message partialSignatures w of (r, w1) \<Rightarrow> (Ret r, w1))))"

definition doSign ::
  "'w net \<Rightarrow> (nat \<Rightarrow> nat res) \<Rightarrow> 'w MPCNode \<Rightarrow> string \<Rightarrow> byte list \<Rightarrow> u32 list \<Rightarrow> 'w
   \<Rightarrow> byte list res outcome \<times> 'w" where
  "doSign N rnd n sessionID message signers w =
     (case sign_start_all N n sessionID message signers signers w of
        (Inl e, w1) \<Rightarrow> (Ret (Inl e), w1)
      | (Inr _, w1) \<Rightarrow>
          (case sign_round1_all N n sessionID signers [] w1 of
             (Inl e, w2) \<Rightarrow> (Ret (Inl e), w2)
           | (Inr commitments, w2) \<Rightarrow>
               (case sign_round2_all N n sessionID (enc_pkgs commitments) signers []
                       (broadcast N n (enc_pkgs commitments) signers w2) of
                  (Inl e, w3) \<Rightarrow> (Ret (Inl e), w3)
                | (Inr partialSignatures, w3) \<Rightarrow>
                    if length partialSignatures < unat (Threshold (ncfg n))
                    then (Ret (Inl (''not enough partial signatures: got '' @
                            show_nat (length partialSignatures) @ '', need '' @
                            show_nat (unat (Threshold (ncfg n))))), w3)
                    else
                      (case doAggregate N rnd n message partialSignatures signers w3 of
                         (Ret (Inl e), w4) \<Rightarrow> (Ret (Inl (''aggregate failed: '' @ e)), w4)
                       | (r, w4) \<Rightarrow> (r, w4)))))"

definition signerStr :: "u32 \<Rightarrow> string" where
  "signerStr i = ''peer '' @ show_nat (unat i)"

definition excludeFailedSigners :: "u32 \<Rightarrow> u32 list \<Rightarrow> err \<Rightarrow> u32 list" where
  "excludeFailedSigners self signers e =
     (if length signers \<le> 1 then signers
      else
        (case find (\<lambda>i. i \<noteq> self \<and> Contains e (signerStr i)) signers of
           Some i \<Rightarrow> filter (\<lambda>s. s \<noteq> i) signers
         | None \<Rightarrow> butlast signers))"

fun sign_loop ::
  "'w net \<Rightarrow> (nat \<Rightarrow> nat res) \<Rightarrow> 'w MPCNode \<Rightarrow> (nat \<Rightarrow> string) \<Rightarrow> byte list \<Rightarrow> nat \<Rightarrow> u32 list \<Rightarrow> err \<Rightarrow> 'w
   \<Rightarrow> byte list res outcome \<times> 'w" where
  "sign_loop N rnd n sess message 0 signers lastErr w =
     (Ret (Inl (''signing failed after '' @ show_nat maxRetries @ '' attempts: '' @ lastErr)), w)"
| "sign_loop N rnd n sess message (Suc left) signers lastErr w =
     (if length signers < unat (Threshold (ncfg n))
      then (Ret (Inl (not_enough ''signers'' (length signers) (Threshold (ncfg n)))), w)
      else
        (case doSign N rnd n (sess (maxRetries - Suc left)) message signers w of
           (Ret (Inl e), w1) \<Rightarrow>
             sign_loop N rnd n sess message left (excludeFailedSigners (NodeID (ncfg n)) signers e) e w1
         | (r, w1) \<Rightarrow> (r, w1)))"

text \<open>
  \<^verbatim>\<open>doSign\<close> sets the state to signing while it runs and back to ready when it returns; the node
  after \<^verbatim>\<open>Sign\<close> therefore is ready again, whatever the result.
\<close>

definition Sign ::
  "'w net \<Rightarrow> (nat \<Rightarrow> nat res) \<Rightarrow> 'w MPCNode \<Rightarrow> (nat \<Rightarrow> string) \<Rightarrow> byte list \<Rightarrow> u32 list \<Rightarrow> 'w
   \<Rightarrow> byte list res outcome \<times> 'w MPCNode \<times> 'w" where
  "Sign N rnd n sess message signers w =
     (if getState n \<noteq> StateReady
      then (Ret (Inl (''node not ready, state: '' @ show_nat (state_num (getState n)))), n, w)
      else
        (case sign_loop N rnd n sess message maxRetries signers [] w of
           (r, w1) \<Rightarrow> (r, setState n StateReady, w1)))"

section \<open>Other operations\<close>

definition NodeStartDKG :: "'w MPCNode \<Rightarrow> u32 \<Rightarrow> u32 \<Rightarrow> 'w \<Rightarrow> unit res \<times> 'w MPCNode \<times> 'w" where
  "NodeStartDKG n minSigners maxSigners w =
     (case StartDKG (nenclave n) minSigners maxSigners w of
        (Inl e, w1) \<Rightarrow> (Inl e, setState n StateFailed, w1)
      | (Inr _, w1) \<Rightarrow> (Inr (), setState n StateKeyGeneration, w1))"

definition NodeEvolveKey :: "'w MPCNode \<Rightarrow> 'w \<Rightarrow> unit res \<times> 'w" where
  "NodeEvolveKey n w =
     (if getState n \<noteq> StateReady then (Inl ''node not ready'', w)
      else (case EvolveKey (nenclave n) w of (Inl e, w1) \<Rightarrow> (Inl e, w1) | (Inr _, w1) \<Rightarrow> (Inr (), w1)))"

definition Reshare :: "'w net \<Rightarrow> 'w MPCNode \<Rightarrow> string \<Rightarrow> 'w \<Rightarrow> unit res \<times> 'w" where
  "Reshare N n sessionID w =
     (if getState n \<noteq> StateReady
      then (Inl (''node not ready, state: '' @ show_nat (state_num (getState n))), w)
      else doRunDKG N n sessionID [] w)"

end
