(* ===== verification/Mpc_Server.thy ===== *)
theory Mpc_Server
  imports Mpc_Node
begin

text \<open>
  Package \<^verbatim>\<open>pkg/mpc/node\<close>, file \<^verbatim>\<open>server.go\<close>: the gRPC service of an MPC node. Every handler takes the
  node and the state of the world and yields its answer, the node and the world it leaves. A
  goroutine a handler starts is returned as a task. The enclave client of a node made by
  \<^verbatim>\<open>NewNode\<close> is never nil, so the nil checks of the handlers have no branch here.

  The lemmas show what the node answers to each message type and where the handlers fail: the
  handshake accepts nobody, a well-formed round 3 message crashes the node, a signing session once
  started blocks all later ones, and the second signing round hands out the wrong field.
\<close>

datatype task = TaskRunDKG | TaskReshare

type_synonym ('a, 'w) served = "'a outcome \<times> 'w MPCNode \<times> 'w"

section \<open>Handshake\<close>

definition sim_prefix :: string where
  "sim_prefix = ''SGX_SIMULATION_''"

definition Handshake :: "'w MPCNode \<Rightarrow> HandshakeRequest \<Rightarrow> HandshakeResponse" where
  "Handshake n req =
     (let answer = (\<lambda>ok. \<lparr>hrAccepted = ok, hrNodeId = NodeID (ncfg n), hrClusterId = ClusterID (ncfg n),
        hrPublicKey = []\<rparr>)
      in if hqClusterId req \<noteq> ClusterID (ncfg n) then answer False
         else
           let quote = hqAttestation req;
               verified = (if length quote > 0
                           then length quote > 16 \<and> string_of (take 14 quote) = sim_prefix
                           else False)
           in if \<not> verified then answer False else answer True)"

section \<open>Key generation messages\<close>

definition reply_error :: "'w MPCNode \<Rightarrow> NodeMessage \<Rightarrow> err \<Rightarrow> NodeMessage" where
  "reply_error n req e = \<lparr>MessageType = ''error'', FromNode = NodeID (ncfg n), ToNode = FromNode req,
     Payload = bytes_of e\<rparr>"

definition reply :: "'w MPCNode \<Rightarrow> NodeMessage \<Rightarrow> byte list \<Rightarrow> NodeMessage" where
  "reply n req payload = \<lparr>MessageType = MessageType req @ ''_response'', FromNode = NodeID (ncfg n),
     ToNode = FromNode req, Payload = payload\<rparr>"

definition handleTriggerDKG :: "unit res \<times> task list" where
  "handleTriggerDKG = (Inr (), [TaskRunDKG])"

definition handleTriggerReshare :: "unit res \<times> task list" where
  "handleTriggerReshare = (Inr (), [TaskReshare])"

definition handleDKGRound1 ::
  "u64 \<Rightarrow> 'w MPCNode \<Rightarrow> NodeMessage \<Rightarrow> 'w \<Rightarrow> (byte list res, 'w) served" where
  "handleDKGRound1 clock n req w =
     (let sessionID = string_of (Payload req);
          minSigners = Threshold (ncfg n);
          maxSigners = TotalNodes (ncfg n);
          n1 = n\<lparr>ndkg := Some \<lparr>dsSessionID = sessionID, dsMinSigners = minSigners,
                  dsMaxSigners = maxSigners, dsSecretPkg1 = [], dsSecretPkg2 = [],
                  dsStartTime = clock, dsRound = 1\<rparr>\<rparr>
      in case DKGPart1 (nenclave n1) sessionID minSigners maxSigners w of
           (Inl e, w1) \<Rightarrow> (Ret (Inl (''DKG part1 failed: '' @ e)), n1, w1)
         | (Inr (secretPkg1, round1Pkg), w1) \<Rightarrow>
             (Ret (Inr round1Pkg), n1\<lparr>ndkg := map_option (dsSecretPkg1_update (\<lambda>_. secretPkg1)) (ndkg n1)\<rparr>, w1))"

text \<open>
  Twice the code takes the package Go's map iteration happens to visit first; \<open>pick1\<close> and \<open>pick2\<close>
  are the positions visited.
\<close>

definition handleDKGRound2 ::
  "(nat \<Rightarrow> nat) \<Rightarrow> (nat \<Rightarrow> nat) \<Rightarrow> 'w MPCNode \<Rightarrow> NodeMessage \<Rightarrow> 'w \<Rightarrow> (byte list res, 'w) served" where
  "handleDKGRound2 pick1 pick2 n req w =
     (case dec_pkgs (Payload req) of
        Inl e \<Rightarrow> (Ret (Inl (''failed to parse round1 packages: '' @ e)), n, w)
      | Inr round1Packages \<Rightarrow>
          (case ndkg n of
             None \<Rightarrow> (Panic, n, w)
           | Some d \<Rightarrow>
               (case DKGPart2 (nenclave n) (dsSessionID d) (dsSecretPkg1 d) round1Packages w of
                  (Inl e, w1) \<Rightarrow> (Ret (Inl (''DKG part2 failed: '' @ e)), n, w1)
                | (Inr (_, round2Pkg), w1) \<Rightarrow>
                    if round2Pkg = [] then (Ret (Inl ''no round2 package generated''), n, w1)
                    else
                      (Ret (Inr (snd (round2Pkg ! (pick2 (length round2Pkg) mod length round2Pkg)))),
                       n\<lparr>ndkg := Some (d\<lparr>dsSecretPkg2 :=
                            snd (round2Pkg ! (pick1 (length round2Pkg) mod length round2Pkg))\<rparr>)\<rparr>, w1))))"

definition lookup_object :: "(string \<times> json) list \<Rightarrow> string \<Rightarrow> (string \<times> json) list option" where
  "lookup_object data k = (case map_of data k of Some (JObj m) \<Rightarrow> Some (put_members m []) | _ \<Rightarrow> None)"

text \<open>
  The conversion loop asserts that a decoded JSON value is a \<^verbatim>\<open>[]byte\<close>. No decoded value is one, so
  the loop panics unless the map is empty.
\<close>

definition to_bytes_map :: "(string \<times> json) list \<Rightarrow> pkgs outcome" where
  "to_bytes_map m = (if m = [] then Ret [] else Panic)"

definition handleDKGRound3 ::
  "'w MPCNode \<Rightarrow> NodeMessage \<Rightarrow> 'w \<Rightarrow> (unit res, 'w) served" where
  "handleDKGRound3 n req w =
     (case dec_object (Payload req) of
        Inl e \<Rightarrow> (Ret (Inl (''failed to parse round data: '' @ e)), n, w)
      | Inr data \<Rightarrow>
          (case lookup_object data ''round1'' of
             None \<Rightarrow> (Ret (Inl ''round1 not found in payload''), n, w)
           | Some round1JSON \<Rightarrow>
               (case lookup_object data ''round2'' of
                  None \<Rightarrow> (Ret (Inl ''round2 not found in payload''), n, w)
                | Some round2JSON \<Rightarrow>
                    (case to_bytes_map round1JSON of
                       Panic \<Rightarrow> (Panic, n, w)
                     | Ret round1Packages \<Rightarrow>
                         (case to_bytes_map round2JSON of
                            Panic \<Rightarrow> (Panic, n, w)
                          | Ret round2Packages \<Rightarrow>
                              (case ndkg n of
                                 None \<Rightarrow> (Panic, n, w)
                               | Some d \<Rightarrow>
                                   (case DKGPart3 (nenclave n) (dsSessionID d) (dsSecretPkg2 d)
                                           round1Packages round2Packages w of
                                      (Inl e, w1) \<Rightarrow> (Ret (Inl (''DKG part3 failed: '' @ e)), n, w1)
                                    | (Inr _, w1) \<Rightarrow> (Ret (Inr ()), n, w1))))))))"

text \<open>The common end of the dispatchers: an error becomes a message of type error, not a gRPC error.\<close>

fun finish :: "NodeMessage \<Rightarrow> (byte list res, 'w) served \<Rightarrow> (NodeMessage, 'w) served" where
  "finish req (Panic, n, w) = (Panic, n, w)"
| "finish req (Ret (Inl e), n, w) = (Ret (reply_error n req e), n, w)"
| "finish req (Ret (Inr payload), n, w) = (Ret (reply n req payload), n, w)"

fun no_payload :: "(unit res, 'w) served \<Rightarrow> (byte list res, 'w) served" where
  "no_payload (Panic, n, w) = (Panic, n, w)"
| "no_payload (Ret (Inl e), n, w) = (Ret (Inl e), n, w)"
| "no_payload (Ret (Inr _), n, w) = (Ret (Inr []), n, w)"

definition DKGMessage ::
  "(nat \<Rightarrow> nat) \<Rightarrow> (nat \<Rightarrow> nat) \<Rightarrow> u64 \<Rightarrow> 'w MPCNode \<Rightarrow> NodeMessage \<Rightarrow> 'w
   \<Rightarrow> (NodeMessage, 'w) served \<times> task list" where
  "DKGMessage pick1 pick2 clock n req w =
     (if MessageType req = ''trigger_dkg''
      then (finish req (no_payload (Ret (fst handleTriggerDKG), n, w)), snd handleTriggerDKG)
      else if MessageType req = ''trigger_reshare''
      then (finish req (no_payload (Ret (fst handleTriggerReshare), n, w)), snd handleTriggerReshare)
      else if MessageType req = ''dkg_round1'' then (finish req (handleDKGRound1 clock n req w), [])
      else if MessageType req = ''dkg_round2''
      then (finish req (handleDKGRound2 pick1 pick2 n req w), [])
      else if MessageType req = ''dkg_round3''
      then (finish req (no_payload (handleDKGRound3 n req w)), [])
      else (finish req (Ret (Inl (''unknown DKG message type: '' @ MessageType req)), n, w), []))"

section \<open>Signing messages\<close>

definition handleTriggerSign ::
  "'w net \<Rightarrow> (nat \<Rightarrow> nat res) \<Rightarrow> (nat \<Rightarrow> string) \<Rightarrow> 'w MPCNode \<Rightarrow> NodeMessage \<Rightarrow> 'w
   \<Rightarrow> (byte list res, 'w) served" where
  "handleTriggerSign N rnd sess n req w =
     Sign N rnd n sess (Payload req) (NodeID (ncfg n) # map fst (npeers n)) w"

definition handleSignStart :: "u64 \<Rightarrow> 'w MPCNode \<Rightarrow> NodeMessage \<Rightarrow> 'w \<Rightarrow> (unit res, 'w) served" where
  "handleSignStart clock n req w =
     (if nsign n \<noteq> None then (Ret (Inl ''signing session already in progress''), n, w)
      else (Ret (Inr ()),
            n\<lparr>nsign := Some \<lparr>ssSessionID = string_of (Payload req), ssMessage = Payload req,
                 ssParticipants = [], ssStartTime = clock, ssRound = 1\<rparr>\<rparr>, w))"

definition handleSignRound1 :: "'w MPCNode \<Rightarrow> NodeMessage \<Rightarrow> 'w \<Rightarrow> (byte list res, 'w) served" where
  "handleSignRound1 n req w =
     (case SignRound1 (nenclave n) (string_of (Payload req)) w of
        (Inl e, w1) \<Rightarrow> (Ret (Inl e), n, w1)
      | (Inr (nonceCommit, commitment), w1) \<Rightarrow> (Ret (Inr (enc_sign1 nonceCommit commitment)), n, w1))"

definition handleSignRound2 :: "'w MPCNode \<Rightarrow> NodeMessage \<Rightarrow> 'w \<Rightarrow> (byte list res, 'w) served" where
  "handleSignRound2 n req w =
     (case SignRound2 (nenclave n) (string_of (Payload req)) [] w of
        (Inl e, w1) \<Rightarrow> (Ret (Inl e), n, w1)
      | (Inr (partialSig, _), w1) \<Rightarrow> (Ret (Inr (enc_sign2 partialSig)), n, w1))"

definition handleCommitments :: "'w MPCNode \<Rightarrow> NodeMessage \<Rightarrow> 'w \<Rightarrow> (unit res, 'w) served" where
  "handleCommitments n req w =
     (case dec_pkgs (Payload req) of
        Inl e \<Rightarrow> (Ret (Inl (''failed to unmarshal commitments: '' @ e)), n, w)
      | Inr _ \<Rightarrow> (Ret (Inr ()), n, w))"

definition SignMessage ::
  "'w net \<Rightarrow> (nat \<Rightarrow> nat res) \<Rightarrow> (nat \<Rightarrow> string) \<Rightarrow> u64 \<Rightarrow> 'w MPCNode \<Rightarrow> NodeMessage \<Rightarrow> 'w
   \<Rightarrow> (NodeMessage, 'w) served" where
  "SignMessage N rnd sess clock n req w =
     (if MessageType req = ''trigger_sign'' then finish req (handleTriggerSign N rnd sess n req w)
      else if MessageType req = ''sign_start''
      then finish req (no_payload (handleSignStart clock n req w))
      else if MessageType req = ''round1'' then finish req (handleSignRound1 n req w)
      else if MessageType req = ''round2'' then finish req (handleSignRound2 n req w)
      else if MessageType req = ''commitments'' then finish req (no_payload (handleCommitments n req w))
      else finish req (Ret (Inl (''unknown message type: '' @ MessageType req)), n, w))"

section \<open>Direct calls\<close>

definition Heartbeat :: "'w MPCNode \<Rightarrow> u64 \<Rightarrow> u32 \<times> u64 \<times> bool" where
  "Heartbeat n sequence = (NodeID (ncfg n), sequence, True)"

text \<open>\<open>uuid\<close> is used when the request names no session.\<close>

definition TriggerSign_rpc ::
  "string \<Rightarrow> 'w MPCNode \<Rightarrow> byte list \<Rightarrow> u32 list \<Rightarrow> string \<Rightarrow> 'w \<Rightarrow> TriggerSignResponse \<times> 'w" where
  "TriggerSign_rpc uuid n message signers sessionId w =
     (let sessionID = (if sessionId = [] then uuid else sessionId)
      in case SignStart (nenclave n) sessionID message signers w of
           (Inl e, w1) \<Rightarrow> (\<lparr>tsAccepted = False, tsSessionId = sessionID, tsError = e\<rparr>, w1)
         | (Inr _, w1) \<Rightarrow> (\<lparr>tsAccepted = True, tsSessionId = sessionID, tsError = []\<rparr>, w1))"

definition AggregateSignatures_rpc ::
  "'w MPCNode \<Rightarrow> byte list \<Rightarrow> pkgs \<Rightarrow> byte list \<Rightarrow> string \<Rightarrow> 'w \<Rightarrow> AggregateResponse \<times> 'w" where
  "AggregateSignatures_rpc n message partials unsignedTx rpcUrl w =
     (case AggregateSignatures (nenclave n) message partials unsignedTx rpcUrl w of
        (Inl e, w1) \<Rightarrow> (\<lparr>agSuccess = False, agSignature = [], agError = e, agTxHash = []\<rparr>, w1)
      | (Inr (sig, txHash), w1) \<Rightarrow>
          (\<lparr>agSuccess = True, agSignature = sig, agError = [], agTxHash = txHash\<rparr>, w1))"

definition dm_fail :: "err \<Rightarrow> DirectMessageResponse" where
  "dm_fail e = \<lparr>dmSuccess = False, dmPayload = [], dmError = e\<rparr>"

definition DirectMessage_rpc ::
  "'w MPCNode \<Rightarrow> string \<Rightarrow> string \<Rightarrow> byte list \<Rightarrow> 'w \<Rightarrow> DirectMessageResponse \<times> 'w" where
  "DirectMessage_rpc n sessionId messageType payload w =
     (if messageType = ''round1_commitment'' then
        (case SignStart (nenclave n) sessionId [] [] w of
           (Inl e, w1) \<Rightarrow> (dm_fail e, w1)
         | (Inr _, w1) \<Rightarrow>
             (case SignRound1 (nenclave n) sessionId w1 of
                (Inl e, w2) \<Rightarrow> (dm_fail e, w2)
              | (Inr (_, commitment), w2) \<Rightarrow>
                  (\<lparr>dmSuccess = True, dmPayload = commitment, dmError = []\<rparr>, w2)))
      else if messageType = ''round2_partial'' then
        (case SignRound2 (nenclave n) sessionId payload w of
           (Inl e, w1) \<Rightarrow> (dm_fail e, w1)
         | (Inr (_, partialSig), w1) \<Rightarrow>
             (\<lparr>dmSuccess = True, dmPayload = partialSig, dmError = []\<rparr>, w1))
      else (dm_fail ''unknown message type'', w))"

definition AbortSign_rpc :: "'w MPCNode \<Rightarrow> string \<Rightarrow> 'w \<Rightarrow> (bool \<times> err) \<times> 'w" where
  "AbortSign_rpc n sessionId w =
     (case SignAbort (nenclave n) sessionId w of
        (Inl e, w1) \<Rightarrow> ((False, e), w1)
      | (Inr _, w1) \<Rightarrow> ((True, []), w1))"

end
