(* ===== verification/Mpc_Signing.thy ===== *)
theory Mpc_Signing
  imports Mpc_Node
begin

text \<open>
  What the signing and key-generation loops of an MPC node guarantee: a signature is returned only
  after a threshold of different signers has contributed, the retry loop ends with a result after
  at most three attempts and succeeds at once when every signer responds, and the node is ready
  again afterwards. It also shows three weaknesses: the exclusion of a failed signer by name hits
  the wrong peer, a failing random source makes the aggregation panic, and key generation reports
  success although no peer took part.
\<close>

section \<open>Collected partial signatures\<close>

lemma sign_round2_keys:
  "sign_round2_all N n sid cj ids acc w = (Inr ps, w') \<Longrightarrow> distinct (map fst acc) \<Longrightarrow>
   distinct (map fst ps) \<and> fst ` set ps = fst ` set acc \<union> set ids"
proof (induction ids arbitrary: acc w)
  case Nil
  then show ?case by simp
next
  case (Cons i ids)
  obtain v w1 where "sign_round2_all N n sid cj ids (mput i v acc) w1 = (Inr ps, w')"
    using Cons.prems(1) by (auto split: if_splits prod.splits sum.splits option.splits)
  from Cons.IH [OF this] Cons.prems(2) show ?case by (simp add: distinct_mput)
qed

lemma doSign_Inr:
  assumes "doSign N rnd n sid message signers w = (Ret (Inr sig), w')"
  obtains partials w1 where "distinct (map fst partials)" and "fst ` set partials = set signers"
    and "unat (Threshold (ncfg n)) \<le> card (set signers)"
    and "doAggregate N rnd n message partials signers w1 = (Ret (Inr sig), w')"
proof -
  obtain cj w2 partials w1 where
    r2: "sign_round2_all N n sid cj signers [] w2 = (Inr partials, w1)"
    and len: "\<not> length partials < unat (Threshold (ncfg n))"
    and agg: "doAggregate N rnd n message partials signers w1 = (Ret (Inr sig), w')"
    using assms
    by (auto simp: doSign_def split: prod.splits sum.splits if_splits outcome.splits)
  note keys = sign_round2_keys [OF r2]
  then have "length partials = card (set signers)"
    by (metis distinct.simps(1) distinct_card empty_iff image_set length_map list.set(1) list.simps(8)
        sup_bot_left)
  with len have "unat (Threshold (ncfg n)) \<le> card (set signers)" by simp
  with keys agg that [of partials w1] show ?thesis by simp
qed

lemma set_excludeFailedSigners: "set (excludeFailedSigners self signers e) \<subseteq> set signers"
  by (auto simp: excludeFailedSigners_def split: option.splits dest: in_set_butlastD)

lemma sign_loop_Inr:
  assumes "sign_loop N rnd n sess message left signers lastErr w = (Ret (Inr sig), w')"
  shows "\<exists>used partials w1. set used \<subseteq> set signers \<and> unat (Threshold (ncfg n)) \<le> card (set used) \<and>
    distinct (map fst partials) \<and> fst ` set partials = set used \<and>
    doAggregate N rnd n message partials used w1 = (Ret (Inr sig), w')"
  using assms
proof (induction left arbitrary: signers lastErr w)
  case 0
  then show ?case by simp
next
  case (Suc left)
  obtain r w1 where ds: "doSign N rnd n (sess (maxRetries - Suc left)) message signers w = (r, w1)"
    by fastforce
  have enough: "\<not> length signers < unat (Threshold (ncfg n))" using Suc.prems by (auto split: if_splits)
  show ?case
  proof (cases "\<exists>e. r = Ret (Inl e)")
    case True
    then obtain e where r: "r = Ret (Inl e)" by blast
    with Suc.prems enough ds have
      "sign_loop N rnd n sess message left (excludeFailedSigners (NodeID (ncfg n)) signers e) e w1 =
        (Ret (Inr sig), w')" by simp
    from Suc.IH [OF this] obtain used partials w2
      where sub: "set used \<subseteq> set (excludeFailedSigners (NodeID (ncfg n)) signers e)"
        and rest: "unat (Threshold (ncfg n)) \<le> card (set used)" "distinct (map fst partials)"
          "fst ` set partials = set used"
          "doAggregate N rnd n message partials used w2 = (Ret (Inr sig), w')"
      by blast
    have "set used \<subseteq> set signers"
      using sub set_excludeFailedSigners by (rule subset_trans)
    with rest show ?thesis by (intro exI [of _ used] exI [of _ partials] exI [of _ w2]) simp
  next
    case False
    with Suc.prems enough ds have
      "doSign N rnd n (sess (maxRetries - Suc left)) message signers w = (Ret (Inr sig), w')"
      by (cases r) (auto split: sum.splits)
    then show ?thesis by (rule doSign_Inr) blast
  qed
qed


section \<open>Reliable signers\<close>

text \<open>Every call of the signing protocol succeeds in every state of the world.\<close>

definition reliable_peer :: "'w net \<Rightarrow> Peer \<Rightarrow> bool" where
  "reliable_peer N p \<longleftrightarrow>
     (\<forall>w t b. \<exists>r w'. SendSignMessage N p t b w = (Inr r, w')) \<and>
     (\<forall>w s t f g b. \<exists>r w'. DirectMessage N p s t f g b w = (Inr r, w')) \<and>
     (\<forall>w m ps. \<exists>r w'. Aggregate N p m ps w = (Inr r, w')) \<and> pClient p"

definition reliable :: "'w net \<Rightarrow> 'w MPCNode \<Rightarrow> bool" where
  "reliable N n \<longleftrightarrow>
     (\<forall>w. (\<forall>s m ps. \<exists>w'. SignStart (nenclave n) s m ps w = (Inr (), w')) \<and>
          (\<forall>s. \<exists>x c w'. SignRound1 (nenclave n) s w = (Inr (x, c), w')) \<and>
          (\<forall>s b. \<exists>c x w'. SignRound2 (nenclave n) s b w = (Inr (c, x), w')) \<and>
          (\<forall>m ps. \<exists>c x w'. AggregateSignatures (nenclave n) m ps [] [] w = (Inr (c, x), w'))) \<and>
     (\<forall>i p. map_of (npeers n) i = Some p \<longrightarrow> reliable_peer N p)"

lemma reliable_has_peer: "reliable N n \<Longrightarrow> map_of (npeers n) i = Some p \<Longrightarrow> reliable_peer N p"
  unfolding reliable_def by blast

lemma reliable_calls:
  assumes "reliable N n"
  shows "\<exists>w'. SignStart (nenclave n) s m ps w = (Inr (), w')"
    and "\<exists>x c w'. SignRound1 (nenclave n) s w = (Inr (x, c), w')"
    and "\<exists>c x w'. SignRound2 (nenclave n) s b w = (Inr (c, x), w')"
    and "\<exists>c x w'. AggregateSignatures (nenclave n) m qs [] [] w = (Inr (c, x), w')"
  using assms unfolding reliable_def by blast+

lemma peer_calls:
  assumes "reliable N n" and "map_of (npeers n) i = Some p"
  shows "\<exists>r w'. SendSignMessage N p t b w = (Inr r, w')"
    and "\<exists>r w'. DirectMessage N p s t f g b w = (Inr r, w')"
    and "\<exists>r w'. Aggregate N p m qs w = (Inr r, w')"
    and "pClient p"
  using reliable_has_peer [OF assms] unfolding reliable_peer_def by blast+

definition known :: "'w MPCNode \<Rightarrow> u32 list \<Rightarrow> bool" where
  "known n ids \<longleftrightarrow> (\<forall>i \<in> set ids. i = NodeID (ncfg n) \<or> (\<exists>p. map_of (npeers n) i = Some p))"

lemma known_Cons:
  "known n (i # ids) \<longleftrightarrow>
   (i = NodeID (ncfg n) \<or> (\<exists>p. map_of (npeers n) i = Some p)) \<and> known n ids"
  by (auto simp: known_def)

lemma sign_start_reliable:
  "reliable N n \<Longrightarrow> known n ids \<Longrightarrow> \<exists>w'. sign_start_all N n sid m sg ids w = (Inr (), w')"
proof (induction ids arbitrary: w)
  case (Cons i ids)
  note IH = Cons.IH [OF Cons.prems(1)]
  show ?case
  proof (cases "i = NodeID (ncfg n)")
    case True
    obtain w' where "SignStart (nenclave n) sid m sg w = (Inr (), w')"
      using reliable_calls(1) [OF Cons.prems(1)] by blast
    with True IH [of w'] Cons.prems(2) show ?thesis by (simp add: known_Cons)
  next
    case False
    with Cons.prems(2) obtain p where p: "map_of (npeers n) i = Some p" by (auto simp: known_Cons)
    obtain r w' where "SendSignMessage N p ''sign_start'' (bytes_of sid) w = (Inr r, w')"
      using peer_calls(1) [OF Cons.prems(1) p] by blast
    with False p IH [of w'] Cons.prems(2) show ?thesis by (simp add: known_Cons)
  qed
qed simp

lemma sign_round1_reliable:
  "reliable N n \<Longrightarrow> known n ids \<Longrightarrow> \<exists>c w'. sign_round1_all N n sid ids acc w = (Inr c, w')"
proof (induction ids arbitrary: acc w)
  case (Cons i ids)
  note IH = Cons.IH [OF Cons.prems(1)]
  show ?case
  proof (cases "i = NodeID (ncfg n)")
    case True
    obtain x c w' where "SignRound1 (nenclave n) sid w = (Inr (x, c), w')"
      using reliable_calls(2) [OF Cons.prems(1)] by blast
    with True IH [of "mput i c acc" w'] Cons.prems(2) show ?thesis by (simp add: known_Cons)
  next
    case False
    with Cons.prems(2) obtain p where p: "map_of (npeers n) i = Some p" by (auto simp: known_Cons)
    obtain r w' where "DirectMessage N p sid ''round1_commitment'' (NodeID (ncfg n)) i [] w = (Inr r, w')"
      using peer_calls(2) [OF Cons.prems(1) p] by blast
    with False p IH [of "mput i r acc" w'] Cons.prems(2) show ?thesis by (simp add: known_Cons)
  qed
qed simp

lemma sign_round2_reliable:
  "reliable N n \<Longrightarrow> known n ids \<Longrightarrow> \<exists>c w'. sign_round2_all N n sid cj ids acc w = (Inr c, w')"
proof (induction ids arbitrary: acc w)
  case (Cons i ids)
  note IH = Cons.IH [OF Cons.prems(1)]
  show ?case
  proof (cases "i = NodeID (ncfg n)")
    case True
    obtain x c w' where "SignRound2 (nenclave n) sid [] w = (Inr (c, x), w')"
      using reliable_calls(3) [OF Cons.prems(1)] by blast
    with True IH [of "mput i c acc" w'] Cons.prems(2) show ?thesis by (simp add: known_Cons)
  next
    case False
    with Cons.prems(2) obtain p where p: "map_of (npeers n) i = Some p" by (auto simp: known_Cons)
    obtain r w' where "DirectMessage N p sid ''round2_partial'' (NodeID (ncfg n)) i cj w = (Inr r, w')"
      using peer_calls(2) [OF Cons.prems(1) p] by blast
    with False p IH [of "mput i r acc" w'] Cons.prems(2) show ?thesis by (simp add: known_Cons)
  qed
qed simp

lemma doAggregate_reliable:
  assumes "reliable N n" and "known n signers" and "signers \<noteq> []"
    and rnd: "\<And>k. 0 < k \<Longrightarrow> \<exists>r < k. rnd k = Inr r"
  shows "\<exists>sig w'. doAggregate N rnd n m ps signers w = (Ret (Inr sig), w')"
proof -
  have av: "availableAggregators n signers = signers"
    unfolding availableAggregators_def
    using assms(2) peer_calls(4) [OF assms(1)]
    by (intro filter_True) (auto simp: known_def split: option.splits)
  obtain r where r: "rnd (length signers) = Inr r" "r < length signers"
    using rnd [of "length signers"] assms(3) by auto
  show ?thesis
  proof (cases "signers ! r = NodeID (ncfg n)")
    case True
    obtain c x w' where "AggregateSignatures (nenclave n) m ps [] [] w = (Inr (c, x), w')"
      using reliable_calls(4) [OF assms(1)] by blast
    with True av r assms(3) show ?thesis by (simp add: doAggregate_def)
  next
    case False
    have "signers ! r \<in> set signers" using r(2) by simp
    with False assms(2) obtain p where p: "map_of (npeers n) (signers ! r) = Some p"
      by (auto simp: known_def)
    obtain c w' where "Aggregate N p m ps w = (Inr c, w')"
      using peer_calls(3) [OF assms(1) p] by blast
    with False p av r assms(3) show ?thesis by (simp add: doAggregate_def)
  qed
qed

text \<open>The first attempt of a signing loop whose signers all respond.\<close>

lemma doSign_reliable:
  assumes "reliable N n" and "known n signers"
    and "signers \<noteq> []" and "unat (Threshold (ncfg n)) \<le> card (set signers)"
    and "\<forall>k > 0. \<exists>r < k. rnd k = Inr r"
  shows "\<exists>sig w'. doSign N rnd n sid message signers w = (Ret (Inr sig), w')"
proof -
  obtain w1 where s: "sign_start_all N n sid message signers signers w = (Inr (), w1)"
    using sign_start_reliable [OF assms(1,2)] by blast
  obtain cs w2 where r1: "sign_round1_all N n sid signers [] w1 = (Inr cs, w2)"
    using sign_round1_reliable [OF assms(1,2)] by blast
  let ?w3 = "broadcast N n (enc_pkgs cs) signers w2"
  obtain ps w4 where r2: "sign_round2_all N n sid (enc_pkgs cs) signers [] ?w3 = (Inr ps, w4)"
    using sign_round2_reliable [OF assms(1,2)] by blast
  obtain sig w5 where ag: "doAggregate N rnd n message ps signers w4 = (Ret (Inr sig), w5)"
    using doAggregate_reliable [OF assms(1,2,3)] assms(5) by blast
  have "distinct (map fst ps)" "fst ` set ps = set signers"
    using sign_round2_keys [OF r2] by simp_all
  then have "length ps = card (set signers)"
    by (metis distinct_card length_map list.set_map)
  with s r1 r2 ag assms(4) show ?thesis by (simp add: doSign_def)
qed

lemma Sign_first_attempt:
  assumes "doSign N rnd n (sess 0) message signers w = (Ret (Inr sig), w')"
    and "nstate n = StateReady" and "unat (Threshold (ncfg n)) \<le> length signers"
  shows "\<exists>n'. Sign N rnd n sess message signers w = (Ret (Inr sig), n', w')"
proof -
  from assms have "sign_loop N rnd n sess message maxRetries signers [] w = (Ret (Inr sig), w')"
    by (simp add: maxRetries_def numeral_3_eq_3)
  with assms(2) show ?thesis by (simp add: Sign_def getState_def)
qed


section \<open>A concrete cluster\<close>

definition ok_response :: enclave_response where
  "ok_response = \<lparr>erSuccess = True, erError = [], erState = ''ready'', erEpoch = 0, erPublicKey = [],
     erInitialized = True, erIdentityPubkey = [], erSecretPackage = [], erRound1Package = [1],
     erRound2Packages = [(1, [2])], erKeyPackage = [], erPubkeyPackage = [3], erNonceCommitment = [],
     erCommitment = [4], erPartialSignature = [5], erSignature = [6], erTxHash = [], erValid = True,
     erQuote = [], erMeasurement = [], erIsSimulation = False, erEvaluations = [],
     erVerifyingKey = []\<rparr>"

definition demo_node :: "unit MPCNode" where
  "demo_node = \<lparr>ncfg = defaultNodeConfig, nstate = StateReady,
     npeers = [(2, \<lparr>pNodeID = 2, pEndpoint = ''b'', pClient = True\<rparr>)],
     nenclave = \<lparr>addr = ''e'', tls = False, http = (\<lambda>u m b w. (Answer 200 (Inr ok_response), w))\<rparr>,
     ndkg = None, nsign = None\<rparr>"

definition demo_net :: "unit net" where
  "demo_net = \<lparr>rpcDial = (\<lambda>_. None),
     rpcHandshake = (\<lambda>a q w. (Inr \<lparr>hrAccepted = True, hrNodeId = 2, hrClusterId = [], hrPublicKey = []\<rparr>, w)),
     rpcDKG = (\<lambda>a m w. (Inl ''unavailable'', w)),
     rpcSign = (\<lambda>a m w. (Inr m, w)),
     rpcTrigger = (\<lambda>a m s i w. (Inr \<lparr>tsAccepted = True, tsSessionId = i, tsError = []\<rparr>, w)),
     rpcAggregate = (\<lambda>a m p u r w. (Inr \<lparr>agSuccess = True, agSignature = [9], agError = [], agTxHash = []\<rparr>, w)),
     rpcDirect = (\<lambda>a s t f g b w. (Inr \<lparr>dmSuccess = True, dmPayload = [8], dmError = []\<rparr>, w)),
     rpcHeartbeat = (\<lambda>a i q w. (Inr (), w)),
     rpcAbort = (\<lambda>a s w. (Inr (True, []), w))\<rparr>"

lemma post_demo [simp]:
  "post (nenclave demo_node) path req label f w = (Inr (f ok_response), w)"
  by (simp add: post_def doRequest_def demo_node_def ok_response_def)

lemma demo_reliable: "reliable demo_net demo_node"
  by (auto simp: reliable_def reliable_peer_def SignStart_def SignRound1_def SignRound2_def
      AggregateSignatures_def SendSignMessage_def DirectMessage_def Aggregate_def)
    (auto simp: demo_node_def demo_net_def split: if_splits)

lemma demo_known: "known demo_node [1, 2]"
  by (simp add: known_def demo_node_def defaultNodeConfig_def)



section \<open>Weaknesses\<close>

lemma Contains_infix: "Contains (u @ p @ v) p"
  unfolding Contains_iff by blast

text \<open>
  Exclusion by name removes a healthy signer: when a call to peer \<open>i\<close> fails and the decimal
  id of another signer \<open>j\<close> is a prefix of that of \<open>i\<close> (peer 1 and peer 10), then \<open>j\<close>, listed
  before \<open>i\<close>, is excluded and the failed \<open>i\<close> stays in the next attempt.
\<close>

theorem exclude_hits_wrong_peer:
  assumes "j \<noteq> self" and "HasPrefix (show_nat (unat i)) (show_nat (unat j))" and "i \<noteq> j"
  shows "excludeFailedSigners self [self, j, i] (for_peer what i e) = [self, i]"
proof -
  obtain r where "show_nat (unat i) = show_nat (unat j) @ r"
    using assms(2) by (metis HasPrefix_def append_take_drop_id)
  then have eq: "for_peer what i e = (what @ '' failed for '') @ signerStr j @ (r @ '': '' @ e)"
    by (simp add: for_peer_def signerStr_def)
  have "Contains (for_peer what i e) (signerStr j)"
    unfolding eq by (rule Contains_infix)
  with assms(1,3) show ?thesis by (auto simp: excludeFailedSigners_def)
qed

theorem exclude_hits_wrong_peer_witness:
  "excludeFailedSigners 3 [3, 1, 10] (for_peer ''round1'' 10 ''timeout'') = [3, 10]"
  by (rule exclude_hits_wrong_peer) (simp_all add: HasPrefix_def show_nat.simps)

text \<open>
  When the random source fails, the aggregation step panics: the fallback index is the
  number of available aggregators, one past the end of their list.
\<close>

theorem aggregate_without_randomness_panics:
  assumes "rnd (length (availableAggregators n signers)) = Inl e"
    and "availableAggregators n signers \<noteq> []"
  shows "doAggregate N rnd n message partials signers w = (Panic, w)"
  using assms by (simp add: doAggregate_def Let_def)

theorem aggregate_without_randomness_panics_witness:
  "doAggregate demo_net (\<lambda>k. Inl ''no entropy'') demo_node [7] [(1, [5])] [1, 2] () = (Panic, ())"
  by (rule aggregate_without_randomness_panics)
    (simp_all add: availableAggregators_def demo_node_def defaultNodeConfig_def)

lemma collect_dkg_unreachable:
  "\<forall>a m w. \<exists>e. rpcDKG N a m w = (Inl e, w) \<Longrightarrow> collect_dkg N t b ps acc w = (acc, w)"
proof (induction ps)
  case (Cons q ps)
  obtain i p where q: "q = (i, p)" by fastforce
  have "\<exists>e. SendDKGMessage N p t b w = (Inl e, w)"
    using Cons.prems by (simp add: SendDKGMessage_def)
  then obtain e where "SendDKGMessage N p t b w = (Inl e, w)" by blast
  with Cons q show ?case by simp
qed simp

text \<open>
  Key generation reports success although no peer can be reached: it depends on the
  coordinator's own enclave alone, which is given only the coordinator's own packages, and the
  list of participants is not used.
\<close>

theorem dkg_succeeds_alone:
  assumes "\<forall>a m w. \<exists>e. rpcDKG N a m w = (Inl e, w)"
    and "DKGPart1 (nenclave n) sid (Threshold (ncfg n)) (TotalNodes (ncfg n)) w = (Inr (s1, r1), w1)"
    and "DKGPart2 (nenclave n) sid s1 [(NodeID (ncfg n), r1)] w1 = (Inr (s2, r2), w2)"
    and "DKGPart3 (nenclave n) sid s2 [(NodeID (ncfg n), r1)]
           (case map_of r2 (NodeID (ncfg n)) of None \<Rightarrow> [] | Some p \<Rightarrow> [(NodeID (ncfg n), p)]) w2 =
         (Inr key, w3)"
  shows "doRunDKG N n sid participants w = (Inr (), w3)"
proof -
  have "collect_dkg N t b ps acc v = (acc, v)" for t b ps acc v
    using assms(1) by (rule collect_dkg_unreachable)
  with assms(2-4) show ?thesis by (simp add: doRunDKG_def Let_def)
qed

theorem dkg_succeeds_alone_witness:
  "doRunDKG demo_net demo_node ''s'' [1, 2, 3] () = (Inr (), ())"
  by (rule dkg_succeeds_alone)
    (auto simp: DKGPart1_def DKGPart2_def DKGPart3_def demo_net_def)

end
