(* ===== verification/Mpc_Cluster.thy ===== *)
theory Mpc_Cluster
  imports Mpc_Server Mpc_Signing
begin

text \<open>
  Properties that need both sides of the node protocol, the calling code of \<^verbatim>\<open>node.go\<close> and the
  handlers of \<^verbatim>\<open>server.go\<close>.
\<close>

section \<open>The handshake\<close>

lemma handshake_rejects: "\<not> hrAccepted (Handshake n req)"
proof -
  have "string_of (take 14 q) \<noteq> sim_prefix" for q
  proof
    assume "string_of (take 14 q) = sim_prefix"
    then have "length (string_of (take 14 q)) = length sim_prefix" by simp
    then show False by (simp add: sim_prefix_def)
  qed
  then show ?thesis by (simp add: Handshake_def Let_def)
qed

lemma connect_loop_rejected:
  assumes "\<And>a q v. \<exists>r v'. rpcHandshake N a q v = (r, v') \<and> (\<forall>resp. r = Inr resp \<longrightarrow> \<not> hrAccepted resp)"
  shows "fst (connect_loop N cfg att ids ps w) = ps"
proof (induction ids arbitrary: w)
  case (Cons i ids)
  let ?q = "\<lparr>hqNodeId = NodeID cfg, hqClusterId = ClusterID cfg, hqAttestation = att\<rparr>"
  have "fst (case rpcHandshake N a ?q w of
          (Inl _, w1) \<Rightarrow> connect_loop N cfg att ids ps w1
        | (Inr resp, w1) \<Rightarrow> if \<not> hrAccepted resp then connect_loop N cfg att ids ps w1
            else connect_loop N cfg att ids (mput i \<lparr>pNodeID = i, pEndpoint = a, pClient = True\<rparr> ps) w1) = ps"
    for a
    using assms [of a ?q w] Cons.IH by (auto split: sum.splits)
  with Cons.IH show ?case by (simp split: option.split)
qed simp

text \<open>
  C40: No node of a cluster ever gets a peer. The handshake compares the first 14 bytes of the
  attestation with a text of 15 characters, so it rejects every request; when all peers run this
  handshake, a node that starts has no peers, and with a threshold of two or more its key
  generation fails without a single attempt.
\<close>

theorem cluster_never_forms:
  fixes n :: "'w MPCNode"
  assumes "\<forall>a q v. \<exists>e (m :: 'w MPCNode) v'.
      rpcHandshake N a q v = (Inl e, v') \<or> rpcHandshake N a q v = (Inr (Handshake m q), v')"
    and "npeers n = []" and "1 < unat (Threshold (ncfg n))"
    and "Start N ids n w = (Inr (), n', w')"
  shows "npeers n' = [] \<and>
    RunDKG N n' sess v = (Inl (not_enough ''participants'' 1 (Threshold (ncfg n))), v)"
proof -
  have "\<exists>r v'. rpcHandshake N a q v = (r, v') \<and> (\<forall>resp. r = Inr resp \<longrightarrow> \<not> hrAccepted resp)"
    for a q v
    using assms(1) [THEN spec, of a, THEN spec, of q, THEN spec, of v] handshake_rejects by fastforce
  note loop = connect_loop_rejected [OF this]
  have "npeers n' = [] \<and> ncfg n' = ncfg n"
    using assms(2,4) loop
    by (auto simp: Start_def connectToPeers_def setState_def split: prod.splits sum.splits)
      (metis fst_conv)
  with assms(3) show ?thesis
    by (simp add: RunDKG_def maxRetries_def numeral_3_eq_3)
qed

definition lonely_net :: "unit net" where
  "lonely_net = demo_net\<lparr>rpcHandshake := (\<lambda>a q w. (Inr (Handshake demo_node q), w))\<rparr>"

theorem cluster_never_forms_witness:
  "\<exists>n' w'. Start lonely_net [2, 3] (demo_node\<lparr>npeers := [], ncfg := defaultNodeConfig\<lparr>PeerAddrs := [2 \<mapsto> ''b'', 3 \<mapsto> ''c'']\<rparr>\<rparr>) () =
      (Inr (), n', w') \<and> npeers n' = []"
proof -
  let ?n = "demo_node\<lparr>npeers := [], ncfg := defaultNodeConfig\<lparr>PeerAddrs := [2 \<mapsto> ''b'', 3 \<mapsto> ''c'']\<rparr>\<rparr>"
  have "is_ok (fst (Start lonely_net [2, 3] ?n ()))" by code_simp
  then obtain n' w' where s: "Start lonely_net [2, 3] ?n () = (Inr (), n', w')"
    by (cases "Start lonely_net [2, 3] ?n ()") (auto simp: is_ok_iff)
  have h: "\<forall>a q v. \<exists>e (m :: unit MPCNode) v'. rpcHandshake lonely_net a q v = (Inl e, v') \<or>
      rpcHandshake lonely_net a q v = (Inr (Handshake m q), v')"
    by (simp add: lonely_net_def) blast
  have "1 < unat (Threshold (ncfg ?n))" by (simp add: defaultNodeConfig_def)
  from cluster_never_forms [OF h _ this s] s show ?thesis by simp
qed

section \<open>Messages that break a node\<close>

text \<open>
  C36: The package maps the coordinator of key generation and of signing sends arrive as they were
  sent: the map read from a second-round payload is the coordinator's map, a node with a session
  passes exactly that map to its enclave, and the commitments of a signing session are always
  accepted.
\<close>

theorem packages_delivered:
  assumes "distinct (map fst m)" and "Payload req = enc_pkgs m"
  shows "\<exists>m'. map_of m' = map_of m \<and>
    (\<forall>d. ndkg n = Some d \<longrightarrow>
      handleDKGRound2 pick1 pick2 n req w =
        (case DKGPart2 (nenclave n) (dsSessionID d) (dsSecretPkg1 d) m' w of
           (Inl e, w1) \<Rightarrow> (Ret (Inl (''DKG part2 failed: '' @ e)), n, w1)
         | (Inr (_, []), w1) \<Rightarrow> (Ret (Inl ''no round2 package generated''), n, w1)
         | (Inr (_, p # ps), w1) \<Rightarrow>
             (Ret (Inr (snd ((p # ps) ! (pick2 (Suc (length ps)) mod Suc (length ps))))),
              n\<lparr>ndkg := Some (d\<lparr>dsSecretPkg2 :=
                snd ((p # ps) ! (pick1 (Suc (length ps)) mod Suc (length ps)))\<rparr>)\<rparr>, w1))) \<and>
    handleCommitments n req w = (Ret (Inr ()), n, w)"
proof -
  obtain m' where "dec_pkgs (Payload req) = Inr m'" "map_of m' = map_of m"
    using dec_enc_pkgs_map [OF assms(1)] assms(2) by auto
  then show ?thesis
    by (intro exI [of _ m'])
      (auto simp: handleDKGRound2_def handleCommitments_def split: sum.splits prod.splits list.splits)
qed

theorem packages_delivered_witness:
  "handleCommitments demo_node \<lparr>MessageType = ''commitments'', FromNode = 2, ToNode = 1,
     Payload = enc_pkgs [(10, [1, 2]), (9, [])]\<rparr> () = (Ret (Inr ()), demo_node, ())"
proof -
  have "distinct (map fst [(10 :: u32, [1, 2] :: byte list), (9, [])])" by simp
  from packages_delivered [OF this, of "\<lparr>MessageType = ''commitments'', FromNode = 2, ToNode = 1,
     Payload = enc_pkgs [(10, [1, 2]), (9, [])]\<rparr>" demo_node "\<lambda>_. 0" "\<lambda>_. 0" "()"]
  show ?thesis by (simp only: NodeMessage.simps) blast
qed

text \<open>
  The round 3 message that a key-generation coordinator sends makes the receiving node
  panic: JSON carries byte strings as base64 text, while the handler asserts that the decoded
  values are byte slices. The coordinator's round 1 map is never empty.
\<close>

theorem round3_panics:
  assumes "MessageType req = ''dkg_round3''" and "Payload req = enc_rounds r1 r2" and "r1 \<noteq> []"
  shows "DKGMessage pick1 pick2 clock n req w = ((Panic, n, w), [])"
proof -
  have "put_members ms q \<noteq> []" if "ms \<noteq> [] \<or> q \<noteq> []" for ms q
    using that
  proof (induction ms q rule: put_members.induct)
    case (2 k j ms m)
    have "mput (unquote k) j m \<noteq> []" by (cases m) (auto split: if_splits)
    with 2 show ?case by simp
  qed simp
  moreover have "sort_key f r1 \<noteq> []" for f :: "u32 \<times> byte list \<Rightarrow> string"
    using assms(3) by (metis length_0_conv length_sort)
  ultimately show ?thesis
    using assms dec_enc_rounds [of r1 r2]
    by (simp add: DKGMessage_def handleDKGRound3_def lookup_object_def json_pkgs_def to_bytes_map_def)
qed

theorem round3_panics_witness:
  "DKGMessage (\<lambda>_. 0) (\<lambda>_. 0) 5 demo_node \<lparr>MessageType = ''dkg_round3'', FromNode = 2, ToNode = 1,
     Payload = enc_rounds [(2, [1])] []\<rparr> () = ((Panic, demo_node, ()), [])"
  by (rule round3_panics [of _ "[(2, [1])]" "[]"]) simp_all

text \<open>
  The answer to the second signing round carries the wrong field: the direct message, which
  the coordinator uses, returns the enclave's commitment, while the handler of the older message
  type returns the partial signature of the same enclave answer.
\<close>

theorem direct_round2_returns_commitment:
  assumes "http (nenclave n) ((if tls (nenclave n) then ''https'' else ''http'') @ ''://'' @
      addr (nenclave n) @ ''/sign/round2'') ''POST'' (Some (SignRound2Request sid [])) w =
      (Answer st (Inr r), w1)" and "erSuccess r"
  shows "fst (DirectMessage_rpc n sid ''round2_partial'' [] w) =
      \<lparr>dmSuccess = True, dmPayload = erCommitment r, dmError = []\<rparr> \<and>
    handleSignRound2 n \<lparr>MessageType = ''round2'', FromNode = f, ToNode = t, Payload = bytes_of sid\<rparr> w =
      (Ret (Inr (enc_sign2 (erPartialSignature r))), n, w1)"
proof -
  have "SignRound2 (nenclave n) sid [] w = (Inr (erPartialSignature r, erCommitment r), w1)"
    using assms by (auto simp: SignRound2_def post_Inr_iff)
  then show ?thesis by (simp add: DirectMessage_rpc_def handleSignRound2_def)
qed

theorem direct_round2_returns_commitment_witness:
  "fst (DirectMessage_rpc demo_node ''s'' ''round2_partial'' [] ()) =
     \<lparr>dmSuccess = True, dmPayload = [4], dmError = []\<rparr> \<and> erPartialSignature ok_response = [5]"
  using direct_round2_returns_commitment [of demo_node "''s''" "()" 200 ok_response "()"]
  by (simp add: demo_node_def ok_response_def)

text \<open>One message of either service, as a step of the node.\<close>

datatype node_msg = DkgMsg NodeMessage | SignMsg NodeMessage

definition serve ::
  "'w net \<Rightarrow> (nat \<Rightarrow> nat res) \<Rightarrow> (nat \<Rightarrow> string) \<Rightarrow> u64 \<Rightarrow> node_msg \<Rightarrow> 'w MPCNode \<times> 'w \<Rightarrow> 'w MPCNode \<times> 'w" where
  "serve N rnd sess clock m = (\<lambda>(n, w).
     case m of
       DkgMsg req \<Rightarrow> snd (fst (DKGMessage (\<lambda>_. 0) (\<lambda>_. 0) clock n req w))
     | SignMsg req \<Rightarrow> snd (SignMessage N rnd sess clock n req w))"

lemma finish_node [simp]: "snd (finish req s) = snd s"
  by (cases "(req, s)" rule: finish.cases) auto

lemma no_payload_node [simp]: "snd (no_payload s) = snd s"
  by (cases s rule: no_payload.cases) auto

lemma serve_keeps_session:
  assumes "nsign n = Some s"
  shows "nsign (fst (serve N rnd sess clock m (n, w))) = Some s"
proof (cases m)
  case (DkgMsg req)
  with assms show ?thesis
    by (auto simp: serve_def DKGMessage_def handleDKGRound1_def handleDKGRound2_def handleDKGRound3_def
        to_bytes_map_def Let_def split: sum.splits prod.splits option.splits outcome.splits)
next
  case (SignMsg req)
  with assms show ?thesis
    by (auto simp: serve_def SignMessage_def handleTriggerSign_def handleSignStart_def
        handleSignRound1_def handleSignRound2_def handleCommitments_def Sign_def setState_def
        split: sum.splits prod.splits option.splits)
qed

text \<open>
  A signing session, once started by a message, is never cleared: whatever messages the node
  serves afterwards, every further request to start a session is answered with an error.
\<close>

theorem sign_session_stuck:
  assumes "nsign n = Some s" and "MessageType req = ''sign_start''"
    and "fold (serve N rnd sess clock) ms (n, w) = (n', w')"
  shows "fst (SignMessage N rnd sess clock n' req w') =
    Ret (reply_error n' req ''signing session already in progress'')"
proof -
  have "nsign (fst (fold (serve N rnd sess clock) ms (n, w))) = Some s"
    using assms(1)
  proof (induction ms arbitrary: n w)
    case (Cons m ms)
    then show ?case
      using serve_keeps_session [OF Cons.prems, of N rnd sess clock m w]
      by (cases "serve N rnd sess clock m (n, w)") auto
  qed simp
  with assms(2,3) show ?thesis
    by (simp add: SignMessage_def handleSignStart_def)
qed

theorem sign_session_stuck_witness:
  "fst (SignMessage demo_net (\<lambda>k. Inr 0) (\<lambda>_. ''s'') 5
      (demo_node\<lparr>nsign := Some \<lparr>ssSessionID = ''a'', ssMessage = [], ssParticipants = [], ssStartTime = 1,
         ssRound = 1\<rparr>\<rparr>) \<lparr>MessageType = ''sign_start'', FromNode = 2, ToNode = 1, Payload = []\<rparr> ()) =
   Ret \<lparr>MessageType = ''error'', FromNode = 1, ToNode = 2,
        Payload = bytes_of ''signing session already in progress''\<rparr>"
  by (subst sign_session_stuck [where ms = "[]" and w = "()"])
    (auto simp: reply_error_def demo_node_def defaultNodeConfig_def)

end
