(* ===== verification/Mpc_Orchestrator.thy ===== *)
theory Mpc_Orchestrator
  imports Mpc_Cluster Share_Store
begin

text \<open>
  Package \<^verbatim>\<open>pkg/mpc/node\<close>, files \<^verbatim>\<open>dkg_orchestrator.go\<close>, \<^verbatim>\<open>sign_orchestrator.go\<close> and
  \<^verbatim>\<open>refresh_orchestrator.go\<close>: the programs that drive a cluster from outside, over the same remote
  procedures the nodes use among themselves.

  The connected peers are a list of node number and address in the order in which Go iterates over
  the map, one order per run; calls the code makes in parallel are made in that order. \<open>ids\<close> is the
  order of iteration over the configured peers, and the clock readings are arguments.

  The second half composes the orchestrators with the servers of \<open>Mpc_Server\<close>: \<open>cluster_net\<close> is the
  network whose remote ends are the nodes' own handlers, and the locale \<open>node_service\<close> is the part of
  their contract that decides what the orchestrators achieve.
\<close>

section \<open>Connections and rounds\<close>

fun dial_peers ::
  "'w net \<Rightarrow> NodeConfig \<Rightarrow> u32 list \<Rightarrow> (u32 \<times> string) list \<Rightarrow> (u32 \<times> string) list" where
  "dial_peers N cfg [] peers = peers"
| "dial_peers N cfg (i # ids) peers =
     (case PeerAddrs cfg i of
        None \<Rightarrow> dial_peers N cfg ids peers
      | Some a \<Rightarrow>
          (case rpcDial N a of
             Some _ \<Rightarrow> dial_peers N cfg ids peers
           | None \<Rightarrow> dial_peers N cfg ids (mput i a peers)))"

text \<open>One message to every peer; the payloads of those that answer, whatever they answer.\<close>

fun ask_all ::
  "(string \<Rightarrow> NodeMessage \<Rightarrow> 'w \<Rightarrow> NodeMessage res \<times> 'w) \<Rightarrow> (u32 \<Rightarrow> NodeMessage) \<Rightarrow> (u32 \<times> string) list
   \<Rightarrow> pkgs \<Rightarrow> 'w \<Rightarrow> pkgs \<times> 'w" where
  "ask_all call msg [] results w = (results, w)"
| "ask_all call msg ((i, a) # ps) results w =
     (case call a (msg i) w of
        (Inl _, w1) \<Rightarrow> ask_all call msg ps results w1
      | (Inr resp, w1) \<Rightarrow> ask_all call msg ps (mput i (Payload resp) results) w1)"

text \<open>\<^verbatim>\<open>json.Unmarshal\<close> with its error ignored: type errors leave the fields read so far.\<close>

definition json_decode :: "'a decoder \<Rightarrow> 'a \<Rightarrow> byte list \<Rightarrow> 'a" where
  "json_decode d z b = (case parse_json (string_of b) of Inl _ \<Rightarrow> z | Inr j \<Rightarrow> snd (d j z))"

fun dec_uint32 :: "string \<Rightarrow> u32 decoder" where
  "dec_uint32 place (JNum n) old =
     (case ParseUint64 n of
        Inr v \<Rightarrow> if unat v < 2 ^ 32 then ([], word_of_nat (unat v))
                 else ([type_error (''number '' @ n) place ''uint32''], old)
      | Inl _ \<Rightarrow> ([type_error (''number '' @ n) place ''uint32''], old))"
| "dec_uint32 place JNull old = ([], old)"
| "dec_uint32 place j old = ([type_error (kind j) place ''uint32''], old)"

section \<open>Key generation\<close>

record DKGOrchestrator =
  dkConfig :: NodeConfig
  dkPeers :: "(u32 \<times> string) list"
  dkShareStore :: "ShareStore option"

record DKGResult =
  drPublicKey :: "byte list"
  drKeyShares :: pkgs
  drClusterID :: string
  drThreshold :: u32
  drTotalNodes :: u32

record DKGCompleteResult =
  dcPublicKey :: "byte list"
  dcKeyShare :: "byte list"

record DKGMessagePayload =
  dpType :: string
  dpRound :: u32
  dpFromNode :: u32
  dpClusterID :: string
  dpThreshold :: u32
  dpTotalNodes :: u32
  dpData :: "byte list"

definition zero_payload :: DKGMessagePayload where
  "zero_payload = \<lparr>dpType = [], dpRound = 0, dpFromNode = 0, dpClusterID = [], dpThreshold = 0, dpTotalNodes = 0,
     dpData = []\<rparr>"

definition json_DKGMessagePayload :: "DKGMessagePayload \<Rightarrow> json" where
  "json_DKGMessagePayload p = JObj
     [(''type'', JString (dpType p)), (''round'', json_uint (unat (dpRound p))),
      (''from_node'', json_uint (unat (dpFromNode p))), (''cluster_id'', JString (dpClusterID p)),
      (''threshold'', json_uint (unat (dpThreshold p))), (''total_nodes'', json_uint (unat (dpTotalNodes p))),
      (''data'', json_bytes (dpData p))]"

definition dec_DKGMessagePayload :: "DKGMessagePayload decoder" where
  "dec_DKGMessagePayload =
     (let at = at_field ''DKGMessagePayload''
      in dec_struct
        [(''type'', field (dec_string (at ''type'')) dpType (\<lambda>v r. r\<lparr>dpType := v\<rparr>)),
         (''round'', field (dec_uint32 (at ''round'')) dpRound (\<lambda>v r. r\<lparr>dpRound := v\<rparr>)),
         (''from_node'', field (dec_uint32 (at ''from_node'')) dpFromNode (\<lambda>v r. r\<lparr>dpFromNode := v\<rparr>)),
         (''cluster_id'', field (dec_string (at ''cluster_id'')) dpClusterID (\<lambda>v r. r\<lparr>dpClusterID := v\<rparr>)),
         (''threshold'', field (dec_uint32 (at ''threshold'')) dpThreshold (\<lambda>v r. r\<lparr>dpThreshold := v\<rparr>)),
         (''total_nodes'', field (dec_uint32 (at ''total_nodes'')) dpTotalNodes (\<lambda>v r. r\<lparr>dpTotalNodes := v\<rparr>)),
         (''data'', field (dec_bytes (at ''data'')) dpData (\<lambda>v r. r\<lparr>dpData := v\<rparr>))]
        at_value ''node.DKGMessagePayload'')"

definition NewDKGOrchestrator :: "NodeConfig \<Rightarrow> ShareStore option \<Rightarrow> DKGOrchestrator" where
  "NewDKGOrchestrator cfg shareStore = \<lparr>dkConfig = cfg, dkPeers = [], dkShareStore = shareStore\<rparr>"

definition dkg_ConnectToPeers :: "'w net \<Rightarrow> u32 list \<Rightarrow> DKGOrchestrator \<Rightarrow> DKGOrchestrator" where
  "dkg_ConnectToPeers N ids orc = orc\<lparr>dkPeers := dial_peers N (dkConfig orc) ids (dkPeers orc)\<rparr>"

definition dkg_message :: "DKGOrchestrator \<Rightarrow> DKGMessagePayload \<Rightarrow> u32 \<Rightarrow> NodeMessage" where
  "dkg_message orc p i = \<lparr>MessageType = dpType p, FromNode = NodeID (dkConfig orc), ToNode = i,
     Payload = json_Marshal (json_DKGMessagePayload p)\<rparr>"

definition executeDKGRound1 ::
  "'w net \<Rightarrow> DKGOrchestrator \<Rightarrow> string \<Rightarrow> u32 \<Rightarrow> u32 \<Rightarrow> 'w \<Rightarrow> pkgs res \<times> 'w" where
  "executeDKGRound1 N orc clusterID threshold totalNodes w =
     (let p = zero_payload\<lparr>dpType := ''dkg_round1'', dpRound := 1, dpFromNode := NodeID (dkConfig orc),
                dpClusterID := clusterID, dpThreshold := threshold, dpTotalNodes := totalNodes\<rparr>
      in case ask_all (rpcDKG N) (dkg_message orc p) (dkPeers orc) [] w of
           (results, w1) \<Rightarrow>
             if int (length results) < int (unat threshold) - 1
             then (Inl (''not enough DKG round 1 responses: got '' @ show_nat (length results) @ '', need '' @
                        show_nat (unat (threshold - 1))), w1)
             else (Inr results, w1))"

definition executeDKGRound2 ::
  "'w net \<Rightarrow> DKGOrchestrator \<Rightarrow> string \<Rightarrow> pkgs \<Rightarrow> 'w \<Rightarrow> pkgs res \<times> 'w" where
  "executeDKGRound2 N orc clusterID round1Results w =
     (let p = zero_payload\<lparr>dpType := ''dkg_round2'', dpRound := 2, dpFromNode := NodeID (dkConfig orc),
                dpClusterID := clusterID, dpData := enc_pkgs round1Results\<rparr>
      in case ask_all (rpcDKG N) (dkg_message orc p) (dkPeers orc) [] w of
           (results, w1) \<Rightarrow>
             if int (length results) < int (unat (Threshold (dkConfig orc))) - 1
             then (Inl ''not enough DKG round 2 responses'', w1)
             else (Inr results, w1))"

text \<open>The loop of the last step returns from its first iteration, so only the first peer is asked.\<close>

definition executeDKGComplete ::
  "'w net \<Rightarrow> DKGOrchestrator \<Rightarrow> string \<Rightarrow> 'w \<Rightarrow> DKGCompleteResult res \<times> 'w" where
  "executeDKGComplete N orc clusterID w =
     (case dkPeers orc of
        [] \<Rightarrow> (Inl ''no peers available'', w)
      | (i, a) # _ \<Rightarrow>
          let p = zero_payload\<lparr>dpType := ''dkg_complete'', dpRound := 3, dpFromNode := NodeID (dkConfig orc),
                    dpClusterID := clusterID\<rparr>
          in case rpcDKG N a (dkg_message orc p i) w of
               (Inl e, w1) \<Rightarrow> (Inl e, w1)
             | (Inr resp, w1) \<Rightarrow>
                 let data = dpData (json_decode dec_DKGMessagePayload zero_payload (Payload resp))
                 in (Inr \<lparr>dcPublicKey = data, dcKeyShare = data\<rparr>, w1))"

text \<open>A missing operand is printed by \<^verbatim>\<open>fmt.Sprintf\<close> as such.\<close>

definition default_cluster :: "int \<Rightarrow> string" where
  "default_cluster unix = ''cluster-'' @ show_int unix @ ''-%!d(MISSING)''"

definition dkg_RunDKG ::
  "'w net \<Rightarrow> u32 list \<Rightarrow> int \<Rightarrow> DKGOrchestrator \<Rightarrow> 'w \<Rightarrow> DKGResult res \<times> DKGOrchestrator \<times> 'w" where
  "dkg_RunDKG N ids unix orc0 w =
     (let orc = dkg_ConnectToPeers N ids orc0;
          cfg = dkConfig orc;
          clusterID = (if ClusterID cfg = [] then default_cluster unix else ClusterID cfg)
      in if int (length (dkPeers orc)) < int (unat (TotalNodes cfg)) - 1
         then (Inl (''not enough peers connected: have '' @ show_nat (length (dkPeers orc)) @ '', need '' @
                    show_nat (unat (TotalNodes cfg - 1))), orc, w)
         else
           (case executeDKGRound1 N orc clusterID (Threshold cfg) (TotalNodes cfg) w of
              (Inl e, w1) \<Rightarrow> (Inl (''DKG round 1 failed: '' @ e), orc, w1)
            | (Inr round1Results, w1) \<Rightarrow>
                (case executeDKGRound2 N orc clusterID round1Results w1 of
                   (Inl e, w2) \<Rightarrow> (Inl (''DKG round 2 failed: '' @ e), orc, w2)
                 | (Inr round2Results, w2) \<Rightarrow>
                     (case executeDKGComplete N orc clusterID w2 of
                        (Inl e, w3) \<Rightarrow> (Inl (''DKG complete failed: '' @ e), orc, w3)
                      | (Inr finalResult, w3) \<Rightarrow>
                          (Inr \<lparr>drPublicKey = dcPublicKey finalResult,
                             drKeyShares = [(NodeID cfg, dcKeyShare finalResult)],
                             drClusterID = clusterID, drThreshold = Threshold cfg,
                             drTotalNodes = TotalNodes cfg\<rparr>, orc, w3)))))"

definition SaveShareToDisk ::
  "crypto \<Rightarrow> byte list res \<Rightarrow> byte list res \<Rightarrow> int \<Rightarrow> DKGOrchestrator \<Rightarrow> u32 \<Rightarrow> string \<Rightarrow> byte list \<Rightarrow> byte list
   \<Rightarrow> string \<Rightarrow> DKGOrchestrator res" where
  "SaveShareToDisk C salt nonce now orc nodeID clusterID share publicKey password =
     (case dkShareStore orc of
        None \<Rightarrow> Inl ''share store not configured''
      | Some s \<Rightarrow>
          (case SaveShare C salt nonce now s nodeID clusterID share publicKey password of
             Inl e \<Rightarrow> Inl e
           | Inr s' \<Rightarrow> Inr (orc\<lparr>dkShareStore := Some s'\<rparr>)))"

section \<open>Signing\<close>

record SignOrchestrator =
  sgConfig :: NodeConfig
  sgPeers :: "(u32 \<times> string) list"
  sgThreshold :: u32

record SignResult =
  srSignature :: "byte list"
  srSessionID :: string
  srSigners :: "u32 list"
  srTxHash :: string

record SignMessagePayload =
  spType :: string
  spRound :: u32
  spFromNode :: u32
  spSessionID :: string
  spMessage :: "byte list"
  spData :: "byte list"

definition json_SignMessagePayload :: "SignMessagePayload \<Rightarrow> json" where
  "json_SignMessagePayload p = JObj
     [(''type'', JString (spType p)), (''round'', json_uint (unat (spRound p))),
      (''from_node'', json_uint (unat (spFromNode p))), (''session_id'', JString (spSessionID p)),
      (''message'', json_bytes (spMessage p)), (''data'', json_bytes (spData p))]"

definition NewSignOrchestrator :: "NodeConfig \<Rightarrow> SignOrchestrator" where
  "NewSignOrchestrator cfg = \<lparr>sgConfig = cfg, sgPeers = [], sgThreshold = Threshold cfg\<rparr>"

definition sgn_ConnectToPeers :: "'w net \<Rightarrow> u32 list \<Rightarrow> SignOrchestrator \<Rightarrow> SignOrchestrator" where
  "sgn_ConnectToPeers N ids orc = orc\<lparr>sgPeers := dial_peers N (sgConfig orc) ids (sgPeers orc)\<rparr>"

text \<open>A node is added before the number of signers is compared, so there is at least one.\<close>

fun selectSigners :: "nat \<Rightarrow> u32 list \<Rightarrow> u32 list \<Rightarrow> u32 list" where
  "selectSigners threshold [] signers = signers"
| "selectSigners threshold (i # ids) signers =
     (if length (signers @ [i]) \<ge> threshold then signers @ [i]
      else selectSigners threshold ids (signers @ [i]))"

definition sign_message :: "SignOrchestrator \<Rightarrow> SignMessagePayload \<Rightarrow> u32 \<Rightarrow> NodeMessage" where
  "sign_message orc p i = \<lparr>MessageType = spType p, FromNode = NodeID (sgConfig orc), ToNode = i,
     Payload = json_Marshal (json_SignMessagePayload p)\<rparr>"

text \<open>The connected peers among the given node numbers, in their order.\<close>

definition peers_among :: "(u32 \<times> string) list \<Rightarrow> u32 list \<Rightarrow> (u32 \<times> string) list" where
  "peers_among peers signers =
     concat (map (\<lambda>i. case map_of peers i of None \<Rightarrow> [] | Some a \<Rightarrow> [(i, a)]) signers)"

definition executeSignRound1 ::
  "'w net \<Rightarrow> SignOrchestrator \<Rightarrow> byte list \<Rightarrow> string \<Rightarrow> u32 list \<Rightarrow> 'w \<Rightarrow> pkgs res \<times> 'w" where
  "executeSignRound1 N orc message sessionID signers w =
     (let p = \<lparr>spType = ''sign_round1'', spRound = 1, spFromNode = NodeID (sgConfig orc),
                spSessionID = sessionID, spMessage = message, spData = []\<rparr>
      in case ask_all (rpcSign N) (sign_message orc p) (peers_among (sgPeers orc) signers) [] w of
           (results, w1) \<Rightarrow>
             if length results < unat (sgThreshold orc)
             then (Inl (''not enough sign round 1 responses: got '' @ show_nat (length results) @ '', need '' @
                        show_nat (unat (sgThreshold orc))), w1)
             else (Inr results, w1))"

definition executeSignRound2 ::
  "'w net \<Rightarrow> SignOrchestrator \<Rightarrow> string \<Rightarrow> pkgs \<Rightarrow> 'w \<Rightarrow> pkgs res \<times> 'w" where
  "executeSignRound2 N orc sessionID round1Results w =
     (let p = \<lparr>spType = ''sign_round2'', spRound = 2, spFromNode = NodeID (sgConfig orc),
                spSessionID = sessionID, spMessage = [], spData = enc_pkgs round1Results\<rparr>;
          asked = filter (\<lambda>(i, _). map_of round1Results i \<noteq> None) (sgPeers orc)
      in case ask_all (rpcSign N) (sign_message orc p) asked [] w of
           (results, w1) \<Rightarrow>
             if length results < unat (sgThreshold orc)
             then (Inl ''not enough sign round 2 responses'', w1)
             else (Inr results, w1))"

text \<open>The aggregating peer's partial signature is also entered under the orchestrator's own number.\<close>

definition partials_for :: "u32 \<Rightarrow> pkgs \<Rightarrow> u32 \<Rightarrow> pkgs" where
  "partials_for self partialSigs peer =
     mput self (case map_of partialSigs peer of None \<Rightarrow> [] | Some sig \<Rightarrow> sig) partialSigs"

fun aggregateSignatures ::
  "'w net \<Rightarrow> u32 \<Rightarrow> (u32 \<times> string) list \<Rightarrow> byte list \<Rightarrow> pkgs \<Rightarrow> byte list \<Rightarrow> string \<Rightarrow> 'w
   \<Rightarrow> (byte list \<times> string) res \<times> 'w" where
  "aggregateSignatures N self [] message partialSigs unsignedTx url w =
     (Inl ''all aggregate attempts failed'', w)"
| "aggregateSignatures N self ((i, a) # ps) message partialSigs unsignedTx url w =
     (case rpcAggregate N a message (partials_for self partialSigs i) unsignedTx url w of
        (Inl e, w1) \<Rightarrow> (Inl e, w1)
      | (Inr resp, w1) \<Rightarrow>
          if agSuccess resp then (Inr (agSignature resp, agTxHash resp), w1)
          else aggregateSignatures N self ps message partialSigs unsignedTx url w1)"

definition sgn_SignMessage ::
  "'w net \<Rightarrow> u32 list \<Rightarrow> int \<Rightarrow> SignOrchestrator \<Rightarrow> byte list \<Rightarrow> byte list \<Rightarrow> string \<Rightarrow> 'w
   \<Rightarrow> SignResult res \<times> SignOrchestrator \<times> 'w" where
  "sgn_SignMessage N ids nano orc0 message unsignedTx url w =
     (let orc = (if sgPeers orc0 = [] then sgn_ConnectToPeers N ids orc0 else orc0);
          sessionID = ''sign-'' @ show_int nano @ ''-'' @ show_nat (unat (NodeID (sgConfig orc)));
          signers = selectSigners (unat (sgThreshold orc)) (map fst (sgPeers orc)) []
      in if (word_of_nat (length (sgPeers orc)) :: u32) < sgThreshold orc
         then (Inl (not_enough ''peers connected'' (length (sgPeers orc)) (sgThreshold orc)), orc, w)
         else
           (case executeSignRound1 N orc message sessionID signers w of
              (Inl e, w1) \<Rightarrow> (Inl (''sign round 1 failed: '' @ e), orc, w1)
            | (Inr round1Results, w1) \<Rightarrow>
                (case executeSignRound2 N orc sessionID round1Results w1 of
                   (Inl e, w2) \<Rightarrow> (Inl (''sign round 2 failed: '' @ e), orc, w2)
                 | (Inr round2Results, w2) \<Rightarrow>
                     (case aggregateSignatures N (NodeID (sgConfig orc)) (sgPeers orc) message round2Results
                             unsignedTx url w2 of
                        (Inl e, w3) \<Rightarrow> (Inl (''signature aggregation failed: '' @ e), orc, w3)
                      | (Inr (finalSig, txHash), w3) \<Rightarrow>
                          (Inr \<lparr>srSignature = finalSig, srSessionID = sessionID, srSigners = signers,
                             srTxHash = txHash\<rparr>, orc, w3)))))"

definition sgn_AbortSign :: "'w net \<Rightarrow> SignOrchestrator \<Rightarrow> string \<Rightarrow> 'w \<Rightarrow> 'w" where
  "sgn_AbortSign N orc sessionID w =
     fold (\<lambda>(i, a) v. snd (rpcAbort N a sessionID v)) (sgPeers orc) w"

section \<open>Share refresh\<close>

record RefreshOrchestrator =
  rfConfig :: NodeConfig
  rfShareStore :: ShareStore
  rfPeers :: "(u32 \<times> string) list"

record RefreshResult =
  rrPublicKey :: "byte list"
  rrClusterID :: string
  rrThreshold :: u32
  rrTotalNodes :: u32
  rrSameKey :: bool

definition NewRefreshOrchestrator :: "NodeConfig \<Rightarrow> ShareStore \<Rightarrow> RefreshOrchestrator" where
  "NewRefreshOrchestrator cfg shareStore = \<lparr>rfConfig = cfg, rfShareStore = shareStore, rfPeers = []\<rparr>"

definition rfr_connectToPeers :: "'w net \<Rightarrow> u32 list \<Rightarrow> RefreshOrchestrator \<Rightarrow> RefreshOrchestrator" where
  "rfr_connectToPeers N ids orc = orc\<lparr>rfPeers := dial_peers N (rfConfig orc) ids (rfPeers orc)\<rparr>"

definition refresh_message :: "RefreshOrchestrator \<Rightarrow> string \<Rightarrow> json \<Rightarrow> u32 \<Rightarrow> NodeMessage" where
  "refresh_message orc msgType payload i =
     \<lparr>MessageType = msgType, FromNode = NodeID (rfConfig orc), ToNode = i, Payload = json_Marshal payload\<rparr>"

definition refresh_round1 :: "u32 list \<Rightarrow> json" where
  "refresh_round1 participantIDs =
     JObj [(''participant_ids'', JArr (map (\<lambda>i. json_uint (unat i)) participantIDs)),
           (''type'', JString ''refresh_round1'')]"

definition refresh_apply :: "pkgs \<Rightarrow> json" where
  "refresh_apply evals = JObj [(''evaluations'', json_pkgs evals), (''type'', JString ''refresh_apply'')]"

text \<open>The evaluations addressed to a node, by the node they come from.\<close>

definition evaluations_for :: "u32 \<Rightarrow> (u32 \<times> pkgs) list \<Rightarrow> pkgs" where
  "evaluations_for i all = concat (map (\<lambda>(src, evals).
     case map_of evals i of None \<Rightarrow> [] | Some e \<Rightarrow> [(src, e)]) all)"

fun apply_all ::
  "'w net \<Rightarrow> RefreshOrchestrator \<Rightarrow> (u32 \<times> pkgs) list \<Rightarrow> (u32 \<times> string) list \<Rightarrow> 'w \<Rightarrow> 'w" where
  "apply_all N orc all [] w = w"
| "apply_all N orc all ((i, a) # ps) w =
     apply_all N orc all ps
       (snd (rpcDKG N a (refresh_message orc ''refresh_apply'' (refresh_apply (evaluations_for i all)) i) w))"

definition backupFirst :: "int \<Rightarrow> ShareStore \<Rightarrow> u32 \<Rightarrow> ShareStore" where
  "backupFirst unix s nodeID =
     (if ShareExists s nodeID
      then (case BackupShare unix s nodeID of Inl _ \<Rightarrow> s | Inr s' \<Rightarrow> s') else s)"

text \<open>
  The evaluations addressed to the orchestrator's own node are collected by the code and not used,
  so they do not occur here.
\<close>

definition RunRefresh ::
  "crypto \<Rightarrow> 'w net \<Rightarrow> u32 list \<Rightarrow> int \<Rightarrow> RefreshOrchestrator \<Rightarrow> string \<Rightarrow> 'w
   \<Rightarrow> RefreshResult res \<times> RefreshOrchestrator \<times> 'w" where
  "RunRefresh C N ids unix orc0 password w =
     (let orc1 = rfr_connectToPeers N ids orc0;
          self = NodeID (rfConfig orc1);
          orc = orc1\<lparr>rfShareStore := backupFirst unix (rfShareStore orc1) self\<rparr>;
          participantIDs = self # map fst (rfPeers orc)
      in case ask_all (rpcDKG N) (refresh_message orc ''refresh_round1'' (refresh_round1 participantIDs))
                (rfPeers orc) [] w of
           (answers, w1) \<Rightarrow>
             let allEvaluations = map (\<lambda>(i, b). (i, json_decode dec_pkgs_value [] b)) answers;
                 w2 = apply_all N orc allEvaluations (rfPeers orc) w1;
                 currentPubKey =
                   (if ShareExists (rfShareStore orc) self
                    then (case LoadShare C (rfShareStore orc) self password of
                            Inr (_, _, pubkey) \<Rightarrow> pubkey | Inl _ \<Rightarrow> [])
                    else [])
             in (Inr \<lparr>rrPublicKey = currentPubKey, rrClusterID = ClusterID (rfConfig orc),
                   rrThreshold = Threshold (rfConfig orc), rrTotalNodes = TotalNodes (rfConfig orc),
                   rrSameKey = True\<rparr>, orc, w2))"

end
