(* ===== verification/Mpc_Composition.thy ===== *)
theory Mpc_Composition
  imports Mpc_Orchestrator
begin

text \<open>
  The orchestrators of \<open>Mpc_Orchestrator\<close> composed with the servers of \<open>Mpc_Server\<close>. The state of a
  cluster is the running nodes by address and the world of their enclaves; a node whose handler
  panics is gone, because nothing recovers a panic in the server. Tasks that a handler starts in the
  background are not run; no message of an orchestrator starts one.

  The locale \<open>node_service\<close> states what a cluster promises about messages of a type no server knows;
  what the orchestrators achieve with such messages is proved once from these laws, and the
  interpretation shows that the cluster of servers keeps them.
\<close>

section \<open>Rounds in general\<close>

lemma set_mput: "set (mput k v m) \<subseteq> insert (k, v) (set m)"
  by (induction m) (auto split: if_splits)

lemma ask_all_keys:
  assumes "ask_all call msg ps acc w = (r, w')" and "distinct (map fst acc)"
  shows "distinct (map fst r) \<and> fst ` set r \<subseteq> fst ` set acc \<union> fst ` set ps"
  using assms
proof (induction ps arbitrary: acc w)
  case (Cons p ps)
  obtain i a where p: "p = (i, a)" by (cases p)
  obtain x v where c: "call a (msg i) w = (x, v)" by (cases "call a (msg i) w")
  have "distinct (map fst r) \<and> fst ` set r \<subseteq> fst ` set acc' \<union> fst ` set ps"
    if "ask_all call msg ps acc' v = (r, w')" "distinct (map fst acc')" for acc'
    using Cons.IH that by blast
  from this [of acc] this [of "mput i b acc" for b] distinct_mput [OF Cons.prems(2)] Cons.prems show ?case
    by (cases x) (auto simp: p c)
qed auto

lemma ask_all_payloads:
  assumes "ask_all call msg ps acc w = (r, w')" and "\<forall>(i, b) \<in> set acc. P b"
    and answers: "\<And>a i v m v'. call a (msg i) v = (Inr m, v') \<Longrightarrow> P (Payload m)"
  shows "\<forall>(i, b) \<in> set r. P b"
  using assms(1,2)
proof (induction ps arbitrary: acc w)
  case (Cons p ps)
  obtain i a where p: "p = (i, a)" by (cases p)
  obtain x v where c: "call a (msg i) w = (x, v)" by (cases "call a (msg i) w")
  have "\<forall>(j, b) \<in> set (mput i (Payload m) acc). P b" if "x = Inr m" for m
    using answers [of a i w m v] that Cons.prems(2) set_mput [of i "Payload m" acc] by (auto simp: c)
  note put = this
  show ?case
  proof (cases x)
    case (Inl e)
    with Cons.prems Cons.IH [of acc v] show ?thesis by (simp add: p c)
  next
    case (Inr m)
    with Cons.prems Cons.IH [of "mput i (Payload m) acc" v] put show ?thesis by (simp add: p c)
  qed
qed auto

lemma ask_all_world:
  assumes "\<And>a i v. snd (call a (msg i) v) = v"
  shows "snd (ask_all call msg ps acc w) = w"
proof (induction ps arbitrary: acc)
  case (Cons p ps)
  obtain i a where p: "p = (i, a)" by (cases p)
  have "snd (call a (msg i) w) = w" by (rule assms)
  with Cons.IH show ?case by (cases "call a (msg i) w") (auto simp: p split: sum.split)
qed simp

lemma selectSigners_prefix:
  "\<exists>k. selectSigners t ids acc = acc @ take k ids \<and>
     (t \<le> length acc + length ids \<longrightarrow> t \<le> length (selectSigners t ids acc))"
proof (induction ids arbitrary: acc)
  case (Cons i ids)
  show ?case
  proof (cases "t \<le> Suc (length acc)")
    case True
    then have "selectSigners t (i # ids) acc = acc @ take 1 (i # ids)" by simp
    with True show ?thesis by (intro exI [of _ 1]) simp
  next
    case False
    obtain k where k: "selectSigners t ids (acc @ [i]) = acc @ i # take k ids"
      "t \<le> Suc (length acc + length ids) \<longrightarrow> t \<le> length (selectSigners t ids (acc @ [i]))"
      using Cons.IH [of "acc @ [i]"] by auto
    with False show ?thesis by (intro exI [of _ "Suc k"]) simp
  qed
qed simp

text \<open>The texts of the servers' errors are no JSON.\<close>

lemma parse_unknown: "\<exists>e. parse_json (CHR ''u'' # s) = Inl e"
  by (simp add: parse_json_def skip_space_def parse_scalar_def is_digit_def invalid_char_def)

lemma decode_unknown: "json_decode d z (bytes_of (''unknown '' @ s)) = z"
  using parse_unknown [of "''nknown '' @ s"] by (auto simp: json_decode_def)

section \<open>The contract of the service\<close>

definition dkg_types :: "string list" where
  "dkg_types = [''trigger_dkg'', ''trigger_reshare'', ''dkg_round1'', ''dkg_round2'', ''dkg_round3'']"

definition sign_types :: "string list" where
  "sign_types = [''trigger_sign'', ''sign_start'', ''round1'', ''round2'', ''commitments'']"

definition unknown_dkg :: "string \<Rightarrow> byte list" where
  "unknown_dkg t = bytes_of (''unknown DKG message type: '' @ t)"

definition unknown_sign :: "string \<Rightarrow> byte list" where
  "unknown_sign t = bytes_of (''unknown message type: '' @ t)"

locale node_service =
  fixes N :: "'w net"
  assumes dkg_unknown:
    "MessageType req \<notin> set dkg_types \<Longrightarrow> rpcDKG N a req w = (Inr m, w') \<Longrightarrow> Payload m = unknown_dkg (MessageType req)"
  and dkg_unknown_world: "MessageType req \<notin> set dkg_types \<Longrightarrow> snd (rpcDKG N a req w) = w"
  and sign_unknown:
    "MessageType req \<notin> set sign_types \<Longrightarrow> rpcSign N a req w = (Inr m, w') \<Longrightarrow> Payload m = unknown_sign (MessageType req)"
begin

lemma complete_empty:
  assumes "executeDKGComplete N orc clusterID w = (Inr r, w')"
  shows "dcPublicKey r = [] \<and> dcKeyShare r = []"
proof -
  obtain i a ps where ps: "dkPeers orc = (i, a) # ps"
    using assms by (auto simp: executeDKGComplete_def split: list.splits)
  let ?p = "zero_payload\<lparr>dpType := ''dkg_complete'', dpRound := 3, dpFromNode := NodeID (dkConfig orc),
      dpClusterID := clusterID\<rparr>"
  obtain m where m: "rpcDKG N a (dkg_message orc ?p i) w = (Inr m, w')"
    and r: "r = \<lparr>dcPublicKey = dpData (json_decode dec_DKGMessagePayload zero_payload (Payload m)),
       dcKeyShare = dpData (json_decode dec_DKGMessagePayload zero_payload (Payload m))\<rparr>"
    using assms by (auto simp: executeDKGComplete_def ps Let_def split: prod.splits sum.splits)
  have t: "MessageType (dkg_message orc ?p i) = ''dkg_complete''"
    by (simp add: dkg_message_def zero_payload_def)
  have "Payload m = unknown_dkg ''dkg_complete''"
    using dkg_unknown [OF _ m] unfolding t by (simp add: dkg_types_def)
  then have "json_decode dec_DKGMessagePayload zero_payload (Payload m) = zero_payload"
    unfolding unknown_dkg_def
    using decode_unknown [of dec_DKGMessagePayload zero_payload "''DKG message type: dkg_complete''"] by simp
  with r show ?thesis by (simp add: zero_payload_def)
qed

lemma round2_garbage:
  assumes "executeSignRound2 N orc sid r1 w = (Inr r2, w')"
  shows "\<forall>(i, b) \<in> set r2. b = unknown_sign ''sign_round2''"
proof -
  let ?p = "\<lparr>spType = ''sign_round2'', spRound = 2, spFromNode = NodeID (sgConfig orc),
      spSessionID = sid, spMessage = [], spData = enc_pkgs r1\<rparr>"
  have "Payload m = unknown_sign ''sign_round2''" if "rpcSign N a (sign_message orc ?p i) v = (Inr m, v')"
    for a i v m v'
    using sign_unknown [OF _ that] by (simp add: sign_message_def sign_types_def)
  from ask_all_payloads [where P = "\<lambda>b. b = unknown_sign ''sign_round2''", OF _ _ this] assms show ?thesis
    by (fastforce simp: executeSignRound2_def Let_def split: prod.splits if_split_asm)
qed

lemma refresh_world: "snd (snd (RunRefresh C N ids unix orc password w)) = w"
proof -
  have m: "snd (rpcDKG N a (refresh_message q t p i) v) = v" if "t \<in> {''refresh_round1'', ''refresh_apply''}" for a q t p i v
    using that by (intro dkg_unknown_world) (auto simp: refresh_message_def dkg_types_def)
  have "apply_all N q all ps v = v" for q all ps v
    by (induction ps) (auto simp: m)
  moreover have "snd (ask_all (rpcDKG N) (refresh_message q ''refresh_round1'' p) ps acc v) = v" for q p ps acc v
    by (rule ask_all_world) (simp add: m)
  ultimately show ?thesis by (simp add: RunRefresh_def Let_def split: prod.split) (metis snd_conv)
qed

end

section \<open>The cluster of servers\<close>

record 'v cluster =
  clNodes :: "string \<rightharpoonup> 'v MPCNode"
  clWorld :: 'v

definition unavailable :: "'a res" where
  "unavailable = Inl ''rpc error: code = Unavailable''"

definition at_node ::
  "('v MPCNode \<Rightarrow> 'v \<Rightarrow> ('a, 'v) served) \<Rightarrow> string \<Rightarrow> 'v cluster \<Rightarrow> 'a res \<times> 'v cluster" where
  "at_node handler a W =
     (case clNodes W a of
        None \<Rightarrow> (unavailable, W)
      | Some n \<Rightarrow>
          (case handler n (clWorld W) of
             (Panic, n', v) \<Rightarrow> (unavailable, \<lparr>clNodes = (clNodes W)(a := None), clWorld = v\<rparr>)
           | (Ret r, n', v) \<Rightarrow> (Inr r, \<lparr>clNodes = (clNodes W)(a \<mapsto> n'), clWorld = v\<rparr>)))"

text \<open>
  \<open>M\<close>, \<open>rnd\<close> and \<open>sess\<close> are the network, the random source and the session names the nodes themselves
  use, \<open>pick1\<close> and \<open>pick2\<close> their map iteration, and \<open>dial\<close> says which addresses cannot be reached.
\<close>

definition cluster_net ::
  "'v net \<Rightarrow> (nat \<Rightarrow> nat res) \<Rightarrow> (nat \<Rightarrow> string) \<Rightarrow> (nat \<Rightarrow> nat) \<Rightarrow> (nat \<Rightarrow> nat) \<Rightarrow> u64 \<Rightarrow> string \<Rightarrow>
   (string \<Rightarrow> err option) \<Rightarrow> 'v cluster net" where
  "cluster_net M rnd sess pick1 pick2 clock uuid dial =
     \<lparr>rpcDial = dial,
      rpcHandshake = (\<lambda>a req. at_node (\<lambda>n v. (Ret (Handshake n req), n, v)) a),
      rpcDKG = (\<lambda>a req. at_node (\<lambda>n v. fst (DKGMessage pick1 pick2 clock n req v)) a),
      rpcSign = (\<lambda>a req. at_node (\<lambda>n v. SignMessage M rnd sess clock n req v) a),
      rpcTrigger = (\<lambda>a message signers sid. at_node (\<lambda>n v.
        case TriggerSign_rpc uuid n message signers sid v of (r, v') \<Rightarrow> (Ret r, n, v')) a),
      rpcAggregate = (\<lambda>a message partials unsignedTx url. at_node (\<lambda>n v.
        case AggregateSignatures_rpc n message partials unsignedTx url v of (r, v') \<Rightarrow> (Ret r, n, v')) a),
      rpcDirect = (\<lambda>a sid t from to payload. at_node (\<lambda>n v.
        case DirectMessage_rpc n sid t payload v of (r, v') \<Rightarrow> (Ret r, n, v')) a),
      rpcHeartbeat = (\<lambda>a i q. at_node (\<lambda>n v. (Ret (), n, v)) a),
      rpcAbort = (\<lambda>a sid. at_node (\<lambda>n v. case AbortSign_rpc n sid v of (r, v') \<Rightarrow> (Ret r, n, v')) a)\<rparr>"

lemma DKGMessage_unknown:
  "MessageType req \<notin> set dkg_types \<Longrightarrow>
   fst (DKGMessage pick1 pick2 clock n req v) =
     (Ret (reply_error n req (''unknown DKG message type: '' @ MessageType req)), n, v)"
  by (simp add: DKGMessage_def dkg_types_def)

lemma SignMessage_unknown:
  "MessageType req \<notin> set sign_types \<Longrightarrow>
   SignMessage M rnd sess clock n req v =
     (Ret (reply_error n req (''unknown message type: '' @ MessageType req)), n, v)"
  by (simp add: SignMessage_def sign_types_def)

interpretation cl: node_service "cluster_net M rnd sess pick1 pick2 clock uuid dial"
  for M rnd sess pick1 pick2 clock uuid dial
proof
  fix req :: NodeMessage and a w m w'
  assume t: "MessageType req \<notin> set dkg_types"
  show "snd (rpcDKG (cluster_net M rnd sess pick1 pick2 clock uuid dial) a req w) = w"
    by (simp add: cluster_net_def at_node_def DKGMessage_unknown [OF t] fun_upd_idem split: option.split)
  assume "rpcDKG (cluster_net M rnd sess pick1 pick2 clock uuid dial) a req w = (Inr m, w')"
  then show "Payload m = unknown_dkg (MessageType req)"
    by (auto simp: cluster_net_def at_node_def DKGMessage_unknown [OF t] unavailable_def unknown_dkg_def reply_error_def
        split: option.splits)
next
  fix req :: NodeMessage and a w m w'
  assume t: "MessageType req \<notin> set sign_types"
    and "rpcSign (cluster_net M rnd sess pick1 pick2 clock uuid dial) a req w = (Inr m, w')"
  then show "Payload m = unknown_sign (MessageType req)"
    by (auto simp: cluster_net_def at_node_def SignMessage_unknown [OF t] unavailable_def unknown_sign_def reply_error_def
        split: option.splits)
qed

section \<open>What the orchestrators achieve\<close>

lemma dkg_result_empty:
  assumes "dkg_RunDKG (cluster_net M rnd sess pick1 pick2 clock uuid dial) ids unix orc w = (Inr r, orc', w')"
  shows "drPublicKey r = [] \<and> drKeyShares r = [(NodeID (dkConfig orc), [])] \<and>
    drClusterID r = (if ClusterID (dkConfig orc) = [] then default_cluster unix else ClusterID (dkConfig orc)) \<and>
    dkShareStore orc' = dkShareStore orc"
proof -
  let ?N = "cluster_net M rnd sess pick1 pick2 clock uuid dial"
  define cid where "cid = (if ClusterID (dkConfig orc) = [] then default_cluster unix else ClusterID (dkConfig orc))"
  have cfg: "dkConfig (dkg_ConnectToPeers ?N ids orc) = dkConfig orc"
    "dkShareStore (dkg_ConnectToPeers ?N ids orc) = dkShareStore orc"
    by (simp_all add: dkg_ConnectToPeers_def)
  note run = assms [unfolded dkg_RunDKG_def Let_def cfg(1), folded cid_def]
  let ?q = "dkg_ConnectToPeers ?N ids orc"
  obtain x1 w1 where e1: "executeDKGRound1 ?N ?q cid (Threshold (dkConfig orc)) (TotalNodes (dkConfig orc)) w = (x1, w1)"
    by fastforce
  with run obtain r1 where r1: "x1 = Inr r1" by (cases x1) (simp_all split: if_split_asm)
  obtain x2 w2 where e2: "executeDKGRound2 ?N ?q cid r1 w1 = (x2, w2)" by fastforce
  with run e1 r1 obtain r2 where r2: "x2 = Inr r2" by (cases x2) (simp_all split: if_split_asm)
  obtain x3 w3 where e3: "executeDKGComplete ?N ?q cid w2 = (x3, w3)" by fastforce
  with run e1 r1 e2 r2 obtain c where c: "x3 = Inr c" by (cases x3) (simp_all split: if_split_asm)
  have "orc' = ?q \<and> r = \<lparr>drPublicKey = dcPublicKey c, drKeyShares = [(NodeID (dkConfig orc), dcKeyShare c)],
       drClusterID = cid, drThreshold = Threshold (dkConfig orc), drTotalNodes = TotalNodes (dkConfig orc)\<rparr>"
    using run e1 r1 e2 r2 e3 c by (simp split: if_split_asm)
  with cl.complete_empty [OF e3 [unfolded c]] cfg(2) show ?thesis by (simp add: cid_def)
qed

text \<open>
  Against the servers of this repository the key generation of the orchestrator never produces a
  key: when it reports success, the public key and the only key share are empty. Its last message is
  of a type no server knows, and the error text that comes back is read as a result.
\<close>

theorem orchestrated_dkg_empty:
  assumes "dkg_RunDKG (cluster_net M rnd sess pick1 pick2 clock uuid dial) ids unix orc w = (Inr r, orc', w')"
  shows "drPublicKey r = [] \<and> drKeyShares r = [(NodeID (dkConfig orc), [])]"
  using dkg_result_empty [OF assms] by blast

lemma aggregate_Inr:
  "aggregateSignatures N self ps message partials tx url w = (Inr (sig, h), w') \<Longrightarrow>
   \<exists>i a w1 resp. (i, a) \<in> set ps \<and>
     rpcAggregate N a message (partials_for self partials i) tx url w1 = (Inr resp, w') \<and>
     agSuccess resp \<and> sig = agSignature resp \<and> h = agTxHash resp"
proof (induction ps arbitrary: w)
  case (Cons p ps)
  obtain j b where p: "p = (j, b)" by (cases p)
  obtain x v where c: "rpcAggregate N b message (partials_for self partials j) tx url w = (x, v)"
    by (cases "rpcAggregate N b message (partials_for self partials j) tx url w")
  show ?case
  proof (cases x)
    case (Inl e)
    with Cons.prems show ?thesis by (simp add: p c)
  next
    case (Inr resp)
    show ?thesis
    proof (cases "agSuccess resp")
      case True
      with Inr Cons.prems show ?thesis
        by (intro exI [of _ j] exI [of _ b] exI [of _ w] exI [of _ resp]) (simp add: p c)
    next
      case False
      with Inr Cons.prems have "aggregateSignatures N self ps message partials tx url v = (Inr (sig, h), w')"
        by (simp add: p c)
      from Cons.IH [OF this] show ?thesis by (metis list.set_intros(2))
    qed
  qed
qed simp

lemma set_peers_among: "fst ` set (peers_among peers signers) \<subseteq> set signers"
  by (auto simp: peers_among_def split: option.splits)

lemma round1_keys: "executeSignRound1 N orc message sid signers w = (Inr r1, w') \<Longrightarrow> fst ` set r1 \<subseteq> set signers"
  using ask_all_keys [of "rpcSign N" _ "peers_among (sgPeers orc) signers" "[]" w r1 w'] set_peers_among [of "sgPeers orc" signers]
  by (fastforce simp: executeSignRound1_def Let_def split: prod.splits if_split_asm)

lemma round2_keys:
  assumes "executeSignRound2 N orc sid r1 w = (Inr r2, w')"
  shows "distinct (map fst r2) \<and> fst ` set r2 \<subseteq> fst ` set r1 \<and> unat (sgThreshold orc) \<le> length r2"
proof -
  let ?asked = "filter (\<lambda>(i, _). map_of r1 i \<noteq> None) (sgPeers orc)"
  obtain msg where a: "ask_all (rpcSign N) msg ?asked [] w = (r2, w')" and l: "unat (sgThreshold orc) \<le> length r2"
    using assms by (auto simp: executeSignRound2_def Let_def split: prod.splits if_split_asm)
  have "fst ` set ?asked \<subseteq> fst ` set r1" by (force simp: map_of_eq_None_iff)
  with ask_all_keys [OF a] l show ?thesis by (metis (no_types, lifting) distinct.simps(1) dual_order.trans
        empty_set image_empty list.map(1) sup_bot_left)
qed

text \<open>What a successful run of the signing orchestrator has done.\<close>

lemma sgn_SignMessage_Inr:
  assumes "sgn_SignMessage N ids nano orc message tx url w = (Inr r, orc', w')"
  shows "sgConfig orc' = sgConfig orc \<and> sgThreshold orc' = sgThreshold orc \<and>
    srSigners r = selectSigners (unat (sgThreshold orc)) (map fst (sgPeers orc')) [] \<and>
    (\<exists>sid r1 w1 partials w2.
       executeSignRound1 N orc' message sid (srSigners r) w = (Inr r1, w1) \<and>
       executeSignRound2 N orc' sid r1 w1 = (Inr partials, w2) \<and>
       aggregateSignatures N (NodeID (sgConfig orc)) (sgPeers orc') message partials tx url w2 =
         (Inr (srSignature r, srTxHash r), w'))"
proof -
  define q where "q = (if sgPeers orc = [] then sgn_ConnectToPeers N ids orc else orc)"
  have q: "sgConfig q = sgConfig orc" "sgThreshold q = sgThreshold orc" by (simp_all add: q_def sgn_ConnectToPeers_def)
  define sid where "sid = ''sign-'' @ show_int nano @ ''-'' @ show_nat (unat (NodeID (sgConfig orc)))"
  define signers where "signers = selectSigners (unat (sgThreshold orc)) (map fst (sgPeers q)) []"
  note run = assms [unfolded sgn_SignMessage_def Let_def, folded q_def, unfolded q, folded sid_def signers_def]
  obtain x1 w1 where e1: "executeSignRound1 N q message sid signers w = (x1, w1)" by fastforce
  with run obtain r1 where r1: "x1 = Inr r1" by (cases x1) (simp_all split: if_split_asm)
  obtain x2 w2 where e2: "executeSignRound2 N q sid r1 w1 = (x2, w2)" by fastforce
  with run e1 r1 obtain r2 where r2: "x2 = Inr r2" by (cases x2) (simp_all split: if_split_asm)
  obtain x3 w3 where
    e3: "aggregateSignatures N (NodeID (sgConfig orc)) (sgPeers q) message r2 tx url w2 = (x3, w3)" by fastforce
  with run e1 r1 e2 r2 obtain v where v: "x3 = Inr v" by (cases x3) (simp_all split: if_split_asm)
  with run e1 r1 e2 r2 e3 have "srSignature r = fst v \<and> srTxHash r = snd v \<and> srSigners r = signers \<and> orc' = q \<and> w' = w3"
    by (cases v) (auto split: if_split_asm)
  with e1 r1 e2 r2 e3 v q signers_def show ?thesis by simp blast
qed


text \<open>
  Against the servers of this repository every partial signature the signing orchestrator hands
  to the aggregating node is the text of an error: the servers know the rounds under other names.
\<close>

theorem orchestrated_sign_garbage:
  assumes "sgn_SignMessage (cluster_net M rnd sess pick1 pick2 clock uuid dial) ids nano orc message tx url w =
    (Inr r, orc', w')"
  shows "\<exists>partials i a w1 resp. (\<forall>(j, b) \<in> set partials. b = bytes_of ''unknown message type: sign_round2'') \<and>
    rpcAggregate (cluster_net M rnd sess pick1 pick2 clock uuid dial) a message
      (partials_for (NodeID (sgConfig orc)) partials i) tx url w1 = (Inr resp, w') \<and>
    srSignature r = agSignature resp"
proof -
  let ?N = "cluster_net M rnd sess pick1 pick2 clock uuid dial"
  from sgn_SignMessage_Inr [OF assms] obtain sid r1 v1 partials v2 where
    "executeSignRound2 ?N orc' sid r1 v1 = (Inr partials, v2)"
    and ag: "aggregateSignatures ?N (NodeID (sgConfig orc)) (sgPeers orc') message partials tx url v2 =
         (Inr (srSignature r, srTxHash r), w')"
    by blast
  from cl.round2_garbage [OF this(1)] have "\<forall>(j, b) \<in> set partials. b = bytes_of ''unknown message type: sign_round2''"
    by (simp add: unknown_sign_def)
  with aggregate_Inr [OF ag] show ?thesis by blast
qed

text \<open>
  C38: A share refresh against the servers of this repository always reports success with the key
  unchanged, and changes nothing but a backup: no node of the cluster changes its state, and every
  share loads from the store as it did before.
\<close>

theorem refresh_refreshes_nothing:
  assumes "RunRefresh C (cluster_net M rnd sess pick1 pick2 clock uuid dial) ids unix orc password w = (r, orc', w')"
  shows "(\<exists>res. r = Inr res \<and> rrSameKey res) \<and> w' = w \<and>
    LoadShare C (rfShareStore orc') m p = LoadShare C (rfShareStore orc) m p"
proof -
  let ?N = "cluster_net M rnd sess pick1 pick2 clock uuid dial"
  have "LoadShare C (backupFirst unix s n) m p = LoadShare C s m p" for s n
    by (auto simp: backupFirst_def LoadShare_BackupShare split: sum.split)
  moreover have "w' = w" using cl.refresh_world [of C M rnd sess pick1 pick2 clock uuid dial ids unix orc password w] assms
    by simp
  ultimately show ?thesis
    using assms by (auto simp: RunRefresh_def rfr_connectToPeers_def Let_def split: prod.splits)
qed

section \<open>A concrete cluster\<close>

definition demo_cluster :: "unit cluster" where
  "demo_cluster = \<lparr>clNodes = [''b'' \<mapsto> demo_node, ''c'' \<mapsto> demo_node], clWorld = ()\<rparr>"

definition demo_cluster_net :: "unit cluster net" where
  "demo_cluster_net = cluster_net demo_net (\<lambda>k. Inr 0) (\<lambda>_. ''s'') (\<lambda>_. 0) (\<lambda>_. 0) 5 ''u'' (\<lambda>_. None)"

definition demo_cfg :: NodeConfig where
  "demo_cfg = defaultNodeConfig\<lparr>ClusterID := ''c'', Threshold := 1, TotalNodes := 2, PeerAddrs := [2 \<mapsto> ''b'']\<rparr>"

text \<open>Both rounds leave a node of the demonstration cluster running.\<close>

lemma demo_dkg_alive:
  assumes "clNodes W a = Some n" and "nenclave n = nenclave demo_node"
    and "MessageType req = ''dkg_round1'' \<or> MessageType req = ''dkg_round2'' \<and> ndkg n \<noteq> None"
  shows "\<exists>m n' v. rpcDKG demo_cluster_net a req W = (Inr m, \<lparr>clNodes = (clNodes W)(a \<mapsto> n'), clWorld = v\<rparr>) \<and>
    ndkg n' \<noteq> None \<and> nenclave n' = nenclave demo_node"
proof -
  have e: "post (nenclave n) path q label f v = (Inr (f ok_response), v)" for path q label and f :: "enclave_response \<Rightarrow> 'b" and v
    unfolding assms(2) by simp
  have "\<exists>m n' v. fst (DKGMessage (\<lambda>_. 0) (\<lambda>_. 0) 5 n req (clWorld W)) = (Ret m, n', v) \<and>
      ndkg n' \<noteq> None \<and> nenclave n' = nenclave n"
    using assms(3)
    by (auto simp: DKGMessage_def handleDKGRound1_def handleDKGRound2_def DKGPart1_def DKGPart2_def e ok_response_def Let_def
        split: sum.split)
  then show ?thesis
    using assms(1,2) by (fastforce simp: demo_cluster_net_def cluster_net_def at_node_def)
qed

lemma demo_dkg_run:
  assumes "ClusterID cfg \<noteq> []" and "TotalNodes cfg = 2" and "uint (Threshold cfg) \<le> 2" and "PeerAddrs cfg i = Some ''b''"
  shows "\<exists>r W. dkg_RunDKG demo_cluster_net [i] unix (NewDKGOrchestrator cfg st) demo_cluster =
    (Inr r, \<lparr>dkConfig = cfg, dkPeers = [(i, ''b'')], dkShareStore = st\<rparr>, W)"
proof -
  let ?o = "\<lparr>dkConfig = cfg, dkPeers = [(i, ''b'')], dkShareStore = st\<rparr>"
  let ?c = "ClusterID cfg"
  have con: "dkg_ConnectToPeers demo_cluster_net [i] (NewDKGOrchestrator cfg st) = ?o"
    using assms(4) by (simp add: dkg_ConnectToPeers_def NewDKGOrchestrator_def demo_cluster_net_def cluster_net_def)
  let ?p1 = "zero_payload\<lparr>dpType := ''dkg_round1'', dpRound := 1, dpFromNode := NodeID cfg,
      dpClusterID := ?c, dpThreshold := Threshold cfg, dpTotalNodes := 2\<rparr>"
  obtain m1 n1 v1 where one: "rpcDKG demo_cluster_net ''b'' (dkg_message ?o ?p1 i) demo_cluster =
      (Inr m1, \<lparr>clNodes = (clNodes demo_cluster)(''b'' \<mapsto> n1), clWorld = v1\<rparr>)"
    and n1: "ndkg n1 \<noteq> None" "nenclave n1 = nenclave demo_node"
    using demo_dkg_alive [of demo_cluster "''b''" demo_node "dkg_message ?o ?p1 i"]
    by (auto simp: demo_cluster_def dkg_message_def)
  let ?W1 = "\<lparr>clNodes = (clNodes demo_cluster)(''b'' \<mapsto> n1), clWorld = v1\<rparr>"
  let ?p2 = "zero_payload\<lparr>dpType := ''dkg_round2'', dpRound := 2, dpFromNode := NodeID cfg,
      dpClusterID := ?c, dpData := enc_pkgs [(i, Payload m1)]\<rparr>"
  obtain m2 n2 v2 where two: "rpcDKG demo_cluster_net ''b'' (dkg_message ?o ?p2 i) ?W1 =
      (Inr m2, \<lparr>clNodes = (clNodes ?W1)(''b'' \<mapsto> n2), clWorld = v2\<rparr>)"
    using demo_dkg_alive [of ?W1 "''b''" n1 "dkg_message ?o ?p2 i"] n1 by (auto simp: dkg_message_def)
  let ?W2 = "\<lparr>clNodes = (clNodes ?W1)(''b'' \<mapsto> n2), clWorld = v2\<rparr>"
  let ?p3 = "zero_payload\<lparr>dpType := ''dkg_complete'', dpRound := 3, dpFromNode := NodeID cfg, dpClusterID := ?c\<rparr>"
  obtain m3 W3 where three: "rpcDKG demo_cluster_net ''b'' (dkg_message ?o ?p3 i) ?W2 = (Inr m3, W3)"
    by (simp add: demo_cluster_net_def cluster_net_def at_node_def DKGMessage_unknown dkg_message_def dkg_types_def)
  have "executeDKGRound1 demo_cluster_net ?o ?c (Threshold cfg) 2 demo_cluster = (Inr [(i, Payload m1)], ?W1)"
    using one assms(3) by (simp add: executeDKGRound1_def not_less)
  moreover have "executeDKGRound2 demo_cluster_net ?o ?c [(i, Payload m1)] ?W1 = (Inr [(i, Payload m2)], ?W2)"
    using two assms(3) by (simp add: executeDKGRound2_def assms(2) not_less)
  moreover have "\<exists>c. executeDKGComplete demo_cluster_net ?o ?c ?W2 = (Inr c, W3)"
    using three by (simp add: executeDKGComplete_def Let_def)
  ultimately show ?thesis by (auto simp: dkg_RunDKG_def con assms(1,2))
qed

theorem orchestrated_dkg_empty_witness:
  "\<exists>r orc' w'. dkg_RunDKG demo_cluster_net [2] 0 (NewDKGOrchestrator demo_cfg None) demo_cluster = (Inr r, orc', w') \<and>
     drPublicKey r = []"
proof -
  obtain r orc' w' where
    run: "dkg_RunDKG demo_cluster_net [2] 0 (NewDKGOrchestrator demo_cfg None) demo_cluster = (Inr r, orc', w')"
    using demo_dkg_run [of demo_cfg 2 0 None] by (auto simp: demo_cfg_def)
  with orchestrated_dkg_empty [OF run [unfolded demo_cluster_net_def]] show ?thesis by blast
qed

definition demo_sign_orc :: SignOrchestrator where
  "demo_sign_orc = \<lparr>sgConfig = demo_cfg, sgPeers = [(2, ''b'')], sgThreshold = 1\<rparr>"

lemma demo_sign_rounds:
  "executeSignRound1 demo_cluster_net demo_sign_orc [7] sid [2] demo_cluster =
     (Inr [(2, unknown_sign ''sign_round1'')], demo_cluster)"
  "executeSignRound2 demo_cluster_net demo_sign_orc sid [(2, unknown_sign ''sign_round1'')] demo_cluster =
     (Inr [(2, unknown_sign ''sign_round2'')], demo_cluster)"
proof -
  have "rpcSign demo_cluster_net ''b'' req demo_cluster =
      (Inr (reply_error demo_node req (''unknown message type: '' @ MessageType req)), demo_cluster)"
    if "MessageType req \<notin> set sign_types" for req :: NodeMessage
    by (simp add: demo_cluster_net_def cluster_net_def at_node_def SignMessage_unknown [OF that] demo_cluster_def
        fun_upd_twist)
  then show
    "executeSignRound1 demo_cluster_net demo_sign_orc [7] sid [2] demo_cluster =
     (Inr [(2, unknown_sign ''sign_round1'')], demo_cluster)"
    "executeSignRound2 demo_cluster_net demo_sign_orc sid [(2, unknown_sign ''sign_round1'')] demo_cluster =
     (Inr [(2, unknown_sign ''sign_round2'')], demo_cluster)"
    by (simp_all add: executeSignRound1_def executeSignRound2_def demo_sign_orc_def peers_among_def sign_message_def
        sign_types_def reply_error_def unknown_sign_def)
qed

lemma demo_aggregate:
  "\<exists>w'. rpcAggregate demo_cluster_net ''b'' [7] partials tx url demo_cluster =
     (Inr \<lparr>agSuccess = True, agSignature = [6], agError = [], agTxHash = []\<rparr>, w')"
  by (simp add: demo_cluster_net_def cluster_net_def at_node_def demo_cluster_def AggregateSignatures_rpc_def
      AggregateSignatures_def ok_response_def)

lemma demo_sign_run:
  "\<exists>r w'. sgn_SignMessage demo_cluster_net [2] 0 demo_sign_orc [7] [] [] demo_cluster = (Inr r, demo_sign_orc, w')"
proof -
  obtain w' where "aggregateSignatures demo_cluster_net (NodeID demo_cfg) [(2, ''b'')] [7]
      [(2, unknown_sign ''sign_round2'')] [] [] demo_cluster = (Inr ([6], []), w')"
    using demo_aggregate [of "partials_for (NodeID demo_cfg) [(2, unknown_sign ''sign_round2'')] 2" "[]" "[]"] by auto
  moreover have "sgPeers demo_sign_orc = [(2, ''b'')]" "sgThreshold demo_sign_orc = 1" "sgConfig demo_sign_orc = demo_cfg"
    by (simp_all add: demo_sign_orc_def)
  ultimately show ?thesis
    by (simp add: sgn_SignMessage_def demo_sign_rounds Let_def)
qed


theorem orchestrated_sign_garbage_witness:
  "\<exists>r w' (partials :: pkgs). sgn_SignMessage demo_cluster_net [2] 0 demo_sign_orc [7] [] [] demo_cluster = (Inr r, demo_sign_orc, w') \<and>
     (\<forall>(j, b) \<in> set partials. b = bytes_of ''unknown message type: sign_round2'')"
proof -
  obtain r w' where
    run: "sgn_SignMessage demo_cluster_net [2] 0 demo_sign_orc [7] [] [] demo_cluster = (Inr r, demo_sign_orc, w')"
    using demo_sign_run by blast
  with orchestrated_sign_garbage [OF run [unfolded demo_cluster_net_def]] show ?thesis by blast
qed

theorem refresh_refreshes_nothing_witness:
  "\<exists>r orc'. RunRefresh toy demo_cluster_net [2] 7 (NewRefreshOrchestrator demo_cfg one_share) ''pw'' demo_cluster =
     (r, orc', demo_cluster) \<and> LoadShare toy (rfShareStore orc') 3 ''pw'' = LoadShare toy one_share 3 ''pw''"
proof -
  obtain r orc' w' where
    run: "RunRefresh toy demo_cluster_net [2] 7 (NewRefreshOrchestrator demo_cfg one_share) ''pw'' demo_cluster = (r, orc', w')"
    by (cases "RunRefresh toy demo_cluster_net [2] 7 (NewRefreshOrchestrator demo_cfg one_share) ''pw'' demo_cluster") auto
  with refresh_refreshes_nothing [OF run [unfolded demo_cluster_net_def], of 3 "''pw''"] show ?thesis
    by (simp add: NewRefreshOrchestrator_def)
qed

end
