(* ===== verification/Mpc_Runs.thy ===== *)
theory Mpc_Runs
  imports Mpc_Composition
begin

text \<open>
  A running cluster over time: clients and peers send messages to the nodes, the goroutines that
  triggers start run in the background, nodes stop, and nodes die of a panic, in any order. A step is one
  served request, one background task or one shutdown. The calls a node makes to its peers while it serves
  a request change the world \<open>'v\<close> of the step; what they change in a peer is a step of that peer. Two requests
  served by one node at the same moment are not modelled.
\<close>

section \<open>The state machine\<close>

record 'v system =
  sysCluster :: "'v cluster"
  sysTasks :: "(string \<times> task) list"

text \<open>A panic in a handler takes the node down, and its tasks with it.\<close>

definition without :: "string \<Rightarrow> (string \<times> task) list \<Rightarrow> (string \<times> task) list" where
  "without a ts = filter (\<lambda>(b, _). b \<noteq> a) ts"

fun settled :: "'v system \<Rightarrow> string \<Rightarrow> ('a, 'v) served \<Rightarrow> task list \<Rightarrow> 'v system" where
  "settled S a (Panic, n, v) ts =
     \<lparr>sysCluster = \<lparr>clNodes = (clNodes (sysCluster S))(a := None), clWorld = v\<rparr>, sysTasks = without a (sysTasks S)\<rparr>"
| "settled S a (Ret _, n, v) ts =
     \<lparr>sysCluster = \<lparr>clNodes = (clNodes (sysCluster S))(a \<mapsto> n), clWorld = v\<rparr>,
      sysTasks = sysTasks S @ map (Pair a) ts\<rparr>"

text \<open>The remote procedures that leave the node as it is.\<close>

datatype call =
    CallHandshake HandshakeRequest
  | CallHeartbeat u64
  | CallTrigger "byte list" "u32 list" string
  | CallAggregate "byte list" pkgs "byte list" string
  | CallDirect string string "byte list"
  | CallAbort string

definition call_world :: "string \<Rightarrow> 'v MPCNode \<Rightarrow> call \<Rightarrow> 'v \<Rightarrow> 'v" where
  "call_world uuid n c v =
     (case c of
        CallHandshake _ \<Rightarrow> v
      | CallHeartbeat _ \<Rightarrow> v
      | CallTrigger message signers sid \<Rightarrow> snd (TriggerSign_rpc uuid n message signers sid v)
      | CallAggregate message partials tx url \<Rightarrow> snd (AggregateSignatures_rpc n message partials tx url v)
      | CallDirect sid t payload \<Rightarrow> snd (DirectMessage_rpc n sid t payload v)
      | CallAbort sid \<Rightarrow> snd (AbortSign_rpc n sid v))"

definition set_world :: "'v system \<Rightarrow> 'v \<Rightarrow> 'v system" where
  "set_world S v = S\<lparr>sysCluster := (sysCluster S)\<lparr>clWorld := v\<rparr>\<rparr>"

definition task_run ::
  "'v net \<Rightarrow> (nat \<Rightarrow> string) \<Rightarrow> 'v MPCNode \<Rightarrow> task \<Rightarrow> 'v \<Rightarrow> unit res \<times> 'v" where
  "task_run M sess n t v =
     (case t of TaskRunDKG \<Rightarrow> RunDKG M n sess v | TaskReshare \<Rightarrow> Reshare M n (sess 0) v)"

abbreviation node_at :: "'v system \<Rightarrow> string \<Rightarrow> 'v MPCNode option" where
  "node_at S a \<equiv> clNodes (sysCluster S) a"

abbreviation world_of :: "'v system \<Rightarrow> 'v" where
  "world_of S \<equiv> clWorld (sysCluster S)"

text \<open>\<open>M\<close> and \<open>rnd\<close> are the network and the random source the nodes themselves use.\<close>

inductive sys_step :: "'v net \<Rightarrow> (nat \<Rightarrow> nat res) \<Rightarrow> 'v system \<Rightarrow> 'v system \<Rightarrow> bool" for M rnd where
  Dkg: "node_at S a = Some n \<Longrightarrow> DKGMessage pick1 pick2 clock n req (world_of S) = (r, ts) \<Longrightarrow>
    sys_step M rnd S (settled S a r ts)"
| Sign: "node_at S a = Some n \<Longrightarrow> SignMessage M rnd sess clock n req (world_of S) = r \<Longrightarrow>
    sys_step M rnd S (settled S a r [])"
| Call: "node_at S a = Some n \<Longrightarrow> sys_step M rnd S (set_world S (call_world uuid n c (world_of S)))"
| Task: "sysTasks S = xs @ (a, t) # ys \<Longrightarrow> node_at S a = Some n \<Longrightarrow> task_run M sess n t (world_of S) = (r, v) \<Longrightarrow>
    sys_step M rnd S (set_world S v\<lparr>sysTasks := xs @ ys\<rparr>)"
| Shutdown: "node_at S a = Some n \<Longrightarrow>
    sys_step M rnd S (S\<lparr>sysCluster := (sysCluster S)\<lparr>clNodes := (clNodes (sysCluster S))(a := None)\<rparr>,
      sysTasks := without a (sysTasks S)\<rparr>)"

abbreviation sys_run :: "'v net \<Rightarrow> (nat \<Rightarrow> nat res) \<Rightarrow> 'v system \<Rightarrow> 'v system \<Rightarrow> bool" where
  "sys_run M rnd \<equiv> (sys_step M rnd)\<^sup>*\<^sup>*"

section \<open>What a step keeps of a node\<close>

text \<open>
  A later state of a node: same settings, peers and enclave, and a signing session that was open is
  still the same one.
\<close>

definition same_node :: "'v MPCNode \<Rightarrow> 'v MPCNode \<Rightarrow> bool" where
  "same_node n n' \<longleftrightarrow> ncfg n' = ncfg n \<and> npeers n' = npeers n \<and> nenclave n' = nenclave n \<and>
     (\<forall>s. nsign n = Some s \<longrightarrow> nsign n' = Some s) \<and> (nstate n = StateReady \<longrightarrow> nstate n' = StateReady)"

lemma same_node_refl [simp]: "same_node n n"
  by (simp add: same_node_def)

lemma same_node_trans: "same_node n n1 \<Longrightarrow> same_node n1 n2 \<Longrightarrow> same_node n n2"
  by (simp add: same_node_def)

definition kept :: "'v system \<Rightarrow> 'v system \<Rightarrow> bool" where
  "kept S T \<longleftrightarrow> (\<forall>a m. node_at T a = Some m \<longrightarrow> (\<exists>n. node_at S a = Some n \<and> same_node n m))"

lemma kept_trans: "kept S T \<Longrightarrow> kept T U \<Longrightarrow> kept S U"
  unfolding kept_def using same_node_trans by meson

lemma DKGMessage_same: "DKGMessage pick1 pick2 clock n req v = ((r, n', v'), ts) \<Longrightarrow> same_node n n'"
  by (auto simp: DKGMessage_def handleDKGRound1_def handleDKGRound2_def handleDKGRound3_def
      to_bytes_map_def same_node_def Let_def handleTriggerDKG_def handleTriggerReshare_def
      split: sum.splits prod.splits option.splits outcome.splits if_splits list.splits)

lemma SignMessage_same:
  assumes "SignMessage M rnd sess clock n req v = (r, n', v')"
  shows "same_node n n'"
proof -
  have "fst (snd (SignMessage M rnd sess clock n req v)) = n'" by (simp add: assms)
  then show ?thesis
    by (auto simp: SignMessage_def handleTriggerSign_def handleSignStart_def handleSignRound1_def handleSignRound2_def
        handleCommitments_def Sign_def setState_def getState_def same_node_def
        split: sum.splits prod.splits option.splits if_splits)
qed

text \<open>Every pending task belongs to a running node.\<close>

definition tasks_ok :: "'v system \<Rightarrow> bool" where
  "tasks_ok S \<longleftrightarrow> (\<forall>(a, t) \<in> set (sysTasks S). node_at S a \<noteq> None)"

lemma settled_kept:
  assumes "node_at S a = Some n" and "\<And>x n' v. r = (Ret x, n', v) \<Longrightarrow> same_node n n'"
  shows "kept S (settled S a r ts)" and "tasks_ok S \<Longrightarrow> tasks_ok (settled S a r ts)"
  using assms by (cases "(S, a, r, ts)" rule: settled.cases; force simp: kept_def tasks_ok_def without_def)+

lemma set_world_nodes [simp]: "node_at (set_world S v) a = node_at S a" "sysTasks (set_world S v) = sysTasks S"
  by (simp_all add: set_world_def)

lemma sys_step_kept: "sys_step M rnd S T \<Longrightarrow> kept S T \<and> (tasks_ok S \<longrightarrow> tasks_ok T)"
proof (induction rule: sys_step.induct)
  case (Dkg S a n pick1 pick2 clock req r ts)
  have "same_node n n'" if "r = (Ret x, n', v)" for x n' v
    using Dkg(2) that DKGMessage_same [of pick1 pick2 clock n req "world_of S" "Ret x" n' v ts] by simp
  with settled_kept [OF Dkg(1)] show ?case by blast
next
  case (Sign S a n sess clock req r)
  have "same_node n n'" if "r = (Ret x, n', v)" for x n' v
    using Sign(2) that SignMessage_same [of M rnd sess clock n req "world_of S" "Ret x" n' v] by simp
  with settled_kept [OF Sign(1)] show ?case by blast
qed (auto simp: kept_def tasks_ok_def without_def)

lemma kept_refl: "kept S S"
  by (simp add: kept_def)

lemma sys_run_kept: "sys_run M rnd S T \<Longrightarrow> kept S T \<and> (tasks_ok S \<longrightarrow> tasks_ok T)"
  by (induction rule: rtranclp_induct) (use sys_step_kept kept_trans kept_refl in blast)+


section \<open>Triggered key generations\<close>

text \<open>A cluster as \<^verbatim>\<open>Start\<close> leaves it when every handshake is rejected: nodes without peers.\<close>

definition isolated :: "'v system \<Rightarrow> bool" where
  "isolated S \<longleftrightarrow> (\<forall>a n. node_at S a = Some n \<longrightarrow> npeers n = [] \<and> 1 < unat (Threshold (ncfg n)))"

lemma isolated_run: "sys_run M rnd S T \<Longrightarrow> isolated S \<Longrightarrow> isolated T"
  using sys_run_kept [of M rnd S T] unfolding isolated_def kept_def same_node_def by metis

lemma RunDKG_isolated:
  "npeers n = [] \<Longrightarrow> 1 < unat (Threshold (ncfg n)) \<Longrightarrow>
   RunDKG M n sess v = (Inl (not_enough ''participants'' 1 (Threshold (ncfg n))), v)"
  by (simp add: RunDKG_def maxRetries_def numeral_3_eq_3)

text \<open>
  In a cluster of nodes that found no peers, with thresholds of at least two, no key generation that a
  client triggers ever takes place, at whatever moment of whatever run its task comes up: the task fails
  for lack of participants, and running it removes it and changes nothing else. The client was told of a
  success when the task was started.
\<close>

theorem triggered_key_generation_fails:
  assumes "isolated S" and "sys_run M rnd S T" and "sysTasks T = xs @ (a, TaskRunDKG) # ys"
    and "node_at T a = Some n"
  shows "task_run M sess n TaskRunDKG (world_of T) =
      (Inl (not_enough ''participants'' 1 (Threshold (ncfg n))), world_of T) \<and>
    sys_step M rnd T (T\<lparr>sysTasks := xs @ ys\<rparr>)"
proof -
  have run: "task_run M sess' n TaskRunDKG (world_of T) =
      (Inl (not_enough ''participants'' 1 (Threshold (ncfg n))), world_of T)" for sess'
    using isolated_run [OF assms(2,1)] assms(4) by (simp add: task_run_def isolated_def RunDKG_isolated)
  have "set_world T (world_of T) = T" by (simp add: set_world_def)
  with Task [OF assms(3,4) run] run show ?thesis by simp
qed

section \<open>A concrete run\<close>

definition lone_node :: "unit MPCNode" where
  "lone_node = demo_node\<lparr>npeers := []\<rparr>"

definition lone_system :: "unit system" where
  "lone_system = \<lparr>sysCluster = \<lparr>clNodes = [''b'' \<mapsto> lone_node], clWorld = ()\<rparr>, sysTasks = []\<rparr>"

definition dkg_trigger :: NodeMessage where
  "dkg_trigger = \<lparr>MessageType = ''trigger_dkg'', FromNode = 0, ToNode = 0, Payload = []\<rparr>"

lemma lone_run: "sys_run demo_net (\<lambda>k. Inr 0) lone_system (lone_system\<lparr>sysTasks := [(''b'', TaskRunDKG)]\<rparr>)"
proof -
  have "DKGMessage (\<lambda>_. 0) (\<lambda>_. 0) 5 lone_node dkg_trigger () = ((Ret (reply lone_node dkg_trigger []), lone_node, ()), [TaskRunDKG])"
    by (simp add: DKGMessage_def dkg_trigger_def handleTriggerDKG_def)
  from Dkg [of lone_system "''b''" lone_node "\<lambda>_. 0" "\<lambda>_. 0" 5 dkg_trigger _ _ demo_net "\<lambda>k. Inr 0", OF _ this [folded unit_eq [of "world_of lone_system"]]]
  have "sys_step demo_net (\<lambda>k. Inr 0) lone_system (lone_system\<lparr>sysTasks := [(''b'', TaskRunDKG)]\<rparr>)"
    by (simp add: lone_system_def fun_upd_idem)
  then show ?thesis by (rule r_into_rtranclp)
qed


theorem triggered_key_generation_fails_witness:
  "fst (task_run demo_net (\<lambda>_. ''s'') lone_node TaskRunDKG ()) = Inl (not_enough ''participants'' 1 2)"
proof -
  have "isolated lone_system"
    by (simp add: isolated_def lone_system_def lone_node_def demo_node_def defaultNodeConfig_def)
  from triggered_key_generation_fails [OF this lone_run, of "[]" "''b''" "[]" lone_node "\<lambda>_. ''s''"] show ?thesis
    by (simp add: lone_system_def lone_node_def demo_node_def defaultNodeConfig_def)
qed

end
