(* ===== verification/Mpc_Protocol.thy ===== *)
theory Mpc_Protocol
  imports Go_Prelude
begin

text \<open>
  Package \<^verbatim>\<open>pkg/mpc/protocol\<close>: the session counters and the client and coordinator stubs of an earlier
  design. A stub that returns a nil answer and no error returns \<open>Inr None\<close>. The lemmas show that a
  key-generation session is complete after its last round whatever came before, that a signing
  session never becomes complete, and that collecting signatures never yields any.
\<close>

section \<open>Messages\<close>

record proto_DKGMessage =
  pdRound :: u32
  pdFromNode :: u32
  pdToNode :: u32
  pdMessage :: "byte list"
  pdCommitments :: "byte list list"
  pdTimestamp :: u64

record proto_SignMessage =
  psRound :: u32
  psFromNode :: u32
  psToNode :: u32
  psMessage :: "byte list"
  psPartialSignature :: "byte list"
  psSigners :: "u32 list"
  psTimestamp :: u64

section \<open>Sessions\<close>

record DKGSession =
  dsesThreshold :: u32
  dsesTotalNodes :: u32
  dsesRound :: u32

definition NewDKGSession :: "u32 \<Rightarrow> u32 \<Rightarrow> DKGSession" where
  "NewDKGSession threshold totalNodes =
     \<lparr>dsesThreshold = threshold, dsesTotalNodes = totalNodes, dsesRound = 0\<rparr>"

definition dses_Start :: "DKGSession \<Rightarrow> DKGSession res" where
  "dses_Start s = (if dsesRound s \<noteq> 0 then Inl ''session already started'' else Inr (s\<lparr>dsesRound := 1\<rparr>))"

definition ProcessRound1 :: "DKGSession \<Rightarrow> proto_DKGMessage \<Rightarrow> DKGSession res" where
  "ProcessRound1 s msg = Inr (s\<lparr>dsesRound := 2\<rparr>)"

definition ProcessRound2 :: "DKGSession \<Rightarrow> proto_DKGMessage \<Rightarrow> DKGSession res" where
  "ProcessRound2 s msg = Inr (s\<lparr>dsesRound := 3\<rparr>)"

definition dses_IsComplete :: "DKGSession \<Rightarrow> bool" where
  "dses_IsComplete s \<longleftrightarrow> dsesRound s \<ge> 3"

record SigningSession =
  ssesMessage :: "byte list"
  ssesSigners :: "u32 list"
  ssesThreshold :: u32
  ssesRound :: u32

definition NewSigningSession :: "byte list \<Rightarrow> u32 list \<Rightarrow> u32 \<Rightarrow> SigningSession" where
  "NewSigningSession message signers threshold =
     \<lparr>ssesMessage = message, ssesSigners = signers, ssesThreshold = threshold, ssesRound = 0\<rparr>"

definition sses_Start :: "SigningSession \<Rightarrow> SigningSession res" where
  "sses_Start s = Inr (s\<lparr>ssesRound := 1\<rparr>)"

definition AddPartialSignature :: "SigningSession \<Rightarrow> byte list \<Rightarrow> SigningSession res" where
  "AddPartialSignature s sig = Inr s"

definition sses_IsComplete :: "SigningSession \<Rightarrow> bool" where
  "sses_IsComplete s \<longleftrightarrow> ssesRound s \<ge> 2"

section \<open>Client\<close>

record NodeClient =
  ncNodeID :: u32
  ncEndpoint :: string

text \<open>\<open>dial\<close> is \<^verbatim>\<open>grpc.Dial\<close>, which fails on a bad target only.\<close>

definition NewNodeClient :: "(string \<Rightarrow> err option) \<Rightarrow> u32 \<Rightarrow> string \<Rightarrow> NodeClient res" where
  "NewNodeClient dial nodeID endpoint =
     (case dial endpoint of Some e \<Rightarrow> Inl e | None \<Rightarrow> Inr \<lparr>ncNodeID = nodeID, ncEndpoint = endpoint\<rparr>)"

definition nc_SendDKGMessage :: "NodeClient \<Rightarrow> proto_DKGMessage \<Rightarrow> proto_DKGMessage option res" where
  "nc_SendDKGMessage c msg = Inr None"

definition nc_SendSignMessage :: "NodeClient \<Rightarrow> proto_SignMessage \<Rightarrow> proto_SignMessage option res" where
  "nc_SendSignMessage c msg = Inr None"

definition HealthCheck :: "NodeClient \<Rightarrow> bool res" where
  "HealthCheck c = Inr True"

section \<open>Coordinator\<close>

record SigningCoordinator =
  scThreshold :: u32
  scTotalNodes :: u32

definition NewSigningCoordinator :: "u32 \<Rightarrow> u32 \<Rightarrow> SigningCoordinator" where
  "NewSigningCoordinator threshold totalNodes = \<lparr>scThreshold = threshold, scTotalNodes = totalNodes\<rparr>"

definition ErrNotEnoughSignatures :: err where
  "ErrNotEnoughSignatures = ''not enough signatures collected''"

text \<open>
  The answer of one signer's goroutine: reading the partial signature of a nil answer panics. A
  signer without a client starts no goroutine.
\<close>

definition ask_signer ::
  "byte list \<Rightarrow> (u32 \<rightharpoonup> NodeClient) \<Rightarrow> u32 \<Rightarrow> byte list res outcome option" where
  "ask_signer message clients nodeID =
     (case clients nodeID of
        None \<Rightarrow> None
      | Some cli \<Rightarrow>
          Some (case nc_SendSignMessage cli \<lparr>psRound = 0, psFromNode = nodeID, psToNode = 0, psMessage = message,
                       psPartialSignature = [], psSigners = [], psTimestamp = 0\<rparr> of
                  Inl e \<Rightarrow> Ret (Inl e)
                | Inr None \<Rightarrow> Panic
                | Inr (Some sig) \<Rightarrow> Ret (Inr (psPartialSignature sig))))"

text \<open>
  A panic of a goroutine ends the program. Otherwise the collector waits for as many answers as
  there are signers; when fewer can come, the context ends the waiting, with its error \<open>ctxErr\<close>.
\<close>

definition CollectSignatures ::
  "err \<Rightarrow> SigningCoordinator \<Rightarrow> byte list \<Rightarrow> u32 list \<Rightarrow> (u32 \<rightharpoonup> NodeClient) \<Rightarrow> byte list option res outcome" where
  "CollectSignatures ctxErr c message signers clients =
     (let answers = List.map_filter (ask_signer message clients) signers;
          signatures = concat (map (\<lambda>a. case a of Ret (Inr s) \<Rightarrow> [s] | _ \<Rightarrow> []) answers)
      in if Panic \<in> set answers then Panic
         else if length answers < length signers then Ret (Inl ctxErr)
         else if length signatures < unat (scThreshold c) then Ret (Inl ErrNotEnoughSignatures)
         else Ret (Inr None))"

section \<open>Facts\<close>

lemma ProcessRound2_completes: "ProcessRound2 s msg = Inr s' \<Longrightarrow> dses_IsComplete s'"
  by (auto simp: ProcessRound2_def dses_IsComplete_def)

lemma signing_never_complete:
  "sses_Start s = Inr s1 \<Longrightarrow> AddPartialSignature s1 sig = Inr s2 \<Longrightarrow> \<not> sses_IsComplete s2"
  by (auto simp: sses_Start_def AddPartialSignature_def sses_IsComplete_def word_le_nat_alt)

lemma collects_nothing:
  "CollectSignatures ctxErr c message signers clients \<noteq> Ret (Inr (Some sig))"
  by (simp add: CollectSignatures_def Let_def)

lemma collecting_panics:
  "i \<in> set signers \<Longrightarrow> clients i = Some cli \<Longrightarrow> CollectSignatures ctxErr c message signers clients = Panic"
  by (auto simp: CollectSignatures_def Let_def map_filter_def ask_signer_def nc_SendSignMessage_def image_iff
      intro!: bexI [of _ i])

end
