(* ===== verification/Ethereum_Rpc.thy ===== *)
theory Ethereum_Rpc
  imports Json
begin

text \<open>
  Package \<^verbatim>\<open>pkg/blockchain/ethereum\<close>, file \<^verbatim>\<open>rpc.go\<close>: the JSON-RPC client, every call of it. A
  \<^verbatim>\<open>*big.Int\<close> is an \<open>int\<close>, or an option where the code tests it for nil. The context argument is not
  modelled: a cancelled request is one the network fails.

  The lemmas: the fees the client reports are ordered by speed; the receipt of a transaction that
  is not mined yet makes the client panic.
\<close>

section \<open>Numbers on the wire\<close>

definition is_hex :: "char \<Rightarrow> bool" where
  "is_hex c \<longleftrightarrow> hex_val c \<noteq> None"

definition hex_nat :: "string \<Rightarrow> nat" where
  "hex_nat s = foldl (\<lambda>a c. 16 * a + the (hex_val c)) 0 s"

text \<open>
  \<^verbatim>\<open>(*big.Int).SetString(s, 16)\<close> whose success is not tested: an optional sign and the longest
  prefix of hexadecimal digits, which is what the scanner of \<^verbatim>\<open>math/big\<close> leaves in the number also
  when something follows.
\<close>

definition SetString16 :: "string \<Rightarrow> int" where
  "SetString16 s =
     (case s of
        [] \<Rightarrow> 0
      | c # t \<Rightarrow>
          if c = CHR ''-'' then - int (hex_nat (takeWhile is_hex t))
          else if c = CHR ''+'' then int (hex_nat (takeWhile is_hex t))
          else int (hex_nat (takeWhile is_hex s)))"

text \<open>The slice expression \<^verbatim>\<open>s[2:]\<close> panics on a string shorter than two bytes.\<close>

definition from2 :: "string \<Rightarrow> string option" where
  "from2 s = (if length s < 2 then None else Some (drop 2 s))"

definition parseHexUint64 :: "string \<Rightarrow> u64" where
  "parseHexUint64 s = (if length s \<le> 2 then 0 else word_of_nat (nat \<bar>SetString16 (drop 2 s)\<bar>))"

section \<open>Calls\<close>

definition NewRPCClient :: "(string \<Rightarrow> RPCRequest \<Rightarrow> 'w \<Rightarrow> rpc_reply \<times> 'w) \<Rightarrow> string \<Rightarrow> 'w RPCClient" where
  "NewRPCClient network url = \<lparr>rpcURL = url, rpcDo = network\<rparr>"

definition rpc_call :: "'w RPCClient \<Rightarrow> string \<Rightarrow> json list \<Rightarrow> (json option, 'w) action" where
  "rpc_call c meth params w =
     (case rpcDo c (rpcURL c) (rpc_request meth params) w of
        (BadURL e, w') \<Rightarrow> (Ret (Inl (''failed to create http request: '' @ e)), w')
      | (NoReply e, w') \<Rightarrow> (Ret (Inl (''http request failed: '' @ e)), w')
      | (ReadFailed e, w') \<Rightarrow> (Ret (Inl (''failed to decode response: '' @ e)), w')
      | (BadBody e, w') \<Rightarrow> (Ret (Inl (''failed to decode response: '' @ e)), w')
      | (Document j, w') \<Rightarrow>
          (case Unmarshal dec_RPCResponse zero_response (Some j) of
             Inl e \<Rightarrow> (Ret (Inl (''failed to decode response: '' @ e)), w')
           | Inr rpcResp \<Rightarrow>
               (case rsError rpcResp of
                  Some er \<Rightarrow>
                    (Ret (Inl (''rpc error '' @ show_int (Code er) @ '': '' @ ErrMessage er)), w')
                | None \<Rightarrow> (Ret (Inr (rsResult rpcResp)), w'))))"

text \<open>
  \<^verbatim>\<open>Call\<close> passes the parameters of \<^verbatim>\<open>eth_call\<close> as one list, and returns the text of the raw result;
  an absent result is the empty text.
\<close>

definition Call :: "'w RPCClient \<Rightarrow> (string \<times> json) list \<Rightarrow> string \<Rightarrow> (string, 'w) action" where
  "Call c params block =
     attempt (rpc_call c ''eth_call'' [JArr [JObj params, JString block]]) (\<lambda>e. e)
       (\<lambda>result. give (case result of None \<Rightarrow> [] | Some j \<Rightarrow> text_of j))"

definition unmarshal_string :: "json option \<Rightarrow> (string, 'w) action" where
  "unmarshal_string result = pure (Unmarshal (dec_string at_value) [] result)"

definition GetNonce :: "'w RPCClient \<Rightarrow> string \<Rightarrow> (u64, 'w) action" where
  "GetNonce c address =
     attempt (rpc_call c ''eth_getTransactionCount'' [JString address, JStr ''latest''])
       (\<lambda>e. ''failed to get nonce: '' @ e)
       (\<lambda>result. attempt (unmarshal_string result) (\<lambda>e. ''failed to parse nonce: '' @ e)
          (\<lambda>nonceHex. give (parseHexUint64 nonceHex)))"

text \<open>A hexadecimal quantity behind its two-character prefix.\<close>

definition give_big :: "string \<Rightarrow> (int, 'w) action" where
  "give_big s = (case from2 s of None \<Rightarrow> crash | Some t \<Rightarrow> give (SetString16 t))"

definition GetBalance :: "'w RPCClient \<Rightarrow> string \<Rightarrow> (int, 'w) action" where
  "GetBalance c address =
     attempt (rpc_call c ''eth_getBalance'' [JString address, JStr ''latest''])
       (\<lambda>e. ''failed to get balance: '' @ e)
       (\<lambda>result. attempt (unmarshal_string result) (\<lambda>e. ''failed to parse balance: '' @ e) give_big)"

definition GetChainID :: "'w RPCClient \<Rightarrow> (u64, 'w) action" where
  "GetChainID c =
     attempt (rpc_call c ''eth_chainId'' []) (\<lambda>e. ''failed to get chain ID: '' @ e)
       (\<lambda>result. attempt (unmarshal_string result) (\<lambda>e. ''failed to parse chain ID: '' @ e)
          (\<lambda>chainIDHex. give (parseHexUint64 chainIDHex)))"

definition GetGasPrice :: "'w RPCClient \<Rightarrow> (int, 'w) action" where
  "GetGasPrice c =
     attempt (rpc_call c ''eth_gasPrice'' []) (\<lambda>e. ''failed to get gas price: '' @ e)
       (\<lambda>result. attempt (unmarshal_string result) (\<lambda>e. ''failed to parse gas price: '' @ e) give_big)"

section \<open>Fees\<close>

text \<open>
  \<open>GetFeeInfo\<close>, the only function that makes one, sets every field; only the priority fee is
  tested for nil by its users.
\<close>

record FeeInfo =
  BaseFee :: int
  MaxPriorityFee :: "int option"
  MaxFee :: int
  LegacyGasPrice :: int
  Slow :: int
  Standard :: int
  Fast :: int

definition gwei :: int where
  "gwei = 1000000000"

text \<open>The fees computed from the base fee of the last block.\<close>

definition feesFromBase :: "int \<Rightarrow> FeeInfo" where
  "feesFromBase base =
     (let tip0 = base div 10;
          tip = (if tip0 < gwei then gwei else tip0)
      in \<lparr>BaseFee = base, MaxPriorityFee = Some tip, MaxFee = base * 2 + tip,
          LegacyGasPrice = base + tip,
          Slow = base * 11 div 10 + gwei, Standard = base * 13 div 10 + 2 * gwei,
          Fast = base * 16 div 10 + 3 * gwei\<rparr>)"

text \<open>The fees when the node has no fee history.\<close>

definition feesFromGasPrice :: "int \<Rightarrow> FeeInfo" where
  "feesFromGasPrice gasPrice =
     \<lparr>BaseFee = gasPrice, MaxPriorityFee = Some (2 * gwei), MaxFee = gasPrice + 2 * gwei,
      LegacyGasPrice = gasPrice, Slow = gasPrice, Standard = gasPrice * 12 div 10,
      Fast = gasPrice * 15 div 10\<rparr>"

text \<open>
  The answer to \<^verbatim>\<open>eth_feeHistory\<close>. The ratios are decoded but not used; a number that is not
  finite in \<^verbatim>\<open>float64\<close> is a type error.
\<close>

definition float_overflows :: "string \<Rightarrow> bool" where
  "float_overflows s =
     (let m = takeWhile (\<lambda>c. c \<noteq> CHR ''e'' \<and> c \<noteq> CHR ''E'') s;
          e = drop (Suc (length m)) s;
          whole = takeWhile (\<lambda>c. c \<noteq> CHR ''.'') m;
          frac = drop (Suc (length whole)) m;
          digits = dec_val (filter is_digit (whole @ frac));
          expo = int (dec_val (filter is_digit e));
          scale = (if CHR ''-'' \<in> set e then - expo else expo) - int (length frac);
          bound = 2 ^ 1024 - 2 ^ 970
      in if 0 \<le> scale then bound \<le> digits * 10 ^ nat scale else bound * 10 ^ nat (- scale) \<le> digits)"

fun dec_ratio :: "string \<Rightarrow> unit decoder" where
  "dec_ratio place (JNum n) old =
     (if float_overflows n then [type_error (''number '' @ n) place ''float64''] else [], ())"
| "dec_ratio place JNull old = ([], ())"
| "dec_ratio place j old = ([type_error (kind j) place ''float64''], ())"

record FeeHistory =
  BaseFeePerGas :: "string list"
  GasUsedRatio :: "unit list"

definition dec_FeeHistory :: "FeeHistory decoder" where
  "dec_FeeHistory = dec_struct
     [(''baseFeePerGas'', field (dec_slice (dec_string (at_field [] ''baseFeePerGas'')) []
         (at_field [] ''baseFeePerGas'') ''[]string'') BaseFeePerGas (\<lambda>v r. r\<lparr>BaseFeePerGas := v\<rparr>)),
      (''gasUsedRatio'', field (dec_slice (dec_ratio (at_field [] ''gasUsedRatio'')) ()
         (at_field [] ''gasUsedRatio'') ''[]float64'') GasUsedRatio (\<lambda>v r. r\<lparr>GasUsedRatio := v\<rparr>))]
     at_value ''struct { BaseFeePerGas []string; GasUsedRatio []float64 }''"

definition legacyFees :: "'w RPCClient \<Rightarrow> (FeeInfo, 'w) action" where
  "legacyFees c =
     attempt (GetGasPrice c) (\<lambda>e. ''failed to get fee info: '' @ e)
       (\<lambda>gasPrice. give (feesFromGasPrice gasPrice))"

text \<open>The choice of the fees once the node has answered the request for the fee history.\<close>

definition chooseFees :: "'w RPCClient \<Rightarrow> json option res \<Rightarrow> (FeeInfo, 'w) action" where
  "chooseFees c r =
     (case r of
        Inl _ \<Rightarrow> legacyFees c
      | Inr feeHistory \<Rightarrow>
          (case Unmarshal dec_FeeHistory \<lparr>BaseFeePerGas = [], GasUsedRatio = []\<rparr> feeHistory of
             Inl _ \<Rightarrow> legacyFees c
           | Inr fh \<Rightarrow>
               if BaseFeePerGas fh = [] then legacyFees c
               else (case from2 (last (BaseFeePerGas fh)) of
                       None \<Rightarrow> crash
                     | Some t \<Rightarrow> give (feesFromBase (SetString16 t)))))"

definition GetFeeInfo :: "'w RPCClient \<Rightarrow> (FeeInfo, 'w) action" where
  "GetFeeInfo c =
     observe (rpc_call c ''eth_feeHistory''
         [JStr ''0x5'', JStr ''latest'', JArr [JNum ''0.1'', JNum ''0.2'', JNum ''0.3'']])
       (chooseFees c)"

section \<open>Transactions\<close>

definition SendRawTransaction :: "'w RPCClient \<Rightarrow> string \<Rightarrow> (string, 'w) action" where
  "SendRawTransaction c signedTxHex =
     attempt (rpc_call c ''eth_sendRawTransaction'' [JString signedTxHex])
       (\<lambda>e. ''failed to send raw tx: '' @ e)
       (\<lambda>result. attempt (unmarshal_string result) (\<lambda>e. ''failed to parse tx hash: '' @ e) give)"

record TransactionResult =
  TxHash :: string
  GasUsed :: "int option"
  BlockNum :: u64
  Confirmed :: bool

record Receipt =
  rcTxHash :: string
  rcGasUsed :: string
  rcBlockNumber :: string

definition dec_Receipt :: "Receipt decoder" where
  "dec_Receipt = dec_struct
     [(''transactionHash'', field (dec_string (at_field [] ''transactionHash'')) rcTxHash
         (\<lambda>v r. r\<lparr>rcTxHash := v\<rparr>)),
      (''gasUsed'', field (dec_string (at_field [] ''gasUsed'')) rcGasUsed (\<lambda>v r. r\<lparr>rcGasUsed := v\<rparr>)),
      (''blockNumber'', field (dec_string (at_field [] ''blockNumber'')) rcBlockNumber
         (\<lambda>v r. r\<lparr>rcBlockNumber := v\<rparr>))]
     at_value ''struct { TxHash string; GasUsed string; BlockNumber string }''"

definition GetTransactionReceipt :: "'w RPCClient \<Rightarrow> string \<Rightarrow> (TransactionResult, 'w) action" where
  "GetTransactionReceipt c txHash =
     attempt (rpc_call c ''eth_getTransactionReceipt'' [JString txHash])
       (\<lambda>e. ''failed to get receipt: '' @ e)
       (\<lambda>result.
          if result = None
          then give \<lparr>TxHash = [], GasUsed = None, BlockNum = 0, Confirmed = False\<rparr>
          else attempt
            (pure (Unmarshal dec_Receipt \<lparr>rcTxHash = [], rcGasUsed = [], rcBlockNumber = []\<rparr> result))
            (\<lambda>e. ''failed to parse receipt: '' @ e)
            (\<lambda>receipt.
               case from2 (rcGasUsed receipt) of
                 None \<Rightarrow> crash
               | Some t \<Rightarrow>
                   give \<lparr>TxHash = rcTxHash receipt, GasUsed = Some (SetString16 t),
                         BlockNum = parseHexUint64 (rcBlockNumber receipt), Confirmed = True\<rparr>))"

section \<open>Facts\<close>

text \<open>What the network answers to a request, when it answers normally.\<close>

definition answers :: "'w RPCClient \<Rightarrow> string \<Rightarrow> json list \<Rightarrow> 'w \<Rightarrow> json \<Rightarrow> 'w \<Rightarrow> bool" where
  "answers c meth params w j w' \<longleftrightarrow>
     rpcDo c (rpcURL c) (rpc_request meth params) w = (Document (ok_response j), w')"

lemma rpc_call_answer:
  "answers c meth params w j w' \<Longrightarrow> rpc_call c meth params w = (Ret (Inr (Some j)), w')"
  by (simp add: rpc_call_def answers_def Unmarshal_ok_response)

lemma fees_base_ordered:
  "0 \<le> base \<Longrightarrow> Slow (feesFromBase base) \<le> Standard (feesFromBase base) \<and>
     Standard (feesFromBase base) \<le> Fast (feesFromBase base) \<and> base \<le> Slow (feesFromBase base) \<and>
     gwei \<le> the (MaxPriorityFee (feesFromBase base))"
  by (auto simp: feesFromBase_def gwei_def Let_def)

lemma fees_gas_price_ordered:
  "0 \<le> price \<Longrightarrow> Slow (feesFromGasPrice price) \<le> Standard (feesFromGasPrice price) \<and>
     Standard (feesFromGasPrice price) \<le> Fast (feesFromGasPrice price) \<and>
     price \<le> Slow (feesFromGasPrice price) \<and>
     gwei \<le> the (MaxPriorityFee (feesFromGasPrice price))"
  by (auto simp: feesFromGasPrice_def gwei_def)

lemma legacyFees_Inr:
  "legacyFees c w = (Ret (Inr fi), w') \<Longrightarrow> \<exists>x. fi = feesFromGasPrice x"
  by (auto simp: legacyFees_def attempt_Inr)

lemma chooseFees_Inr:
  "chooseFees c r v = (Ret (Inr fi), w') \<Longrightarrow>
   legacyFees c v = (Ret (Inr fi), w') \<or> (\<exists>x. fi = feesFromBase x)"
  by (auto simp: chooseFees_def split: sum.splits if_splits option.splits)

lemma GetFeeInfo_cases:
  assumes "GetFeeInfo c w = (Ret (Inr fi), w')"
  shows "\<exists>x. fi = feesFromBase x \<or> fi = feesFromGasPrice x"
proof -
  obtain r v where "chooseFees c r v = (Ret (Inr fi), w')"
    using assms by (auto simp: GetFeeInfo_def observe_Inr)
  then show ?thesis using chooseFees_Inr legacyFees_Inr by metis
qed

text \<open>
  Whatever the node answers, the fees the client reports are ordered by speed, no speed is
  below the base fee, and the priority fee is present and at least one gwei, as long as the base fee
  is not negative.
\<close>

theorem fee_info_ordered:
  assumes "GetFeeInfo c w = (Ret (Inr fi), w')" and "0 \<le> BaseFee fi"
  shows "BaseFee fi \<le> Slow fi \<and> Slow fi \<le> Standard fi \<and> Standard fi \<le> Fast fi \<and>
    (\<exists>tip. MaxPriorityFee fi = Some tip \<and> gwei \<le> tip)"
proof -
  obtain x where "fi = feesFromBase x \<or> fi = feesFromGasPrice x"
    using GetFeeInfo_cases [OF assms(1)] by blast
  moreover from this have "BaseFee fi = x" "MaxPriorityFee fi \<noteq> None"
    by (auto simp: feesFromBase_def feesFromGasPrice_def Let_def)
  ultimately show ?thesis
    using assms(2) fees_base_ordered [of x] fees_gas_price_ordered [of x] by auto
qed

definition quiet_node :: "unit RPCClient" where
  "quiet_node = NewRPCClient (\<lambda>url req w.
     (if rqMethod req = ''eth_gasPrice'' then Document (ok_response (JStr ''0x64''))
      else if rqMethod req = ''eth_feeHistory'' then NoReply ''timeout''
      else Document (ok_response JNull), w)) ''http://node''"

lemma quiet_node_fees:
  "GetFeeInfo quiet_node () = (Ret (Inr (feesFromGasPrice 100)), ())"
proof -
  have "answers quiet_node ''eth_gasPrice'' [] () (JStr ''0x64'') ()"
    by (simp add: answers_def quiet_node_def NewRPCClient_def rpc_request_def)
  moreover have "SetString16 ''64'' = 100" by code_simp
  moreover have "rpc_call quiet_node ''eth_feeHistory''
      [JStr ''0x5'', JStr ''latest'', JArr [JNum ''0.1'', JNum ''0.2'', JNum ''0.3'']] () =
      (Ret (Inl ''http request failed: timeout''), ())"
    by (simp add: rpc_call_def quiet_node_def NewRPCClient_def rpc_request_def)
  ultimately show ?thesis
    by (simp add: GetFeeInfo_def chooseFees_def legacyFees_def GetGasPrice_def rpc_call_answer unmarshal_string_def
        Unmarshal_string unquote_plain give_big_def from2_def)
qed

theorem fee_info_ordered_witness:
  "\<exists>fi. GetFeeInfo quiet_node () = (Ret (Inr fi), ()) \<and> Slow fi \<le> Standard fi \<and> Standard fi \<le> Fast fi"
  using fee_info_ordered [OF quiet_node_fees] quiet_node_fees
  by (simp add: feesFromGasPrice_def)

text \<open>
  A node answers the request for the receipt of a transaction that is not mined yet with
  \<^verbatim>\<open>null\<close>. The client takes only an absent result for an unconfirmed transaction; on \<^verbatim>\<open>null\<close> it
  decodes an empty receipt and panics when it cuts the prefix off the empty gas amount. On a mined
  transaction it returns the receipt's data.
\<close>

theorem pending_receipt_panics:
  assumes "answers c ''eth_getTransactionReceipt'' [JString txHash] w j w'"
  shows "(j = JNull \<longrightarrow> GetTransactionReceipt c txHash w = (Panic, w')) \<and>
    (\<forall>h g b. j = JObj [(''transactionHash'', JString h), (''gasUsed'', JString (''0x'' @ g)),
        (''blockNumber'', JString b)] \<longrightarrow>
      GetTransactionReceipt c txHash w =
        (Ret (Inr \<lparr>TxHash = h, GasUsed = Some (SetString16 g), BlockNum = parseHexUint64 b,
           Confirmed = True\<rparr>), w'))"
proof -
  have names: "unquote ''transactionHash'' = ''transactionHash''" "unquote ''gasUsed'' = ''gasUsed''"
    "unquote ''blockNumber'' = ''blockNumber''" by (simp_all add: unquote_plain)
  show ?thesis
    using rpc_call_answer [OF assms]
    by (auto simp: GetTransactionReceipt_def Unmarshal_def dec_Receipt_def from2_def
        find_field_def field_def names)
qed

theorem pending_receipt_panics_witness:
  "GetTransactionReceipt quiet_node ''0xab'' () = (Panic, ())"
proof -
  have "answers quiet_node ''eth_getTransactionReceipt'' [JString ''0xab''] () JNull ()"
    by (simp add: answers_def quiet_node_def NewRPCClient_def rpc_request_def)
  from pending_receipt_panics [OF this] show ?thesis by simp
qed

end
