(* ===== verification/Ethereum_Tx.thy ===== *)
theory Ethereum_Tx
  imports Ethereum_Rpc
begin

text \<open>
  Package \<^verbatim>\<open>pkg/blockchain/ethereum\<close>, files \<^verbatim>\<open>tx.go\<close> and \<^verbatim>\<open>address.go\<close>: building and signing of
  native and ERC-20 transfers, gas estimates, balance checks and addresses, over the RPC client.

  go-ethereum is third-party code: the record \<open>geth\<close> holds the functions of it that the package
  calls, over its own types of private keys, public keys and signed transactions. Functions the
  program may call with a nil key take an option.
\<close>

section \<open>go-ethereum\<close>

text \<open>The transactions handed to \<^verbatim>\<open>types.NewTx\<close>, with the fields the code sets.\<close>

datatype EthTx =
    LegacyTx (txNonce: u64) (txTo: "byte list") (txValue: int) (txGas: u64) (txGasPrice: int)
  | DynamicFeeTx (txNonce: u64) (txTo: "byte list") (txValue: int) (txGas: u64)
      (txGasFeeCap: int) (txGasTipCap: int) (txData: "byte list")

record ('k, 'p, 't) geth =
  PublicKey :: "'k \<Rightarrow> 'p"
  PubkeyToAddress :: "'p \<Rightarrow> byte list"
  AddressHex :: "byte list \<Rightarrow> string"
  HexToAddress :: "string \<Rightarrow> byte list"
  IsHexAddress :: "string \<Rightarrow> bool"
  HexToHashBig :: "string \<Rightarrow> int"
  LeftPadBytes :: "byte list \<Rightarrow> nat \<Rightarrow> byte list"
  UnmarshalPubkey :: "byte list \<Rightarrow> 'p res"
  DecompressPubkey :: "byte list \<Rightarrow> 'p res"
  GenerateKey :: "'k res"
  FromECDSAPub :: "'p option \<Rightarrow> byte list"
  CompressPubkey :: "'p option \<Rightarrow> byte list outcome"
  HexToECDSA :: "string \<Rightarrow> 'k res"
  ToECDSA :: "byte list \<Rightarrow> 'k res"
  FromECDSA :: "'k option \<Rightarrow> byte list"
  Keccak256 :: "byte list \<Rightarrow> byte list"
  EcSign :: "byte list \<Rightarrow> 'k option \<Rightarrow> byte list res outcome"
  EcVerify :: "byte list \<Rightarrow> byte list \<Rightarrow> byte list \<Rightarrow> bool"
  SignTxEIP155 :: "EthTx \<Rightarrow> int \<Rightarrow> 'k \<Rightarrow> 't res"
  EncodeToBytes :: "'t \<Rightarrow> byte list res"
  TxHashHex :: "'t \<Rightarrow> string"

section \<open>Addresses\<close>

definition DeriveAddressFromPublicKey :: "('k, 'p, 't) geth \<Rightarrow> byte list \<Rightarrow> string res" where
  "DeriveAddressFromPublicKey g pubKey =
     (if length pubKey = 0 then Inl ''empty public key''
      else if length pubKey = 65
      then (case UnmarshalPubkey g pubKey of
              Inl e \<Rightarrow> Inl (''failed to unmarshal uncompressed public key: '' @ e)
            | Inr p \<Rightarrow> Inr (AddressHex g (PubkeyToAddress g p)))
      else if length pubKey = 33
      then (case DecompressPubkey g pubKey of
              Inl e \<Rightarrow> Inl (''failed to decompress public key: '' @ e)
            | Inr p \<Rightarrow> Inr (AddressHex g (PubkeyToAddress g p)))
      else Inl (''invalid public key length: '' @ show_nat (length pubKey) @ '' (expected 33 or 65)''))"

definition DeriveAddressFromBytes :: "('k, 'p, 't) geth \<Rightarrow> byte list \<Rightarrow> string res" where
  "DeriveAddressFromBytes g pubKey = DeriveAddressFromPublicKey g pubKey"

definition ValidateAddress :: "('k, 'p, 't) geth \<Rightarrow> string \<Rightarrow> bool" where
  "ValidateAddress g address = IsHexAddress g address"

definition ToChecksumAddress :: "('k, 'p, 't) geth \<Rightarrow> string \<Rightarrow> string" where
  "ToChecksumAddress g address =
     (if \<not> ValidateAddress g address then [] else AddressHex g (HexToAddress g address))"

definition GetAddressFromPrivate :: "('k, 'p, 't) geth \<Rightarrow> 'k \<Rightarrow> string" where
  "GetAddressFromPrivate g privateKey = AddressHex g (PubkeyToAddress g (PublicKey g privateKey))"

definition GenerateAddress :: "('k, 'p, 't) geth \<Rightarrow> (string \<times> byte list) res" where
  "GenerateAddress g =
     (case GenerateKey g of
        Inl e \<Rightarrow> Inl (''failed to generate key: '' @ e)
      | Inr key \<Rightarrow>
          Inr (AddressHex g (PubkeyToAddress g (PublicKey g key)), FromECDSAPub g (Some (PublicKey g key))))"

section \<open>The builder\<close>

record ('w, 'k, 'p, 't) TxBuilder =
  rpcClient :: "'w RPCClient"
  chainID :: int
  lib :: "('k, 'p, 't) geth"

definition NewTxBuilder :: "('k, 'p, 't) geth \<Rightarrow> 'w RPCClient \<Rightarrow> int \<Rightarrow> ('w, 'k, 'p, 't) TxBuilder" where
  "NewTxBuilder g c i = \<lparr>rpcClient = c, chainID = i, lib = g\<rparr>"

text \<open>The common end of the builders: sign, encode, and return hash and raw transaction.\<close>

definition signAndEncode :: "('w, 'k, 'p, 't) TxBuilder \<Rightarrow> EthTx \<Rightarrow> 'k \<Rightarrow> (string \<times> string) res" where
  "signAndEncode b tx privateKey =
     (case SignTxEIP155 (lib b) tx (chainID b) privateKey of
        Inl e \<Rightarrow> Inl (''failed to sign tx: '' @ e)
      | Inr signedTx \<Rightarrow>
          (case EncodeToBytes (lib b) signedTx of
             Inl e \<Rightarrow> Inl (''failed to encode tx: '' @ e)
           | Inr txBytes \<Rightarrow> Inr (TxHashHex (lib b) signedTx, ''0x'' @ hex_encode txBytes)))"

definition BuildAndSignTx ::
  "('w, 'k, 'p, 't) TxBuilder \<Rightarrow> string \<Rightarrow> int \<Rightarrow> 'k \<Rightarrow> (string \<times> string, 'w) action" where
  "BuildAndSignTx b to value privateKey =
     attempt (GetNonce (rpcClient b) (GetAddressFromPrivate (lib b) privateKey))
       (\<lambda>e. ''failed to get nonce: '' @ e)
       (\<lambda>nonce. attempt (GetGasPrice (rpcClient b)) (\<lambda>e. ''failed to get gas price: '' @ e)
          (\<lambda>gasPrice. pure (signAndEncode b
             (LegacyTx nonce (HexToAddress (lib b) to) value 21000 gasPrice) privateKey)))"

definition BroadcastTransaction :: "('w, 'k, 'p, 't) TxBuilder \<Rightarrow> string \<Rightarrow> (string, 'w) action" where
  "BroadcastTransaction b rawTxHex =
     attempt (SendRawTransaction (rpcClient b) rawTxHex) (\<lambda>e. ''failed to broadcast: '' @ e) give"

definition eth_GetBalance :: "('w, 'k, 'p, 't) TxBuilder \<Rightarrow> string \<Rightarrow> (int, 'w) action" where
  "eth_GetBalance b address = GetBalance (rpcClient b) address"

text \<open>\<^verbatim>\<open>fmt.Sprintf("0x%x", value)\<close> of a big integer.\<close>

fun hex_show :: "nat \<Rightarrow> string" where
  "hex_show n = (if n < 16 then [hex_digit n] else hex_show (n div 16) @ [hex_digit (n mod 16)])"

declare hex_show.simps [simp del]

definition hex_quantity :: "int \<Rightarrow> string" where
  "hex_quantity i = ''0x'' @ (if i < 0 then ''-'' @ hex_show (nat (- i)) else hex_show (nat i))"

text \<open>A gas estimate, with the default for an answer that is no string.\<close>

definition gasOr :: "u64 \<Rightarrow> json option \<Rightarrow> u64" where
  "gasOr dflt result =
     (case Unmarshal (dec_string at_value) [] result of
        Inl _ \<Rightarrow> dflt
      | Inr gasHex \<Rightarrow> parseHexUint64 gasHex)"

definition EstimateGas :: "('w, 'k, 'p, 't) TxBuilder \<Rightarrow> string \<Rightarrow> string \<Rightarrow> int \<Rightarrow> (u64, 'w) action" where
  "EstimateGas b from to value =
     attempt (rpc_call (rpcClient b) ''eth_estimateGas''
         [JObj [(''from'', JString from), (''to'', JString to), (''value'', JString (hex_quantity value))]])
       (\<lambda>e. e) (\<lambda>result. give (gasOr 21000 result))"

section \<open>Fees\<close>

datatype FeeSpeed = FeeSpeedSlow | FeeSpeedStandard | FeeSpeedFast | FeeSpeedOther string

text \<open>The fee cap and the tip of \<^verbatim>\<open>BuildAndSignTxEIP1559\<close>.\<close>

definition selectFees :: "FeeInfo \<Rightarrow> FeeSpeed \<Rightarrow> int \<times> int" where
  "selectFees fi speed =
     (let maxFee0 = (case speed of FeeSpeedSlow \<Rightarrow> Slow fi | FeeSpeedFast \<Rightarrow> Fast fi | _ \<Rightarrow> Standard fi);
          tip = (case MaxPriorityFee fi of None \<Rightarrow> 2 * gwei | Some t \<Rightarrow> t);
          maxFee = (if maxFee0 < tip then tip else maxFee0)
      in (maxFee, tip))"

definition BuildAndSignTxEIP1559 ::
  "('w, 'k, 'p, 't) TxBuilder \<Rightarrow> string \<Rightarrow> int \<Rightarrow> 'k \<Rightarrow> FeeSpeed \<Rightarrow> (string \<times> string, 'w) action" where
  "BuildAndSignTxEIP1559 b to value privateKey speed =
     attempt (GetNonce (rpcClient b) (GetAddressFromPrivate (lib b) privateKey))
       (\<lambda>e. ''failed to get nonce: '' @ e)
       (\<lambda>nonce. attempt (Ethereum_Rpc.GetFeeInfo (rpcClient b)) (\<lambda>e. ''failed to get fee info: '' @ e)
          (\<lambda>fi. case selectFees fi speed of (cap, tip) \<Rightarrow>
             pure (signAndEncode b
               (DynamicFeeTx nonce (HexToAddress (lib b) to) value 21000 cap tip []) privateKey)))"

definition eth_GetFeeInfo :: "('w, 'k, 'p, 't) TxBuilder \<Rightarrow> (FeeInfo, 'w) action" where
  "eth_GetFeeInfo b = GetFeeInfo (rpcClient b)"

text \<open>\<^verbatim>\<open>int64(gasLimit)\<close> times the standard fee; the conversion may wrap.\<close>

definition gasFee :: "u64 \<Rightarrow> FeeInfo \<Rightarrow> int" where
  "gasFee gasLimit fi = wrap64 (int (unat gasLimit)) * Standard fi"

definition CheckBalanceSufficient ::
  "('w, 'k, 'p, 't) TxBuilder \<Rightarrow> string \<Rightarrow> int \<Rightarrow> u64 \<Rightarrow> (bool \<times> int, 'w) action" where
  "CheckBalanceSufficient b address value gasLimit =
     attempt (GetBalance (rpcClient b) address) (\<lambda>e. ''failed to get balance: '' @ e)
       (\<lambda>balance. attempt (GetFeeInfo (rpcClient b)) (\<lambda>e. ''failed to get fee info: '' @ e)
          (\<lambda>fi. let required = value + gasFee gasLimit fi in give (required \<le> balance, required)))"

section \<open>ERC-20 tokens\<close>

definition erc20TransferSelector :: "byte list" where
  "erc20TransferSelector = [0xa9, 0x05, 0x9c, 0xbb]"

text \<open>\<^verbatim>\<open>copy(data[lo:hi], src)\<close>: as many bytes as both slices have.\<close>

definition copy_slice :: "byte list \<Rightarrow> nat \<Rightarrow> nat \<Rightarrow> byte list \<Rightarrow> byte list" where
  "copy_slice dat lo hi src =
     (let k = min (hi - lo) (length src) in take lo dat @ take k src @ drop (lo + k) dat)"

text \<open>\<^verbatim>\<open>big.Int.Bytes\<close>: the absolute value in big-endian order without leading zeros.\<close>

fun be_bytes :: "nat \<Rightarrow> byte list" where
  "be_bytes n = (if n = 0 then [] else be_bytes (n div 256) @ [word_of_nat n])"

declare be_bytes.simps [simp del]

definition encodeERC20Transfer :: "('k, 'p, 't) geth \<Rightarrow> string \<Rightarrow> int \<Rightarrow> byte list" where
  "encodeERC20Transfer g to amount =
     (let d0 = replicate (4 + 32 + 32) 0;
          d1 = copy_slice d0 0 4 erc20TransferSelector;
          d2 = copy_slice d1 4 36 (HexToAddress g to)
      in copy_slice d2 36 68 (LeftPadBytes g (be_bytes (nat \<bar>amount\<bar>)) 32))"

text \<open>
  The choice of fees in \<^verbatim>\<open>BuildAndSignERC20TransferTx\<close>, where the slow branch leaves the tip nil;
  the comparison then dereferences a nil pointer.
\<close>

definition selectFeesERC20 :: "FeeInfo \<Rightarrow> FeeSpeed \<Rightarrow> (int \<times> int) outcome" where
  "selectFeesERC20 fi speed =
     (let maxFee0 = (case speed of FeeSpeedSlow \<Rightarrow> Slow fi | FeeSpeedFast \<Rightarrow> Fast fi | _ \<Rightarrow> Standard fi);
          tip0 = (case speed of
                    FeeSpeedSlow \<Rightarrow> None
                  | FeeSpeedFast \<Rightarrow> Some (case MaxPriorityFee fi of None \<Rightarrow> 3 * gwei | Some t \<Rightarrow> t)
                  | _ \<Rightarrow> Some (case MaxPriorityFee fi of None \<Rightarrow> 2 * gwei | Some t \<Rightarrow> t))
      in case tip0 of
           None \<Rightarrow> Panic
         | Some tip \<Rightarrow> Ret (if maxFee0 < tip then tip else maxFee0, tip))"

definition BuildAndSignERC20TransferTx ::
  "('w, 'k, 'p, 't) TxBuilder \<Rightarrow> string \<Rightarrow> string \<Rightarrow> int \<Rightarrow> 'k \<Rightarrow> FeeSpeed \<Rightarrow> (string \<times> string, 'w) action" where
  "BuildAndSignERC20TransferTx b tokenContract to amount privateKey speed =
     attempt (GetNonce (rpcClient b) (GetAddressFromPrivate (lib b) privateKey))
       (\<lambda>e. ''failed to get nonce: '' @ e)
       (\<lambda>nonce. attempt (GetFeeInfo (rpcClient b)) (\<lambda>e. ''failed to get fee info: '' @ e)
          (\<lambda>fi. case selectFeesERC20 fi speed of
             Panic \<Rightarrow> crash
           | Ret (cap, tip) \<Rightarrow>
               pure (signAndEncode b
                 (DynamicFeeTx nonce (HexToAddress (lib b) tokenContract) 0 65000 cap tip
                    (encodeERC20Transfer (lib b) to amount)) privateKey)))"

definition GetTokenBalance :: "('w, 'k, 'p, 't) TxBuilder \<Rightarrow> string \<Rightarrow> string \<Rightarrow> (int, 'w) action" where
  "GetTokenBalance b tokenContract address =
     attempt (Call (rpcClient b)
         [(''data'', JString (''0x70a08231'' @
             hex_encode (LeftPadBytes (lib b) (HexToAddress (lib b) address) 32))),
          (''to'', JString tokenContract)] ''latest'')
       (\<lambda>e. ''failed to call token contract: '' @ e)
       (\<lambda>result. if result = [] \<or> result = ''0x'' then give 0 else give (HexToHashBig (lib b) result))"

text \<open>The result is whether both balances suffice, the token balance and the gas fee, which may be nil.\<close>

definition CheckERC20BalanceSufficient ::
  "('w, 'k, 'p, 't) TxBuilder \<Rightarrow> string \<Rightarrow> string \<Rightarrow> int \<Rightarrow> u64 \<Rightarrow> (bool \<times> int \<times> int option, 'w) action" where
  "CheckERC20BalanceSufficient b tokenContract address tokenAmount gasLimit =
     attempt (GetTokenBalance b tokenContract address) (\<lambda>e. ''failed to get token balance: '' @ e)
       (\<lambda>tokenBalance.
          if tokenBalance < tokenAmount then give (False, tokenBalance, None)
          else attempt (GetBalance (rpcClient b) address) (\<lambda>e. ''failed to get ETH balance: '' @ e)
            (\<lambda>ethBalance. attempt (GetFeeInfo (rpcClient b)) (\<lambda>e. ''failed to get fee info: '' @ e)
               (\<lambda>fi. give (gasFee gasLimit fi \<le> ethBalance, tokenBalance, Some (gasFee gasLimit fi)))))"

definition EstimateERC20Gas ::
  "('w, 'k, 'p, 't) TxBuilder \<Rightarrow> string \<Rightarrow> string \<Rightarrow> string \<Rightarrow> int \<Rightarrow> (u64, 'w) action" where
  "EstimateERC20Gas b from tokenContract to amount =
     observe (rpc_call (rpcClient b) ''eth_estimateGas''
         [JObj [(''data'', JString (''0x'' @ hex_encode (encodeERC20Transfer (lib b) to amount))),
                (''from'', JString from), (''to'', JString tokenContract), (''value'', JString ''0x0'')]])
       (\<lambda>r. case r of Inl _ \<Rightarrow> give 65000 | Inr result \<Rightarrow> give (gasOr 65000 result))"

section \<open>Facts\<close>

lemma length_be_bytes: "n < 256 ^ k \<Longrightarrow> length (be_bytes n) \<le> k"
proof (induction n arbitrary: k rule: be_bytes.induct)
  case (1 n)
  show ?case
  proof (cases "n = 0")
    case False
    with 1(2) obtain j where k: "k = Suc j" by (cases k) auto
    with 1(2) have "n div 256 < 256 ^ j" by (simp add: less_mult_imp_div_less mult.commute)
    with 1(1) [OF False] k False show ?thesis by (simp add: be_bytes.simps [of n])
  qed (simp add: be_bytes.simps [of 0])
qed

lemma encodeERC20_layout:
  assumes "length (HexToAddress g to) = 20"
    and "length (LeftPadBytes g (be_bytes (nat \<bar>amount\<bar>)) 32) = 32"
  shows "encodeERC20Transfer g to amount =
    erc20TransferSelector @ HexToAddress g to @ replicate 12 0 @
      LeftPadBytes g (be_bytes (nat \<bar>amount\<bar>)) 32"
  using assms by (simp add: encodeERC20Transfer_def copy_slice_def erc20TransferSelector_def Let_def)

text \<open>A library and a node for the witnesses.\<close>

definition demo_geth :: "(unit, unit, EthTx) geth" where
  "demo_geth = \<lparr>PublicKey = (\<lambda>_. ()), PubkeyToAddress = (\<lambda>_. replicate 20 7),
     AddressHex = (\<lambda>bs. ''0x'' @ hex_encode bs), HexToAddress = (\<lambda>_. replicate 20 1),
     IsHexAddress = (\<lambda>_. True), HexToHashBig = (\<lambda>_. 0),
     LeftPadBytes = (\<lambda>bs l. replicate (l - length bs) 0 @ bs),
     UnmarshalPubkey = (\<lambda>_. Inr ()), DecompressPubkey = (\<lambda>_. Inr ()), GenerateKey = Inr (),
     FromECDSAPub = (\<lambda>_. replicate 65 4), CompressPubkey = (\<lambda>p. if p = None then Panic else Ret (replicate 33 2)),
     HexToECDSA = (\<lambda>s. if s = [] then Inl ''invalid length'' else Inr ()), ToECDSA = (\<lambda>_. Inr ()),
     FromECDSA = (\<lambda>k. if k = None then [] else replicate 32 5), Keccak256 = (\<lambda>_. replicate 32 6),
     EcSign = (\<lambda>h k. if length h \<noteq> 32 then Ret (Inl ''hash is required to be exactly 32 bytes'')
       else if k = None then Panic else Ret (Inr (replicate 65 8))),
     EcVerify = (\<lambda>p h s. s = replicate 64 8), SignTxEIP155 = (\<lambda>tx _ _. Inr tx),
     EncodeToBytes = (\<lambda>_. Inr []), TxHashHex = (\<lambda>_. ''0x'')\<rparr>"

definition demo_builder :: "(unit, unit, unit, EthTx) TxBuilder" where
  "demo_builder = NewTxBuilder demo_geth (quiet_node\<lparr>rpcDo := (\<lambda>url req w.
     if rqMethod req \<in> {''eth_getTransactionCount'', ''eth_getBalance''}
     then (Document (ok_response (JStr ''0x5'')), w)
     else if rqMethod req = ''eth_call'' then (Document (ok_response (JStr ''0x'')), w)
     else rpcDo quiet_node url req w)\<rparr>) 1"

lemma demo_answers:
  "answers (rpcClient demo_builder) ''eth_getTransactionCount'' ps () (JStr ''0x5'') ()"
  "answers (rpcClient demo_builder) ''eth_getBalance'' ps () (JStr ''0x5'') ()"
  "answers (rpcClient demo_builder) ''eth_call'' ps () (JStr ''0x'') ()"
  by (simp_all add: answers_def demo_builder_def NewTxBuilder_def rpc_request_def)

lemma demo_numbers: "parseHexUint64 ''0x5'' = 5" "SetString16 ''5'' = 5" "SetString16 ''64'' = 100"
  by code_simp+

lemma demo_calls:
  "GetNonce (rpcClient demo_builder) a () = (Ret (Inr 5), ())"
  "GetBalance (rpcClient demo_builder) a () = (Ret (Inr 5), ())"
  by (simp_all add: GetNonce_def GetBalance_def rpc_call_answer [OF demo_answers(1)]
      rpc_call_answer [OF demo_answers(2)] unmarshal_string_def Unmarshal_string unquote_plain demo_numbers
      give_big_def from2_def)

lemma demo_fees:
  "GetFeeInfo (rpcClient demo_builder) () = (Ret (Inr (feesFromGasPrice 100)), ())"
proof -
  have c: "rpc_call (rpcClient demo_builder) m ps = rpc_call quiet_node m ps"
    if "m = ''eth_gasPrice'' \<or> m = ''eth_feeHistory''" for m ps
    using that by (auto simp: rpc_call_def demo_builder_def NewTxBuilder_def rpc_request_def fun_eq_iff)
  have l: "legacyFees (rpcClient demo_builder) = legacyFees quiet_node"
    unfolding legacyFees_def GetGasPrice_def by (subst c) (rule disjI1, rule refl, rule refl)
  have "chooseFees (rpcClient demo_builder) = chooseFees quiet_node"
    by (rule ext) (simp only: chooseFees_def l)
  then have "GetFeeInfo (rpcClient demo_builder) = GetFeeInfo quiet_node"
    unfolding GetFeeInfo_def by (subst c) (rule disjI2, rule refl, simp only:)
  then show ?thesis using quiet_node_fees by simp
qed

text \<open>
  C35: The call data of an ERC-20 transfer puts the recipient in the wrong place. The amount
  occupies its 32-byte word correctly, but the 20 bytes of the address start at the beginning of
  their word instead of its end, so the contract, which reads the last 20 bytes of the word, takes
  the last 8 bytes of the address followed by 12 zeros as the recipient. The code's own comment
  says the address is padded.
\<close>

theorem erc20_recipient_misplaced:
  assumes "length (HexToAddress g to) = 20"
    and "\<forall>bs l. length bs \<le> l \<longrightarrow> LeftPadBytes g bs l = replicate (l - length bs) 0 @ bs"
    and "0 \<le> amount" and "amount < 256 ^ 32"
  shows "take 20 (drop 16 (encodeERC20Transfer g to amount)) =
      drop 12 (HexToAddress g to) @ replicate 12 0 \<and>
    drop 36 (encodeERC20Transfer g to amount) =
      replicate (32 - length (be_bytes (nat amount))) 0 @ be_bytes (nat amount)"
proof -
  have "nat amount < 256 ^ 32" using assms(3,4) by (simp add: nat_less_iff)
  then have len: "length (be_bytes (nat amount)) \<le> 32" by (rule length_be_bytes)
  then have pad: "LeftPadBytes g (be_bytes (nat amount)) 32 =
      replicate (32 - length (be_bytes (nat amount))) 0 @ be_bytes (nat amount)"
    using assms(2) by blast
  with len have "length (LeftPadBytes g (be_bytes (nat \<bar>amount\<bar>)) 32) = 32" using assms(3) by simp
  from encodeERC20_layout [of g to amount, OF assms(1) this] assms(1,3) pad
  show ?thesis
    by (simp add: erc20TransferSelector_def)
qed

theorem erc20_recipient_misplaced_witness:
  "take 20 (drop 16 (encodeERC20Transfer demo_geth ''0x'' 5)) = replicate 8 1 @ replicate 12 0"
  using erc20_recipient_misplaced [of demo_geth "''0x''" 5]
  by (simp add: demo_geth_def)

text \<open>
  C32: Once the node has given nonce and fees, the transaction a native transfer signs carries that
  nonce, the recipient and value asked for, 21000 gas, and a fee cap that is never below its tip. A
  token transfer at standard speed signs the same fees with the token's contract as recipient; at
  slow speed it panics on a nil tip, whatever the node answered.
\<close>

theorem transfer_fees:
  assumes "GetNonce (rpcClient b) (GetAddressFromPrivate (lib b) key) w = (Ret (Inr nonce), w1)"
    and "GetFeeInfo (rpcClient b) w1 = (Ret (Inr fi), w2)"
  shows "(\<forall>speed. snd (selectFees fi speed) \<le> fst (selectFees fi speed) \<and>
      BuildAndSignTxEIP1559 b to value key speed w =
        (Ret (signAndEncode b (DynamicFeeTx nonce (HexToAddress (lib b) to) value 21000
           (fst (selectFees fi speed)) (snd (selectFees fi speed)) []) key), w2)) \<and>
    BuildAndSignERC20TransferTx b token to value key FeeSpeedStandard w =
      (Ret (signAndEncode b (DynamicFeeTx nonce (HexToAddress (lib b) token) 0 65000
         (fst (selectFees fi FeeSpeedStandard)) (snd (selectFees fi FeeSpeedStandard))
         (encodeERC20Transfer (lib b) to value)) key), w2) \<and>
    BuildAndSignERC20TransferTx b token to value key FeeSpeedSlow w = (Panic, w2)"
  using assms
  by (simp add: BuildAndSignTxEIP1559_def BuildAndSignERC20TransferTx_def selectFees_def
      selectFeesERC20_def Let_def)

theorem transfer_fees_witness:
  "BuildAndSignERC20TransferTx demo_builder ''t'' ''r'' 5 () FeeSpeedSlow () = (Panic, ()) \<and>
   (\<exists>cap tip. tip \<le> cap \<and> BuildAndSignTxEIP1559 demo_builder ''r'' 5 () FeeSpeedFast () =
      (Ret (signAndEncode demo_builder (DynamicFeeTx 5 (HexToAddress (lib demo_builder) ''r'') 5 21000 cap tip []) ()), ()))"
  using transfer_fees [OF demo_calls(1) demo_fees] by blast

text \<open>
  C33: With a gas limit below 2^63 the balance check accepts exactly the accounts whose balance
  covers the value and the gas at the standard fee; from 2^63 on the conversion of the gas limit to
  a signed integer makes the required amount smaller than the value itself.
\<close>

theorem balance_check:
  assumes "GetBalance (rpcClient b) address w = (Ret (Inr balance), w1)"
    and "GetFeeInfo (rpcClient b) w1 = (Ret (Inr fi), w2)" and "0 < Standard fi"
  shows "\<exists>required. CheckBalanceSufficient b address value gasLimit w =
      (Ret (Inr (required \<le> balance, required)), w2) \<and>
    (unat gasLimit < 2 ^ 63 \<longrightarrow> required = value + int (unat gasLimit) * Standard fi) \<and>
    (2 ^ 63 \<le> unat gasLimit \<longrightarrow> required < value)"
proof -
  obtain u where u: "u = unat gasLimit" by simp
  then have u64: "u < 2 ^ 64" using unat_u64_less [of gasLimit] by simp
  have "wrap64 (int u) = int u" if "u < 2 ^ 63"
    using that by (simp add: wrap64_id int64_range_def)
  moreover have "wrap64 (int u) = int u - 2 ^ 64" if "2 ^ 63 \<le> u"
    using that u64 by (simp add: wrap64_high)
  moreover have "(int u - 2 ^ 64) * Standard fi < 0"
    using assms(3) u64 by (intro mult_neg_pos) simp_all
  ultimately show ?thesis
    using assms(1,2) unfolding CheckBalanceSufficient_def gasFee_def u [symmetric] by (auto simp: Let_def)
qed

theorem balance_check_witness:
  "CheckBalanceSufficient demo_builder ''a'' 1 21000 () = (Ret (Inr (False, 2520001)), ())"
proof -
  have "Standard (feesFromGasPrice 100) = 120" by (simp add: feesFromGasPrice_def)
  with balance_check [of demo_builder "''a''" "()" 5 "()" "feesFromGasPrice 100" "()" 1 21000]
  show ?thesis using demo_calls(2) demo_fees by simp
qed

text \<open>
  The token balance is read from the raw text of the node's answer, quotation marks
  included: the conversion gets the answer in quotation marks, and the answer \<^verbatim>\<open>0x\<close> of a contract
  without code, which the code means to treat as zero, is not recognised.
\<close>

theorem token_balance_quoted:
  assumes "answers (rpcClient b) ''eth_call''
      [JArr [JObj [(''data'', JString (''0x70a08231'' @
           hex_encode (LeftPadBytes (lib b) (HexToAddress (lib b) address) 32))),
         (''to'', JString token)], JString ''latest'']] w (JStr s) w'"
  shows "GetTokenBalance b token address w = (Ret (Inr (HexToHashBig (lib b) (quotes s))), w')"
proof -
  have "Call (rpcClient b)
      [(''data'', JString (''0x70a08231'' @
          hex_encode (LeftPadBytes (lib b) (HexToAddress (lib b) address) 32))),
       (''to'', JString token)] ''latest'' w = (Ret (Inr (quotes s)), w')"
    using rpc_call_answer [OF assms] by (simp add: Call_def attempt_def)
  then show ?thesis by (simp add: GetTokenBalance_def attempt_def quotes_def)
qed

theorem token_balance_quoted_witness:
  "GetTokenBalance demo_builder ''t'' ''a'' () =
     (Ret (Inr (HexToHashBig (lib demo_builder) [CHR 0x22, CHR ''0'', CHR ''x'', CHR 0x22])), ())"
  using token_balance_quoted [OF demo_answers(3)] by (simp add: quotes_def)

end
