(* ===== verification/Signers.thy ===== *)
theory Signers
  imports Ethereum_Tx
begin

text \<open>
  Package \<^verbatim>\<open>pkg/signer\<close>: the ECDSA signer for Ethereum (\<^verbatim>\<open>ecdsa.go\<close>), the Ed25519 signer for Solana
  (\<^verbatim>\<open>solana.go\<close>), the MPC signer for Solana (\<^verbatim>\<open>mpc_solana.go\<close>), the placeholder MPC signer (\<^verbatim>\<open>mpc.go\<close>)
  and the constructors by type (\<^verbatim>\<open>signer.go\<close>).

  A nil key is \<open>None\<close>. go-ethereum is the record \<open>geth\<close>; \<^verbatim>\<open>crypto/ed25519\<close> is the record \<open>ed25519\<close>, with
  its documented laws in \<open>ed25519_ok\<close>. Zeroizing returns, besides the signer, the bytes that are left
  in the buffer of the key, which callers of the getters share. The locks of the MPC signer are not
  modelled: each method runs under them from beginning to end, except for the remote call.

  The locale \<open>signer\<close> is the part of the interface \<^verbatim>\<open>Signer\<close> that all four share.
\<close>

section \<open>The interface\<close>

record Transaction =
  txChain :: string
  txToAddr :: string
  txAmount :: int
  txGasLimit :: u64
  txPayload :: "byte list"

definition SignerTypeECDSA :: string where "SignerTypeECDSA = ''ecdsa''"
definition SignerTypeMPC :: string where "SignerTypeMPC = ''mpc''"
definition SignerTypeSolana :: string where "SignerTypeSolana = ''solana''"

locale signer =
  fixes zeroize :: "'s \<Rightarrow> 's"
    and is_zeroized :: "'s \<Rightarrow> bool"
    and secret :: "'s \<Rightarrow> 'x option"
    and sig_type :: "'s \<Rightarrow> string"
  assumes zeroized: "is_zeroized (zeroize s)"
    and no_secret: "is_zeroized s \<Longrightarrow> secret s = None"
    and zeroize_idem: "zeroize (zeroize s) = zeroize s"
    and type_kept: "sig_type (zeroize s) = sig_type s"
begin

lemma secret_gone: "secret (zeroize s) = None"
  by (rule no_secret [OF zeroized])

text \<open>Zeroizing more than once, as deferred and explicit calls may do, changes nothing more.\<close>

lemma zeroize_often: "(zeroize ^^ Suc n) s = zeroize s"
  by (induction n) (simp_all add: zeroize_idem)

end

section \<open>ECDSA\<close>

record ('k, 'p) ECDSASigner =
  ecPrivateKey :: "'k option"
  ecPublicKey :: "'p option"

definition ecSigner :: "('k, 'p, 't) geth \<Rightarrow> 'k \<Rightarrow> ('k, 'p) ECDSASigner" where
  "ecSigner g key = \<lparr>ecPrivateKey = Some key, ecPublicKey = Some (PublicKey g key)\<rparr>"

definition NewECDSASigner :: "('k, 'p, 't) geth \<Rightarrow> ('k, 'p) ECDSASigner res" where
  "NewECDSASigner g =
     (case GenerateKey g of
        Inl e \<Rightarrow> Inl (''failed to generate key: '' @ e)
      | Inr key \<Rightarrow> Inr (ecSigner g key))"

definition NewECDSASignerFromHex :: "('k, 'p, 't) geth \<Rightarrow> string \<Rightarrow> ('k, 'p) ECDSASigner res" where
  "NewECDSASignerFromHex g hexKey =
     (case HexToECDSA g hexKey of
        Inl e \<Rightarrow> Inl (''failed to parse private key: '' @ e)
      | Inr key \<Rightarrow> Inr (ecSigner g key))"

definition NewECDSASignerFromBytes :: "('k, 'p, 't) geth \<Rightarrow> byte list \<Rightarrow> ('k, 'p) ECDSASigner res" where
  "NewECDSASignerFromBytes g keyBytes =
     (case ToECDSA g keyBytes of
        Inl e \<Rightarrow> Inl (''failed to parse private key: '' @ e)
      | Inr key \<Rightarrow> Inr (ecSigner g key))"

text \<open>The call of \<^verbatim>\<open>crypto.Sign\<close> with its error wrapped.\<close>

definition ecSignHash ::
  "('k, 'p, 't) geth \<Rightarrow> string \<Rightarrow> ('k, 'p) ECDSASigner \<Rightarrow> byte list \<Rightarrow> byte list res outcome" where
  "ecSignHash g what s hash =
     (case EcSign g hash (ecPrivateKey s) of
        Panic \<Rightarrow> Panic
      | Ret (Inl e) \<Rightarrow> Ret (Inl (what @ e))
      | Ret (Inr sig) \<Rightarrow> Ret (Inr sig))"

definition ec_Sign :: "('k, 'p, 't) geth \<Rightarrow> ('k, 'p) ECDSASigner \<Rightarrow> Transaction \<Rightarrow> byte list res outcome" where
  "ec_Sign g s tx =
     ecSignHash g ''signing failed: '' s
       (Keccak256 g (bytes_of (txToAddr tx) @ be_bytes (nat \<bar>txAmount tx\<bar>) @ bytes_of (txChain tx)))"

definition ec_SignMessage :: "('k, 'p, 't) geth \<Rightarrow> ('k, 'p) ECDSASigner \<Rightarrow> byte list \<Rightarrow> byte list res outcome" where
  "ec_SignMessage g s msg = ecSignHash g ''signing failed: '' s (Keccak256 g msg)"

definition ec_Type :: "('k, 'p) ECDSASigner \<Rightarrow> string" where
  "ec_Type s = SignerTypeECDSA"

definition ec_PublicKey :: "('k, 'p, 't) geth \<Rightarrow> ('k, 'p) ECDSASigner \<Rightarrow> byte list" where
  "ec_PublicKey g s = FromECDSAPub g (ecPublicKey s)"

definition ec_CompressedPublicKey :: "('k, 'p, 't) geth \<Rightarrow> ('k, 'p) ECDSASigner \<Rightarrow> byte list outcome" where
  "ec_CompressedPublicKey g s = CompressPubkey g (ecPublicKey s)"

text \<open>Dereferencing a nil public key panics.\<close>

definition ec_EthereumAddress :: "('k, 'p, 't) geth \<Rightarrow> ('k, 'p) ECDSASigner \<Rightarrow> string outcome" where
  "ec_EthereumAddress g s =
     (case ecPublicKey s of None \<Rightarrow> Panic | Some p \<Rightarrow> Ret (AddressHex g (PubkeyToAddress g p)))"

definition ec_GetPrivateKey :: "('k, 'p) ECDSASigner \<Rightarrow> 'k option" where
  "ec_GetPrivateKey s = ecPrivateKey s"

definition ec_PrivateKeyHex :: "('k, 'p, 't) geth \<Rightarrow> ('k, 'p) ECDSASigner \<Rightarrow> string" where
  "ec_PrivateKeyHex g s = hex_encode (FromECDSA g (ecPrivateKey s))"

text \<open>\<open>wipe\<close> overwrites the words of the secret exponent in the key object with zeros.\<close>

definition ec_Zeroize :: "('k \<Rightarrow> 'k) \<Rightarrow> ('k, 'p) ECDSASigner \<Rightarrow> ('k, 'p) ECDSASigner \<times> 'k option" where
  "ec_Zeroize wipe s =
     (case ecPrivateKey s of
        None \<Rightarrow> (s, None)
      | Some k \<Rightarrow> (\<lparr>ecPrivateKey = None, ecPublicKey = None\<rparr>, Some (wipe k)))"

definition ec_IsZeroized :: "('k, 'p) ECDSASigner \<Rightarrow> bool" where
  "ec_IsZeroized s \<longleftrightarrow> ecPrivateKey s = None"

definition ec_SignTransaction ::
  "('k, 'p, 't) geth \<Rightarrow> ('k, 'p) ECDSASigner \<Rightarrow> byte list \<Rightarrow> (byte list \<times> byte list) res outcome" where
  "ec_SignTransaction g s txHash =
     (case ecSignHash g ''failed to sign transaction: '' s txHash of
        Panic \<Rightarrow> Panic
      | Ret (Inl e) \<Rightarrow> Ret (Inl e)
      | Ret (Inr sig) \<Rightarrow>
          if length sig < 64 then Panic else Ret (Inr (take 32 sig, take 32 (drop 32 sig))))"

definition ec_VerifySignature :: "('k, 'p, 't) geth \<Rightarrow> byte list \<Rightarrow> byte list \<Rightarrow> byte list \<Rightarrow> bool" where
  "ec_VerifySignature g pubKey hash signature \<longleftrightarrow>
     length hash = 32 \<and> length signature = 65 \<and> EcVerify g pubKey hash (take 64 signature)"

section \<open>Ed25519\<close>

record ed25519 =
  edGenerate :: "(byte list \<times> byte list) res" \<comment> \<open>public and private key\<close>
  edFromSeed :: "byte list \<Rightarrow> byte list"
  edPublic :: "byte list \<Rightarrow> byte list"
  edSign :: "byte list \<Rightarrow> byte list \<Rightarrow> byte list"
  edVerify :: "byte list \<Rightarrow> byte list \<Rightarrow> byte list \<Rightarrow> bool"

text \<open>
  The documented laws: keys have 64 bytes, of which the first half is the seed, public keys have
  32, signatures 64, and a signature verifies under the public key.
\<close>

definition ed25519_ok :: "ed25519 \<Rightarrow> bool" where
  "ed25519_ok E \<longleftrightarrow>
     (\<forall>pub priv. edGenerate E = Inr (pub, priv) \<longrightarrow>
        (\<exists>seed. length seed = 32 \<and> priv = edFromSeed E seed) \<and> pub = edPublic E priv) \<and>
     (\<forall>seed. length seed = 32 \<longrightarrow> length (edFromSeed E seed) = 64 \<and> take 32 (edFromSeed E seed) = seed) \<and>
     (\<forall>priv. length priv = 64 \<longrightarrow> length (edPublic E priv) = 32) \<and>
     (\<forall>priv msg. length priv = 64 \<longrightarrow> length (edSign E priv msg) = 64 \<and>
        edVerify E (edPublic E priv) msg (edSign E priv msg))"

record SolanaSigner =
  soPrivateKey :: "byte list option"
  soPublicKey :: "byte list option"

definition NewSolanaSigner :: "ed25519 \<Rightarrow> SolanaSigner res" where
  "NewSolanaSigner E =
     (case edGenerate E of
        Inl e \<Rightarrow> Inl (''failed to generate key: '' @ e)
      | Inr (pub, priv) \<Rightarrow> Inr \<lparr>soPrivateKey = Some priv, soPublicKey = Some pub\<rparr>)"

definition NewSolanaSignerFromSeed :: "ed25519 \<Rightarrow> byte list \<Rightarrow> SolanaSigner res" where
  "NewSolanaSignerFromSeed E seed =
     (if length seed \<noteq> 32 then Inl ''seed must be 32 bytes''
      else let priv = edFromSeed E seed
           in Inr \<lparr>soPrivateKey = Some priv, soPublicKey = Some (edPublic E priv)\<rparr>)"

definition NewSolanaSignerFromHex :: "ed25519 \<Rightarrow> string \<Rightarrow> SolanaSigner res" where
  "NewSolanaSignerFromHex E hexKey =
     (case hex_decode hexKey of
        Inl e \<Rightarrow> Inl (''failed to decode hex: '' @ e)
      | Inr seed \<Rightarrow> NewSolanaSignerFromSeed E (if length seed = 64 then take 32 seed else seed))"

text \<open>\<^verbatim>\<open>ed25519.Sign\<close> panics on a key that is not 64 bytes long, such as a nil key.\<close>

definition bytes_or_nil :: "byte list option \<Rightarrow> byte list" where
  "bytes_or_nil b = (case b of None \<Rightarrow> [] | Some bs \<Rightarrow> bs)"

definition so_SignMessage :: "ed25519 \<Rightarrow> SolanaSigner \<Rightarrow> byte list \<Rightarrow> byte list res outcome" where
  "so_SignMessage E s msg =
     (let priv = bytes_or_nil (soPrivateKey s)
      in if length priv \<noteq> 64 then Panic else Ret (Inr (edSign E priv msg)))"

definition so_SignTransaction :: "ed25519 \<Rightarrow> SolanaSigner \<Rightarrow> byte list \<Rightarrow> byte list res outcome" where
  "so_SignTransaction E s txMessage = so_SignMessage E s txMessage"

definition so_Address :: "(byte list \<Rightarrow> string) \<Rightarrow> SolanaSigner \<Rightarrow> string" where
  "so_Address b58enc s = b58enc (bytes_or_nil (soPublicKey s))"

definition so_EthereumAddress :: "(byte list \<Rightarrow> string) \<Rightarrow> SolanaSigner \<Rightarrow> string" where
  "so_EthereumAddress b58enc s = b58enc (bytes_or_nil (soPublicKey s))"

definition so_PublicKey :: "SolanaSigner \<Rightarrow> byte list" where
  "so_PublicKey s = bytes_or_nil (soPublicKey s)"

definition so_CompressedPublicKey :: "SolanaSigner \<Rightarrow> byte list" where
  "so_CompressedPublicKey s = bytes_or_nil (soPublicKey s)"

definition so_PublicKeyHex :: "SolanaSigner \<Rightarrow> string" where
  "so_PublicKeyHex s = hex_encode (bytes_or_nil (soPublicKey s))"

definition so_PrivateKeyHex :: "SolanaSigner \<Rightarrow> string outcome" where
  "so_PrivateKeyHex s =
     (let priv = bytes_or_nil (soPrivateKey s)
      in if length priv < 32 then Panic else Ret (hex_encode (take 32 priv)))"

definition so_GetPrivateKey :: "SolanaSigner \<Rightarrow> byte list option" where
  "so_GetPrivateKey s = soPrivateKey s"

definition so_Zeroize :: "SolanaSigner \<Rightarrow> SolanaSigner \<times> byte list" where
  "so_Zeroize s =
     (\<lparr>soPrivateKey = None, soPublicKey = None\<rparr>,
      map (\<lambda>_. 0) (bytes_or_nil (soPrivateKey s)))"

definition so_IsZeroized :: "SolanaSigner \<Rightarrow> bool" where
  "so_IsZeroized s \<longleftrightarrow> soPrivateKey s = None"

definition so_Type :: "SolanaSigner \<Rightarrow> string" where
  "so_Type s = SignerTypeSolana"

definition so_Sign :: "ed25519 \<Rightarrow> SolanaSigner \<Rightarrow> Transaction \<Rightarrow> byte list res outcome" where
  "so_Sign E s tx = so_SignMessage E s (txPayload tx)"

definition VerifySolanaSignature :: "ed25519 \<Rightarrow> byte list \<Rightarrow> byte list \<Rightarrow> byte list \<Rightarrow> bool outcome" where
  "VerifySolanaSignature E pubKey message signature =
     (if length pubKey \<noteq> 32 then Panic else Ret (edVerify E pubKey message signature))"

section \<open>MPC signing for Solana\<close>

text \<open>
  The coordinator signs a message remotely and returns signature and transaction hash; it may be
  nil. The first message and the unsigned transaction are the same bytes here.
\<close>

type_synonym 'w coordinator = "byte list \<Rightarrow> byte list \<Rightarrow> string \<Rightarrow> (byte list \<times> string, 'w) action"

record 'w MPCSolanaSigner =
  msNodeID :: u32
  msClusterID :: string
  msPublicKey :: "byte list option"
  msShare :: "byte list option"
  msConnected :: bool
  msCoordinator :: "'w coordinator option"
  msRpcURL :: string

definition NewMPCSolanaSigner :: "u32 \<Rightarrow> string \<Rightarrow> 'w coordinator option \<Rightarrow> 'w MPCSolanaSigner res" where
  "NewMPCSolanaSigner nodeID clusterID c =
     Inr \<lparr>msNodeID = nodeID, msClusterID = clusterID, msPublicKey = None, msShare = None,
          msConnected = False, msCoordinator = c, msRpcURL = []\<rparr>"

definition SetRPCURL :: "'w MPCSolanaSigner \<Rightarrow> string \<Rightarrow> 'w MPCSolanaSigner" where
  "SetRPCURL s url = s\<lparr>msRpcURL := url\<rparr>"

definition GetRPCURL :: "'w MPCSolanaSigner \<Rightarrow> string" where
  "GetRPCURL s = msRpcURL s"

definition IsMPCBroadcast :: "'w MPCSolanaSigner \<Rightarrow> bool" where
  "IsMPCBroadcast s \<longleftrightarrow> msRpcURL s \<noteq> [] \<and> msCoordinator s \<noteq> None"

definition SetShareAndPublicKey ::
  "'w MPCSolanaSigner \<Rightarrow> byte list \<Rightarrow> byte list \<Rightarrow> 'w MPCSolanaSigner" where
  "SetShareAndPublicKey s share publicKey =
     s\<lparr>msShare := Some share, msPublicKey := Some publicKey, msConnected := True\<rparr>"

definition IsConnected :: "'w MPCSolanaSigner \<Rightarrow> bool" where
  "IsConnected s = msConnected s"

definition ms_SignTransaction :: "'w MPCSolanaSigner \<Rightarrow> byte list \<Rightarrow> (byte list, 'w) action" where
  "ms_SignTransaction s unsignedTx =
     (case msCoordinator s of
        None \<Rightarrow> fail ''MPC signer not configured: no SignCoordinator set''
      | Some coordinate \<Rightarrow>
          if \<not> msConnected s
          then fail ''MPC signer not initialized: no key share loaded. Run DKG first to generate key shares.''
          else attempt (coordinate unsignedTx unsignedTx (msRpcURL s)) (\<lambda>e. ''MPC signing failed: '' @ e)
            (\<lambda>(signature, txHash). give (if txHash \<noteq> [] then bytes_of txHash else signature)))"

definition ms_SignMessage :: "'w MPCSolanaSigner \<Rightarrow> byte list \<Rightarrow> (byte list, 'w) action" where
  "ms_SignMessage s msg = ms_SignTransaction s msg"

definition ms_Address :: "(byte list \<Rightarrow> string) \<Rightarrow> 'w MPCSolanaSigner \<Rightarrow> string" where
  "ms_Address b58enc s = (case msPublicKey s of None \<Rightarrow> [] | Some p \<Rightarrow> b58enc p)"

definition ms_PublicKey :: "'w MPCSolanaSigner \<Rightarrow> byte list" where
  "ms_PublicKey s = bytes_or_nil (msPublicKey s)"

definition ms_CompressedPublicKey :: "'w MPCSolanaSigner \<Rightarrow> byte list" where
  "ms_CompressedPublicKey s = ms_PublicKey s"

definition ms_PublicKeyHex :: "'w MPCSolanaSigner \<Rightarrow> string" where
  "ms_PublicKeyHex s = (case msPublicKey s of None \<Rightarrow> [] | Some p \<Rightarrow> hex_encode p)"

definition ms_PrivateKeyHex :: "'w MPCSolanaSigner \<Rightarrow> string" where
  "ms_PrivateKeyHex s = (case msShare s of None \<Rightarrow> [] | Some sh \<Rightarrow> hex_encode sh)"

definition GetShare :: "'w MPCSolanaSigner \<Rightarrow> byte list option" where
  "GetShare s = msShare s"

definition ms_Zeroize :: "'w MPCSolanaSigner \<Rightarrow> 'w MPCSolanaSigner \<times> byte list" where
  "ms_Zeroize s =
     (s\<lparr>msShare := None, msPublicKey := None, msConnected := False\<rparr>,
      map (\<lambda>_. 0) (bytes_or_nil (msShare s)))"

definition ms_IsZeroized :: "'w MPCSolanaSigner \<Rightarrow> bool" where
  "ms_IsZeroized s \<longleftrightarrow> msShare s = None"

definition ms_Type :: "'w MPCSolanaSigner \<Rightarrow> string" where
  "ms_Type s = ''mpc_solana''"

definition ms_EthereumAddress :: "(byte list \<Rightarrow> string) \<Rightarrow> 'w MPCSolanaSigner \<Rightarrow> string" where
  "ms_EthereumAddress b58enc s = ms_Address b58enc s"

definition ms_GetPrivateKey :: "'w MPCSolanaSigner \<Rightarrow> byte list option" where
  "ms_GetPrivateKey s = None"

definition GetNodeID :: "'w MPCSolanaSigner \<Rightarrow> u32" where
  "GetNodeID s = msNodeID s"

definition ms_GetClusterID :: "'w MPCSolanaSigner \<Rightarrow> string" where
  "ms_GetClusterID s = msClusterID s"

section \<open>The placeholder and the constructors\<close>

record MPCSigner =
  mpAddress :: string

definition NewMPCSigner :: MPCSigner where
  "NewMPCSigner = \<lparr>mpAddress = ''0xMPCPLACEHOLDER0000000000000000000000''\<rparr>"

definition mp_Sign :: "MPCSigner \<Rightarrow> Transaction \<Rightarrow> byte list res" where
  "mp_Sign s tx = Inl (''MPC signer not implemented - placeholder for threshold signatures. '' @
     ''This will integrate with your Rust MPC enclave.'')"

definition mp_SignMessage :: "MPCSigner \<Rightarrow> byte list \<Rightarrow> byte list res" where
  "mp_SignMessage s msg = Inl ''MPC signer not implemented - placeholder for threshold signatures''"

definition mp_PublicKey :: "MPCSigner \<Rightarrow> byte list" where
  "mp_PublicKey s = bytes_of ''MPC_PLACEHOLDER_PUBLIC_KEY_65_BYTES_XXX''"

definition mp_EthereumAddress :: "MPCSigner \<Rightarrow> string" where
  "mp_EthereumAddress s = mpAddress s"

definition mp_Zeroize :: "MPCSigner \<Rightarrow> MPCSigner" where
  "mp_Zeroize s = s"

definition mp_IsZeroized :: "MPCSigner \<Rightarrow> bool" where
  "mp_IsZeroized s \<longleftrightarrow> True"

definition mp_Type :: "MPCSigner \<Rightarrow> string" where
  "mp_Type s = SignerTypeMPC"

definition SetAddress :: "MPCSigner \<Rightarrow> string \<Rightarrow> MPCSigner" where
  "SetAddress s address = s\<lparr>mpAddress := address\<rparr>"

datatype ('k, 'p) Signer = ECDSA "('k, 'p) ECDSASigner" | MPC MPCSigner

text \<open>
  \<^verbatim>\<open>NewSigner\<close> returns the result of \<^verbatim>\<open>NewECDSASigner\<close> as it is; on an error the interface holds a
  nil pointer, and the error is what callers see.
\<close>

definition NewSigner :: "('k, 'p, 't) geth \<Rightarrow> string \<Rightarrow> ('k, 'p) Signer res" where
  "NewSigner g signerType =
     (if signerType = SignerTypeECDSA then map_sum id ECDSA (NewECDSASigner g)
      else if signerType = SignerTypeMPC then Inr (MPC NewMPCSigner)
      else Inl ''unknown signer type'')"

definition NewSignerFromHex :: "('k, 'p, 't) geth \<Rightarrow> string \<Rightarrow> string \<Rightarrow> ('k, 'p) Signer res" where
  "NewSignerFromHex g signerType hexKey =
     (if signerType = SignerTypeECDSA then map_sum id ECDSA (NewECDSASignerFromHex g hexKey)
      else if signerType = SignerTypeMPC then Inr (MPC NewMPCSigner)
      else Inl ''unknown signer type'')"

section \<open>The interface holds of all signers\<close>

interpretation ec: signer "\<lambda>s. fst (ec_Zeroize wipe s)" ec_IsZeroized ec_GetPrivateKey ec_Type for wipe
  by unfold_locales (auto simp: ec_Zeroize_def ec_IsZeroized_def ec_GetPrivateKey_def ec_Type_def
      split: option.splits)

interpretation so: signer "\<lambda>s. fst (so_Zeroize s)" so_IsZeroized so_GetPrivateKey so_Type
  by unfold_locales (auto simp: so_Zeroize_def so_IsZeroized_def so_GetPrivateKey_def so_Type_def)

interpretation ms: signer "\<lambda>s. fst (ms_Zeroize s)" ms_IsZeroized GetShare ms_Type
  by unfold_locales (auto simp: ms_Zeroize_def ms_IsZeroized_def GetShare_def ms_Type_def)

interpretation mp: signer mp_Zeroize mp_IsZeroized "\<lambda>_. None :: unit option" mp_Type
  by unfold_locales (auto simp: mp_Zeroize_def mp_IsZeroized_def mp_Type_def)

section \<open>Keys survive the way to disk and back\<close>

text \<open>
  A Solana signer is stored as the hexadecimal text of its seed. Reading that text gives a signer
  with the same keys.
\<close>

lemma so_PrivateKeyHex_seed:
  assumes "ed25519_ok E" and "NewSolanaSignerFromSeed E seed = Inr s"
  shows "so_PrivateKeyHex s = Ret (hex_encode seed)"
  using assms
  by (auto simp: NewSolanaSignerFromSeed_def so_PrivateKeyHex_def bytes_or_nil_def ed25519_ok_def Let_def
      split: if_splits)

lemma so_hex_roundtrip:
  assumes "ed25519_ok E" and "NewSolanaSigner E = Inr s"
  shows "\<exists>h. so_PrivateKeyHex s = Ret h \<and> NewSolanaSignerFromHex E h = Inr s"
proof -
  obtain seed where seed: "length seed = 32" and s: "NewSolanaSignerFromSeed E seed = Inr s"
    using assms by (auto simp: NewSolanaSigner_def NewSolanaSignerFromSeed_def ed25519_ok_def Let_def
        split: sum.splits)
  moreover have "NewSolanaSignerFromHex E (hex_encode seed) = Inr s"
    using seed s by (simp add: NewSolanaSignerFromHex_def)
  ultimately show ?thesis using so_PrivateKeyHex_seed [OF assms(1) s] by blast
qed

lemma so_signature_verifies:
  assumes "ed25519_ok E" and "NewSolanaSigner E = Inr s \<or> NewSolanaSignerFromHex E h = Inr s"
  shows "\<exists>sig. so_SignTransaction E s m = Ret (Inr sig) \<and> length sig = 64 \<and>
    VerifySolanaSignature E (so_PublicKey s) m sig = Ret True"
proof -
  obtain priv where "s = \<lparr>soPrivateKey = Some priv, soPublicKey = Some (edPublic E priv)\<rparr>" "length priv = 64"
    using assms
    by (auto simp: NewSolanaSigner_def NewSolanaSignerFromHex_def NewSolanaSignerFromSeed_def ed25519_ok_def
        Let_def split: sum.splits if_splits)
  then show ?thesis
    using assms(1)
    by (auto simp: so_SignTransaction_def so_SignMessage_def bytes_or_nil_def VerifySolanaSignature_def
        so_PublicKey_def ed25519_ok_def)
qed

end
