(* ===== verification/Solana_Codec.thy ===== *)
theory Solana_Codec
  imports Go_Prelude
begin

unbundle bit_operations_syntax

text \<open>
  Package \<^verbatim>\<open>pkg/blockchain/solana\<close>, the wire format of file \<^verbatim>\<open>tx.go\<close>: compact lengths, transfer
  instructions, the serialized message and the signed transaction. \<^verbatim>\<open>base58.Decode\<close> is third-party
  code and the argument \<open>b58\<close>.

  The lemmas: a compact length is read back by the format's decoder, so that no length is the
  beginning of another; the amount of a transfer is read back from its instruction data.
\<close>

section \<open>Little-endian integers\<close>

definition le_bytes :: "nat \<Rightarrow> nat \<Rightarrow> byte list" where
  "le_bytes k n = map (\<lambda>i. word_of_nat (n div 256 ^ i)) [0..<k]"

fun le_val :: "byte list \<Rightarrow> nat" where
  "le_val [] = 0"
| "le_val (b # bs) = unat b + 256 * le_val bs"

lemma le_bytes_Suc: "le_bytes (Suc k) n = word_of_nat n # le_bytes k (n div 256)"
  by (simp add: le_bytes_def upt_conv_Cons map_Suc_upt [symmetric] div_mult2_eq comp_def
      del: upt_Suc map_Suc_upt)

lemma length_le_bytes [simp]: "length (le_bytes k n) = k"
  by (simp add: le_bytes_def)

lemma le_val_le_bytes: "n < 256 ^ k \<Longrightarrow> le_val (le_bytes k n) = n"
proof (induction k arbitrary: n)
  case 0
  then show ?case by (simp add: le_bytes_def)
next
  case (Suc k)
  have "n div 256 < 256 ^ k" using Suc.prems by (simp add: less_mult_imp_div_less mult.commute)
  then have "le_val (le_bytes k (n div 256)) = n div 256" by (rule Suc.IH)
  then show ?case by (simp add: le_bytes_Suc unat_of_nat)
qed

section \<open>Compact lengths\<close>

definition writeCompactArray :: "int \<Rightarrow> byte list res" where
  "writeCompactArray len =
     (if len < 0 then Inl (''length cannot be negative: '' @ show_int len)
      else if len \<le> 127 then Inr [word_of_int len]
      else if len \<le> 16383 then
        Inr [word_of_int (len AND 0x7f) OR 0x80, word_of_int (drop_bit 7 len)]
      else if len \<le> 2097151 then
        Inr [word_of_int (len AND 0x7f) OR 0x80, word_of_int (drop_bit 7 len AND 0x7f) OR 0x80,
             word_of_int (drop_bit 14 len)]
      else Inl (''compact array length too large: '' @ show_int len))"

text \<open>The decoder of the format: seven bits per byte, the high bit says that another byte follows.\<close>

fun readCompact :: "byte list \<Rightarrow> (nat \<times> byte list) option" where
  "readCompact [] = None"
| "readCompact (b # bs) =
     (if unat b < 128 then Some (unat b, bs)
      else (case readCompact bs of
              None \<Rightarrow> None
            | Some (n, rest) \<Rightarrow> Some (unat b - 128 + 128 * n, rest)))"

lemma and_7f: "(len :: int) AND 0x7f = len mod 128"
  using take_bit_eq_mask [of 7 len] by (simp add: mask_eq_exp_minus_1 take_bit_eq_mod)

lemma or_80_all: "list_all (\<lambda>m. unat (word_of_nat m OR 0x80 :: byte) = m + 128) [0..<128]"
  by code_simp

lemma unat_or_80: "0 \<le> m \<Longrightarrow> m < 128 \<Longrightarrow> unat (word_of_int m OR 0x80 :: byte) = nat m + 128"
  using or_80_all by (cases m) (auto simp: list_all_iff)

lemma unat_small: "0 \<le> m \<Longrightarrow> m < 256 \<Longrightarrow> unat (word_of_int m :: byte) = nat m"
  by (cases m) (auto simp: unat_of_nat)

text \<open>The number whose seven-bit digits, lowest first, are \<open>a\<close>, \<open>b\<close> and \<open>c\<close>.\<close>

lemma digits3:
  "(len :: int) = 128 * q + a \<Longrightarrow> q = 128 * c + b \<Longrightarrow> 0 \<le> a \<Longrightarrow> 0 \<le> b \<Longrightarrow> 0 \<le> c \<Longrightarrow>
   nat a + 128 * (nat b + 128 * nat c) = nat len"
  by simp

lemma readCompact_write:
  assumes "0 \<le> len" and "len \<le> 2097151" and "writeCompactArray len = Inr bs"
  shows "readCompact (bs @ rest) = Some (nat len, rest)"
proof -
  have low: "0 \<le> len mod 128" "len mod 128 < 128" by simp_all
  consider (one) "len \<le> 127" | (two) "127 < len" "len \<le> 16383" | (three) "16383 < len" by linarith
  then show ?thesis
  proof cases
    case one
    with assms show ?thesis by (auto simp: writeCompactArray_def unat_small)
  next
    case two
    have "len div 128 < 128" "0 \<le> len div 128" using two by simp_all
    moreover have "nat (len mod 128) + 128 * nat (len div 128) = nat len"
      using assms(1) mult_div_mod_eq [of 128 len] by linarith
    ultimately show ?thesis
      using two assms(3) low
      by (auto simp: writeCompactArray_def and_7f unat_or_80 unat_small drop_bit_eq_div)
  next
    case three
    have d: "len div 16384 < 128" "0 \<le> len div 16384" "0 \<le> len div 128 mod 128" "len div 128 mod 128 < 128"
      using assms by simp_all
    have "len div 16384 = len div 128 div 128" by (simp flip: zdiv_zmult2_eq)
    then have "nat (len mod 128) + 128 * (nat (len div 128 mod 128) + 128 * nat (len div 16384)) = nat len"
      using d low
      by (intro digits3 [of _ "len div 128"]) (simp_all only: mult_div_mod_eq)
    moreover have "bs = [word_of_int (len mod 128) OR 0x80, word_of_int (len div 128 mod 128) OR 0x80,
        word_of_int (len div 16384)]"
      using three assms by (simp add: writeCompactArray_def and_7f drop_bit_eq_div)
    moreover have "unat (word_of_int (len mod 128) OR 0x80 :: byte) = nat (len mod 128) + 128"
      using low by (rule unat_or_80)
    moreover have "unat (word_of_int (len div 128 mod 128) OR 0x80 :: byte) = nat (len div 128 mod 128) + 128"
      using d(3,4) by (rule unat_or_80)
    moreover have "unat (word_of_int (len div 16384) :: byte) = nat (len div 16384)"
      using d(1,2) by (intro unat_small) simp_all
    moreover have "nat (len div 16384) < 128" using d(1) by simp
    ultimately show ?thesis by (simp only: append_Cons append_Nil readCompact.simps) simp
  qed
qed

section \<open>Messages\<close>

definition SystemProgramID :: string where
  "SystemProgramID = ''11111111111111111111111111111111''"

record MessageHeader =
  NumRequiredSignatures :: byte
  NumReadonlySignedAccounts :: byte
  NumReadonlyUnsignedAccounts :: byte

record CompiledInstruction =
  ProgramIDIndex :: byte
  Accounts :: "byte list"
  InstrData :: "byte list"

record Message =
  Header :: MessageHeader
  AccountKeys :: "string list"
  RecentBlockhash :: string
  Instructions :: "CompiledInstruction list"

definition createTransferInstructionData :: "u64 \<Rightarrow> byte list" where
  "createTransferInstructionData lamports = le_bytes 4 2 @ le_bytes 8 (unat lamports)"

definition createSPLTransferData :: "u64 \<Rightarrow> byte list" where
  "createSPLTransferData amount = 3 # le_bytes 8 (unat amount)"

definition createTransferMessage :: "string \<Rightarrow> string \<Rightarrow> u64 \<Rightarrow> string \<Rightarrow> Message res" where
  "createTransferMessage from to lamports recentBlockhash =
     Inr \<lparr>Header = \<lparr>NumRequiredSignatures = 1, NumReadonlySignedAccounts = 0,
            NumReadonlyUnsignedAccounts = 1\<rparr>,
          AccountKeys = [from, to, SystemProgramID], RecentBlockhash = recentBlockhash,
          Instructions = [\<lparr>ProgramIDIndex = 2, Accounts = [0, 1],
            InstrData = createTransferInstructionData lamports\<rparr>]\<rparr>"

fun write_keys :: "(string \<Rightarrow> byte list res) \<Rightarrow> string list \<Rightarrow> byte list res" where
  "write_keys b58 [] = Inr []"
| "write_keys b58 (key # keys) =
     (case b58 key of
        Inl e \<Rightarrow> Inl (''failed to decode account key: '' @ e)
      | Inr decoded \<Rightarrow>
          if length decoded \<noteq> 32
          then Inl (''account key must be 32 bytes, got '' @ show_nat (length decoded))
          else (case write_keys b58 keys of Inl e \<Rightarrow> Inl e | Inr bs \<Rightarrow> Inr (decoded @ bs)))"

fun write_instructions :: "CompiledInstruction list \<Rightarrow> byte list res" where
  "write_instructions [] = Inr []"
| "write_instructions (inst # insts) =
     (case writeCompactArray (int (length (Accounts inst))) of
        Inl e \<Rightarrow> Inl (''failed to write instruction accounts length: '' @ e)
      | Inr la \<Rightarrow>
          (case writeCompactArray (int (length (InstrData inst))) of
             Inl e \<Rightarrow> Inl (''failed to write instruction data length: '' @ e)
           | Inr ld \<Rightarrow>
               (case write_instructions insts of
                  Inl e \<Rightarrow> Inl e
                | Inr bs \<Rightarrow>
                    Inr (ProgramIDIndex inst # la @ Accounts inst @ ld @ InstrData inst @ bs))))"

definition serializeMessage :: "(string \<Rightarrow> byte list res) \<Rightarrow> Message \<Rightarrow> byte list res" where
  "serializeMessage b58 msg =
     (case writeCompactArray (int (length (AccountKeys msg))) of
        Inl e \<Rightarrow> Inl (''failed to write account keys length: '' @ e)
      | Inr lk \<Rightarrow>
          (case write_keys b58 (AccountKeys msg) of
             Inl e \<Rightarrow> Inl e
           | Inr keys \<Rightarrow>
               (case b58 (RecentBlockhash msg) of
                  Inl e \<Rightarrow> Inl (''failed to decode blockhash: '' @ e)
                | Inr blockhash \<Rightarrow>
                    if length blockhash \<noteq> 32
                    then Inl (''blockhash must be 32 bytes, got '' @ show_nat (length blockhash))
                    else
                      (case writeCompactArray (int (length (Instructions msg))) of
                         Inl e \<Rightarrow> Inl (''failed to write instructions length: '' @ e)
                       | Inr li \<Rightarrow>
                           (case write_instructions (Instructions msg) of
                              Inl e \<Rightarrow> Inl e
                            | Inr insts \<Rightarrow>
                                Inr ([NumRequiredSignatures (Header msg),
                                      NumReadonlySignedAccounts (Header msg),
                                      NumReadonlyUnsignedAccounts (Header msg)] @
                                     lk @ keys @ blockhash @ li @ insts))))))"

definition BuildTransferTxWithBlockhash ::
  "(string \<Rightarrow> byte list res) \<Rightarrow> string \<Rightarrow> string \<Rightarrow> u64 \<Rightarrow> string \<Rightarrow> byte list res" where
  "BuildTransferTxWithBlockhash b58 from to lamports blockhash =
     (case createTransferMessage from to lamports blockhash of
        Inl e \<Rightarrow> Inl (''failed to create message: '' @ e)
      | Inr msg \<Rightarrow> serializeMessage b58 msg)"

section \<open>Signatures\<close>

definition AddSignature :: "byte list \<Rightarrow> byte list \<Rightarrow> byte list res" where
  "AddSignature unsignedTx signature =
     (if length signature \<noteq> 64
      then Inl (''signature must be 64 bytes, got '' @ show_nat (length signature))
      else (case writeCompactArray 1 of
              Inl e \<Rightarrow> Inl (''failed to write signature count: '' @ e)
            | Inr l \<Rightarrow> Inr (l @ signature @ unsignedTx)))"

fun write_signatures :: "nat \<Rightarrow> byte list list \<Rightarrow> byte list res" where
  "write_signatures i [] = Inr []"
| "write_signatures i (sig # sigs) =
     (if length sig \<noteq> 64
      then Inl (''signature '' @ show_nat i @ '' must be exactly 64 bytes, got '' @ show_nat (length sig))
      else (case write_signatures (Suc i) sigs of Inl e \<Rightarrow> Inl e | Inr bs \<Rightarrow> Inr (sig @ bs)))"

definition SerializeWithSignatures ::
  "(string \<Rightarrow> byte list res) \<Rightarrow> Message \<Rightarrow> byte list list \<Rightarrow> byte list res" where
  "SerializeWithSignatures b58 msg signatures =
     (case writeCompactArray (int (length signatures)) of
        Inl e \<Rightarrow> Inl (''failed to write signature count: '' @ e)
      | Inr l \<Rightarrow>
          (case write_signatures 0 signatures of
             Inl e \<Rightarrow> Inl e
           | Inr sigs \<Rightarrow>
               (case serializeMessage b58 msg of
                  Inl e \<Rightarrow> Inl (''failed to serialize message: '' @ e)
                | Inr m \<Rightarrow> Inr (l @ sigs @ m))))"

section \<open>Reading a message back\<close>

text \<open>
  The reader of the wire format, as a receiver applies it: \<open>read_blocks\<close> takes \<open>n\<close> blocks of \<open>k\<close>
  bytes.
\<close>

definition read_bytes :: "nat \<Rightarrow> byte list \<Rightarrow> (byte list \<times> byte list) option" where
  "read_bytes k bs = (if length bs < k then None else Some (take k bs, drop k bs))"

fun read_blocks :: "nat \<Rightarrow> nat \<Rightarrow> byte list \<Rightarrow> (byte list list \<times> byte list) option" where
  "read_blocks k 0 bs = Some ([], bs)"
| "read_blocks k (Suc n) bs =
     (case read_bytes k bs of
        None \<Rightarrow> None
      | Some (b, rest) \<Rightarrow> map_option (map_prod (\<lambda>l. b # l) (\<lambda>r. r)) (read_blocks k n rest))"

definition read_array :: "byte list \<Rightarrow> (byte list \<times> byte list) option" where
  "read_array bs = (case readCompact bs of None \<Rightarrow> None | Some (n, rest) \<Rightarrow> read_bytes n rest)"

fun read_instructions :: "nat \<Rightarrow> byte list \<Rightarrow> CompiledInstruction list option" where
  "read_instructions 0 bs = (if bs = [] then Some [] else None)"
| "read_instructions (Suc n) [] = None"
| "read_instructions (Suc n) (p # bs) =
     (case read_array bs of
        None \<Rightarrow> None
      | Some (accs, r1) \<Rightarrow>
          (case read_array r1 of
             None \<Rightarrow> None
           | Some (dat, r2) \<Rightarrow>
               map_option (\<lambda>l. \<lparr>ProgramIDIndex = p, Accounts = accs, InstrData = dat\<rparr> # l)
                 (read_instructions n r2)))"

fun read_message ::
  "byte list \<Rightarrow> (MessageHeader \<times> byte list list \<times> byte list \<times> CompiledInstruction list) option" where
  "read_message (a # b # c # bs) =
     (case readCompact bs of
        None \<Rightarrow> None
      | Some (n, r1) \<Rightarrow>
          (case read_blocks 32 n r1 of
             None \<Rightarrow> None
           | Some (keys, r2) \<Rightarrow>
               (case read_bytes 32 r2 of
                  None \<Rightarrow> None
                | Some (h, r3) \<Rightarrow>
                    (case readCompact r3 of
                       None \<Rightarrow> None
                     | Some (m, r4) \<Rightarrow>
                         map_option (\<lambda>insts. (\<lparr>NumRequiredSignatures = a, NumReadonlySignedAccounts = b,
                             NumReadonlyUnsignedAccounts = c\<rparr>, keys, h, insts))
                           (read_instructions m r4)))))"
| "read_message _ = None"

lemma readCompact_length:
  "writeCompactArray (int n) = Inr bs \<Longrightarrow> readCompact (bs @ rest) = Some (n, rest)"
  using readCompact_write [of "int n" bs rest]
  by (cases "int n \<le> 2097151") (simp_all add: writeCompactArray_def)

lemma read_array_write:
  "writeCompactArray (int (length xs)) = Inr l \<Longrightarrow> read_array (l @ xs @ rest) = Some (xs, rest)"
  by (simp add: read_array_def readCompact_length read_bytes_def)

lemma read_blocks_keys:
  "write_keys b58 keys = Inr bs \<Longrightarrow>
   \<exists>ds. map b58 keys = map Inr ds \<and> read_blocks 32 (length keys) (bs @ rest) = Some (ds, rest)"
proof (induction keys arbitrary: bs)
  case Nil
  then show ?case by simp
next
  case (Cons key keys)
  from Cons.prems obtain d cs where d: "b58 key = Inr d" "length d = 32"
    and cs: "write_keys b58 keys = Inr cs" and bs: "bs = d @ cs"
    by (auto split: sum.splits if_splits)
  from Cons.IH [OF cs] obtain ds where "map b58 keys = map Inr ds"
    and "read_blocks 32 (length keys) (cs @ rest) = Some (ds, rest)" by blast
  with d bs show ?case
    by (intro exI [of _ "d # ds"]) (simp add: read_bytes_def)
qed

lemma read_instructions_write:
  "write_instructions insts = Inr bs \<Longrightarrow> read_instructions (length insts) bs = Some insts"
proof (induction insts arbitrary: bs)
  case (Cons inst insts)
  from Cons.prems obtain la ld cs
    where la: "writeCompactArray (int (length (Accounts inst))) = Inr la"
      and ld: "writeCompactArray (int (length (InstrData inst))) = Inr ld"
      and cs: "write_instructions insts = Inr cs"
      and bs: "bs = ProgramIDIndex inst # la @ Accounts inst @ ld @ InstrData inst @ cs"
    by (auto split: sum.splits)
  show ?case
    using bs Cons.IH [OF cs]
    by (simp add: read_array_write [OF la] read_array_write [OF ld])
qed simp

text \<open>
  A serialized message is read back as exactly the header, the decoded account keys in their order,
  the decoded blockhash and the instructions it was built from; in particular two messages with the
  same bytes have the same contents.
\<close>

lemma serializeMessage_read:
  assumes "serializeMessage b58 msg = Inr bs"
  shows "\<exists>keys h. map b58 (AccountKeys msg) = map Inr keys \<and> b58 (RecentBlockhash msg) = Inr h \<and>
    read_message bs = Some (Header msg, keys, h, Instructions msg)"
proof -
  obtain lk ks h li insts where
    lk: "writeCompactArray (int (length (AccountKeys msg))) = Inr lk"
    and ks: "write_keys b58 (AccountKeys msg) = Inr ks"
    and h: "b58 (RecentBlockhash msg) = Inr h" "length h = 32"
    and li: "writeCompactArray (int (length (Instructions msg))) = Inr li"
    and insts: "write_instructions (Instructions msg) = Inr insts"
    and bs: "bs = [NumRequiredSignatures (Header msg), NumReadonlySignedAccounts (Header msg),
      NumReadonlyUnsignedAccounts (Header msg)] @ lk @ ks @ h @ li @ insts"
    using assms by (auto simp: serializeMessage_def split: sum.splits if_splits)
  obtain keys where keys: "map b58 (AccountKeys msg) = map Inr keys"
    and rk: "read_blocks 32 (length (AccountKeys msg)) (ks @ h @ li @ insts) = Some (keys, h @ li @ insts)"
    using read_blocks_keys [OF ks] by blast
  have "read_message bs = Some (Header msg, keys, h, Instructions msg)"
    using bs rk h(2)
    by (simp add: readCompact_length [OF lk] readCompact_length [OF li] read_bytes_def
        read_instructions_write [OF insts])
  with keys h(1) show ?thesis by blast
qed

text \<open>A signed transaction: the signatures, then the message.\<close>

definition read_transaction ::
  "byte list \<Rightarrow> (byte list list \<times> MessageHeader \<times> byte list list \<times> byte list \<times> CompiledInstruction list) option" where
  "read_transaction bs =
     (case readCompact bs of
        None \<Rightarrow> None
      | Some (n, r1) \<Rightarrow>
          (case read_blocks 64 n r1 of
             None \<Rightarrow> None
           | Some (sigs, r2) \<Rightarrow> map_option (\<lambda>m. (sigs, m)) (read_message r2)))"

lemma read_transaction_AddSignature:
  assumes "length sig = 64"
  shows "\<exists>tx. AddSignature m sig = Inr tx \<and>
    read_transaction tx = map_option (\<lambda>m. ([sig], m)) (read_message m)"
  using assms
  by (simp add: AddSignature_def writeCompactArray_def read_transaction_def read_bytes_def)

text \<open>
  The format's rule for the accounts that are not signers: the last ones, as many as the header
  says, are read-only.
\<close>

definition writable_account :: "MessageHeader \<Rightarrow> nat \<Rightarrow> nat \<Rightarrow> bool" where
  "writable_account h n i \<longleftrightarrow> i + unat (NumReadonlyUnsignedAccounts h) < n"

lemma transfer_amounts:
  "le_val (drop 4 (createTransferInstructionData lamports)) = unat lamports"
  "le_val (tl (createSPLTransferData lamports)) = unat lamports"
  using unat_u64_less [of lamports]
  by (simp_all add: createTransferInstructionData_def createSPLTransferData_def le_val_le_bytes)

text \<open>What a receiver reads from the message of a native transfer.\<close>

definition reads_transfer ::
  "(string \<Rightarrow> byte list res) \<Rightarrow> string \<Rightarrow> string \<Rightarrow> u64 \<Rightarrow> string \<Rightarrow>
   (MessageHeader \<times> byte list list \<times> byte list \<times> CompiledInstruction list) option \<Rightarrow> bool" where
  "reads_transfer b58 from to lamports blockhash r \<longleftrightarrow>
     (\<exists>hdr kf kt ks h dat. b58 from = Inr kf \<and> b58 to = Inr kt \<and> b58 SystemProgramID = Inr ks \<and>
        b58 blockhash = Inr h \<and>
        r = Some (hdr, [kf, kt, ks], h, [\<lparr>ProgramIDIndex = 2, Accounts = [0, 1], InstrData = dat\<rparr>]) \<and>
        NumRequiredSignatures hdr = 1 \<and> writable_account hdr 3 1 \<and>
        le_val (take 4 dat) = 2 \<and> le_val (drop 4 dat) = unat lamports)"

lemma transfer_message_read:
  assumes "createTransferMessage from to lamports blockhash = Inr msg"
    and "serializeMessage b58 msg = Inr m"
  shows "reads_transfer b58 from to lamports blockhash (read_message m)"
proof -
  let ?dat = "createTransferInstructionData lamports"
  let ?hdr = "\<lparr>NumRequiredSignatures = 1, NumReadonlySignedAccounts = 0, NumReadonlyUnsignedAccounts = 1\<rparr>"
  from serializeMessage_read [OF assms(2)] assms(1) obtain keys h
    where keys: "map b58 [from, to, SystemProgramID] = map Inr keys" and h: "b58 blockhash = Inr h"
      and r: "read_message m = Some (?hdr, keys, h,
        [\<lparr>ProgramIDIndex = 2, Accounts = [0, 1], InstrData = ?dat\<rparr>])"
    by (auto simp: createTransferMessage_def)
  from keys obtain kf kt ks where "keys = [kf, kt, ks]" "b58 from = Inr kf" "b58 to = Inr kt"
    "b58 SystemProgramID = Inr ks"
    by (auto simp: map_eq_Cons_conv)
  moreover have "le_val (take 4 ?dat) = 2" "le_val (drop 4 ?dat) = unat lamports"
    by (simp_all add: transfer_amounts) (simp add: createTransferInstructionData_def le_val_le_bytes)
  moreover have "writable_account ?hdr 3 1" "NumRequiredSignatures ?hdr = 1"
    by (simp_all add: writable_account_def)
  ultimately show ?thesis unfolding reads_transfer_def using h r by blast
qed

text \<open>
  C31: A native transfer that is built and signed is read back, by the format's reader, as one
  signature over a message with the keys of sender, recipient and system program in this order, the
  given blockhash, and one transfer instruction of the system program from the first to the second
  account that carries exactly the amount asked for; the recipient is writable. Signing fails exactly
  for signatures that are not 64 bytes long.
\<close>

theorem transfer_tx_roundtrip:
  assumes "BuildTransferTxWithBlockhash b58 from to lamports blockhash = Inr m"
  shows "(is_ok (AddSignature m sig) \<longleftrightarrow> length sig = 64) \<and>
    (length sig = 64 \<longrightarrow> (\<exists>tx r. AddSignature m sig = Inr tx \<and>
       read_transaction tx = Some ([sig], r) \<and> reads_transfer b58 from to lamports blockhash (Some r)))"
proof -
  obtain msg where "createTransferMessage from to lamports blockhash = Inr msg"
    and "serializeMessage b58 msg = Inr m"
    using assms by (auto simp: BuildTransferTxWithBlockhash_def createTransferMessage_def)
  then have r: "reads_transfer b58 from to lamports blockhash (read_message m)"
    by (rule transfer_message_read)
  then obtain q where q: "read_message m = Some q" by (auto simp: reads_transfer_def)
  show ?thesis
  proof (cases "length sig = 64")
    case True
    with read_transaction_AddSignature [OF this, of m] r q show ?thesis by (cases q) auto
  next
    case False
    then show ?thesis by (simp add: AddSignature_def)
  qed
qed

definition demo_b58 :: "string \<Rightarrow> byte list res" where
  "demo_b58 s = (if s = [] then Inl ''zero length string'' else Inr (replicate 32 (word_of_nat (length s))))"

theorem transfer_tx_roundtrip_witness:
  "\<exists>m tx r. BuildTransferTxWithBlockhash demo_b58 ''a'' ''bb'' 1000 ''hash'' = Inr m \<and>
     AddSignature m (replicate 64 9) = Inr tx \<and> read_transaction tx = Some ([replicate 64 9], r) \<and>
     reads_transfer demo_b58 ''a'' ''bb'' 1000 ''hash'' (Some r)"
proof -
  obtain m where m: "BuildTransferTxWithBlockhash demo_b58 ''a'' ''bb'' 1000 ''hash'' = Inr m"
    by (simp add: BuildTransferTxWithBlockhash_def createTransferMessage_def serializeMessage_def
        demo_b58_def writeCompactArray_def createTransferInstructionData_def SystemProgramID_def)
  from transfer_tx_roundtrip [OF m, of "replicate 64 9"] m show ?thesis by auto
qed

end
