(* ===== verification/Solana_Rpc.thy ===== *)
theory Solana_Rpc
  imports Json Base64
begin

text \<open>
  Package \<^verbatim>\<open>pkg/blockchain/solana\<close>, file \<^verbatim>\<open>rpc.go\<close>: the JSON-RPC client, every call of it. Base58 is
  third-party code and an argument where it is used. The conversions between SOL and lamports, which
  are floating point, are not modelled.

  \<^verbatim>\<open>WaitForConfirmation\<close> waits for whichever of three things happens next; the things that happen,
  in their order, are its argument, and the loop has not returned yet when they are used up.
\<close>

section \<open>Calls\<close>

definition DefaultRPCURL :: string where
  "DefaultRPCURL = ''https://api.devnet.solana.com''"

definition sol_NewRPCClient ::
  "(string \<Rightarrow> RPCRequest \<Rightarrow> 'w \<Rightarrow> rpc_reply \<times> 'w) \<Rightarrow> string \<Rightarrow> 'w RPCClient" where
  "sol_NewRPCClient network url =
     \<lparr>rpcURL = (if url = [] then DefaultRPCURL else url), rpcDo = network\<rparr>"

definition sol_call :: "'w RPCClient \<Rightarrow> string \<Rightarrow> json list \<Rightarrow> (json option, 'w) action" where
  "sol_call c meth params w =
     (case rpcDo c (rpcURL c) (rpc_request meth params) w of
        (BadURL e, w') \<Rightarrow> (Ret (Inl (''failed to create request: '' @ e)), w')
      | (NoReply e, w') \<Rightarrow> (Ret (Inl (''request failed: '' @ e)), w')
      | (ReadFailed e, w') \<Rightarrow> (Ret (Inl (''failed to read response: '' @ e)), w')
      | (BadBody e, w') \<Rightarrow> (Ret (Inl (''failed to decode response: '' @ e)), w')
      | (Document j, w') \<Rightarrow>
          (case Unmarshal dec_RPCResponse zero_response (Some j) of
             Inl e \<Rightarrow> (Ret (Inl (''failed to decode response: '' @ e)), w')
           | Inr rpcResp \<Rightarrow>
               (case rsError rpcResp of
                  Some er \<Rightarrow>
                    (Ret (Inl (''RPC error '' @ show_int (Code er) @ '': '' @ ErrMessage er)), w')
                | None \<Rightarrow> (Ret (Inr (rsResult rpcResp)), w'))))"

text \<open>The slot in the context of an answer is decoded but not used.\<close>

record GetBalanceResult =
  gbValue :: u64
  gbSlot :: u64

definition dec_slot :: "string \<Rightarrow> ('r \<Rightarrow> u64) \<Rightarrow> (u64 \<Rightarrow> 'r \<Rightarrow> 'r) \<Rightarrow> 'r decoder" where
  "dec_slot struct get put = dec_struct
     [(''slot'', field (dec_uint64 (at_field struct ''context.slot'')) get put)]
     (at_field struct ''context'') ''struct { Slot uint64 }''"

definition dec_GetBalanceResult :: "GetBalanceResult decoder" where
  "dec_GetBalanceResult = dec_struct
     [(''value'', field (dec_uint64 (at_field ''GetBalanceResult'' ''value'')) gbValue
         (\<lambda>v r. r\<lparr>gbValue := v\<rparr>)),
      (''context'', dec_slot ''GetBalanceResult'' gbSlot (\<lambda>v r. r\<lparr>gbSlot := v\<rparr>))]
     at_value ''solana.GetBalanceResult''"

definition sol_GetBalance :: "'w RPCClient \<Rightarrow> string \<Rightarrow> (u64, 'w) action" where
  "sol_GetBalance c address =
     attempt (sol_call c ''getBalance'' [JString address]) (\<lambda>e. ''failed to get balance: '' @ e)
       (\<lambda>result. attempt (pure (Unmarshal dec_GetBalanceResult \<lparr>gbValue = 0, gbSlot = 0\<rparr> result))
          (\<lambda>e. ''failed to parse balance: '' @ e) (\<lambda>balance. give (gbValue balance)))"

record Blockhash =
  bhHash :: string
  LastValidBlock :: u64

record BlockhashResponse =
  brBlockhash :: string
  brLastValidBlockHeight :: u64
  brSlot :: u64
  brApiVersion :: string

definition dec_BlockhashResponse :: "BlockhashResponse decoder" where
  "dec_BlockhashResponse = dec_struct
     [(''value'', dec_struct
        [(''blockhash'', field (dec_string (at_field ''BlockhashResponse'' ''value.blockhash''))
            brBlockhash (\<lambda>v r. r\<lparr>brBlockhash := v\<rparr>)),
         (''lastValidBlockHeight'',
            field (dec_uint64 (at_field ''BlockhashResponse'' ''value.lastValidBlockHeight''))
            brLastValidBlockHeight (\<lambda>v r. r\<lparr>brLastValidBlockHeight := v\<rparr>))]
        (at_field ''BlockhashResponse'' ''value'') ''struct { Blockhash string; LastValidBlockHeight uint64 }''),
      (''context'', dec_struct
        [(''slot'', field (dec_uint64 (at_field ''BlockhashResponse'' ''context.slot'')) brSlot
            (\<lambda>v r. r\<lparr>brSlot := v\<rparr>)),
         (''apiVersion'', field (dec_string (at_field ''BlockhashResponse'' ''context.apiVersion''))
            brApiVersion (\<lambda>v r. r\<lparr>brApiVersion := v\<rparr>))]
        (at_field ''BlockhashResponse'' ''context'') ''struct { Slot uint64; ApiVersion string }'')]
     at_value ''solana.BlockhashResponse''"

definition GetLatestBlockhash :: "'w RPCClient \<Rightarrow> (Blockhash, 'w) action" where
  "GetLatestBlockhash c =
     attempt (sol_call c ''getLatestBlockhash'' []) (\<lambda>e. ''failed to get blockhash: '' @ e)
       (\<lambda>result. attempt
          (pure (Unmarshal dec_BlockhashResponse
             \<lparr>brBlockhash = [], brLastValidBlockHeight = 0, brSlot = 0, brApiVersion = []\<rparr> result))
          (\<lambda>e. ''failed to parse blockhash: '' @ e)
          (\<lambda>resp. if brBlockhash resp = [] then fail ''blockhash is empty''
             else give \<lparr>bhHash = brBlockhash resp, LastValidBlock = brLastValidBlockHeight resp\<rparr>))"

definition sol_SendTransaction ::
  "(byte list \<Rightarrow> string) \<Rightarrow> 'w RPCClient \<Rightarrow> byte list \<Rightarrow> (string, 'w) action" where
  "sol_SendTransaction b58enc c signedTx =
     attempt (sol_call c ''sendTransaction'' [JString (b58enc signedTx)])
       (\<lambda>e. ''failed to send transaction: '' @ e)
       (\<lambda>result. attempt (pure (Unmarshal (dec_string at_value) [] result))
          (\<lambda>e. ''failed to parse send result: '' @ e) give)"

section \<open>Confirmation\<close>

record SignatureStatus =
  ssSlot :: u64
  Confirmations :: "u64 option"
  ssErr :: "json option"
  ConfirmationStatus :: string

definition zero_status :: SignatureStatus where
  "zero_status = \<lparr>ssSlot = 0, Confirmations = None, ssErr = None, ConfirmationStatus = []\<rparr>"

definition dec_SignatureStatus :: "SignatureStatus decoder" where
  "dec_SignatureStatus = dec_struct
     [(''slot'', field (dec_uint64 (at_field ''GetSignatureStatusesResult'' ''value.slot'')) ssSlot
         (\<lambda>v r. r\<lparr>ssSlot := v\<rparr>)),
      (''confirmations'', field
         (dec_ptr (dec_uint64 (at_field ''GetSignatureStatusesResult'' ''value.confirmations'')) 0)
         Confirmations (\<lambda>v r. r\<lparr>Confirmations := v\<rparr>)),
      (''err'', field dec_any ssErr (\<lambda>v r. r\<lparr>ssErr := v\<rparr>)),
      (''confirmationStatus'', field
         (dec_string (at_field ''GetSignatureStatusesResult'' ''value.confirmationStatus''))
         ConfirmationStatus (\<lambda>v r. r\<lparr>ConfirmationStatus := v\<rparr>))]
     (at_field ''GetSignatureStatusesResult'' ''value'') ''solana.SignatureStatus''"

record GetSignatureStatusesResult =
  gsSlot :: u64
  gsValue :: "SignatureStatus list"

definition dec_GetSignatureStatusesResult :: "GetSignatureStatusesResult decoder" where
  "dec_GetSignatureStatusesResult = dec_struct
     [(''context'', dec_slot ''GetSignatureStatusesResult'' gsSlot (\<lambda>v r. r\<lparr>gsSlot := v\<rparr>)),
      (''value'', field (dec_slice dec_SignatureStatus zero_status
         (at_field ''GetSignatureStatusesResult'' ''value'') ''[]solana.SignatureStatus'')
         gsValue (\<lambda>v r. r\<lparr>gsValue := v\<rparr>))]
     at_value ''solana.GetSignatureStatusesResult''"

definition GetSignatureStatus :: "'w RPCClient \<Rightarrow> string \<Rightarrow> (SignatureStatus option, 'w) action" where
  "GetSignatureStatus c signature =
     attempt (sol_call c ''getSignatureStatuses'' [JArr [JString signature]])
       (\<lambda>e. ''failed to get signature status: '' @ e)
       (\<lambda>result. attempt
          (pure (Unmarshal dec_GetSignatureStatusesResult \<lparr>gsSlot = 0, gsValue = []\<rparr> result))
          (\<lambda>e. ''failed to parse signature status: '' @ e)
          (\<lambda>statusResult. give (case gsValue statusResult of [] \<Rightarrow> None | s # _ \<Rightarrow> Some s)))"

datatype wait_event = CtxDone err | TimedOut | Tick

text \<open>
  The loop over the events; \<open>fmtv\<close> is the formatting \<^verbatim>\<open>%v\<close> of a decoded document. The result
  \<open>None\<close> means that the loop is still waiting.
\<close>

fun WaitForConfirmation ::
  "(json \<Rightarrow> string) \<Rightarrow> 'w RPCClient \<Rightarrow> string \<Rightarrow> wait_event list \<Rightarrow> 'w \<Rightarrow> unit res outcome option \<times> 'w" where
  "WaitForConfirmation fmtv c signature [] w = (None, w)"
| "WaitForConfirmation fmtv c signature (CtxDone e # evs) w = (Some (Ret (Inl e)), w)"
| "WaitForConfirmation fmtv c signature (TimedOut # evs) w =
     (Some (Ret (Inl ''confirmation timeout'')), w)"
| "WaitForConfirmation fmtv c signature (Tick # evs) w =
     (case GetSignatureStatus c signature w of
        (Panic, w') \<Rightarrow> (Some Panic, w')
      | (Ret (Inl _), w') \<Rightarrow> WaitForConfirmation fmtv c signature evs w'
      | (Ret (Inr None), w') \<Rightarrow> WaitForConfirmation fmtv c signature evs w'
      | (Ret (Inr (Some status)), w') \<Rightarrow>
          (case ssErr status of
             Some e \<Rightarrow> (Some (Ret (Inl (''transaction failed: '' @ fmtv e))), w')
           | None \<Rightarrow>
               if ConfirmationStatus status = ''confirmed'' \<or> ConfirmationStatus status = ''finalized''
               then (Some (Ret (Inr ())), w')
               else WaitForConfirmation fmtv c signature evs w'))"

section \<open>Accounts\<close>

record AccountInfo =
  aiData :: "string list"

definition dec_AccountInfo :: "AccountInfo decoder" where
  "dec_AccountInfo = dec_struct
     [(''value'', dec_struct
        [(''data'', field (dec_slice (dec_string (at_field [] ''value.data'')) []
            (at_field [] ''value.data'') ''[]string'') aiData (\<lambda>v r. r\<lparr>aiData := v\<rparr>))]
        (at_field [] ''value'') ''struct { Data []string }'')]
     at_value ''struct { Value struct { Data []string } }''"

definition GetAccountInfo :: "'w RPCClient \<Rightarrow> string \<Rightarrow> (byte list, 'w) action" where
  "GetAccountInfo c address =
     attempt (sol_call c ''getAccountInfo''
         [JString address, JObj [(''encoding'', JString ''base64'')]])
       (\<lambda>e. ''failed to get account info: '' @ e)
       (\<lambda>result. attempt (pure (Unmarshal dec_AccountInfo \<lparr>aiData = []\<rparr> result))
          (\<lambda>e. ''failed to parse account info: '' @ e)
          (\<lambda>response. case aiData response of [] \<Rightarrow> give [] | d # _ \<Rightarrow> pure (DecodeString d)))"

definition GetMinimumBalanceForRentExemption :: "'w RPCClient \<Rightarrow> u64 \<Rightarrow> (u64, 'w) action" where
  "GetMinimumBalanceForRentExemption c dataSize =
     attempt (sol_call c ''getMinimumBalanceForRentExemption'' [JNum (show_nat (unat dataSize))])
       (\<lambda>e. ''failed to get rent exemption: '' @ e)
       (\<lambda>result. attempt (pure (Unmarshal (dec_uint64 at_value) 0 result))
          (\<lambda>e. ''failed to parse rent: '' @ e) give)"

definition sol_ValidateAddress :: "(string \<Rightarrow> byte list res) \<Rightarrow> string \<Rightarrow> bool" where
  "sol_ValidateAddress b58 address \<longleftrightarrow>
     is_ok (b58 address) \<and> 32 \<le> length address \<and> length address \<le> 44"

section \<open>Facts\<close>

definition sol_answers :: "'w RPCClient \<Rightarrow> string \<Rightarrow> json list \<Rightarrow> 'w \<Rightarrow> json \<Rightarrow> 'w \<Rightarrow> bool" where
  "sol_answers c meth params w j w' \<longleftrightarrow>
     rpcDo c (rpcURL c) (rpc_request meth params) w = (Document (ok_response j), w')"

lemma sol_call_answer:
  "sol_answers c meth params w j w' \<Longrightarrow> sol_call c meth params w = (Ret (Inr (Some j)), w')"
  by (simp add: sol_call_def sol_answers_def Unmarshal_ok_response)

lemma sol_call_no_panic: "sol_call c meth params w \<noteq> (Panic, w')"
  by (auto simp: sol_call_def split: prod.splits rpc_reply.splits sum.splits option.splits)

lemma GetSignatureStatus_no_panic: "GetSignatureStatus c signature w \<noteq> (Panic, w')"
  by (auto simp: GetSignatureStatus_def attempt_def sol_call_no_panic split: prod.splits outcome.splits sum.splits)

text \<open>
  Waiting returns without error only when the node has reported the transaction as confirmed or
  finalized and without an error, and it returns as soon as the time is over.
\<close>

lemma WaitForConfirmation_sound:
  "WaitForConfirmation fmtv c signature evs w = (Some (Ret (Inr ())), w') \<Longrightarrow>
   \<exists>v st. GetSignatureStatus c signature v = (Ret (Inr (Some st)), w') \<and> ssErr st = None \<and>
     ConfirmationStatus st \<in> {''confirmed'', ''finalized''}"
proof (induction fmtv c signature evs w rule: WaitForConfirmation.induct)
  case (4 fmtv c signature evs w)
  then show ?case
    by (auto split: prod.splits outcome.splits sum.splits option.splits if_splits)
qed auto

lemma WaitForConfirmation_returns:
  "TimedOut \<in> set evs \<Longrightarrow> \<exists>r. fst (WaitForConfirmation fmtv c signature evs w) = Some (Ret r)"
proof (induction fmtv c signature evs w rule: WaitForConfirmation.induct)
  case (4 fmtv c signature evs w)
  then show ?case
    by (auto simp: GetSignatureStatus_no_panic split: prod.splits outcome.splits sum.splits option.splits if_splits)
qed auto

end
