(* ===== verification/Solana_Tx.thy ===== *)
theory Solana_Tx
  imports Solana_Codec Solana_Rpc
begin

text \<open>
  Package \<^verbatim>\<open>pkg/blockchain/solana\<close>, file \<^verbatim>\<open>tx.go\<close> over the RPC client: native transfers, balances
  and fees, the lookup of token accounts, and token transfers. The wire format is in the theory
  \<^verbatim>\<open>Solana_Codec\<close>. Log output is not modelled.
\<close>

section \<open>Native transfers, balances and fees\<close>

definition BuildTransferTx ::
  "(string \<Rightarrow> byte list res) \<Rightarrow> 'w RPCClient \<Rightarrow> string \<Rightarrow> string \<Rightarrow> u64 \<Rightarrow> (byte list, 'w) action" where
  "BuildTransferTx b58 c from to lamports =
     attempt (GetLatestBlockhash c) (\<lambda>e. ''failed to get blockhash: '' @ e)
       (\<lambda>blockhash. attempt (pure (createTransferMessage from to lamports (bhHash blockhash)))
          (\<lambda>e. ''failed to create message: '' @ e)
          (\<lambda>msg. pure (serializeMessage b58 msg)))"

definition solb_GetBalance :: "'w RPCClient \<Rightarrow> string \<Rightarrow> (u64, 'w) action" where
  "solb_GetBalance c address = sol_GetBalance c address"

definition sol_CheckBalanceSufficient :: "'w RPCClient \<Rightarrow> string \<Rightarrow> u64 \<Rightarrow> (bool \<times> u64, 'w) action" where
  "sol_CheckBalanceSufficient c address lamports =
     attempt (sol_GetBalance c address) (\<lambda>e. ''failed to get balance: '' @ e)
       (\<lambda>balance. give (lamports \<le> balance, lamports))"

fun dec_fee :: "u64 decoder" where
  "dec_fee j old = dec_struct
     [(''prioritizationFee'', dec_uint64 (at_field [] ''prioritizationFee''))]
     at_value ''struct { PrioritizationFee uint64 }'' j old"

definition GetFeeEstimate :: "'w RPCClient \<Rightarrow> (u64, 'w) action" where
  "GetFeeEstimate c =
     observe (GetLatestBlockhash c)
       (\<lambda>r. case r of
          Inl _ \<Rightarrow> give 5000
        | Inr _ \<Rightarrow>
            observe (sol_call c ''getRecentPrioritizationFees'' [JString SystemProgramID])
              (\<lambda>r2. case r2 of
                 Inl _ \<Rightarrow> give 5000
               | Inr recent \<Rightarrow>
                   (case Unmarshal (dec_slice dec_fee 0 at_value ''[]struct { PrioritizationFee uint64 }'') []
                       recent of
                      Inl _ \<Rightarrow> give 5000
                    | Inr [] \<Rightarrow> give 5000
                    | Inr (priorityFee # _) \<Rightarrow> give (200 * 1000 + priorityFee))))"

definition ConfirmTransaction ::
  "(json \<Rightarrow> string) \<Rightarrow> 'w RPCClient \<Rightarrow> string \<Rightarrow> wait_event list \<Rightarrow> 'w \<Rightarrow> unit res outcome option \<times> 'w" where
  "ConfirmTransaction fmtv c signature evs w = WaitForConfirmation fmtv c signature evs w"

definition solb_SendTransaction ::
  "(byte list \<Rightarrow> string) \<Rightarrow> 'w RPCClient \<Rightarrow> byte list \<Rightarrow> (string, 'w) action" where
  "solb_SendTransaction b58enc c signedTx = sol_SendTransaction b58enc c signedTx"

definition GetBlockhash :: "'w RPCClient \<Rightarrow> (string, 'w) action" where
  "GetBlockhash c = attempt (GetLatestBlockhash c) (\<lambda>e. e) (\<lambda>blockhash. give (bhHash blockhash))"

section \<open>Token accounts\<close>

definition TokenProgramID :: string where
  "TokenProgramID = ''TokenkegQfeZyiNwAJbNbGKPFXCWuBvf9Ss623VQ5DA''"

definition GetAssociatedTokenAddress :: "string \<Rightarrow> string \<Rightarrow> string res" where
  "GetAssociatedTokenAddress owner mint =
     (if owner = [] then Inl ''owner address cannot be empty''
      else if mint = [] then Inl ''mint address cannot be empty''
      else Inr [])"

text \<open>
  \<^verbatim>\<open>fmt.Sscanf(s, "%d", &amount)\<close> into an unsigned number that was zero, its error ignored: blanks
  are skipped, then the digits are read; without digits or out of range the number stays zero.
\<close>

definition Sscanf_d :: "string \<Rightarrow> u64" where
  "Sscanf_d s =
     (case ParseUint64 (takeWhile is_digit (dropWhile (\<lambda>c. is_space c \<and> c \<noteq> CHR 0x0A) s)) of
        Inl _ \<Rightarrow> 0
      | Inr v \<Rightarrow> v)"

record TokenBalance =
  tbAmount :: string
  tbDecimals :: "byte"

fun dec_uint8 :: "string \<Rightarrow> byte decoder" where
  "dec_uint8 place (JNum n) old =
     (case ParseUint64 n of
        Inl _ \<Rightarrow> ([type_error (''number '' @ n) place ''uint8''], old)
      | Inr v \<Rightarrow> if 256 \<le> unat v then ([type_error (''number '' @ n) place ''uint8''], old)
                else ([], word_of_nat (unat v)))"
| "dec_uint8 place JNull old = ([], old)"
| "dec_uint8 place j old = ([type_error (kind j) place ''uint8''], old)"

definition dec_TokenBalance :: "TokenBalance decoder" where
  "dec_TokenBalance = dec_struct
     [(''value'', dec_struct
        [(''amount'', field (dec_string (at_field [] ''value.amount'')) tbAmount (\<lambda>v r. r\<lparr>tbAmount := v\<rparr>)),
         (''decimals'', field (dec_uint8 (at_field [] ''value.decimals'')) tbDecimals
            (\<lambda>v r. r\<lparr>tbDecimals := v\<rparr>))]
        (at_field [] ''value'') ''struct { Amount string; Decimals uint8 }'')]
     at_value ''struct { Value struct { Amount string; Decimals uint8 } }''"

definition GetTokenAccountBalance :: "'w RPCClient \<Rightarrow> string \<Rightarrow> (u64, 'w) action" where
  "GetTokenAccountBalance c ata =
     attempt (sol_call c ''getTokenAccountBalance'' [JString ata])
       (\<lambda>e. ''failed to get token balance: '' @ e)
       (\<lambda>result. attempt (pure (Unmarshal dec_TokenBalance \<lparr>tbAmount = [], tbDecimals = 0\<rparr> result))
          (\<lambda>e. ''failed to parse response: '' @ e)
          (\<lambda>response. give (Sscanf_d (tbAmount response))))"

text \<open>The nested structs of a token account, with their three fields.\<close>

record TokenAccount =
  taPubkey :: string
  taMint :: string
  taAmount :: string

definition zero_account :: TokenAccount where
  "zero_account = \<lparr>taPubkey = [], taMint = [], taAmount = []\<rparr>"

definition dec_TokenAccount :: "TokenAccount decoder" where
  "dec_TokenAccount = dec_struct
     [(''pubkey'', field (dec_string (at_field ''RPCResponse'' ''value.pubkey'')) taPubkey
         (\<lambda>v r. r\<lparr>taPubkey := v\<rparr>)),
      (''account'', dec_struct
        [(''data'', dec_struct
          [(''parsed'', dec_struct
            [(''info'', dec_struct
              [(''mint'', field (dec_string (at_field ''RPCResponse'' ''value.account.data.parsed.info.mint''))
                  taMint (\<lambda>v r. r\<lparr>taMint := v\<rparr>)),
               (''tokenAmount'', dec_struct
                 [(''amount'', field
                     (dec_string (at_field ''RPCResponse'' ''value.account.data.parsed.info.tokenAmount.amount''))
                     taAmount (\<lambda>v r. r\<lparr>taAmount := v\<rparr>))]
                 (at_field ''RPCResponse'' ''value.account.data.parsed.info.tokenAmount'') ''struct'')]
              (at_field ''RPCResponse'' ''value.account.data.parsed.info'') ''TokenAccountInfo'')]
            (at_field ''RPCResponse'' ''value.account.data.parsed'') ''struct'')]
          (at_field ''RPCResponse'' ''value.account.data'') ''struct'')]
        (at_field ''RPCResponse'' ''value.account'') ''struct'')]
     (at_field ''RPCResponse'' ''value'') ''TokenAccount''"

fun dec_TokenAccounts :: "TokenAccount list decoder" where
  "dec_TokenAccounts j old = dec_struct
     [(''value'', dec_slice dec_TokenAccount zero_account (at_field ''RPCResponse'' ''value'') ''[]TokenAccount'')]
     at_value ''RPCResponse'' j old"

definition tokenAccountsRequest :: "string \<Rightarrow> json list" where
  "tokenAccountsRequest owner =
     [JString owner, JObj [(''programId'', JString TokenProgramID)],
      JObj [(''encoding'', JString ''jsonParsed'')]]"

text \<open>Whether the answer to \<^verbatim>\<open>getAccountInfo\<close> describes an account; decoding errors are ignored.\<close>

definition accountExists :: "json option res \<Rightarrow> bool" where
  "accountExists r =
     (case r of
        Inl _ \<Rightarrow> False
      | Inr None \<Rightarrow> False
      | Inr (Some j) \<Rightarrow> snd (dec_struct [(''value'', dec_any)] at_value ''struct'' j None) \<noteq> None)"

definition sol_GetTokenBalance :: "'w RPCClient \<Rightarrow> string \<Rightarrow> string \<Rightarrow> (u64, 'w) action" where
  "sol_GetTokenBalance c owner mint =
     attempt (pure (GetAssociatedTokenAddress owner mint)) (\<lambda>e. e)
       (\<lambda>ata. observe (sol_call c ''getAccountInfo'' [JString ata, JObj [(''encoding'', JString ''base64'')]])
          (\<lambda>info. if accountExists info then GetTokenAccountBalance c ata
             else observe (sol_call c ''getTokenAccountsByOwner'' (tokenAccountsRequest owner))
               (\<lambda>r. case r of
                  Inl _ \<Rightarrow> give 0
                | Inr result \<Rightarrow>
                    (case Unmarshal dec_TokenAccounts [] result of
                       Inl _ \<Rightarrow> give 0
                     | Inr accounts \<Rightarrow>
                         (case find (\<lambda>acc. taMint acc = mint) accounts of
                            None \<Rightarrow> give 0
                          | Some acc \<Rightarrow> give (Sscanf_d (taAmount acc)))))))"

definition FindSPLTokenAccount :: "'w RPCClient \<Rightarrow> string \<Rightarrow> string \<Rightarrow> (string, 'w) action" where
  "FindSPLTokenAccount c owner mint =
     attempt (sol_call c ''getTokenAccountsByOwner'' (tokenAccountsRequest owner))
       (\<lambda>e. ''failed to query token accounts: '' @ e)
       (\<lambda>result. attempt (pure (Unmarshal dec_TokenAccounts [] result))
          (\<lambda>e. ''failed to parse token accounts: '' @ e)
          (\<lambda>accounts. case find (\<lambda>acc. taMint acc = mint) accounts of
             Some acc \<Rightarrow> give (taPubkey acc)
           | None \<Rightarrow> fail (''token account not found for mint '' @ mint)))"

definition CheckSPLBalanceSufficient ::
  "'w RPCClient \<Rightarrow> string \<Rightarrow> string \<Rightarrow> u64 \<Rightarrow> (bool \<times> u64, 'w) action" where
  "CheckSPLBalanceSufficient c owner mint amount =
     attempt (sol_GetTokenBalance c owner mint) (\<lambda>e. e)
       (\<lambda>balance. give (amount \<le> balance, balance))"

section \<open>Token transfers\<close>

text \<open>The closure \<^verbatim>\<open>addAccount\<close> on the list of keys and the map from key to index.\<close>

type_synonym accounts = "string list \<times> (string \<rightharpoonup> nat)"

definition addAccount :: "string \<Rightarrow> accounts \<Rightarrow> byte \<times> accounts" where
  "addAccount addr a =
     (case snd a addr of
        Some idx \<Rightarrow> (word_of_nat idx, a)
      | None \<Rightarrow>
          (let idx = length (fst a)
           in (word_of_nat idx, (fst a @ [addr], (snd a)(addr \<mapsto> idx)))))"

definition splMessage :: "string \<Rightarrow> string \<Rightarrow> string \<Rightarrow> u64 \<Rightarrow> string \<Rightarrow> Message" where
  "splMessage from fromAta toAta amount blockhash =
     (let a0 = ([from], [from \<mapsto> 0]);
          (fromAtaIdx, a1) = addAccount fromAta a0;
          (toAtaIdx, a2) = addAccount toAta a1;
          (programIdx, a3) = addAccount TokenProgramID a2
      in \<lparr>Header = \<lparr>NumRequiredSignatures = 1, NumReadonlySignedAccounts = 0,
            NumReadonlyUnsignedAccounts = 2\<rparr>,
          AccountKeys = fst a3, RecentBlockhash = blockhash,
          Instructions = [\<lparr>ProgramIDIndex =
              (case snd a3 TokenProgramID of None \<Rightarrow> 0 | Some i \<Rightarrow> word_of_nat i),
            Accounts = [fromAtaIdx, toAtaIdx, 0], InstrData = createSPLTransferData amount\<rparr>]\<rparr>)"

text \<open>The rest of the function once the source is known and the destination has been looked up.\<close>

definition splFinish ::
  "(string \<Rightarrow> byte list res) \<Rightarrow> string \<Rightarrow> string \<Rightarrow> string \<Rightarrow> u64 \<Rightarrow> string \<Rightarrow> string res \<Rightarrow> byte list res" where
  "splFinish b58 from fromAta mint amount blockhash r =
     (let toAta = (case r of Inl _ \<Rightarrow> [] | Inr a \<Rightarrow> a)
      in if toAta = []
         then Inl (''destination wallet has no token account for mint '' @ mint @
           '' - ATA creation not yet implemented'')
         else (case serializeMessage b58 (splMessage from fromAta toAta amount blockhash) of
                 Inl e \<Rightarrow> Inl (''failed to serialize message: '' @ e)
               | Inr txBytes \<Rightarrow> Inr txBytes))"

definition BuildSPLTransferTx ::
  "(string \<Rightarrow> byte list res) \<Rightarrow> 'w RPCClient \<Rightarrow> string \<Rightarrow> string \<Rightarrow> string \<Rightarrow> u64 \<Rightarrow> string \<Rightarrow>
   (byte list, 'w) action" where
  "BuildSPLTransferTx b58 c from to mint amount sourceATA =
     attempt (GetLatestBlockhash c) (\<lambda>e. ''failed to get blockhash: '' @ e)
       (\<lambda>blockhash. attempt
          (if sourceATA \<noteq> [] then give sourceATA
           else attempt (FindSPLTokenAccount c from mint)
             (\<lambda>e. ''failed to find source token account: '' @ e)
             (\<lambda>a. if a = [] then fail (''source wallet has no token account for mint '' @ mint) else give a))
          (\<lambda>e. e)
          (\<lambda>fromAta. observe (FindSPLTokenAccount c to mint)
             (\<lambda>r. pure (splFinish b58 from fromAta mint amount (bhHash blockhash) r))))"

section \<open>Facts\<close>

lemma splMessage_distinct:
  assumes "distinct [from, fromAta, toAta, TokenProgramID]"
  shows "splMessage from fromAta toAta amount blockhash =
    \<lparr>Header = \<lparr>NumRequiredSignatures = 1, NumReadonlySignedAccounts = 0, NumReadonlyUnsignedAccounts = 2\<rparr>,
     AccountKeys = [from, fromAta, toAta, TokenProgramID], RecentBlockhash = blockhash,
     Instructions = [\<lparr>ProgramIDIndex = 3, Accounts = [1, 2, 0], InstrData = createSPLTransferData amount\<rparr>]\<rparr>"
  using assms by (auto simp: splMessage_def addAccount_def Let_def)

lemma splFinish_Inr:
  "splFinish b58 from fromAta mint amount blockhash r = Inr bs \<Longrightarrow>
   \<exists>toAta. r = Inr toAta \<and> serializeMessage b58 (splMessage from fromAta toAta amount blockhash) = Inr bs"
  by (cases r) (auto simp: splFinish_def split: sum.splits if_splits)

lemma BuildSPLTransferTx_Inr:
  assumes "BuildSPLTransferTx b58 c from to mint amount sourceATA w = (Ret (Inr bs), w')"
    and "sourceATA \<noteq> []"
  shows "\<exists>bh w1 toAta w2. GetLatestBlockhash c w = (Ret (Inr bh), w1) \<and>
    FindSPLTokenAccount c to mint w1 = (Ret (Inr toAta), w2) \<and>
    serializeMessage b58 (splMessage from sourceATA toAta amount (bhHash bh)) = Inr bs"
  using assms
  by (auto simp: BuildSPLTransferTx_def attempt_Inr observe_Inr dest!: splFinish_Inr)

text \<open>
  C34: A token transfer that is built for different accounts moves exactly the amount asked for
  from the source to the token account that was found for the recipient, with the sender as
  authority. But its header declares the last two of the four accounts read-only, and these are the
  destination account and the token program: the destination, which the transfer must credit, is
  not writable.
\<close>

theorem spl_destination_readonly:
  assumes "BuildSPLTransferTx b58 c from to mint amount sourceATA w = (Ret (Inr bs), w')"
    and "sourceATA \<noteq> []"
    and "\<forall>v v' toAta. FindSPLTokenAccount c to mint v = (Ret (Inr toAta), v') \<longrightarrow>
      distinct [from, sourceATA, toAta, TokenProgramID]"
  shows "\<exists>v v' toAta hdr keys h dat. FindSPLTokenAccount c to mint v = (Ret (Inr toAta), v') \<and>
    map b58 [from, sourceATA, toAta, TokenProgramID] = map Inr keys \<and>
    read_message bs = Some (hdr, keys, h, [\<lparr>ProgramIDIndex = 3, Accounts = [1, 2, 0], InstrData = dat\<rparr>]) \<and>
    hd dat = 3 \<and> le_val (tl dat) = unat amount \<and>
    writable_account hdr 4 1 \<and> \<not> writable_account hdr 4 2"
proof -
  let ?hdr = "\<lparr>NumRequiredSignatures = 1, NumReadonlySignedAccounts = 0, NumReadonlyUnsignedAccounts = 2\<rparr>"
  obtain bh :: Blockhash and w1 toAta w2 where find: "FindSPLTokenAccount c to mint w1 = (Ret (Inr toAta), w2)"
    and bs: "serializeMessage b58 (splMessage from sourceATA toAta amount (bhHash bh)) = Inr bs"
    using BuildSPLTransferTx_Inr [OF assms(1,2)] by blast
  have d: "distinct [from, sourceATA, toAta, TokenProgramID]" using find assms(3) by blast
  from serializeMessage_read [OF bs, unfolded splMessage_distinct [OF d]] obtain keys h
    where "map b58 [from, sourceATA, toAta, TokenProgramID] = map Inr keys"
      and "read_message bs = Some (?hdr, keys, h,
        [\<lparr>ProgramIDIndex = 3, Accounts = [1, 2, 0], InstrData = createSPLTransferData amount\<rparr>])"
    unfolding Message.select_convs by blast
  moreover have "hd (createSPLTransferData amount) = 3" by (simp add: createSPLTransferData_def)
  moreover have "writable_account ?hdr 4 1" "\<not> writable_account ?hdr 4 2"
    by (simp_all add: writable_account_def)
  ultimately show ?thesis using find transfer_amounts(2) [of amount] by blast
qed

text \<open>A node with one token account per wallet.\<close>

definition demo_account :: "string \<Rightarrow> json" where
  "demo_account k = JObj [(''pubkey'', JString k), (''account'', JObj [(''data'', JObj [(''parsed'',
     JObj [(''info'', JObj [(''mint'', JString ''m'')])])])])]"

definition demo_node :: "unit RPCClient" where
  "demo_node = sol_NewRPCClient (\<lambda>url req w.
     (Document (ok_response
       (if rqMethod req = ''getLatestBlockhash''
        then JObj [(''value'', JObj [(''blockhash'', JString ''hash'')])]
        else JObj [(''value'', JArr [demo_account ''dest''])])), w)) ''node''"

lemma demo_names [simp]:
  "unquote ''value'' = ''value''" "unquote ''blockhash'' = ''blockhash''" "unquote ''pubkey'' = ''pubkey''"
  "unquote ''account'' = ''account''" "unquote ''data'' = ''data''" "unquote ''parsed'' = ''parsed''"
  "unquote ''info'' = ''info''" "unquote ''mint'' = ''mint''"
  by (simp_all add: unquote_plain)

lemma demo_find: "FindSPLTokenAccount demo_node owner ''m'' w = (Ret (Inr ''dest''), w)"
proof -
  let ?j = "JObj [(''value'', JArr [demo_account ''dest''])]"
  have "sol_answers demo_node ''getTokenAccountsByOwner'' (tokenAccountsRequest owner) w ?j w"
    by (simp add: sol_answers_def demo_node_def sol_NewRPCClient_def rpc_request_def)
  then have "sol_call demo_node ''getTokenAccountsByOwner'' (tokenAccountsRequest owner) w =
      (Ret (Inr (Some ?j)), w)"
    by (rule sol_call_answer)
  moreover have "Unmarshal dec_TokenAccounts [] (Some ?j) =
      Inr [\<lparr>taPubkey = ''dest'', taMint = ''m'', taAmount = []\<rparr>]"
    by (simp add: Unmarshal_def find_field_def demo_account_def dec_TokenAccount_def field_def zero_account_def)
  ultimately show ?thesis by (simp add: FindSPLTokenAccount_def)
qed

lemma demo_blockhash:
  "GetLatestBlockhash demo_node w = (Ret (Inr \<lparr>bhHash = ''hash'', LastValidBlock = 0\<rparr>), w)"
proof -
  let ?j = "JObj [(''value'', JObj [(''blockhash'', JString ''hash'')])]"
  have "sol_answers demo_node ''getLatestBlockhash'' [] w ?j w"
    by (simp add: sol_answers_def demo_node_def sol_NewRPCClient_def rpc_request_def)
  then have "sol_call demo_node ''getLatestBlockhash'' [] w = (Ret (Inr (Some ?j)), w)"
    by (rule sol_call_answer)
  moreover have "Unmarshal dec_BlockhashResponse
      \<lparr>brBlockhash = [], brLastValidBlockHeight = 0, brSlot = 0, brApiVersion = []\<rparr> (Some ?j) =
      Inr \<lparr>brBlockhash = ''hash'', brLastValidBlockHeight = 0, brSlot = 0, brApiVersion = []\<rparr>"
    by (simp add: Unmarshal_def find_field_def dec_BlockhashResponse_def field_def)
  ultimately show ?thesis by (simp add: GetLatestBlockhash_def)
qed

theorem spl_destination_readonly_witness:
  "\<exists>bs hdr keys h insts. BuildSPLTransferTx demo_b58 demo_node ''from'' ''to'' ''m'' 7 ''src'' () = (Ret (Inr bs), ()) \<and>
     read_message bs = Some (hdr, keys, h, insts) \<and> \<not> writable_account hdr 4 2"
proof -
  have d: "distinct [''from'', ''src'', ''dest'', TokenProgramID]" by (simp add: TokenProgramID_def)
  obtain bs where bs: "BuildSPLTransferTx demo_b58 demo_node ''from'' ''to'' ''m'' 7 ''src'' () = (Ret (Inr bs), ())"
    by (simp add: BuildSPLTransferTx_def splFinish_def attempt_def observe_def demo_blockhash demo_find splMessage_distinct [OF d] serializeMessage_def
        demo_b58_def writeCompactArray_def createSPLTransferData_def TokenProgramID_def)
  from spl_destination_readonly [OF bs] d bs show ?thesis
    by (auto simp: demo_find)
qed

end
