(* ===== verification/Transaction_Service.thy ===== *)
theory Transaction_Service
  imports Signers Solana_Tx
begin

text \<open>
  Package \<^verbatim>\<open>pkg/transaction\<close>: the service that dispatches balance queries and transfers to the builder
  of the chain.

  A function that returns a transaction hash together with an error returns here \<open>Inr (hash, Some e)\<close>,
  and \<open>Inl e\<close> when the hash is empty. The outside world supplies, besides the network, what happens
  while a confirmation is awaited; the timer always ends the waiting.
\<close>

section \<open>The service\<close>

text \<open>
  The environment: base58, Ed25519, the formatting of decoded documents, and the ticks that happen
  before the confirmation timer fires.
\<close>

record txenv =
  b58Decode :: "string \<Rightarrow> byte list res"
  b58Encode :: "byte list \<Rightarrow> string"
  edLib :: ed25519
  fmtDoc :: "json \<Rightarrow> string"
  waitEvents :: "wait_event list"

record ('w, 'k, 'p, 't) Service =
  ethereumBuilders :: "string \<rightharpoonup> ('w, 'k, 'p, 't) TxBuilder"
  solanaBuilders :: "string \<rightharpoonup> 'w RPCClient"

definition NewService :: "('w, 'k, 'p, 't) Service" where
  "NewService = \<lparr>ethereumBuilders = Map.empty, solanaBuilders = Map.empty\<rparr>"

definition AddChain ::
  "('w, 'k, 'p, 't) Service \<Rightarrow> string \<Rightarrow> ('w, 'k, 'p, 't) TxBuilder \<Rightarrow> ('w, 'k, 'p, 't) Service" where
  "AddChain s chain builder = s\<lparr>ethereumBuilders := (ethereumBuilders s)(chain \<mapsto> builder)\<rparr>"

definition AddSolanaChain ::
  "('w, 'k, 'p, 't) Service \<Rightarrow> string \<Rightarrow> 'w RPCClient \<Rightarrow> ('w, 'k, 'p, 't) Service" where
  "AddSolanaChain s chain builder = s\<lparr>solanaBuilders := (solanaBuilders s)(chain \<mapsto> builder)\<rparr>"

definition GetBuilder :: "('w, 'k, 'p, 't) Service \<Rightarrow> string \<Rightarrow> ('w, 'k, 'p, 't) TxBuilder option" where
  "GetBuilder s chain = ethereumBuilders s chain"

definition GetSolanaBuilder :: "('w, 'k, 'p, 't) Service \<Rightarrow> string \<Rightarrow> 'w RPCClient option" where
  "GetSolanaBuilder s chain = solanaBuilders s chain"

definition IsSolanaChain :: "('w, 'k, 'p, 't) Service \<Rightarrow> string \<Rightarrow> bool" where
  "IsSolanaChain s chain \<longleftrightarrow> solanaBuilders s chain \<noteq> None"

definition unsupported :: "string \<Rightarrow> ('a, 'w) action" where
  "unsupported chain = fail (''unsupported chain: '' @ chain)"

section \<open>Ethereum transfers\<close>

text \<open>The key pointer of a zeroized signer is nil; using it to derive the sender panics.\<close>

definition buildAndBroadcast ::
  "('w, 'k, 'p, 't) TxBuilder \<Rightarrow> string \<Rightarrow> ('k, 'p) ECDSASigner \<Rightarrow>
   ('k \<Rightarrow> (string \<times> string, 'w) action) \<Rightarrow> (string, 'w) action" where
  "buildAndBroadcast builder what ecdsaSigner build =
     (case ec_GetPrivateKey ecdsaSigner of
        None \<Rightarrow> crash
      | Some privateKey \<Rightarrow>
          attempt (build privateKey) (\<lambda>e. what @ e)
            (\<lambda>(_, rawTxHex). attempt (BroadcastTransaction builder rawTxHex)
               (\<lambda>e. ''failed to broadcast tx: '' @ e) give))"

definition SendTransactionEIP1559 ::
  "('w, 'k, 'p, 't) Service \<Rightarrow> string \<Rightarrow> string \<Rightarrow> int \<Rightarrow> ('k, 'p) ECDSASigner \<Rightarrow> FeeSpeed \<Rightarrow> (string, 'w) action" where
  "SendTransactionEIP1559 s chain to value ecdsaSigner speed =
     (case ethereumBuilders s chain of
        None \<Rightarrow> unsupported chain
      | Some builder \<Rightarrow>
          buildAndBroadcast builder ''failed to build/sign tx: '' ecdsaSigner
            (\<lambda>key. BuildAndSignTxEIP1559 builder to value key speed))"

definition SendTransaction ::
  "('w, 'k, 'p, 't) Service \<Rightarrow> string \<Rightarrow> string \<Rightarrow> int \<Rightarrow> ('k, 'p) ECDSASigner \<Rightarrow> (string, 'w) action" where
  "SendTransaction s chain to value ecdsaSigner =
     (case ethereumBuilders s chain of
        None \<Rightarrow> unsupported chain
      | Some builder \<Rightarrow>
          buildAndBroadcast builder ''failed to build/sign tx: '' ecdsaSigner
            (\<lambda>key. BuildAndSignTx builder to value key))"

definition SendERC20Transaction ::
  "('w, 'k, 'p, 't) Service \<Rightarrow> string \<Rightarrow> string \<Rightarrow> string \<Rightarrow> int \<Rightarrow> ('k, 'p) ECDSASigner \<Rightarrow> FeeSpeed
   \<Rightarrow> (string, 'w) action" where
  "SendERC20Transaction s chain tokenContract to amount ecdsaSigner speed =
     (case ethereumBuilders s chain of
        None \<Rightarrow> unsupported chain
      | Some builder \<Rightarrow>
          buildAndBroadcast builder ''failed to build/sign erc20 tx: '' ecdsaSigner
            (\<lambda>key. BuildAndSignERC20TransferTx builder tokenContract to amount key speed))"

section \<open>Solana transfers\<close>

text \<open>The signers that implement \<^verbatim>\<open>SolanaTxSigner\<close>.\<close>

datatype 'w SolanaTxSigner = DirectSigner SolanaSigner | MpcTxSigner "'w MPCSolanaSigner"

fun st_SignTransaction :: "txenv \<Rightarrow> 'w SolanaTxSigner \<Rightarrow> byte list \<Rightarrow> (byte list, 'w) action" where
  "st_SignTransaction E (DirectSigner s) m = (\<lambda>w. (so_SignTransaction (edLib E) s m, w))"
| "st_SignTransaction E (MpcTxSigner s) m = ms_SignTransaction s m"

fun st_Address :: "txenv \<Rightarrow> 'w SolanaTxSigner \<Rightarrow> string" where
  "st_Address E (DirectSigner s) = so_Address (b58Encode E) s"
| "st_Address E (MpcTxSigner s) = ms_Address (b58Encode E) s"

text \<open>The type assertion to an interface with \<^verbatim>\<open>IsMPCBroadcast\<close> holds of the MPC signer only.\<close>

fun broadcastsItself :: "'w SolanaTxSigner \<Rightarrow> bool" where
  "broadcastsItself (DirectSigner s) = False"
| "broadcastsItself (MpcTxSigner s) = IsMPCBroadcast s"

text \<open>Waiting for the confirmation; the timer is the last thing that can happen.\<close>

definition confirmTx :: "txenv \<Rightarrow> 'w RPCClient \<Rightarrow> string \<Rightarrow> (unit, 'w) action" where
  "confirmTx E builder txHash w =
     (case ConfirmTransaction (fmtDoc E) builder txHash (waitEvents E @ [TimedOut]) w of
        (Some r, w') \<Rightarrow> (r, w')
      | (None, w') \<Rightarrow> (Ret (Inl ''confirmation timeout''), w'))"

definition finishSend :: "txenv \<Rightarrow> 'w RPCClient \<Rightarrow> bool \<Rightarrow> string \<Rightarrow> (string \<times> err option, 'w) action" where
  "finishSend E builder confirm txHash =
     (if confirm
      then observe (confirmTx E builder txHash)
        (\<lambda>r. case r of
           Inl e \<Rightarrow> give (txHash, Some (''tx sent but confirmation failed: '' @ e))
         | Inr _ \<Rightarrow> give (txHash, None))
      else give (txHash, None))"

text \<open>
  Signing and sending of an unsigned transaction, common to native and token transfers. In a token
  transfer with a signer that does not broadcast itself, the first eight bytes of the signature are
  logged, which panics on a shorter one (\<open>logged\<close>).
\<close>

definition logSignature :: "bool \<Rightarrow> byte list \<Rightarrow> (byte list, 'w) action" where
  "logSignature logged signature = (if logged \<and> length signature < 8 then crash else give signature)"

definition signAndSend ::
  "txenv \<Rightarrow> 'w RPCClient \<Rightarrow> 'w SolanaTxSigner \<Rightarrow> bool \<Rightarrow> bool \<Rightarrow> byte list \<Rightarrow> (string \<times> err option, 'w) action" where
  "signAndSend E builder solanaSigner logged confirm unsignedTx =
     (if broadcastsItself solanaSigner
      then attempt (st_SignTransaction E solanaSigner unsignedTx)
        (\<lambda>e. ''MPC sign+broadcast failed: '' @ e)
        (\<lambda>txHashBytes. finishSend E builder confirm (string_of txHashBytes))
      else attempt (st_SignTransaction E solanaSigner unsignedTx) (\<lambda>e. ''failed to sign tx: '' @ e)
        (\<lambda>sig. attempt (logSignature logged sig) (\<lambda>e. e)
        (\<lambda>signature. attempt (pure (AddSignature unsignedTx signature))
           (\<lambda>e. ''failed to add signature: '' @ e)
           (\<lambda>signedTx. attempt (solb_SendTransaction (b58Encode E) builder signedTx)
              (\<lambda>e. ''failed to broadcast tx: '' @ e)
              (finishSend E builder confirm)))))"

definition SendSolanaTransaction ::
  "('w, 'k, 'p, 't) Service \<Rightarrow> txenv \<Rightarrow> string \<Rightarrow> string \<Rightarrow> string \<Rightarrow> u64 \<Rightarrow> 'w SolanaTxSigner \<Rightarrow> bool
   \<Rightarrow> (string \<times> err option, 'w) action" where
  "SendSolanaTransaction s E chain from to lamports solanaSigner confirm =
     (case solanaBuilders s chain of
        None \<Rightarrow> unsupported chain
      | Some builder \<Rightarrow>
          attempt (BuildTransferTx (b58Decode E) builder from to lamports)
            (\<lambda>e. ''failed to build tx: '' @ e)
            (signAndSend E builder solanaSigner False confirm))"

definition SendSPLTransaction ::
  "('w, 'k, 'p, 't) Service \<Rightarrow> txenv \<Rightarrow> string \<Rightarrow> string \<Rightarrow> string \<Rightarrow> u64 \<Rightarrow> 'w SolanaTxSigner \<Rightarrow> bool
   \<Rightarrow> (string \<times> err option, 'w) action" where
  "SendSPLTransaction s E chain mint to amount solanaSigner confirm =
     (case solanaBuilders s chain of
        None \<Rightarrow> unsupported chain
      | Some builder \<Rightarrow>
          observe (FindSPLTokenAccount builder (st_Address E solanaSigner) mint)
            (\<lambda>r. attempt (BuildSPLTransferTx (b58Decode E) builder (st_Address E solanaSigner) to mint amount
                   (case r of Inl _ \<Rightarrow> [] | Inr ata \<Rightarrow> ata))
               (\<lambda>e. ''failed to build spl tx: '' @ e)
               (signAndSend E builder solanaSigner True confirm)))"

section \<open>Balances\<close>

text \<open>\<^verbatim>\<open>(*big.Int).Uint64\<close> and \<^verbatim>\<open>big.NewInt(int64(n))\<close>.\<close>

definition big_Uint64 :: "int \<Rightarrow> u64" where
  "big_Uint64 i = word_of_nat (nat \<bar>i\<bar>)"

definition big_of_u64 :: "u64 \<Rightarrow> int" where
  "big_of_u64 n = wrap64 (int (unat n))"

definition ts_CheckBalanceSufficient ::
  "('w, 'k, 'p, 't) Service \<Rightarrow> string \<Rightarrow> string \<Rightarrow> int \<Rightarrow> u64 \<Rightarrow> (bool \<times> int, 'w) action" where
  "ts_CheckBalanceSufficient s chain address value gasLimit =
     (if IsSolanaChain s chain
      then (case solanaBuilders s chain of
              None \<Rightarrow> unsupported chain
            | Some builder \<Rightarrow>
                attempt (sol_CheckBalanceSufficient builder address (big_Uint64 value)) (\<lambda>e. e)
                  (\<lambda>(sufficient, required). give (sufficient, big_of_u64 required)))
      else (case ethereumBuilders s chain of
              None \<Rightarrow> unsupported chain
            | Some builder \<Rightarrow> CheckBalanceSufficient builder address value gasLimit))"

definition ts_GetBalance :: "('w, 'k, 'p, 't) Service \<Rightarrow> string \<Rightarrow> string \<Rightarrow> (int, 'w) action" where
  "ts_GetBalance s chain address =
     (if IsSolanaChain s chain
      then (case solanaBuilders s chain of
              None \<Rightarrow> unsupported chain
            | Some builder \<Rightarrow>
                attempt (solb_GetBalance builder address) (\<lambda>e. e) (\<lambda>lamports. give (big_of_u64 lamports)))
      else (case ethereumBuilders s chain of
              None \<Rightarrow> unsupported chain
            | Some builder \<Rightarrow> eth_GetBalance builder address))"

definition GetSolanaBalance :: "('w, 'k, 'p, 't) Service \<Rightarrow> string \<Rightarrow> string \<Rightarrow> (u64, 'w) action" where
  "GetSolanaBalance s chain address =
     (case solanaBuilders s chain of
        None \<Rightarrow> unsupported chain
      | Some builder \<Rightarrow> solb_GetBalance builder address)"

definition GetERC20Balance :: "('w, 'k, 'p, 't) Service \<Rightarrow> string \<Rightarrow> string \<Rightarrow> string \<Rightarrow> (int, 'w) action" where
  "GetERC20Balance s chain tokenContract address =
     (case ethereumBuilders s chain of
        None \<Rightarrow> unsupported chain
      | Some builder \<Rightarrow> GetTokenBalance builder tokenContract address)"

definition GetSPLBalance :: "('w, 'k, 'p, 't) Service \<Rightarrow> string \<Rightarrow> string \<Rightarrow> string \<Rightarrow> (u64, 'w) action" where
  "GetSPLBalance s chain owner mint =
     (case solanaBuilders s chain of
        None \<Rightarrow> unsupported chain
      | Some builder \<Rightarrow> sol_GetTokenBalance builder owner mint)"

text \<open>The result is whether the balances suffice, the token balance and the gas fee, which may be nil.\<close>

definition CheckTokenBalanceSufficient ::
  "('w, 'k, 'p, 't) Service \<Rightarrow> string \<Rightarrow> string \<Rightarrow> string \<Rightarrow> int \<Rightarrow> u64 \<Rightarrow> (bool \<times> int \<times> int option, 'w) action" where
  "CheckTokenBalanceSufficient s chain tokenContract address tokenAmount gasLimit =
     (if IsSolanaChain s chain
      then (case solanaBuilders s chain of
              None \<Rightarrow> unsupported chain
            | Some builder \<Rightarrow>
                attempt (CheckSPLBalanceSufficient builder address tokenContract (big_Uint64 tokenAmount))
                  (\<lambda>e. e) (\<lambda>(sufficient, balance). give (sufficient, big_of_u64 balance, None)))
      else (case ethereumBuilders s chain of
              None \<Rightarrow> unsupported chain
            | Some builder \<Rightarrow> CheckERC20BalanceSufficient builder tokenContract address tokenAmount gasLimit))"

section \<open>New wallets and addresses\<close>

definition ts_CreateWallet :: "('k, 'p, 't) geth \<Rightarrow> (('k, 'p) ECDSASigner \<times> string) res outcome" where
  "ts_CreateWallet g =
     (case NewECDSASigner g of
        Inl e \<Rightarrow> Ret (Inl (''failed to generate key: '' @ e))
      | Inr s \<Rightarrow>
          (case ec_EthereumAddress g s of Panic \<Rightarrow> Panic | Ret address \<Rightarrow> Ret (Inr (s, address))))"

definition CreateSolanaWallet :: "txenv \<Rightarrow> (SolanaSigner \<times> string) res" where
  "CreateSolanaWallet E =
     (case NewSolanaSigner (edLib E) of
        Inl e \<Rightarrow> Inl (''failed to generate key: '' @ e)
      | Inr s \<Rightarrow> Inr (s, so_Address (b58Encode E) s))"

definition DeriveAddressFromPrivateKey :: "('k, 'p, 't) geth \<Rightarrow> string \<Rightarrow> string res" where
  "DeriveAddressFromPrivateKey g privateKeyHex =
     (case HexToECDSA g privateKeyHex of
        Inl e \<Rightarrow> Inl (''invalid private key: '' @ e)
      | Inr key \<Rightarrow> Inr (AddressHex g (PubkeyToAddress g (PublicKey g key))))"

definition AddressFromPublicKey :: "('k, 'p, 't) geth \<Rightarrow> byte list \<Rightarrow> string res" where
  "AddressFromPublicKey g pubKey =
     (if length pubKey \<noteq> 65 then Inl ''expected 65 bytes uncompressed public key''
      else Inr (''0x'' @ hex_encode (drop 12 (Keccak256 g (drop 1 pubKey)))))"

section \<open>Facts\<close>

lemma confirmTx_returns: "\<exists>r w'. confirmTx E builder txHash w = (Ret r, w')"
proof -
  have "\<exists>r. fst (WaitForConfirmation (fmtDoc E) builder txHash (waitEvents E @ [TimedOut]) w) = Some (Ret r)"
    by (rule WaitForConfirmation_returns) simp
  then show ?thesis
    by (cases "WaitForConfirmation (fmtDoc E) builder txHash (waitEvents E @ [TimedOut]) w")
      (auto simp: confirmTx_def ConfirmTransaction_def)
qed


lemma finishSend_hash: "finishSend E builder confirm h w = (Ret (Inr (h', x)), w') \<Longrightarrow> h' = h"
  by (auto simp: finishSend_def observe_def split: if_splits prod.splits outcome.splits sum.splits)

text \<open>
  C30: When the service reports a native Solana transfer with a key signer, whether or not its
  confirmation succeeds, the node has been given one transaction: it carries one signature, the
  signature verifies under the signer's public key for the message, and the message is read as the
  transfer of exactly the amount asked for from sender to recipient.
\<close>

theorem solana_transfer_signed:
  assumes "SendSolanaTransaction s E chain from to lamports (DirectSigner k) confirm w = (Ret (Inr (h, x)), w')"
    and "ed25519_ok (edLib E)" and "NewSolanaSignerFromHex (edLib E) hexKey = Inr k"
    and "solanaBuilders s chain = Some c"
  shows "\<exists>bh m sig tx r w1 w2. AddSignature m sig = Inr tx \<and>
    VerifySolanaSignature (edLib E) (so_PublicKey k) m sig = Ret True \<and>
    read_transaction tx = Some ([sig], r) \<and>
    reads_transfer (b58Decode E) from to lamports bh (Some r) \<and>
    sol_SendTransaction (b58Encode E) c tx w1 = (Ret (Inr h), w2)"
proof -
  obtain m w1 where build: "BuildTransferTx (b58Decode E) c from to lamports w = (Ret (Inr m), w1)"
    and send: "signAndSend E c (DirectSigner k) False confirm m w1 = (Ret (Inr (h, x)), w')"
    using assms(1,4) by (auto simp: SendSolanaTransaction_def attempt_Inr)
  obtain sig where sig: "so_SignTransaction (edLib E) k m = Ret (Inr sig)" "length sig = 64"
    and ver: "VerifySolanaSignature (edLib E) (so_PublicKey k) m sig = Ret True"
    using so_signature_verifies assms(2,3) by blast
  obtain tx w2 where tx: "AddSignature m sig = Inr tx"
    and snd: "sol_SendTransaction (b58Encode E) c tx w1 = (Ret (Inr h), w2)"
    using send sig
    by (auto simp: signAndSend_def attempt_Inr logSignature_def solb_SendTransaction_def
        dest: finishSend_hash)
  obtain bh where "reads_transfer (b58Decode E) from to lamports bh (read_message m)"
    using build by (auto simp: BuildTransferTx_def attempt_Inr intro: transfer_message_read)
  moreover from this obtain q where "read_message m = Some q" by (auto simp: reads_transfer_def)
  moreover from this tx read_transaction_AddSignature [OF sig(2), of m]
  have "read_transaction tx = Some ([sig], q)" by auto
  ultimately show ?thesis using tx snd ver by metis
qed

text \<open>A signature scheme and a node for the witnesses.\<close>

definition demo_ed :: ed25519 where
  "demo_ed = \<lparr>edGenerate = Inr (replicate 32 1, replicate 64 1), edFromSeed = (\<lambda>s. s @ s),
     edPublic = take 32, edSign = (\<lambda>k m. k), edVerify = (\<lambda>p m s. take 32 s = p)\<rparr>"

lemma demo_ed_ok: "ed25519_ok demo_ed"
proof -
  have "\<exists>seed :: byte list. length seed = 32 \<and> replicate 64 1 = seed @ seed"
    by (rule exI [of _ "replicate 32 1"]) (simp flip: replicate_add)
  then show ?thesis by (simp add: ed25519_ok_def demo_ed_def)
qed

definition demo_env :: txenv where
  "demo_env = \<lparr>b58Decode = demo_b58, b58Encode = (\<lambda>_. ''addr''), edLib = demo_ed, fmtDoc = (\<lambda>_. ''err''),
     waitEvents = [Tick]\<rparr>"

definition demo_solana :: "unit RPCClient" where
  "demo_solana = demo_node\<lparr>rpcDo := (\<lambda>url req w.
     if rqMethod req = ''sendTransaction'' then (Document (ok_response (JStr ''hash'')), w)
     else rpcDo demo_node url req w)\<rparr>"

definition demo_service :: "(unit, unit, unit, EthTx) Service" where
  "demo_service = AddSolanaChain (AddChain NewService ''ethereum'' demo_builder) ''solana'' demo_solana"

lemma demo_service_solana: "solanaBuilders demo_service ''solana'' = Some demo_solana"
  by (simp add: demo_service_def AddSolanaChain_def)

lemma demo_solana_hash:
  "GetLatestBlockhash demo_solana w = (Ret (Inr \<lparr>bhHash = ''hash'', LastValidBlock = 0\<rparr>), w)"
proof -
  have "sol_call demo_solana ''getLatestBlockhash'' [] = sol_call demo_node ''getLatestBlockhash'' []"
    by (rule ext) (simp add: sol_call_def demo_solana_def rpc_request_def)
  then have "GetLatestBlockhash demo_solana = GetLatestBlockhash demo_node"
    unfolding GetLatestBlockhash_def by (simp only:)
  then show ?thesis using demo_blockhash by simp
qed

lemma demo_solana_send: "sol_SendTransaction b58enc demo_solana tx w = (Ret (Inr ''hash''), w)"
proof -
  have "sol_answers demo_solana ''sendTransaction'' [JString (b58enc tx)] w (JStr ''hash'') w"
    by (simp add: sol_answers_def demo_solana_def rpc_request_def)
  then have "sol_call demo_solana ''sendTransaction'' [JString (b58enc tx)] w = (Ret (Inr (Some (JStr ''hash''))), w)"
    by (rule sol_call_answer)
  then show ?thesis
    by (simp add: sol_SendTransaction_def Unmarshal_string unquote_plain)
qed

definition demo_key_hex :: string where
  "demo_key_hex = hex_encode (replicate 32 1)"

definition demo_signer :: SolanaSigner where
  "demo_signer = \<lparr>soPrivateKey = Some (replicate 64 1), soPublicKey = Some (replicate 32 1)\<rparr>"

lemma demo_signer_new: "NewSolanaSignerFromHex demo_ed demo_key_hex = Inr demo_signer"
  by (simp add: NewSolanaSignerFromHex_def demo_key_hex_def NewSolanaSignerFromSeed_def demo_ed_def
      demo_signer_def flip: replicate_add)

lemma demo_send:
  "SendSolanaTransaction demo_service demo_env ''solana'' ''a'' ''bb'' 1000 (DirectSigner demo_signer) False () =
     (Ret (Inr (''hash'', None)), ())"
proof -
  obtain m where m: "BuildTransferTxWithBlockhash demo_b58 ''a'' ''bb'' 1000 ''hash'' = Inr m"
    by (simp add: BuildTransferTxWithBlockhash_def createTransferMessage_def serializeMessage_def
        demo_b58_def writeCompactArray_def createTransferInstructionData_def SystemProgramID_def)
  then have build: "BuildTransferTx demo_b58 demo_solana ''a'' ''bb'' 1000 () = (Ret (Inr m), ())"
    by (simp add: BuildTransferTx_def demo_solana_hash BuildTransferTxWithBlockhash_def createTransferMessage_def)
  have sign: "so_SignTransaction demo_ed demo_signer m = Ret (Inr (replicate 64 1))"
    by (simp add: so_SignTransaction_def so_SignMessage_def demo_signer_def bytes_or_nil_def demo_ed_def)
  obtain tx where tx: "AddSignature m (replicate 64 1) = Inr tx"
    by (simp add: AddSignature_def writeCompactArray_def)
  show ?thesis
    by (simp add: SendSolanaTransaction_def demo_service_solana demo_env_def build signAndSend_def sign tx
        logSignature_def solb_SendTransaction_def demo_solana_send finishSend_def)
qed

theorem solana_transfer_signed_witness:
  "\<exists>bh m sig tx r. AddSignature m sig = Inr tx \<and>
     VerifySolanaSignature demo_ed (so_PublicKey demo_signer) m sig = Ret True \<and>
     read_transaction tx = Some ([sig], r) \<and> reads_transfer demo_b58 ''a'' ''bb'' 1000 bh (Some r)"
proof -
  have e: "edLib demo_env = demo_ed" "b58Decode demo_env = demo_b58" by (simp_all add: demo_env_def)
  show ?thesis
    using solana_transfer_signed [OF demo_send, unfolded e, OF demo_ed_ok demo_signer_new demo_service_solana]
    by blast
qed

end
