(* ===== verification/Base58.thy ===== *)
theory Base58
  imports Go_Prelude
begin

text \<open>
  \<^verbatim>\<open>base58Encode\<close> of the wallet service: the bytes as a big-endian number, its digits to the base 58
  from the lowest on, one more digit for every leading zero byte, and the reversal of the digits in
  place. The loop over the number ends because it shrinks; the reversal by swapping is shown to be
  the reversal of lists; and the encoding is shown to have an inverse.
\<close>

section \<open>Encoding\<close>

definition alphabet :: string where
  "alphabet = ''123456789ABCDEFGHJKLMNPQRSTUVWXYZabcdefghijkmnopqrstuvwxyz''"

definition leadingZeros :: "byte list \<Rightarrow> nat" where
  "leadingZeros data = length (takeWhile (\<lambda>b. b = 0) data)"

text \<open>\<^verbatim>\<open>(*big.Int).SetBytes\<close>.\<close>

definition be_value :: "byte list \<Rightarrow> nat" where
  "be_value data = foldl (\<lambda>v b. 256 * v + unat b) 0 data"

fun base58_digits :: "nat \<Rightarrow> string" where
  "base58_digits v = (if v = 0 then [] else alphabet ! (v mod 58) # base58_digits (v div 58))"

declare base58_digits.simps [simp del]

function swap_ends :: "nat \<Rightarrow> nat \<Rightarrow> 'a list \<Rightarrow> 'a list" where
  "swap_ends i j xs = (if i < j then swap_ends (i + 1) (j - 1) (xs[i := xs ! j, j := xs ! i]) else xs)"
  by pat_completeness auto

termination swap_ends
  by (relation "measure (\<lambda>(i, j, xs). j)") auto

declare swap_ends.simps [simp del]

lemma base58_digits_0 [simp]: "base58_digits 0 = []"
  by (simp add: base58_digits.simps)

definition base58Encode :: "byte list \<Rightarrow> string" where
  "base58Encode data =
     (if data = [] then []
      else let result = base58_digits (be_value data) @ replicate (leadingZeros data) (alphabet ! 0)
           in swap_ends 0 (length result - 1) result)"

section \<open>The swaps reverse\<close>

lemma swap_ends_middle:
  "length us = i \<Longrightarrow> j + 1 = i + length xs \<Longrightarrow> swap_ends i j (us @ xs @ vs) = us @ rev xs @ vs"
proof (induction "length xs" arbitrary: i j us xs vs rule: less_induct)
  case less
  show ?case
  proof (cases "i < j")
    case False
    with less.prems have "length xs \<le> 1" by linarith
    then have "xs = [] \<or> length xs = 1" by (cases xs) auto
    with False show ?thesis by (auto simp: swap_ends.simps length_Suc_conv)
  next
    case True
    with less.prems have "2 \<le> length xs" by linarith
    then obtain a zs where "xs = a # zs" "zs \<noteq> []" by (cases xs) fastforce+
    then obtain ys b where xs: "xs = a # ys @ [b]" by (cases zs rule: rev_cases) auto
    have j: "j = Suc (i + length ys)" using less.prems xs by simp
    have "(us @ xs @ vs)[i := (us @ xs @ vs) ! j, j := (us @ xs @ vs) ! i] = (us @ [b]) @ ys @ (a # vs)"
      using less.prems(1) by (simp add: xs j list_update_append nth_append)
    then have "swap_ends i j (us @ xs @ vs) = swap_ends (i + 1) (j - 1) ((us @ [b]) @ ys @ (a # vs))"
      using True by (simp add: swap_ends.simps [of i j])
    also have "\<dots> = (us @ [b]) @ rev ys @ (a # vs)"
      using less.prems by (intro less.hyps) (auto simp: xs j)
    finally show ?thesis by (simp add: xs)
  qed
qed

lemma swap_ends_rev: "xs \<noteq> [] \<Longrightarrow> swap_ends 0 (length xs - 1) xs = rev xs"
  using swap_ends_middle [of "[]" 0 "length xs - 1" xs "[]"] by (cases xs) auto

section \<open>Decoding\<close>

text \<open>The reference inverse: leading ones are zero bytes, the rest is a number to the base 58.\<close>

definition digit58 :: "char \<Rightarrow> nat" where
  "digit58 c = length (takeWhile (\<lambda>d. d \<noteq> c) alphabet)"

definition value58 :: "string \<Rightarrow> nat" where
  "value58 s = foldl (\<lambda>v c. 58 * v + digit58 c) 0 s"

fun le_bytes :: "nat \<Rightarrow> byte list" where
  "le_bytes v = (if v = 0 then [] else word_of_nat (v mod 256) # le_bytes (v div 256))"

declare le_bytes.simps [simp del]

definition base58Decode :: "string \<Rightarrow> byte list" where
  "base58Decode s =
     replicate (length (takeWhile (\<lambda>c. c = alphabet ! 0) s)) 0 @ rev (le_bytes (value58 s))"

lemma digit58_alphabet: "n < 58 \<Longrightarrow> digit58 (alphabet ! n) = n"
proof -
  have "list_all (\<lambda>n. digit58 (alphabet ! n) = n) [0..<58]" by code_simp
  then show "n < 58 \<Longrightarrow> ?thesis" by (simp add: list_all_iff)
qed

lemma value58_digits: "value58 (rev (base58_digits v)) = v"
proof (induction v rule: base58_digits.induct)
  case (1 v)
  then show ?case
    by (cases "v = 0") (simp_all add: base58_digits.simps [of v] value58_def digit58_alphabet)
qed

lemma value58_zeros: "value58 (replicate k (alphabet ! 0) @ s) = value58 s"
proof -
  have "foldl (\<lambda>v c. 58 * v + digit58 c) 0 (replicate k (alphabet ! 0)) = 0"
    by (induction k) (simp_all add: digit58_alphabet)
  then show ?thesis by (simp add: value58_def)
qed

lemma base58_digits_last: "v \<noteq> 0 \<Longrightarrow> base58_digits v \<noteq> [] \<and> last (base58_digits v) \<noteq> alphabet ! 0"
proof (induction v rule: base58_digits.induct)
  case (1 v)
  show ?case
  proof (cases "v div 58 = 0")
    case True
    with 1 have "v < 58" by simp
    then have "alphabet ! v \<noteq> alphabet ! 0" using 1(2) digit58_alphabet [of v] digit58_alphabet [of 0] by fastforce
    with True 1(2) \<open>v < 58\<close> show ?thesis by (simp add: base58_digits.simps [of v] base58_digits.simps [of 0])
  next
    case False
    with 1 show ?thesis by (simp add: base58_digits.simps [of v])
  qed
qed

lemma be_value_Cons0: "be_value (0 # bs) = be_value bs"
  by (simp add: be_value_def)

lemma be_value_dropZeros: "be_value (dropWhile (\<lambda>b. b = 0) bs) = be_value bs"
  by (induction bs) (auto simp: be_value_Cons0)

lemma le_bytes_snoc: "be_value bs \<noteq> 0 \<Longrightarrow> le_bytes (be_value (bs @ [b])) = b # le_bytes (be_value bs)"
  using unat_byte_less [of b] by (simp add: be_value_def le_bytes.simps [of "256 * _ + _"])

lemma be_value_pos: "bs \<noteq> [] \<Longrightarrow> hd bs \<noteq> 0 \<Longrightarrow> be_value bs \<noteq> 0"
proof (induction bs rule: rev_induct)
  case (snoc b bs)
  show ?case
  proof (cases bs)
    case Nil
    with snoc.prems show ?thesis by (simp add: be_value_def unat_eq_zero)
  next
    case (Cons c cs)
    with snoc show ?thesis by (simp add: be_value_def)
  qed
qed simp

lemma le_bytes_be_value: "bs = [] \<or> hd bs \<noteq> 0 \<Longrightarrow> rev (le_bytes (be_value bs)) = bs"
proof (induction bs rule: rev_induct)
  case Nil
  then show ?case by (simp add: be_value_def le_bytes.simps)
next
  case (snoc b bs)
  show ?case
  proof (cases "bs = []")
    case True
    with snoc.prems unat_byte_less [of b] show ?thesis
      by (simp add: be_value_def le_bytes.simps [of "unat b"] le_bytes.simps [of 0] unat_eq_zero)
  next
    case False
    with snoc.prems have "hd bs \<noteq> 0" by simp
    with False snoc.IH be_value_pos [of bs] show ?thesis by (simp add: le_bytes_snoc)
  qed
qed

lemma base58Encode_rev:
  "base58Encode data = replicate (leadingZeros data) (alphabet ! 0) @ rev (base58_digits (be_value data))"
proof (cases "data = []")
  case True
  then show ?thesis by (simp add: base58Encode_def leadingZeros_def be_value_def base58_digits.simps)
next
  case False
  let ?r = "base58_digits (be_value data) @ replicate (leadingZeros data) (alphabet ! 0)"
  have "?r \<noteq> []"
  proof (cases "hd data = 0")
    case True
    with False show ?thesis by (cases data) (auto simp: leadingZeros_def)
  next
    case nz: False
    with False be_value_pos base58_digits_last show ?thesis by simp
  qed
  from swap_ends_rev [OF this] False show ?thesis by (simp add: base58Encode_def Let_def)
qed

text \<open>
  C20: The base58 text of a byte string determines it: reading its digits back gives the bytes, leading
  zero bytes included, whatever their number.
\<close>

theorem base58Decode_Encode: "base58Decode (base58Encode data) = data"
proof -
  let ?z = "leadingZeros data" and ?rest = "dropWhile (\<lambda>b. b = 0) data"
  have data: "replicate ?z 0 @ ?rest = data"
    unfolding leadingZeros_def
    by (metis (mono_tags, lifting) replicate_eqI set_takeWhileD takeWhile_dropWhile_id)
  have rest: "?rest = [] \<or> hd ?rest \<noteq> 0" using hd_dropWhile [of "\<lambda>b. b = 0" data] by blast
  let ?d = "rev (base58_digits (be_value data))"
  have "takeWhile (\<lambda>c. c = alphabet ! 0) ?d = []"
  proof (cases "be_value data = 0")
    case False
    with base58_digits_last obtain ys c where "base58_digits (be_value data) = ys @ [c]" "c \<noteq> alphabet ! 0"
      by (metis append_butlast_last_id)
    then show ?thesis by simp
  qed simp
  then have "takeWhile (\<lambda>c. c = alphabet ! 0) (base58Encode data) = replicate ?z (alphabet ! 0)"
    unfolding base58Encode_rev by (simp add: takeWhile_append)
  moreover have "value58 (base58Encode data) = be_value ?rest"
    unfolding base58Encode_rev value58_zeros value58_digits by (simp add: be_value_dropZeros)
  ultimately show ?thesis using le_bytes_be_value [OF rest] data by (simp add: base58Decode_def)
qed

end
