(* ===== verification/Go_Float.thy ===== *)
theory Go_Float
  imports Complex_Main Go_Prelude
begin

text \<open>
  The floating-point arithmetic the program uses for amounts of money: \<^verbatim>\<open>big.Float\<close> with its default
  precision of 64 bits, and \<^verbatim>\<open>float64\<close>. A finite number is a rational; every operation rounds its
  exact result to the precision, to the nearest number and to even in the middle, as both types do.

  The main result is a bound on the conversion of a decimal amount into the smallest units of a
  currency: the conversion is never above the amount and at most one unit below it.
\<close>

section \<open>Rounding\<close>

definition round_half_even :: "rat \<Rightarrow> int" where
  "round_half_even x =
     (let f = \<lfloor>x\<rfloor>; d = x - of_int f
      in if d < 1 / 2 then f else if d > 1 / 2 then f + 1 else if even f then f else f + 1)"

fun bits :: "nat \<Rightarrow> nat" where
  "bits n = (if n = 0 then 0 else Suc (bits (n div 2)))"

declare bits.simps [simp del]

text \<open>The exponent of the highest bit of a positive number.\<close>

definition ilog2 :: "rat \<Rightarrow> int" where
  "ilog2 x =
     (case quotient_of x of
        (a, b) \<Rightarrow>
          let e = int (bits (nat a)) - int (bits (nat b))
          in if 2 powi e \<le> x then e else e - 1)"

definition round_bits :: "nat \<Rightarrow> rat \<Rightarrow> rat" where
  "round_bits n x =
     (if x = 0 then 0
      else let u = 2 powi (ilog2 \<bar>x\<bar> + 1 - int n)
           in of_int (round_half_even (x / u)) * u)"

lemma round_half_even_error: "\<bar>of_int (round_half_even x) - x\<bar> \<le> 1 / 2"
  using of_int_floor_le [of x] floor_less_cancel
  by (auto simp: round_half_even_def Let_def abs_if) (use floor_correct [of x] in linarith)+

lemma bits_bounds: "0 < n \<Longrightarrow> 2 ^ bits n \<le> 2 * n \<and> n < 2 ^ bits n"
proof (induction n rule: bits.induct)
  case (1 n)
  show ?case
  proof (cases "n div 2 = 0")
    case True
    with 1 have "n = 1" by auto
    then show ?thesis by (simp add: bits.simps)
  next
    case False
    with 1 have "2 ^ bits (n div 2) \<le> 2 * (n div 2)" "n div 2 < 2 ^ bits (n div 2)" by simp_all
    moreover have "bits n = Suc (bits (n div 2))" using False by (simp add: bits.simps [of n])
    ultimately show ?thesis by (auto intro: order_trans)
  qed
qed

lemma ilog2_bounds:
  assumes "0 < x"
  shows "2 powi ilog2 x \<le> x" "x < 2 powi (ilog2 x + 1)"
proof -
  obtain a b where q: "quotient_of x = (a, b)" by (cases "quotient_of x")
  have b: "0 < b" and x: "x = of_int a / of_int b"
    using quotient_of_denom_pos [OF q] quotient_of_div [OF q] by simp_all
  with assms have a: "0 < a" by (simp add: zero_less_divide_iff)
  define m n where "m = nat a" and "n = nat b"
  have mn: "0 < m" "0 < n" "x = of_nat m / of_nat n" using a b x by (simp_all add: m_def n_def)
  define e where "e = int (bits m) - int (bits n)"
  have p: "(2 :: rat) powi e = 2 ^ bits m / 2 ^ bits n"
    unfolding e_def by (simp add: power_int_diff)
  have bm: "(2 :: rat) ^ bits m \<le> 2 * of_nat m" "(of_nat m :: rat) < 2 ^ bits m"
    using bits_bounds [OF mn(1)] by (metis of_nat_le_iff of_nat_mult of_nat_numeral of_nat_power, metis of_nat_less_iff of_nat_numeral of_nat_power)
  have bn: "(2 :: rat) ^ bits n \<le> 2 * of_nat n" "(of_nat n :: rat) < 2 ^ bits n"
    using bits_bounds [OF mn(2)] by (metis of_nat_le_iff of_nat_mult of_nat_numeral of_nat_power, metis of_nat_less_iff of_nat_numeral of_nat_power)
  have up: "x < 2 powi (e + 1)"
  proof -
    have "of_nat m * 2 ^ bits n < (2 :: rat) ^ bits m * (2 * of_nat n)"
      using bm bn mn by (intro mult_less_le_imp_less) auto
    then have "of_nat m / of_nat n < (2 :: rat) ^ bits m / 2 ^ bits n * 2" using mn(2) by (simp add: field_simps)
    then show ?thesis unfolding mn(3) by (simp add: power_int_add_1 p)
  qed
  have low: "2 powi (e - 1) \<le> x"
  proof -
    have "(2 :: rat) ^ bits m * of_nat n \<le> 2 * of_nat m * 2 ^ bits n"
      using bm bn mn by (intro mult_mono) auto
    then have "(2 :: rat) ^ bits m / 2 ^ bits n / 2 \<le> of_nat m / of_nat n" using mn(2) by (simp add: field_simps)
    then show ?thesis unfolding mn(3) by (simp add: power_int_diff p)
  qed
  have "ilog2 x = (if 2 powi e \<le> x then e else e - 1)"
    by (simp add: ilog2_def q e_def m_def n_def Let_def)
  then show "2 powi ilog2 x \<le> x" "x < 2 powi (ilog2 x + 1)"
    using up low by auto
qed

lemma round_bits_error: "\<bar>round_bits n x - x\<bar> \<le> \<bar>x\<bar> / 2 ^ n"
proof (cases "x = 0")
  case True
  then show ?thesis by (simp add: round_bits_def)
next
  case False
  define u :: rat where "u = 2 powi (ilog2 \<bar>x\<bar> + 1 - int n)"
  have u: "0 < u" "u / 2 \<le> \<bar>x\<bar> / 2 ^ n"
  proof -
    show "0 < u" by (simp add: u_def)
    have "u = 2 powi ilog2 \<bar>x\<bar> * 2 / 2 ^ n" by (simp add: u_def power_int_diff power_int_add_1)
    with ilog2_bounds(1) [of "\<bar>x\<bar>"] False show "u / 2 \<le> \<bar>x\<bar> / 2 ^ n" by (simp add: divide_right_mono)
  qed
  have "round_bits n x - x = (of_int (round_half_even (x / u)) - x / u) * u"
    using False u(1) by (simp add: round_bits_def u_def Let_def left_diff_distrib)
  then have "\<bar>round_bits n x - x\<bar> \<le> u / 2"
    using round_half_even_error [of "x / u"] u(1) by (simp add: abs_mult mult_right_mono [of _ "1 / 2" u, simplified])
  with u(2) show ?thesis by linarith
qed

text \<open>Evaluation at a known magnitude.\<close>

lemma ilog2_unique:
  assumes "0 < x" and "2 powi e \<le> x" and "x < 2 powi (e + 1)"
  shows "ilog2 x = e"
proof (rule ccontr)
  assume "ilog2 x \<noteq> e"
  then consider "ilog2 x + 1 \<le> e" | "e + 1 \<le> ilog2 x" by linarith
  then show False
  proof cases
    case 1
    then have "(2 :: rat) powi (ilog2 x + 1) \<le> 2 powi e" by (simp add: power_int_increasing)
    with ilog2_bounds(2) [OF assms(1)] assms(2) show False by linarith
  next
    case 2
    then have "(2 :: rat) powi (e + 1) \<le> 2 powi ilog2 x" by (simp add: power_int_increasing)
    with ilog2_bounds(1) [OF assms(1)] assms(3) show False by linarith
  qed
qed

lemma round_bits_at:
  assumes "0 < x" and "2 powi e \<le> x" and "x < 2 powi (e + 1)"
  shows "round_bits n x = of_int (round_half_even (x / 2 powi (e + 1 - int n))) * 2 powi (e + 1 - int n)"
  using assms(1) ilog2_unique [OF assms] by (simp add: round_bits_def Let_def)

lemma round_half_even_near:
  assumes "\<bar>x - of_int k\<bar> < 1 / 2"
  shows "round_half_even x = k"
proof -
  have "\<bar>of_int (round_half_even x) - (of_int k :: rat)\<bar> < 1"
    using round_half_even_error [of x] assms by linarith
  then have "\<bar>round_half_even x - k\<bar> < 1" by linarith
  then show ?thesis by simp
qed

lemma round_half_even_nonneg: "0 \<le> x \<Longrightarrow> 0 \<le> round_half_even x"
  by (simp add: round_half_even_def Let_def)

lemma round_bits_nonneg: "0 \<le> x \<Longrightarrow> 0 \<le> round_bits n x"
  by (simp add: round_bits_def Let_def round_half_even_nonneg)

section \<open>Decimal text\<close>

text \<open>A fixed number of decimals, rounded to even in the middle, as \<^verbatim>\<open>%.6f\<close> and \<^verbatim>\<open>Text('f', 6)\<close> print.\<close>

definition pad_left :: "nat \<Rightarrow> string \<Rightarrow> string" where
  "pad_left n s = replicate (n - length s) CHR ''0'' @ s"

definition fixed :: "nat \<Rightarrow> rat \<Rightarrow> string" where
  "fixed d x =
     (let n = nat \<bar>round_half_even (x * 10 ^ d)\<bar>
      in (if x < 0 then ''-'' else []) @ show_nat (n div 10 ^ d) @
         (if d = 0 then [] else ''.'' @ pad_left d (show_nat (n mod 10 ^ d))))"

text \<open>
  The longest prefix of a text that is a decimal number: an optional sign, digits with at most one
  point among them, at least one digit, and an optional exponent. \<open>None\<close> when there is no number, or
  an exponent without digits. The texts that Go reads differently (base prefixes, underscores,
  binary exponents, infinities and not-a-number, and decimal exponents so large that \<^verbatim>\<open>big.Float\<close> rounds
  the power of five as well) are left to the argument of the readers below.
\<close>

record decimal =
  dNeg :: bool
  dDigits :: string
  dPoint :: nat \<comment> \<open>digits after the point\<close>
  dExp :: int

definition decimal_value :: "decimal \<Rightarrow> rat" where
  "decimal_value d =
     (if dNeg d then - 1 else 1) * of_nat (dec_val (dDigits d)) * 10 powi (dExp d - int (dPoint d))"

definition read_sign :: "string \<Rightarrow> bool \<times> string" where
  "read_sign s =
     (case s of c # t \<Rightarrow> if c = CHR ''-'' then (True, t) else if c = CHR ''+'' then (False, t) else (False, s)
      | [] \<Rightarrow> (False, []))"

definition read_exponent :: "string \<Rightarrow> int option" where
  "read_exponent s =
     (case s of
        c # t \<Rightarrow>
          if c = CHR ''e'' \<or> c = CHR ''E''
          then (case read_sign t of
                  (neg, u) \<Rightarrow>
                    let ds = takeWhile is_digit u
                    in if ds = [] then None
                       else Some (if neg then - int (dec_val ds) else int (dec_val ds)))
          else Some 0
      | [] \<Rightarrow> Some 0)"

definition read_decimal :: "string \<Rightarrow> decimal option" where
  "read_decimal s =
     (case read_sign s of
        (neg, t) \<Rightarrow>
          let whole = takeWhile is_digit t;
              r = dropWhile is_digit t;
              point = (r \<noteq> [] \<and> hd r = CHR ''.'');
              frac = (if point then takeWhile is_digit (tl r) else []);
              r' = (if point then dropWhile is_digit (tl r) else r)
          in if whole @ frac = [] then None
             else (case read_exponent r' of
                     None \<Rightarrow> None
                   | Some e \<Rightarrow> Some \<lparr>dNeg = neg, dDigits = whole @ frac, dPoint = length frac, dExp = e\<rparr>))"

section \<open>Amounts\<close>

text \<open>
  \<^verbatim>\<open>SetString\<close> with its result ignored: without a number the value is zero. \<open>odd\<close> says which texts Go
  reads as something other than a decimal number, and as what.
\<close>

definition big_SetString :: "(string \<Rightarrow> rat option) \<Rightarrow> string \<Rightarrow> rat" where
  "big_SetString odd_text s =
     (case odd_text s of
        Some v \<Rightarrow> v
      | None \<Rightarrow> (case read_decimal s of None \<Rightarrow> 0 | Some d \<Rightarrow> round_bits 64 (decimal_value d)))"

text \<open>The integer part, towards zero.\<close>

definition big_Int :: "rat \<Rightarrow> int" where
  "big_Int x = (if x < 0 then - \<lfloor>- x\<rfloor> else \<lfloor>x\<rfloor>)"

text \<open>A decimal amount in units of \<open>10\<close> to the power \<open>d\<close>, as the transfers of ether and tokens compute it.\<close>

definition to_units :: "(string \<Rightarrow> rat option) \<Rightarrow> nat \<Rightarrow> string \<Rightarrow> int" where
  "to_units odd_text d s = big_Int (round_bits 64 (big_SetString odd_text s * 10 ^ d))"

text \<open>A quotient of integers at the precision of the longer operand, at least 64 bits.\<close>

definition big_Quo :: "int \<Rightarrow> int \<Rightarrow> rat" where
  "big_Quo a b = round_bits (max 64 (max (bits (nat \<bar>a\<bar>)) (bits (nat \<bar>b\<bar>)))) (of_int a / of_int b)"

text \<open>
  \<^verbatim>\<open>float64\<close> within its range: \<^verbatim>\<open>float64(n)\<close>, products and quotients round to 53 bits; a number below the normal
  range is a multiple of the smallest positive one.
\<close>

definition f64_round :: "rat \<Rightarrow> rat" where
  "f64_round x =
     (if \<bar>x\<bar> < 2 powi (- 1022) then of_int (round_half_even (x * 2 ^ 1074)) / 2 ^ 1074 else round_bits 53 x)"

section \<open>Conversions of amounts\<close>

text \<open>Two roundings and a multiplication: the result is off by less than one unit.\<close>

lemma two_roundings:
  fixes k x y :: rat
  assumes "0 \<le> n" and "n \<le> 2 ^ p" and "0 < k"
    and "\<bar>x - of_int n / k\<bar> \<le> (of_int n / k) / 2 ^ (p + 2)"
    and "\<bar>y - x * k\<bar> \<le> \<bar>x * k\<bar> / 2 ^ (p + 2)"
  shows "\<lfloor>y\<rfloor> = n \<or> \<lfloor>y\<rfloor> = n - 1"
proof -
  let ?n = "of_int n :: rat" and ?e = "1 / 2 ^ (p + 2) :: rat"
  have e: "0 < ?e" "?e \<le> 1 / 4" "?n * ?e \<le> 1 / 4"
  proof -
    have "(1 :: rat) \<le> 2 ^ p" by simp
    then show "?e \<le> 1 / 4" by (simp add: field_simps)
    have "?n \<le> 2 ^ p" using assms(2) by (metis of_int_le_iff of_int_numeral of_int_power)
    then show "?n * ?e \<le> 1 / 4" by (simp add: field_simps)
  qed simp
  have "x * k - ?n = (x - ?n / k) * k" using assms(3) by (simp add: left_diff_distrib)
  then have "\<bar>x * k - ?n\<bar> = \<bar>x - ?n / k\<bar> * k" using assms(3) by (simp add: abs_mult)
  also have "\<dots> \<le> ?n / k / 2 ^ (p + 2) * k" using assms(3,4) by (intro mult_right_mono) auto
  finally have xk: "\<bar>x * k - ?n\<bar> \<le> ?n * ?e" using assms(3) by simp
  have "0 \<le> ?n" using assms(1) by simp
  with xk e(3) have "x * k \<le> ?n + 1 / 4" "- (x * k) \<le> ?n + 1 / 4" by linarith+
  then have "\<bar>x * k\<bar> \<le> ?n + 1 / 4" by linarith
  then have "\<bar>x * k\<bar> * ?e \<le> (?n + 1 / 4) * ?e" using e(1) by (intro mult_right_mono) auto
  also have "\<dots> = ?n * ?e + 1 / 4 * ?e" by (rule distrib_right)
  also have "\<dots> \<le> 1 / 4 + 1 / 16" using e(2,3) by linarith
  finally have "\<bar>y - x * k\<bar> \<le> 5 / 16" using assms(5) by simp
  with xk e(3) have "?n - 1 < y" "y < ?n + 1" by linarith+
  then show ?thesis by linarith
qed

lemma exact_or_one_less:
  assumes "0 \<le> n" and "n \<le> 2 ^ 62"
  shows "\<lfloor>round_bits 64 (round_bits 64 (of_int n / 10 ^ d) * 10 ^ d)\<rfloor> \<in> {n, n - 1}"
proof -
  have "\<bar>round_bits 64 (of_int n / 10 ^ d) - of_int n / 10 ^ d\<bar> \<le> (of_int n / 10 ^ d) / 2 ^ (62 + 2)"
    using round_bits_error [of 64 "of_int n / 10 ^ d"] assms(1) by simp
  from two_roundings [OF assms _ this, of "round_bits 64 (round_bits 64 (of_int n / 10 ^ d) * 10 ^ d)"]
    round_bits_error [of 64 "round_bits 64 (of_int n / 10 ^ d) * 10 ^ d"]
  show ?thesis by auto
qed

end
