(* ===== verification/Amounts.thy ===== *)
theory Amounts
  imports Go_Float
begin

text \<open>
  Amounts of money as texts: the conversions at the end of \<^verbatim>\<open>pkg/blockchain/solana/rpc.go\<close>, the scanning
  of \<^verbatim>\<open>fmt.Sscanf\<close> they rest on, and what the conversions of ether, token and SOL amounts guarantee.
  Texts are ASCII.
\<close>

section \<open>\<^verbatim>\<open>fmt.Sscanf\<close>\<close>

text \<open>Blanks are skipped before an operand; a line end is not a blank.\<close>

definition skip_blanks :: "string \<Rightarrow> string res" where
  "skip_blanks s =
     (let t = dropWhile (\<lambda>c. is_space c \<and> c \<noteq> CHR 0x0A) s
      in if t = [] then Inl ''unexpected EOF''
         else if hd t = CHR 0x0A then Inl ''unexpected newline'' else Inr t)"

text \<open>\<^verbatim>\<open>%d\<close> into a \<^verbatim>\<open>uint32\<close>: the digits at the front; what follows them is not looked at.\<close>

definition sscan_u32 :: "string \<Rightarrow> u32 res" where
  "sscan_u32 s =
     (case skip_blanks s of
        Inl e \<Rightarrow> Inl e
      | Inr t \<Rightarrow>
          let tok = takeWhile is_digit t
          in if tok = [] then Inl ''expected integer''
             else (case ParseUint64 tok of
                     Inl e \<Rightarrow> Inl e
                   | Inr v \<Rightarrow> if unat v < 2 ^ 32 then Inr (word_of_nat (unat v))
                              else Inl (''unsigned integer overflow on token '' @ tok)))"

text \<open>The characters \<^verbatim>\<open>%f\<close> takes from the input.\<close>

definition sign_token :: "string \<Rightarrow> string" where
  "sign_token s = (case s of c # _ \<Rightarrow> if c = CHR ''+'' \<or> c = CHR ''-'' then [c] else [] | [] \<Rightarrow> [])"

definition point_token :: "string \<Rightarrow> string" where
  "point_token s = (case s of c # t \<Rightarrow> if c = CHR ''.'' then c # takeWhile is_digit t else [] | [] \<Rightarrow> [])"

definition exp_token :: "string \<Rightarrow> string" where
  "exp_token s =
     (case s of
        c # t \<Rightarrow>
          if c = CHR ''e'' \<or> c = CHR ''E''
          then c # sign_token t @ takeWhile is_digit (drop (length (sign_token t)) t) else []
      | [] \<Rightarrow> [])"

definition float_token :: "string \<Rightarrow> string" where
  "float_token s =
     (let t = drop (length (sign_token s)) s;
          r = dropWhile is_digit t
      in sign_token s @ takeWhile is_digit t @ point_token r @ exp_token (drop (length (point_token r)) r))"

text \<open>\<^verbatim>\<open>strconv.ParseFloat(s, 64)\<close> of such a token.\<close>

definition ParseFloat :: "string \<Rightarrow> rat res" where
  "ParseFloat s =
     (case read_decimal s of
        None \<Rightarrow> Inl (num_error ''ParseFloat'' s ''invalid syntax'')
      | Some d \<Rightarrow>
          let v = f64_round (decimal_value d)
          in if \<bar>v\<bar> < 2 ^ 1024 then Inr v else Inl (num_error ''ParseFloat'' s ''value out of range''))"

definition sscan_float :: "string \<Rightarrow> rat res" where
  "sscan_float s = (case skip_blanks s of Inl e \<Rightarrow> Inl e | Inr t \<Rightarrow> ParseFloat (float_token t))"

section \<open>SOL and lamports\<close>

definition LamportsPerSOL :: int where
  "LamportsPerSOL = 1000000000"

text \<open>
  \<^verbatim>\<open>uint64\<close> of a \<^verbatim>\<open>float64\<close> cuts off the fraction; outside the range of \<^verbatim>\<open>uint64\<close> Go leaves the result to the
  implementation (\<open>big\<close>).
\<close>

definition u64_of_float :: "(rat \<Rightarrow> u64) \<Rightarrow> rat \<Rightarrow> u64" where
  "u64_of_float big x = (if - 1 < x \<and> x < 2 ^ 64 then word_of_int (big_Int x) else big x)"

definition SOLToLamports :: "(rat \<Rightarrow> u64) \<Rightarrow> rat \<Rightarrow> u64" where
  "SOLToLamports big sol = u64_of_float big (f64_round (sol * of_int LamportsPerSOL))"

definition LamportsToSOL :: "u64 \<Rightarrow> rat" where
  "LamportsToSOL lamports = f64_round (f64_round (of_nat (unat lamports)) / of_int LamportsPerSOL)"

text \<open>
  \<open>odd_sol\<close> says what becomes of the texts that \<^verbatim>\<open>%f\<close> reads as no decimal number: infinities, not-a-number,
  base prefixes, underscores and binary exponents.
\<close>

definition ParseSOL :: "(string \<Rightarrow> u64 res option) \<Rightarrow> (rat \<Rightarrow> u64) \<Rightarrow> string \<Rightarrow> u64 res" where
  "ParseSOL odd_sol big v =
     (case odd_sol v of
        Some r \<Rightarrow> r
      | None \<Rightarrow>
          (case sscan_float v of
             Inl e \<Rightarrow> Inl (''invalid SOL value: '' @ e)
           | Inr sol \<Rightarrow> Inr (SOLToLamports big sol)))"

section \<open>What the conversions guarantee\<close>

lemma round_half_even_int [simp]: "round_half_even (of_int k) = k"
  by (simp add: round_half_even_def)

lemma dec_val_append: "dec_val (s @ t) = dec_val s * 10 ^ length t + dec_val t"
proof (induction t rule: rev_induct)
  case Nil
  then show ?case by (simp add: dec_val_def)
next
  case (snoc c t)
  then show ?case by (simp add: dec_val_snoc flip: append_assoc)
qed

lemma length_show_nat_le: "m < 10 ^ d \<Longrightarrow> 0 < d \<Longrightarrow> length (show_nat m) \<le> d"
proof (induction d arbitrary: m)
  case 0
  then show ?case by simp
next
  case (Suc d)
  show ?case
  proof (cases "m < 10")
    case True
    then show ?thesis by (simp add: show_nat.simps [of m])
  next
    case False
    with Suc.prems have "0 < d" by (cases d) auto
    moreover have "m div 10 < 10 ^ d" using Suc.prems by (simp add: less_mult_imp_div_less mult.commute)
    ultimately show ?thesis using Suc.IH [of "m div 10"] False by (simp add: show_nat.simps [of m])
  qed
qed

lemma dec_val_zeros: "dec_val (replicate k CHR ''0'' @ s) = dec_val s"
  by (induction k) (simp_all add: dec_val_def digit_val_def)

text \<open>A number of units, written as a decimal amount with the decimals of the currency.\<close>

definition amount_text :: "nat \<Rightarrow> nat \<Rightarrow> string" where
  "amount_text d n = fixed d (of_nat n / 10 ^ d)"

lemma amount_text_eq:
  "amount_text d n =
     show_nat (n div 10 ^ d) @ (if d = 0 then [] else ''.'' @ pad_left d (show_nat (n mod 10 ^ d)))"
proof -
  have "\<not> rat_of_nat n / 10 ^ d < 0" by (simp add: not_less)
  then show ?thesis using round_half_even_int [of "int n"] by (simp add: amount_text_def fixed_def Let_def)
qed

lemma takeWhile_digits [simp]: "list_all is_digit s \<Longrightarrow> takeWhile is_digit s = s"
  by (induction s) auto

lemma dropWhile_digits [simp]: "list_all is_digit s \<Longrightarrow> dropWhile is_digit s = []"
  by (induction s) auto

lemma digits_show_nat [simp]: "list_all is_digit (show_nat n)"
  using show_nat_digits by (auto simp: list_all_iff)

lemma digits_pad_left [simp]: "list_all is_digit s \<Longrightarrow> list_all is_digit (pad_left d s)"
  by (auto simp: pad_left_def list_all_iff is_digit_def)

lemma digits_then:
  assumes "list_all is_digit s" and "t = [] \<or> \<not> is_digit (hd t)"
  shows "takeWhile is_digit (s @ t) = s" "dropWhile is_digit (s @ t) = t"
  using assms by (cases t; simp add: list_all_iff)+

lemma read_sign_digits: "list_all is_digit s \<Longrightarrow> s \<noteq> [] \<Longrightarrow> read_sign (s @ t) = (False, s @ t)"
  by (cases s) (auto simp: read_sign_def is_digit_def)

lemma read_decimal_digits:
  assumes "list_all is_digit s" and "s \<noteq> []" and "list_all is_digit t"
  shows "read_decimal s = Some \<lparr>dNeg = False, dDigits = s, dPoint = 0, dExp = 0\<rparr>"
    and "read_decimal (s @ ''.'' @ t) = Some \<lparr>dNeg = False, dDigits = s @ t, dPoint = length t, dExp = 0\<rparr>"
proof -
  note r = read_sign_digits [OF assms(1,2)]
  have np: "\<not> is_digit CHR ''.''" by (simp add: is_digit_def)
  show "read_decimal s = Some \<lparr>dNeg = False, dDigits = s, dPoint = 0, dExp = 0\<rparr>"
    using r [of "[]"] assms
    by (simp add: read_decimal_def Let_def read_exponent_def)
  show "read_decimal (s @ ''.'' @ t) = Some \<lparr>dNeg = False, dDigits = s @ t, dPoint = length t, dExp = 0\<rparr>"
    using r [of "''.'' @ t"] digits_then [OF assms(1), of "''.'' @ t"] assms np
    by (simp add: read_decimal_def Let_def read_exponent_def)
qed

lemma read_amount_text:
  obtains ds where "read_decimal (amount_text d n) = Some \<lparr>dNeg = False, dDigits = ds, dPoint = d, dExp = 0\<rparr>"
    and "dec_val ds = n"
proof (cases "d = 0")
  case True
  then show ?thesis
    using that [of "show_nat n"] read_decimal_digits(1) [of "show_nat n" "[]"] by (simp add: amount_text_eq)
next
  case False
  define f where "f = pad_left d (show_nat (n mod 10 ^ d))"
  have "length (show_nat (n mod 10 ^ d)) \<le> d" using length_show_nat_le False by simp
  then have f: "length f = d" "dec_val f = n mod 10 ^ d" "list_all is_digit f"
    by (simp_all add: f_def) (simp_all add: pad_left_def dec_val_zeros)
  have "dec_val (show_nat (n div 10 ^ d) @ f) = n" by (simp add: dec_val_append f div_mult_mod_eq)
  with read_decimal_digits(2) [of "show_nat (n div 10 ^ d)" f] f show ?thesis
    using that False by (simp add: amount_text_eq f_def)
qed

lemma decimal_value_amount:
  "dec_val ds = n \<Longrightarrow>
   decimal_value \<lparr>dNeg = False, dDigits = ds, dPoint = d, dExp = 0\<rparr> = of_nat n / 10 ^ d"
  by (simp add: decimal_value_def power_int_minus divide_inverse)

lemma big_Int_nonneg: "0 \<le> x \<Longrightarrow> big_Int x = \<lfloor>x\<rfloor>"
  by (simp add: big_Int_def)

lemma big_SetString_amount:
  assumes "odd_text (amount_text d n) = None"
  shows "big_SetString odd_text (amount_text d n) = round_bits 64 (of_nat n / 10 ^ d)"
proof -
  obtain ds where "read_decimal (amount_text d n) = Some \<lparr>dNeg = False, dDigits = ds, dPoint = d, dExp = 0\<rparr>"
    and "dec_val ds = n"
    by (rule read_amount_text)
  with assms show ?thesis by (simp add: big_SetString_def decimal_value_amount)
qed

text \<open>
  C19: The conversion of a decimal amount of ether or tokens into the smallest units is exact or one
  unit short, never more: an amount of \<open>n\<close> units with \<open>d\<close> decimals, \<open>n\<close> at most 2 to the 62, becomes \<open>n\<close> or
  \<open>n - 1\<close>.
\<close>

theorem units_exact_or_one_less:
  assumes "n \<le> 2 ^ 62" and "odd_text (amount_text d n) = None"
  shows "to_units odd_text d (amount_text d n) \<in> {int n, int n - 1}"
proof -
  have "0 \<le> round_bits 64 (round_bits 64 (of_nat n / 10 ^ d) * 10 ^ d)"
    by (simp add: round_bits_nonneg)
  moreover have "int n \<le> 2 ^ 62" using assms(1) by simp
  ultimately show ?thesis
    using exact_or_one_less [of "int n" d] big_SetString_amount [of odd_text d n] assms(2)
    by (simp add: to_units_def big_Int_nonneg)
qed

text \<open>One thousandth of an ether becomes one wei less than it is.\<close>

lemma milli_ether_rounds:
  "round_bits 64 (1 / 1000) = 9444732965739290427 / 9444732965739290427392"
  "round_bits 64 (36028797018963967998504638671875 / 36028797018963968) = 16383999999999999999 / 16384"
  by (subst round_bits_at [where e = "- 10"], simp_all add: power_int_minus,
      subst round_half_even_near [where k = 9444732965739290427], simp_all)
    (subst round_bits_at [where e = 49], simp_all add: power_int_minus,
      subst round_half_even_near [where k = 16383999999999999999], simp_all)

theorem units_exact_or_one_less_witness:
  "amount_text 18 1000000000000000 = ''0.001000000000000000'' \<and>
   to_units (\<lambda>_. None) 18 (amount_text 18 1000000000000000) = 1000000000000000 - 1"
proof -
  have n: "show_nat 1000000000000000 = ''1000000000000000''" "show_nat 0 = ''0''"
    by (simp_all add: show_nat.simps)
  have "18 - length ''1000000000000000'' = Suc (Suc 0)" by simp
  then have "pad_left 18 ''1000000000000000'' = ''001000000000000000''"
    unfolding pad_left_def by (simp only: replicate.simps append.simps)
  then have t: "amount_text 18 1000000000000000 = ''0.001000000000000000''"
    by (simp add: amount_text_eq n)
  have "to_units (\<lambda>_. None) 18 (amount_text 18 1000000000000000) = 999999999999999"
    by (simp add: to_units_def big_SetString_amount milli_ether_rounds big_Int_def floor_eq_iff)
  with units_exact_or_one_less [of 1000000000000000 "\<lambda>_. None" 18] t show ?thesis by simp
qed

section \<open>Amounts of SOL\<close>

lemma skip_blanks_digits: "list_all is_digit s \<Longrightarrow> s \<noteq> [] \<Longrightarrow> skip_blanks (s @ t) = Inr (s @ t)"
  by (cases s) (auto simp: skip_blanks_def is_digit_def is_space_def)

lemma sign_token_digits: "list_all is_digit s \<Longrightarrow> s \<noteq> [] \<Longrightarrow> sign_token (s @ t) = []"
  by (cases s) (auto simp: sign_token_def is_digit_def)

lemma float_token_digits:
  assumes "list_all is_digit s" and "s \<noteq> []" and "list_all is_digit t"
  shows "float_token (s @ ''.'' @ t) = s @ ''.'' @ t"
proof -
  have np: "\<not> is_digit CHR ''.''" by (simp add: is_digit_def)
  show ?thesis
    using sign_token_digits [OF assms(1,2), of "''.'' @ t"] digits_then [OF assms(1), of "''.'' @ t"] assms(3) np
    by (simp add: float_token_def Let_def point_token_def exp_token_def)
qed

lemma sscan_amount_text:
  "sscan_float (amount_text 9 n) =
     (let v = f64_round (of_nat n / 10 ^ 9)
      in if \<bar>v\<bar> < 2 ^ 1024 then Inr v
         else Inl (num_error ''ParseFloat'' (amount_text 9 n) ''value out of range''))"
proof -
  obtain ds where r: "read_decimal (amount_text 9 n) = Some \<lparr>dNeg = False, dDigits = ds, dPoint = 9, dExp = 0\<rparr>"
    and ds: "dec_val ds = n"
    by (rule read_amount_text)
  have "skip_blanks (amount_text 9 n) = Inr (amount_text 9 n)"
    and "float_token (amount_text 9 n) = amount_text 9 n"
    using skip_blanks_digits float_token_digits by (simp_all add: amount_text_eq)
  then show ?thesis by (simp add: sscan_float_def ParseFloat_def r decimal_value_amount [OF ds] Let_def)
qed

lemma f64_round_normal: "2 powi (- 1022) \<le> x \<Longrightarrow> f64_round x = round_bits 53 x"
  by (simp add: f64_round_def)

lemma small_normal: "(2 :: rat) powi (- 1022) \<le> 1 / 2 ^ 31"
proof -
  have "(2 :: rat) powi (- 1022) \<le> 2 powi (- 31)" by (rule power_int_increasing) simp_all
  also have "(2 :: rat) powi (- 31) = 1 / 2 ^ 31" by (simp add: power_int_minus)
  finally show ?thesis .
qed

lemma normal_bounds:
  fixes x v :: rat
  assumes "\<bar>v - x\<bar> \<le> x / 2 ^ 53" and "1 / 10 ^ 9 \<le> x" and "x \<le> 2 ^ 51"
  shows "1 / 2 ^ 31 \<le> v" "v < 2 ^ 52"
proof -
  have "- (v - x) \<le> x / 2 ^ 53" using assms(1) by (rule abs_le_D2)
  with assms(2) show "1 / 2 ^ 31 \<le> v" by (simp add: field_simps)
  have "v - x \<le> x / 2 ^ 53" using assms(1) by (rule abs_le_D1)
  with assms(3) show "v < 2 ^ 52" by (simp add: field_simps)
qed

lemma below_floor:
  fixes y :: rat
  assumes "of_int \<lfloor>y\<rfloor> \<le> (2 ^ 51 :: rat)"
  shows "y < 2 ^ 64"
proof -
  have "y < of_int \<lfloor>y\<rfloor> + 1" by linarith
  also have "\<dots> \<le> 2 ^ 51 + 1" using assms by (rule add_right_mono)
  also have "\<dots> < (2 ^ 64 :: rat)" by simp
  finally show ?thesis .
qed

text \<open>
  The same for SOL: up to 2 to the 51 lamports, parsing the amount and scaling it by \<^verbatim>\<open>float64\<close> arithmetic
  yields the number of lamports or one less.
\<close>

theorem lamports_exact_or_one_less:
  assumes "0 < n" and "n \<le> 2 ^ 51" and "odd_sol (amount_text 9 n) = None"
  shows "ParseSOL odd_sol big (amount_text 9 n) \<in> {Inr (word_of_nat n), Inr (word_of_nat (n - 1))}"
proof -
  let ?x = "of_nat n / 10 ^ 9 :: rat"
  let ?v = "round_bits 53 ?x" let ?y = "round_bits 53 (?v * 10 ^ 9)"
  have n: "1 \<le> (of_nat n :: rat)" "(of_nat n :: rat) \<le> 2 ^ 51"
    using assms(1,2) of_nat_mono [OF assms(2), where 'a = rat] by simp_all
  have v: "\<bar>?v - ?x\<bar> \<le> ?x / 2 ^ 53" using round_bits_error [of 53 ?x] by simp
  moreover have xl: "1 / 10 ^ 9 \<le> ?x" and "?x \<le> 2 ^ 51" using n by simp_all
  ultimately have vl: "1 / 2 ^ 31 \<le> ?v" and vh: "?v < 2 ^ 52" by (rule normal_bounds)+
  have "\<bar>?y - ?v * 10 ^ 9\<bar> \<le> \<bar>?v * 10 ^ 9\<bar> / 2 ^ 53" by (rule round_bits_error)
  then have fl: "\<lfloor>?y\<rfloor> = int n \<or> \<lfloor>?y\<rfloor> = int n - 1"
    using two_roundings [of "int n" 51 "10 ^ 9" ?v ?y] v assms(2) by simp
  have f1: "f64_round ?x = ?v" using xl small_normal by (intro f64_round_normal) simp
  have f2: "f64_round (?v * 10 ^ 9) = ?y" using vl small_normal by (intro f64_round_normal) simp
  have "sscan_float (amount_text 9 n) = Inr ?v"
    using vl vh unfolding sscan_amount_text f1 Let_def by simp
  moreover have "u64_of_float big ?y = word_of_int \<lfloor>?y\<rfloor>"
  proof -
    have "0 \<le> ?y" using vl by (intro round_bits_nonneg) simp
    moreover have "?y < 2 ^ 64"
    proof -
      have "\<lfloor>?y\<rfloor> \<le> int n" using fl by linarith
      then have "of_int \<lfloor>?y\<rfloor> \<le> (of_int (int n) :: rat)" by (rule of_int_le_iff [THEN iffD2])
      then have "of_int \<lfloor>?y\<rfloor> \<le> (2 ^ 51 :: rat)" using n(2) unfolding of_int_of_nat_eq by (rule order_trans)
      then show ?thesis by (rule below_floor)
    qed
    ultimately show ?thesis by (simp add: u64_of_float_def big_Int_nonneg)
  qed
  ultimately have "ParseSOL odd_sol big (amount_text 9 n) = Inr (word_of_int \<lfloor>?y\<rfloor>)"
    using f2 by (simp add: ParseSOL_def assms(3) SOLToLamports_def LamportsPerSOL_def)
  then show ?thesis using fl assms(1) by (auto simp: of_nat_diff)
qed

text \<open>An amount of 1.001 SOL becomes one lamport less than it is.\<close>

lemma sol_rounds:
  "round_bits 53 (1001 / 1000) = 2254051613498933 / 2251799813685248"
  "round_bits 53 (4402444557615103515625 / 4398046511104) = 8396996607999999 / 8388608"
  by (subst round_bits_at [where e = 0], simp_all add: power_int_minus,
      subst round_half_even_near [where k = 4508103226997866], simp_all)
    (subst round_bits_at [where e = 29], simp_all add: power_int_minus,
      subst round_half_even_near [where k = 8396996607999999], simp_all)

theorem lamports_exact_or_one_less_witness:
  "amount_text 9 1001000000 = ''1.001000000'' \<and>
   ParseSOL (\<lambda>_. None) (\<lambda>_. 0) (amount_text 9 1001000000) = Inr (word_of_nat (1001000000 - 1))"
proof -
  have n: "show_nat 1 = ''1''" "show_nat 1000000 = ''1000000''"
    by (simp_all add: show_nat.simps)
  have "9 - length ''1000000'' = Suc (Suc 0)" by simp
  then have "pad_left 9 ''1000000'' = ''001000000''"
    unfolding pad_left_def by (simp only: replicate.simps append.simps)
  then have t: "amount_text 9 1001000000 = ''1.001000000''"
    using n by (simp add: amount_text_eq)
  have f: "f64_round (1001 / 1000) = 2254051613498933 / 2251799813685248"
    "f64_round (4402444557615103515625 / 4398046511104) = 8396996607999999 / 8388608"
    using small_normal by (subst f64_round_normal; simp add: sol_rounds)+
  have fl: "\<lfloor>8396996607999999 / 8388608 :: rat\<rfloor> = 1000999999" by (simp add: floor_eq_iff)
  have "sscan_float (amount_text 9 1001000000) = Inr (2254051613498933 / 2251799813685248)"
    unfolding sscan_amount_text by (simp add: f)
  then have "ParseSOL (\<lambda>_. None) (\<lambda>_. 0) (amount_text 9 1001000000) = Inr 1000999999"
    by (simp add: ParseSOL_def SOLToLamports_def LamportsPerSOL_def f u64_of_float_def big_Int_def fl)
  with lamports_exact_or_one_less [of 1001000000 "\<lambda>_. None" "\<lambda>_. 0"] t show ?thesis by simp
qed

end
