(* ===== verification/Wallet_Service.thy ===== *)
theory Wallet_Service
  imports Intent_Lifecycle Wallet_Store Key_Store Zk Transaction_Service Base58 Amounts Mpc_Codec
begin

text \<open>
  \<^verbatim>\<open>cmd/wallet-service\<close>: the state of the HTTP server, its requests and responses, and the handlers for
  wallets, addresses, balances and fees. The handlers for intents are in \<open>Wallet_Intents\<close>.

  The record \<open>Server\<close> holds the fields of the Go struct together with what its pointers lead to: the
  stores, the files of the proof system and the state of the network. A handler takes a request and
  the server and yields the response and the server; a panic is caught by the middleware, which
  answers with status 500. A request body is the bytes that were sent; a response body is the value
  the handler encodes. Clock readings, random numbers and new identifiers are the arguments of one
  request (\<open>env\<close>), as is everything third-party.
\<close>

section \<open>State, requests and responses\<close>

record ('w, 'k, 'p, 't) Server =
  walletStore :: Store
  keyStore :: KeyStore
  intentStore :: IntentStore
  txService :: "('w, 'k, 'p, 't) Service"
  svPassword :: string
  intentExpiryHours :: int
  svMaxRetries :: int
  walletLocks :: "string set"
  policyEngine :: "ZkEngine option"
  mpcEnabled :: bool
  mpcSolanaSigner :: "'w MPCSolanaSigner option"
  zkWorld :: zk_world
  network :: 'w

record ('k, 'p, 't) env =
  evGeth :: "('k, 'p, 't) geth"
  evTx :: txenv
  evCrypto :: crypto
  evSalt :: "nat \<Rightarrow> byte list res" \<comment> \<open>the random salts of one request, in order\<close>
  evNonce :: "nat \<Rightarrow> byte list res"
  evClock :: "nat \<Rightarrow> gotime"
  evUuid :: string
  evTime :: "string \<Rightarrow> gotime option" \<comment> \<open>\<^verbatim>\<open>time.Parse(time.RFC3339, _)\<close>\<close>
  evOddText :: "string \<Rightarrow> rat option" \<comment> \<open>texts \<^verbatim>\<open>big.Float\<close> reads as no decimal number\<close>
  evOddSol :: "string \<Rightarrow> u64 res option" \<comment> \<open>the same for \<^verbatim>\<open>%f\<close> of \<^verbatim>\<open>fmt.Sscanf\<close>\<close>
  evLockInTime :: bool \<comment> \<open>the goroutine that takes the lock ran before the timer\<close>
  evBigFloat :: "rat \<Rightarrow> u64" \<comment> \<open>\<^verbatim>\<open>uint64\<close> of a \<^verbatim>\<open>float64\<close> outside its range\<close>

datatype body =
    ErrorBody string
  | WalletCreated string string "Account list"
  | WalletList "(Wallet \<times> Account list) list"
  | WalletInfo Wallet "Account list"
  | AddressBody string string
  | AddressCreated string Account
  | WalletDeleted string
  | AddressDeleted string string u32
  | BalanceBody string string string
  | SummaryBody string string string "(string \<times> string \<times> string) list" "IntentStatusCounts option" string string string
  | IntentBody "TransactionIntent option"
  | IntentListBody "TransactionIntent list" int int int
  | RejectedBody string string string
  | ExecutedBody string string
  | ReshareBody string string bool u32 u32
  | FeeBody string string string string string string string string
  | NoBody

record response =
  status :: nat
  content :: body

definition sendJSON :: "nat \<Rightarrow> body \<Rightarrow> response" where
  "sendJSON st b = \<lparr>status = st, content = b\<rparr>"

definition sendError :: "nat \<Rightarrow> string \<Rightarrow> response" where
  "sendError st message = \<lparr>status = st, content = ErrorBody message\<rparr>"

text \<open>What \<^verbatim>\<open>middleware.Recoverer\<close> answers for a handler that panics.\<close>

definition recovered :: response where
  "recovered = \<lparr>status = 500, content = NoBody\<rparr>"

text \<open>\<^verbatim>\<open>json.NewDecoder(r.Body).Decode\<close>: the first value of the body; what follows it is not looked at.\<close>

definition json_Decode :: "'a decoder \<Rightarrow> 'a \<Rightarrow> byte list \<Rightarrow> 'a res" where
  "json_Decode d z b =
     (let s = string_of b
      in then_scan (parse_value (2 * length s + 1) 0 s) (\<lambda>(j, _). Unmarshal d z (Some j)))"

text \<open>A call over the network.\<close>

definition net_call ::
  "('a, 'w) action \<Rightarrow> ('w, 'k, 'p, 't) Server \<Rightarrow> 'a res outcome \<times> ('w, 'k, 'p, 't) Server" where
  "net_call m s = (case m (network s) of (r, w) \<Rightarrow> (r, s\<lparr>network := w\<rparr>))"

section \<open>New keys\<close>

text \<open>An account with a fresh key, and the key.\<close>

definition ecdsaAccount ::
  "('k, 'p, 't) env \<Rightarrow> string \<Rightarrow> string \<Rightarrow> u32 \<Rightarrow> (Account \<times> string) res outcome" where
  "ecdsaAccount E walletID chain index =
     (let g = evGeth E
      in case NewECDSASigner g of
           Inl e \<Rightarrow> Ret (Inl e)
         | Inr sg \<Rightarrow>
             (case ec_EthereumAddress g sg of
                Panic \<Rightarrow> Panic
              | Ret address \<Rightarrow>
                  (case ec_CompressedPublicKey g sg of
                     Panic \<Rightarrow> Panic
                   | Ret pk \<Rightarrow>
                       Ret (Inr (\<lparr>acWalletID = walletID, acChain = chain, acAddress = address, acPubKey = pk,
                                   acSignerType = ''ecdsa'', acIndex = index\<rparr>, ec_PrivateKeyHex g sg)))))"

definition solanaAccount ::
  "('k, 'p, 't) env \<Rightarrow> string \<Rightarrow> string \<Rightarrow> u32 \<Rightarrow> (Account \<times> string) res outcome" where
  "solanaAccount E walletID chain index =
     (case NewSolanaSigner (edLib (evTx E)) of
        Inl e \<Rightarrow> Ret (Inl e)
      | Inr sg \<Rightarrow>
          (case so_PrivateKeyHex sg of
             Panic \<Rightarrow> Panic
           | Ret keyHex \<Rightarrow>
               Ret (Inr (\<lparr>acWalletID = walletID, acChain = chain, acAddress = so_Address (b58Encode (evTx E)) sg,
                           acPubKey = so_CompressedPublicKey sg, acSignerType = ''ed25519'', acIndex = index\<rparr>,
                         keyHex))))"

definition key_args :: "('w, 'k, 'p, 't) Server \<Rightarrow> Account \<Rightarrow> string \<Rightarrow> KeyArgs" where
  "key_args s a keyHex = \<lparr>kaWalletID = acWalletID a, kaChain = acChain a, kaIndex = acIndex a,
     kaAddress = acAddress a, kaKeyHex = keyHex, kaPassword = svPassword s\<rparr>"

text \<open>Saving a key; the handlers ignore its error. \<open>k\<close> numbers the calls of one request.\<close>

definition storeKey ::
  "('k, 'p, 't) env \<Rightarrow> nat \<Rightarrow> Account \<Rightarrow> string \<Rightarrow> ('w, 'k, 'p, 't) Server \<Rightarrow> ('w, 'k, 'p, 't) Server" where
  "storeKey E k a keyHex s =
     s\<lparr>keyStore := or_keep (keyStore s)
          (SaveKey (evCrypto E) (evSalt E k) (evNonce E k) (keyStore s) (key_args s a keyHex))\<rparr>"

section \<open>Creating wallets\<close>

record CreateWalletRequest =
  cwName :: string
  cwSignerType :: string

definition dec_CreateWalletRequest :: "CreateWalletRequest decoder" where
  "dec_CreateWalletRequest = dec_struct
     [(''name'', field (dec_string at_value) cwName (\<lambda>v r. r\<lparr>cwName := v\<rparr>)),
      (''signer_type'', field (dec_string at_value) cwSignerType (\<lambda>v r. r\<lparr>cwSignerType := v\<rparr>))]
     at_value ''wallet.CreateWalletRequest''"

text \<open>One account of a new wallet: the key is saved only when the account was.\<close>

definition appendAccount ::
  "('k, 'p, 't) env \<Rightarrow> nat \<Rightarrow> (Account \<times> string) res outcome \<Rightarrow> Account list \<Rightarrow> ('w, 'k, 'p, 't) Server
   \<Rightarrow> Account list outcome \<times> ('w, 'k, 'p, 't) Server" where
  "appendAccount E k new accounts s =
     (case new of
        Panic \<Rightarrow> (Panic, s)
      | Ret (Inl _) \<Rightarrow> (Ret accounts, s)
      | Ret (Inr (a, keyHex)) \<Rightarrow>
          (case SaveAccount (walletStore s) a of
             Inl _ \<Rightarrow> (Ret accounts, s)
           | Inr st \<Rightarrow> (Ret (accounts @ [a]), storeKey E k a keyHex (s\<lparr>walletStore := st\<rparr>))))"

definition createAccounts ::
  "('k, 'p, 't) env \<Rightarrow> string \<Rightarrow> string \<Rightarrow> ('w, 'k, 'p, 't) Server
   \<Rightarrow> (response + Account list) outcome \<times> ('w, 'k, 'p, 't) Server" where
  "createAccounts E signerType walletID s =
     (if signerType = ''mpc_solana'' then
        (case mpcSolanaSigner s of
           None \<Rightarrow> (Ret (Inl (sendError 400 ''MPC signing not configured. Set MPC_ENABLED=true and MPC_PEERS.'')), s)
         | Some sg \<Rightarrow>
             if \<not> mpcEnabled s
             then (Ret (Inl (sendError 400 ''MPC signing not configured. Set MPC_ENABLED=true and MPC_PEERS.'')), s)
             else if ms_PublicKey sg = []
             then (Ret (Inl (sendError 400
                    ''MPC signer has no public key. Run DKG first via mpc-cli to generate cluster keys.'')), s)
             else
               let a = \<lparr>acWalletID = walletID, acChain = ''solana'', acAddress = base58Encode (ms_PublicKey sg),
                         acPubKey = ms_PublicKey sg, acSignerType = ''mpc_solana'', acIndex = 0\<rparr>
               in case SaveAccount (walletStore s) a of
                    Inl _ \<Rightarrow> (Ret (Inr []), s)
                  | Inr st \<Rightarrow> (Ret (Inr [a]), s\<lparr>walletStore := st\<rparr>))
      else
        (case appendAccount E 0 (ecdsaAccount E walletID ''ethereum'' 0) [] s of
           (Panic, s1) \<Rightarrow> (Panic, s1)
         | (Ret accounts, s1) \<Rightarrow>
             (case appendAccount E 1 (solanaAccount E walletID ''solana'' 0) accounts s1 of
                (Panic, s2) \<Rightarrow> (Panic, s2)
              | (Ret accounts', s2) \<Rightarrow> (Ret (Inr accounts'), s2))))"

definition handleCreateWallet ::
  "('k, 'p, 't) env \<Rightarrow> byte list \<Rightarrow> ('w, 'k, 'p, 't) Server \<Rightarrow> response \<times> ('w, 'k, 'p, 't) Server" where
  "handleCreateWallet E reqBody s =
     (case json_Decode dec_CreateWalletRequest \<lparr>cwName = [], cwSignerType = []\<rparr> reqBody of
        Inl _ \<Rightarrow> (sendError 400 ''Invalid request body'', s)
      | Inr req \<Rightarrow>
          let name = (if cwName req = [] then ''Default Wallet'' else cwName req)
          in case CreateWallet (walletStore s) (evUuid E) (evClock E 0) name of
               (Inl e, st) \<Rightarrow> (sendError 500 (''Failed to create wallet: '' @ e), s\<lparr>walletStore := st\<rparr>)
             | (Inr wal, st) \<Rightarrow>
                 (case createAccounts E (cwSignerType req) (wID wal) (s\<lparr>walletStore := st\<rparr>) of
                    (Panic, s1) \<Rightarrow> (recovered, s1)
                  | (Ret (Inl r), s1) \<Rightarrow> (r, s1)
                  | (Ret (Inr accounts), s1) \<Rightarrow>
                      if accounts = [] then (sendError 500 ''Failed to create any accounts'', s1)
                      else (sendJSON 201 (WalletCreated (wID wal) (wName wal) accounts), s1)))"

section \<open>Reading wallets\<close>

definition accounts_or_none :: "Store \<Rightarrow> string \<Rightarrow> Account list" where
  "accounts_or_none st wid = (case GetAccountsForWallet st wid of Inl _ \<Rightarrow> [] | Inr as \<Rightarrow> as)"

definition handleListWallets :: "('w, 'k, 'p, 't) Server \<Rightarrow> response" where
  "handleListWallets s =
     (case ListWallets (walletStore s) of
        Inl e \<Rightarrow> sendError 500 (''Failed to list wallets: '' @ e)
      | Inr walletIDs \<Rightarrow>
          sendJSON 200 (WalletList (concat (map (\<lambda>i.
            case GetWallet (walletStore s) i of
              Inl _ \<Rightarrow> []
            | Inr w \<Rightarrow> [(w, accounts_or_none (walletStore s) i)]) walletIDs))))"

definition handleGetWallet :: "string \<Rightarrow> ('w, 'k, 'p, 't) Server \<Rightarrow> response" where
  "handleGetWallet walletID s =
     (case GetWallet (walletStore s) walletID of
        Inl e \<Rightarrow> sendError 404 (''Wallet not found: '' @ e)
      | Inr wal \<Rightarrow> sendJSON 200 (WalletInfo wal (accounts_or_none (walletStore s) walletID)))"

definition handleGetAddress :: "string \<Rightarrow> ('w, 'k, 'p, 't) Server \<Rightarrow> response" where
  "handleGetAddress walletID s =
     (case GetAccount (walletStore s) walletID ''ethereum'' of
        Inl e \<Rightarrow> sendError 404 (''Account not found: '' @ e)
      | Inr account \<Rightarrow> sendJSON 200 (AddressBody (acAddress account) ''ethereum''))"

section \<open>Addresses\<close>

record CreateAddressRequest =
  caChain :: string

definition dec_CreateAddressRequest :: "CreateAddressRequest decoder" where
  "dec_CreateAddressRequest = dec_struct
     [(''chain'', field (dec_string at_value) caChain (\<lambda>v r. r\<lparr>caChain := v\<rparr>))]
     at_value ''wallet.CreateAddressRequest''"

text \<open>The loop for the next index, in wrapping 32-bit arithmetic.\<close>

fun nextIndex :: "string \<Rightarrow> Account list \<Rightarrow> u32 \<Rightarrow> u32" where
  "nextIndex chain [] i = i"
| "nextIndex chain (a # as) i =
     nextIndex chain as (if acChain a = chain \<and> acIndex a \<ge> i then acIndex a + 1 else i)"

text \<open>The key is saved before the account, and stays when the account cannot be saved.\<close>

definition handleCreateAddress ::
  "('k, 'p, 't) env \<Rightarrow> string \<Rightarrow> byte list \<Rightarrow> ('w, 'k, 'p, 't) Server \<Rightarrow> response \<times> ('w, 'k, 'p, 't) Server" where
  "handleCreateAddress E walletID reqBody s =
     (case GetWallet (walletStore s) walletID of
        Inl e \<Rightarrow> (sendError 404 (''Wallet not found: '' @ e), s)
      | Inr _ \<Rightarrow>
          (case json_Decode dec_CreateAddressRequest \<lparr>caChain = []\<rparr> reqBody of
             Inl _ \<Rightarrow> (sendError 400 ''Invalid request body'', s)
           | Inr req \<Rightarrow>
               let chain = (if caChain req = [] then ''ethereum'' else caChain req);
                   i = nextIndex chain (accounts_or_none (walletStore s) walletID) 0
               in case (if chain = ''solana'' then solanaAccount E walletID chain i
                        else ecdsaAccount E walletID chain i) of
                    Panic \<Rightarrow> (recovered, s)
                  | Ret (Inl e) \<Rightarrow> (sendError 500 (''Failed to generate key: '' @ e), s)
                  | Ret (Inr (account, keyHex)) \<Rightarrow>
                      let s1 = storeKey E 0 account keyHex s
                      in case SaveAccount (walletStore s1) account of
                           Inl e \<Rightarrow> (sendError 500 (''Failed to save account: '' @ e), s1)
                         | Inr st \<Rightarrow> (sendJSON 201 (AddressCreated walletID account), s1\<lparr>walletStore := st\<rparr>)))"

definition handleDeleteWallet ::
  "string \<Rightarrow> ('w, 'k, 'p, 't) Server \<Rightarrow> response \<times> ('w, 'k, 'p, 't) Server" where
  "handleDeleteWallet walletID s =
     (case GetWallet (walletStore s) walletID of
        Inl e \<Rightarrow> (sendError 404 (''Wallet not found: '' @ e), s)
      | Inr _ \<Rightarrow>
          (case DeleteWallet (walletStore s) walletID of
             (Inl e, st) \<Rightarrow> (sendError 500 (''Failed to delete wallet: '' @ e), s\<lparr>walletStore := st\<rparr>)
           | (Inr _, st) \<Rightarrow> (sendJSON 200 (WalletDeleted walletID), s\<lparr>walletStore := st\<rparr>)))"

definition handleDeleteAddress ::
  "string \<Rightarrow> string \<Rightarrow> ('w, 'k, 'p, 't) Server \<Rightarrow> response \<times> ('w, 'k, 'p, 't) Server" where
  "handleDeleteAddress walletID indexStr s =
     (case sscan_u32 indexStr of
        Inl _ \<Rightarrow> (sendError 400 ''Invalid index parameter'', s)
      | Inr index \<Rightarrow>
          (case GetWallet (walletStore s) walletID of
             Inl e \<Rightarrow> (sendError 404 (''Wallet not found: '' @ e), s)
           | Inr _ \<Rightarrow>
               (case DeleteAccount (walletStore s) walletID ''ethereum'' index of
                  Inl e \<Rightarrow>
                    if e = ''account not found for '' @ walletID @ '' on ethereum at index '' @ show_nat (unat index)
                    then (sendError 404 e, s)
                    else (sendError 500 (''Failed to delete account: '' @ e), s)
                | Inr st \<Rightarrow>
                    (sendJSON 200 (AddressDeleted walletID ''ethereum'' index), s\<lparr>walletStore := st\<rparr>))))"

section \<open>Balances and fees\<close>

definition show_balance :: "string \<Rightarrow> int \<Rightarrow> string" where
  "show_balance chain balance =
     (if chain = ''solana'' then fixed 6 (LamportsToSOL (big_Uint64 balance))
      else fixed 6 (big_Quo balance (10 ^ 18)))"

definition handleGetBalance ::
  "string \<Rightarrow> string \<Rightarrow> ('w, 'k, 'p, 't) Server \<Rightarrow> response \<times> ('w, 'k, 'p, 't) Server" where
  "handleGetBalance walletID chain0 s =
     (let chain = (if chain0 = [] then ''ethereum'' else chain0)
      in case GetAccount (walletStore s) walletID chain of
           Inl e \<Rightarrow> (sendError 404 (''Account not found: '' @ e), s)
         | Inr account \<Rightarrow>
             (case net_call (ts_GetBalance (txService s) chain (acAddress account)) s of
                (Panic, s1) \<Rightarrow> (recovered, s1)
              | (Ret (Inl e), s1) \<Rightarrow> (sendError 500 (''Failed to get balance: '' @ e), s1)
              | (Ret (Inr balance), s1) \<Rightarrow>
                  (sendJSON 200 (BalanceBody (acAddress account) (show_balance chain balance) chain), s1)))"

text \<open>The balances of all addresses; the sum adds wei and lamports alike.\<close>

fun sum_balances ::
  "('w, 'k, 'p, 't) Service \<Rightarrow> Account list \<Rightarrow> int \<Rightarrow> (string \<times> string \<times> string) list \<Rightarrow>
   (int \<times> (string \<times> string \<times> string) list, 'w) action" where
  "sum_balances tx [] totalBalance balances = give (totalBalance, balances)"
| "sum_balances tx (a # as) totalBalance balances =
     observe (ts_GetBalance tx (acChain a) (acAddress a))
       (\<lambda>r. case r of
          Inl _ \<Rightarrow> sum_balances tx as totalBalance (balances @ [(acAddress a, ''error'', acChain a)])
        | Inr b \<Rightarrow> sum_balances tx as (totalBalance + b)
                    (balances @ [(acAddress a, show_balance (acChain a) b, acChain a)]))"

definition nativeFee :: "('w, 'k, 'p, 't) Service \<Rightarrow> (string, 'w) action" where
  "nativeFee tx =
     (case GetBuilder tx ''ethereum'' of
        None \<Rightarrow> give ''21000 gas''
      | Some builder \<Rightarrow>
          observe (eth_GetFeeInfo builder)
            (\<lambda>r. case r of
               Inl _ \<Rightarrow> give ''21000 gas''
             | Inr feeInfo \<Rightarrow>
                 give (''21000 gas ('' @
                   fixed 2 (f64_round (f64_round (of_int (wrap64 (Standard feeInfo))) / 10 ^ 9)) @ '' gwei)'')))"

definition splFee :: "('w, 'k, 'p, 't) Service \<Rightarrow> (string, 'w) action" where
  "splFee tx =
     (case GetSolanaBuilder tx ''solana'' of
        None \<Rightarrow> give ''10000 lamports''
      | Some builder \<Rightarrow>
          observe (GetFeeEstimate builder)
            (\<lambda>r. case r of
               Inl _ \<Rightarrow> give ''10000 lamports''
             | Inr fee \<Rightarrow> give (show_nat (unat fee) @ '' lamports'')))"

definition handleWalletSummary ::
  "string \<Rightarrow> ('w, 'k, 'p, 't) Server \<Rightarrow> response \<times> ('w, 'k, 'p, 't) Server" where
  "handleWalletSummary walletID s =
     (case GetWallet (walletStore s) walletID of
        Inl e \<Rightarrow> (sendError 404 (''Wallet not found: '' @ e), s)
      | Inr wal \<Rightarrow>
          let tx = txService s;
              counts = (case GetIntentStatusCounts (intentStore s) walletID of Inl _ \<Rightarrow> None | Inr c \<Rightarrow> Some c)
          in case net_call
                    (attempt (sum_balances tx (accounts_or_none (walletStore s) walletID) 0 []) (\<lambda>e. e)
                      (\<lambda>(totalBalance, balances). attempt (nativeFee tx) (\<lambda>e. e)
                      (\<lambda>native. attempt (splFee tx) (\<lambda>e. e)
                      (\<lambda>spl. give (SummaryBody (wID wal) (wName wal) (fixed 6 (big_Quo totalBalance (10 ^ 18)))
                                balances counts native ''65000 gas'' spl))))) s of
               (Ret (Inr b), s1) \<Rightarrow> (sendJSON 200 b, s1)
             | (_, s1) \<Rightarrow> (recovered, s1))"

definition toGwei :: "int option \<Rightarrow> string" where
  "toGwei wei = (case wei of None \<Rightarrow> ''0'' | Some v \<Rightarrow> fixed 2 (big_Quo v (10 ^ 9)))"

text \<open>The query parameter \<^verbatim>\<open>speed\<close> has no influence.\<close>

definition handleFeeEstimate ::
  "string \<Rightarrow> ('w, 'k, 'p, 't) Server \<Rightarrow> response \<times> ('w, 'k, 'p, 't) Server" where
  "handleFeeEstimate chain0 s =
     (let chain = (if chain0 = [] then ''ethereum'' else chain0)
      in case GetBuilder (txService s) chain of
           None \<Rightarrow> (sendError 404 ''Chain not supported'', s)
         | Some builder \<Rightarrow>
             (case net_call (eth_GetFeeInfo builder) s of
                (Panic, s1) \<Rightarrow> (recovered, s1)
              | (Ret (Inl e), s1) \<Rightarrow> (sendError 500 (''Failed to get fee estimate: '' @ e), s1)
              | (Ret (Inr fi), s1) \<Rightarrow>
                  (sendJSON 200 (FeeBody chain (toGwei (Some (BaseFee fi))) (toGwei (MaxPriorityFee fi))
                     (toGwei (Some (MaxFee fi))) (toGwei (Some (LegacyGasPrice fi)))
                     (toGwei (Some (Slow fi))) (toGwei (Some (Standard fi))) (toGwei (Some (Fast fi)))), s1)))"

end
