(* ===== verification/Wallet_Intents.thy ===== *)
theory Wallet_Intents
  imports Wallet_Service
begin

text \<open>
  \<^verbatim>\<open>cmd/wallet-service\<close>: the handlers for intents. An execution has two parts: a check of the intent
  (\<open>checkExecute\<close>), and the work on the intent that the check has read (\<open>runExecute\<close>); other requests may
  be served between the two.
\<close>

section \<open>Creating intents\<close>

record IntentRequest =
  rqWalletID :: string
  rqChain :: string
  rqTo :: string
  rqValue :: string
  rqGasLimit :: u64
  rqRequiredSigs :: int
  rqCreator :: string
  rqFeeSpeed :: string
  rqTokenAddress :: string
  rqTokenDecimals :: byte
  rqTokenSymbol :: string
  rqTokenType :: string

definition zero_request :: IntentRequest where
  "zero_request = \<lparr>rqWalletID = [], rqChain = [], rqTo = [], rqValue = [], rqGasLimit = 0, rqRequiredSigs = 0,
     rqCreator = [], rqFeeSpeed = [], rqTokenAddress = [], rqTokenDecimals = 0, rqTokenSymbol = [], rqTokenType = []\<rparr>"

definition dec_IntentRequest :: "IntentRequest decoder" where
  "dec_IntentRequest = dec_struct
     [(''wallet_id'', field (dec_string at_value) rqWalletID (\<lambda>v r. r\<lparr>rqWalletID := v\<rparr>)),
      (''chain'', field (dec_string at_value) rqChain (\<lambda>v r. r\<lparr>rqChain := v\<rparr>)),
      (''to'', field (dec_string at_value) rqTo (\<lambda>v r. r\<lparr>rqTo := v\<rparr>)),
      (''value'', field (dec_string at_value) rqValue (\<lambda>v r. r\<lparr>rqValue := v\<rparr>)),
      (''gas_limit'', field (dec_uint64 at_value) rqGasLimit (\<lambda>v r. r\<lparr>rqGasLimit := v\<rparr>)),
      (''required_sigs'', field (dec_int at_value) rqRequiredSigs (\<lambda>v r. r\<lparr>rqRequiredSigs := v\<rparr>)),
      (''creator'', field (dec_string at_value) rqCreator (\<lambda>v r. r\<lparr>rqCreator := v\<rparr>)),
      (''fee_speed'', field (dec_string at_value) rqFeeSpeed (\<lambda>v r. r\<lparr>rqFeeSpeed := v\<rparr>)),
      (''token_address'', field (dec_string at_value) rqTokenAddress (\<lambda>v r. r\<lparr>rqTokenAddress := v\<rparr>)),
      (''token_decimals'', field (dec_uint8 at_value) rqTokenDecimals (\<lambda>v r. r\<lparr>rqTokenDecimals := v\<rparr>)),
      (''token_symbol'', field (dec_string at_value) rqTokenSymbol (\<lambda>v r. r\<lparr>rqTokenSymbol := v\<rparr>)),
      (''token_type'', field (dec_string at_value) rqTokenType (\<lambda>v r. r\<lparr>rqTokenType := v\<rparr>))]
     at_value ''struct''"

definition inferTokenType :: "IntentRequest \<Rightarrow> string" where
  "inferTokenType r =
     (if rqTokenType r \<noteq> [] then rqTokenType r
      else if rqTokenAddress r \<noteq> [] then (if rqChain r = ''solana'' then ''spl'' else ''erc20'')
      else ''native'')"

definition defaultGas :: "string \<Rightarrow> u64" where
  "defaultGas tokenType =
     (if tokenType = ''erc20'' then 65000 else if tokenType = ''spl'' then 10000 else 21000)"

definition with_defaults :: "IntentRequest \<Rightarrow> IntentRequest" where
  "with_defaults r0 =
     (let r1 = (if rqChain r0 = [] then r0\<lparr>rqChain := ''ethereum''\<rparr> else r0);
          r2 = r1\<lparr>rqTokenType := inferTokenType r1\<rparr>;
          r3 = (if rqGasLimit r2 = 0 then r2\<lparr>rqGasLimit := defaultGas (rqTokenType r2)\<rparr> else r2);
          r4 = (if rqRequiredSigs r3 \<le> 0 then r3\<lparr>rqRequiredSigs := 1\<rparr> else r3)
      in if rqCreator r4 = [] then r4\<lparr>rqCreator := ''creator''\<rparr> else r4)"

definition valueDisplay :: "IntentRequest \<Rightarrow> string" where
  "valueDisplay r =
     (if rqTokenSymbol r \<noteq> [] then rqValue r @ '' '' @ rqTokenSymbol r
      else if rqChain r = ''solana'' then rqValue r @ '' SOL''
      else if rqChain r = ''ethereum'' \<and> rqTokenType r = ''native'' then rqValue r @ '' ETH''
      else rqValue r)"

definition create_args :: "('w, 'k, 'p, 't) Server \<Rightarrow> IntentRequest \<Rightarrow> Account \<Rightarrow> CreateIntentArgs" where
  "create_args s r account = \<lparr>aWalletID = rqWalletID r, aChain = rqChain r, aFrom = acAddress account,
     aTo = rqTo r, aValue = rqValue r, aValueDisplay = valueDisplay r, aGasLimit = rqGasLimit r,
     aRequiredSigs = rqRequiredSigs r, aExpiryHours = intentExpiryHours s, aMaxRetries = svMaxRetries s,
     aFeeSpeed = rqFeeSpeed r\<rparr>"

text \<open>The token fields are set on the intent and saved; an error of saving them is ignored.\<close>

definition addToken ::
  "gotime \<Rightarrow> IntentRequest \<Rightarrow> TransactionIntent \<Rightarrow> IntentStore \<Rightarrow> TransactionIntent \<times> IntentStore" where
  "addToken now r i st =
     (if rqTokenAddress r \<noteq> [] \<or> rqTokenType r \<noteq> ''native''
      then let i' = i\<lparr>iTokenAddress := rqTokenAddress r, iTokenDecimals := rqTokenDecimals r,
                      iTokenSymbol := rqTokenSymbol r, iTokenType := rqTokenType r\<rparr>
           in (i'\<lparr>iUpdatedAt := now\<rparr>, or_keep st (UpdateIntent st now i'))
      else (i, st))"

text \<open>With one required signature the creator approves at once; a reload that fails is a nil dereference.\<close>

definition autoApprove ::
  "gotime \<Rightarrow> IntentRequest \<Rightarrow> TransactionIntent \<Rightarrow> IntentStore \<Rightarrow> TransactionIntent outcome \<times> IntentStore" where
  "autoApprove now r i st =
     (if rqRequiredSigs r = 1
      then (case ApproveIntent st now (iID i) (rqCreator r) of
              Inl _ \<Rightarrow> (Ret i, st)
            | Inr st' \<Rightarrow>
                (case GetIntent st' (iID i) of Inl _ \<Rightarrow> (Panic, st') | Inr i' \<Rightarrow> (Ret i', st')))
      else (Ret i, st))"

definition handleCreateIntent ::
  "('k, 'p, 't) env \<Rightarrow> byte list \<Rightarrow> ('w, 'k, 'p, 't) Server \<Rightarrow> response \<times> ('w, 'k, 'p, 't) Server" where
  "handleCreateIntent E reqBody s =
     (case json_Decode dec_IntentRequest zero_request reqBody of
        Inl _ \<Rightarrow> (sendError 400 ''Invalid request body'', s)
      | Inr req0 \<Rightarrow>
          let req = with_defaults req0
          in case GetAccount (walletStore s) (rqWalletID req) (rqChain req) of
               Inl _ \<Rightarrow> (sendError 404 ''Account not found'', s)
             | Inr account \<Rightarrow>
                 (case CreateIntent (intentStore s) (evUuid E) (evClock E 0) (evClock E 1) (evClock E 2)
                         (create_args s req account) of
                    Inl e \<Rightarrow> (sendError 500 (''Failed to create intent: '' @ e), s)
                  | Inr (i0, st0) \<Rightarrow>
                      (case addToken (evClock E 3) req i0 st0 of
                         (i1, st1) \<Rightarrow>
                           (case autoApprove (evClock E 4) req i1 st1 of
                              (Panic, st2) \<Rightarrow> (recovered, s\<lparr>intentStore := st2\<rparr>)
                            | (Ret i2, st2) \<Rightarrow> (sendJSON 201 (IntentBody (Some i2)), s\<lparr>intentStore := st2\<rparr>)))))"

section \<open>Listing, approving, rejecting and retrying\<close>

text \<open>\<^verbatim>\<open>strconv.Atoi\<close>, without the error text.\<close>

definition Atoi :: "string \<Rightarrow> int option" where
  "Atoi s =
     (case read_sign s of
        (neg, d) \<Rightarrow>
          let v = (if neg then - int (dec_val d) else int (dec_val d))
          in if d \<noteq> [] \<and> list_all is_digit d \<and> int64_range v then Some v else None)"

text \<open>A query parameter that is missing is the empty string.\<close>

definition queryFilters :: "('k, 'p, 't) env \<Rightarrow> (string \<Rightarrow> string) \<Rightarrow> IntentFilters" where
  "queryFilters E q =
     \<lparr>fWalletID = q ''wallet_id'', fStatus = IntentStatusOther (q ''status''),
      fFromTime = (if q ''from'' = [] then 0 else case evTime E (q ''from'') of None \<Rightarrow> 0 | Some t \<Rightarrow> t),
      fToTime = (if q ''to'' = [] then 0 else case evTime E (q ''to'') of None \<Rightarrow> 0 | Some t \<Rightarrow> t),
      fChain = q ''chain'',
      fLimit = (case Atoi (q ''limit'') of None \<Rightarrow> 0 | Some l \<Rightarrow> if l > 0 then l else 0),
      fOffset = (case Atoi (q ''offset'') of None \<Rightarrow> 0 | Some n \<Rightarrow> if n \<ge> 0 then n else 0),
      fSortBy = q ''sort'', fSortOrder = q ''order''\<rparr>"

definition handleListIntents ::
  "('k, 'p, 't) env \<Rightarrow> (string \<Rightarrow> string) \<Rightarrow> ('w, 'k, 'p, 't) Server \<Rightarrow> response" where
  "handleListIntents E q s =
     (let filters = queryFilters E q
      in case ListIntentsFiltered (intentStore s) filters of
           Panic \<Rightarrow> recovered
         | Ret (Inl e) \<Rightarrow> sendError 500 (''Failed to list intents: '' @ e)
         | Ret (Inr (intents, n)) \<Rightarrow>
             sendJSON 200 (IntentListBody intents n (fLimit filters) (fOffset filters)))"

definition handleGetIntent :: "string \<Rightarrow> ('w, 'k, 'p, 't) Server \<Rightarrow> response" where
  "handleGetIntent intentID s =
     (case GetIntent (intentStore s) intentID of
        Inl e \<Rightarrow> sendError 404 (''Intent not found: '' @ e)
      | Inr intent \<Rightarrow> sendJSON 200 (IntentBody (Some intent)))"

record ApproveRequest =
  apApprover :: string

definition dec_ApproveRequest :: "ApproveRequest decoder" where
  "dec_ApproveRequest = dec_struct
     [(''approver'', field (dec_string at_value) apApprover (\<lambda>v r. r\<lparr>apApprover := v\<rparr>))] at_value ''struct''"

definition handleApproveIntent ::
  "('k, 'p, 't) env \<Rightarrow> string \<Rightarrow> byte list \<Rightarrow> ('w, 'k, 'p, 't) Server \<Rightarrow> response \<times> ('w, 'k, 'p, 't) Server" where
  "handleApproveIntent E intentID reqBody s =
     (case json_Decode dec_ApproveRequest \<lparr>apApprover = []\<rparr> reqBody of
        Inl _ \<Rightarrow> (sendError 400 ''Invalid request body'', s)
      | Inr req \<Rightarrow>
          let approver = (if apApprover req = [] then ''unknown'' else apApprover req)
          in case ApproveIntent (intentStore s) (evClock E 0) intentID approver of
               Inl e \<Rightarrow> (sendError 400 (''Failed to approve intent: '' @ e), s)
             | Inr st \<Rightarrow>
                 (sendJSON 200 (IntentBody (case GetIntent st intentID of Inl _ \<Rightarrow> None | Inr i \<Rightarrow> Some i)),
                  s\<lparr>intentStore := st\<rparr>))"

record RejectRequest =
  rjRejecter :: string
  rjReason :: string

definition dec_RejectRequest :: "RejectRequest decoder" where
  "dec_RejectRequest = dec_struct
     [(''rejecter'', field (dec_string at_value) rjRejecter (\<lambda>v r. r\<lparr>rjRejecter := v\<rparr>)),
      (''reason'', field (dec_string at_value) rjReason (\<lambda>v r. r\<lparr>rjReason := v\<rparr>))] at_value ''struct''"

definition handleRejectIntent ::
  "('k, 'p, 't) env \<Rightarrow> string \<Rightarrow> byte list \<Rightarrow> ('w, 'k, 'p, 't) Server \<Rightarrow> response \<times> ('w, 'k, 'p, 't) Server" where
  "handleRejectIntent E intentID reqBody s =
     (case json_Decode dec_RejectRequest \<lparr>rjRejecter = [], rjReason = []\<rparr> reqBody of
        Inl _ \<Rightarrow> (sendError 400 ''Invalid request body'', s)
      | Inr req \<Rightarrow>
          (case GetIntent (intentStore s) intentID of
             Inl e \<Rightarrow> (sendError 404 (''Intent not found: '' @ e), s)
           | Inr intent \<Rightarrow>
               if iStatus intent \<noteq> IntentStatusDraft \<and> iStatus intent \<noteq> IntentStatusPending
               then (sendError 400 ''Can only reject draft or pending intents'', s)
               else (case UpdateIntentStatus (intentStore s) (evClock E 0) intentID IntentStatusRejected []
                            (rjReason req) of
                       Inl e \<Rightarrow> (sendError 500 (''Failed to reject intent: '' @ e), s)
                     | Inr st \<Rightarrow>
                         (sendJSON 200 (RejectedBody intentID (status_str IntentStatusRejected) (rjReason req)),
                          s\<lparr>intentStore := st\<rparr>))))"

definition handleRetryIntent ::
  "('k, 'p, 't) env \<Rightarrow> string \<Rightarrow> ('w, 'k, 'p, 't) Server \<Rightarrow> response \<times> ('w, 'k, 'p, 't) Server" where
  "handleRetryIntent E intentID s =
     (case GetIntent (intentStore s) intentID of
        Inl e \<Rightarrow> (sendError 404 (''Intent not found: '' @ e), s)
      | Inr intent \<Rightarrow>
          if iStatus intent \<noteq> IntentStatusFailed \<and> iStatus intent \<noteq> IntentStatusPermanentFail
          then (sendError 400 (''Cannot retry intent in status: '' @ status_str (iStatus intent)), s)
          else if iRetryCount intent \<ge> iMaxRetries intent
          then (sendError 400 (''Max retries ('' @ show_int (iMaxRetries intent) @ '') already exceeded''), s)
          else (case RetryIntent (intentStore s) (evClock E 0) intentID of
                  Inl e \<Rightarrow> (sendError 500 (''Failed to retry intent: '' @ e), s)
                | Inr (i, st) \<Rightarrow> (sendJSON 200 (IntentBody (Some i)), s\<lparr>intentStore := st\<rparr>)))"

text \<open>One tick of \<^verbatim>\<open>runExpiryJob\<close>.\<close>

definition expiryTick :: "('k, 'p, 't) env \<Rightarrow> ('w, 'k, 'p, 't) Server \<Rightarrow> ('w, 'k, 'p, 't) Server" where
  "expiryTick E s = s\<lparr>intentStore := or_keep_snd (intentStore s) (ExpireIntents (intentStore s) (evClock E 0))\<rparr>"

end
