(* ===== verification/Wallet_Execution.thy ===== *)
theory Wallet_Execution
  imports Wallet_Intents
begin

text \<open>
  \<^verbatim>\<open>cmd/wallet-service\<close>: the execution of an intent. \<open>checkExecute\<close> is the part of \<^verbatim>\<open>handleExecuteIntent\<close> up to
  the lock, \<open>runExecute\<close> the rest, on the intent that the check has read; other requests may be served
  between the two. The goroutine that writes a migrated key is run as soon as it is started.

  An execution function yields the transaction hash or an error; the hash that comes with an error is
  dropped, as its caller drops it.
\<close>

section \<open>Status updates\<close>

text \<open>The first argument numbers the clock readings of a request.\<close>

definition updateStatus ::
  "('k, 'p, 't) env \<Rightarrow> nat \<Rightarrow> string \<Rightarrow> IntentStatus \<Rightarrow> string \<Rightarrow> string \<Rightarrow> ('w, 'k, 'p, 't) Server
   \<Rightarrow> unit res \<times> ('w, 'k, 'p, 't) Server" where
  "updateStatus E k intentID st txHash errMsg s =
     (case UpdateIntentStatus (intentStore s) (evClock E k) intentID st txHash errMsg of
        Inl e \<Rightarrow> (Inl e, s)
      | Inr store \<Rightarrow> (Inr (), s\<lparr>intentStore := store\<rparr>))"

text \<open>A failure is noted in the intent; an error of noting it is ignored.\<close>

definition markFailed ::
  "('k, 'p, 't) env \<Rightarrow> string \<Rightarrow> string \<Rightarrow> ('w, 'k, 'p, 't) Server \<Rightarrow> ('w, 'k, 'p, 't) Server" where
  "markFailed E intentID errMsg s = snd (updateStatus E 0 intentID IntentStatusFailed [] errMsg s)"

definition failed ::
  "('k, 'p, 't) env \<Rightarrow> string \<Rightarrow> string \<Rightarrow> err \<Rightarrow> ('w, 'k, 'p, 't) Server \<Rightarrow>
   string res outcome \<times> ('w, 'k, 'p, 't) Server" where
  "failed E intentID errMsg e s = (Ret (Inl e), markFailed E intentID errMsg s)"

text \<open>The step to \<^verbatim>\<open>executing\<close>; without it nothing is sent.\<close>

definition whenExecuting ::
  "('k, 'p, 't) env \<Rightarrow> string \<Rightarrow> ('w, 'k, 'p, 't) Server
   \<Rightarrow> (('w, 'k, 'p, 't) Server \<Rightarrow> string res outcome \<times> ('w, 'k, 'p, 't) Server)
   \<Rightarrow> string res outcome \<times> ('w, 'k, 'p, 't) Server" where
  "whenExecuting E intentID s k =
     (case updateStatus E 1 intentID IntentStatusExecuting [] [] s of
        (Inl e, s1) \<Rightarrow> (Ret (Inl e), s1)
      | (Inr _, s1) \<Rightarrow> k s1)"

text \<open>A hash with an error counts as the error.\<close>

definition drop_hash :: "(string \<times> err option) res \<Rightarrow> string res" where
  "drop_hash r =
     (case r of Inl e \<Rightarrow> Inl e | Inr (h, None) \<Rightarrow> Inr h | Inr (h, Some e) \<Rightarrow> Inl e)"

definition speed_of :: "TransactionIntent \<Rightarrow> FeeSpeed" where
  "speed_of i =
     (if iFeeSpeed i = ''slow'' then FeeSpeedSlow
      else if iFeeSpeed i = ''fast'' then FeeSpeedFast else FeeSpeedStandard)"

section \<open>Sending\<close>

definition executeSolanaNative ::
  "('k, 'p, 't) env \<Rightarrow> TransactionIntent \<Rightarrow> string \<Rightarrow> 'w SolanaTxSigner \<Rightarrow> ('w, 'k, 'p, 't) Server
   \<Rightarrow> string res outcome \<times> ('w, 'k, 'p, 't) Server" where
  "executeSolanaNative E i intentID sg s =
     (case ParseSOL (evOddSol E) (evBigFloat E) (iValue i) of
        Inl e \<Rightarrow> failed E intentID ''Invalid SOL value'' e s
      | Inr lamports \<Rightarrow>
          (case net_call (ts_CheckBalanceSufficient (txService s) (iChain i) (iFrom i) (big_of_u64 lamports) 0) s of
             (Panic, s1) \<Rightarrow> (Panic, s1)
           | (Ret (Inl e), s1) \<Rightarrow> (Ret (Inl e), s1)
           | (Ret (Inr (sufficient, _)), s1) \<Rightarrow>
               if \<not> sufficient then failed E intentID ''Insufficient balance'' ''insufficient balance'' s1
               else whenExecuting E intentID s1 (\<lambda>s2.
                 case net_call (SendSolanaTransaction (txService s2) (evTx E) (iChain i) (iFrom i) (iTo i)
                        lamports sg True) s2 of
                   (Panic, s3) \<Rightarrow> (Panic, s3)
                 | (Ret r, s3) \<Rightarrow>
                     (case drop_hash r of Inl e \<Rightarrow> failed E intentID e e s3 | Inr h \<Rightarrow> (Ret (Inr h), s3)))))"

text \<open>An unreadable value counts as zero; a balance that cannot be read does not stop the transfer.\<close>

definition executeEthereumNative ::
  "('k, 'p, 't) env \<Rightarrow> TransactionIntent \<Rightarrow> string \<Rightarrow> string \<Rightarrow> ('w, 'k, 'p, 't) Server
   \<Rightarrow> string res outcome \<times> ('w, 'k, 'p, 't) Server" where
  "executeEthereumNative E i intentID privateKeyHex s =
     (let weiValue = to_units (evOddText E) 18 (iValue i);
          send = (\<lambda>s1. whenExecuting E intentID s1 (\<lambda>s2.
            case NewECDSASignerFromHex (evGeth E) privateKeyHex of
              Inl e \<Rightarrow> failed E intentID e e s2
            | Inr ecdsaSigner \<Rightarrow>
                net_call (SendTransactionEIP1559 (txService s2) (iChain i) (iTo i) weiValue ecdsaSigner (speed_of i)) s2))
      in case net_call (ts_CheckBalanceSufficient (txService s) (iChain i) (iFrom i) weiValue (iGasLimit i)) s of
           (Panic, s1) \<Rightarrow> (Panic, s1)
         | (Ret (Inl _), s1) \<Rightarrow> send s1
         | (Ret (Inr (sufficient, required)), s1) \<Rightarrow>
             if \<not> sufficient
             then failed E intentID (''Insufficient balance: '' @ show_int required @ '' wei'')
                    ''insufficient balance'' s1
             else send s1)"

definition executeNativeIntent ::
  "('k, 'p, 't) env \<Rightarrow> TransactionIntent \<Rightarrow> string \<Rightarrow> string \<Rightarrow> 'w SolanaTxSigner option \<Rightarrow> ('w, 'k, 'p, 't) Server
   \<Rightarrow> string res outcome \<times> ('w, 'k, 'p, 't) Server" where
  "executeNativeIntent E i intentID privateKeyHex solanaSigner s =
     (if iChain i = ''solana''
      then (case solanaSigner of
              Some sg \<Rightarrow> executeSolanaNative E i intentID sg s
            | None \<Rightarrow>
                (case NewSolanaSignerFromHex (edLib (evTx E)) privateKeyHex of
                   Inl e \<Rightarrow> failed E intentID e e s
                 | Inr d \<Rightarrow> executeSolanaNative E i intentID (DirectSigner d) s))
      else executeEthereumNative E i intentID privateKeyHex s)"

definition executeERC20Intent ::
  "('k, 'p, 't) env \<Rightarrow> TransactionIntent \<Rightarrow> string \<Rightarrow> string \<Rightarrow> ('w, 'k, 'p, 't) Server
   \<Rightarrow> string res outcome \<times> ('w, 'k, 'p, 't) Server" where
  "executeERC20Intent E i intentID privateKeyHex s =
     (if iTokenAddress i = []
      then failed E intentID ''Token address required for ERC-20'' ''token address required'' s
      else
        let amount = to_units (evOddText E) (unat (iTokenDecimals i)) (iValue i);
            send = (\<lambda>s1. whenExecuting E intentID s1 (\<lambda>s2.
              case NewECDSASignerFromHex (evGeth E) privateKeyHex of
                Inl e \<Rightarrow> failed E intentID e e s2
              | Inr ecdsaSigner \<Rightarrow>
                  net_call (SendERC20Transaction (txService s2) (iChain i) (iTokenAddress i) (iTo i) amount
                    ecdsaSigner (speed_of i)) s2))
        in case net_call (CheckTokenBalanceSufficient (txService s) (iChain i) (iTokenAddress i) (iFrom i) amount
                  (iGasLimit i)) s of
             (Panic, s1) \<Rightarrow> (Panic, s1)
           | (Ret (Inl _), s1) \<Rightarrow> send s1
           | (Ret (Inr (sufficient, tokenBal, ethBal)), s1) \<Rightarrow>
               if \<not> sufficient
               then failed E intentID
                      (''Insufficient token balance: '' @ show_int tokenBal @
                       (if ethBal = Some 0 then '' (also need ETH for gas)'' else []))
                      ''insufficient balance'' s1
               else send s1)"

text \<open>A quotient at the precision of the dividend, which also receives it.\<close>

definition big_QuoInto :: "int \<Rightarrow> int \<Rightarrow> rat" where
  "big_QuoInto a b = round_bits (max 64 (bits (nat \<bar>a\<bar>))) (of_int a / of_int b)"

definition executeSPLIntent ::
  "('k, 'p, 't) env \<Rightarrow> TransactionIntent \<Rightarrow> string \<Rightarrow> 'w SolanaTxSigner \<Rightarrow> ('w, 'k, 'p, 't) Server
   \<Rightarrow> string res outcome \<times> ('w, 'k, 'p, 't) Server" where
  "executeSPLIntent E i intentID sg s =
     (let mint = TrimSpace (iTokenAddress i);
          d = unat (iTokenDecimals i);
          tokenAmount = to_units (evOddText E) d (iValue i)
      in if mint = []
         then failed E intentID ''Token mint required for SPL'' ''token mint required for SPL'' s
         else
           (case net_call (CheckTokenBalanceSufficient (txService s) (iChain i) mint (iFrom i) tokenAmount
                   (iGasLimit i)) s of
              (Panic, s1) \<Rightarrow> (Panic, s1)
            | (Ret (Inl e), s1) \<Rightarrow>
                failed E intentID (''Token balance check failed: '' @ e) (''token balance check failed: '' @ e) s1
            | (Ret (Inr (sufficient, balance, _)), s1) \<Rightarrow>
                if \<not> sufficient
                then failed E intentID
                       (''Insufficient '' @ iTokenSymbol i @ '' balance: have '' @ fixed d (big_QuoInto balance (10 ^ d)) @
                        '', need '' @ fixed d (big_QuoInto tokenAmount (10 ^ d)) @
                        ''. Get test tokens from Solana devnet faucet.'')
                       ''insufficient SPL token balance'' s1
                else whenExecuting E intentID s1 (\<lambda>s2.
                  case net_call (SendSPLTransaction (txService s2) (evTx E) (iChain i) mint (iTo i)
                         (big_Uint64 tokenAmount) sg True) s2 of
                    (Panic, s3) \<Rightarrow> (Panic, s3)
                  | (Ret r, s3) \<Rightarrow> (Ret (drop_hash r), s3))))"

section \<open>The handler\<close>

definition checkExecute :: "string \<Rightarrow> ('w, 'k, 'p, 't) Server \<Rightarrow> response + TransactionIntent" where
  "checkExecute intentID s =
     (case GetIntent (intentStore s) intentID of
        Inl e \<Rightarrow> Inl (sendError 404 (''Intent not found: '' @ e))
      | Inr i \<Rightarrow>
          if iStatus i = IntentStatusExecuting then Inl (sendError 409 ''Intent is already being executed'')
          else if iStatus i = IntentStatusSent
          then Inl (sendError 409 (''Intent already executed with tx: '' @ iTxHash i))
          else if iStatus i \<noteq> IntentStatusApproved then Inl (sendError 400 ''Intent not approved'')
          else Inr i)"

definition lockKey :: "TransactionIntent \<Rightarrow> string" where
  "lockKey i = iWalletID i @ ''_'' @ iChain i"

text \<open>The MPC signer is used for an account that was created with it.\<close>

definition mpcSigner :: "TransactionIntent \<Rightarrow> ('w, 'k, 'p, 't) Server \<Rightarrow> 'w SolanaTxSigner option" where
  "mpcSigner i s =
     (if iChain i = ''solana'' \<and> mpcEnabled s
      then (case mpcSolanaSigner s of
              None \<Rightarrow> None
            | Some sg \<Rightarrow>
                (case GetAccount (walletStore s) (iWalletID i) ''solana'' of
                   Inl _ \<Rightarrow> None
                 | Inr account \<Rightarrow> if acSignerType account = ''mpc_solana'' then Some (MpcTxSigner sg) else None))
      else None)"

text \<open>The private key, or the empty text when the MPC signer is used.\<close>

definition loadKey ::
  "('k, 'p, 't) env \<Rightarrow> TransactionIntent \<Rightarrow> 'w SolanaTxSigner option \<Rightarrow> ('w, 'k, 'p, 't) Server
   \<Rightarrow> string res \<times> ('w, 'k, 'p, 't) Server" where
  "loadKey E i mpc s =
     (if mpc \<noteq> None then (Inr [], s)
      else
        (case LoadKey (evCrypto E) (keyStore s) (iWalletID i) (iChain i) 0 (svPassword s) of
           Inl e \<Rightarrow> (Inl e, s)
         | Inr (_, key, None) \<Rightarrow> (Inr key, s)
         | Inr (_, key, Some migrate) \<Rightarrow>
             (Inr key,
              s\<lparr>keyStore := runMigration (evCrypto E) (evSalt E 0) (evNonce E 0) (keyStore s) migrate\<rparr>)))"

definition zk_intent :: "TransactionIntent \<Rightarrow> Intent" where
  "zk_intent i = \<lparr>zWalletID = iWalletID i, zChain = iChain i, zTo = iTo i, zValue = iValue i, zGasLimit = 0\<rparr>"

definition zkGate ::
  "('k, 'p, 't) env \<Rightarrow> TransactionIntent \<Rightarrow> ('w, 'k, 'p, 't) Server
   \<Rightarrow> unit res outcome \<times> ('w, 'k, 'p, 't) Server" where
  "zkGate E i s =
     (case policyEngine s of
        None \<Rightarrow> (Ret (Inr ()), s)
      | Some engine \<Rightarrow>
          (case EvaluateAndProve (evClock E 3) engine (zk_intent i) (zkWorld s) of
             (Panic, w) \<Rightarrow> (Panic, s\<lparr>zkWorld := w\<rparr>)
           | (Ret (Inl e), w) \<Rightarrow> (Ret (Inl e), s\<lparr>zkWorld := w\<rparr>)
           | (Ret (Inr _), w) \<Rightarrow> (Ret (Inr ()), s\<lparr>zkWorld := w\<rparr>)))"

text \<open>The switch over the token type; a response is an early answer of the handler itself.\<close>

definition sendIntent ::
  "('k, 'p, 't) env \<Rightarrow> TransactionIntent \<Rightarrow> string \<Rightarrow> 'w SolanaTxSigner option \<Rightarrow> string \<Rightarrow> ('w, 'k, 'p, 't) Server
   \<Rightarrow> (response + string res) outcome \<times> ('w, 'k, 'p, 't) Server" where
  "sendIntent E i intentID mpc privateKeyHex s =
     (let result = map_prod (map_outcome Inr) id
      in if iTokenType i = ''spl''
         then (case mpc of
                 Some sg \<Rightarrow> result (executeSPLIntent E i intentID sg s)
               | None \<Rightarrow>
                   (case NewSolanaSignerFromHex (edLib (evTx E)) privateKeyHex of
                      Inl e \<Rightarrow>
                        (Ret (Inl (sendError 500 (''Failed to create signer: '' @ e))), markFailed E intentID e s)
                    | Inr d \<Rightarrow> result (executeSPLIntent E i intentID (DirectSigner d) s)))
         else if iTokenType i = ''erc20'' then result (executeERC20Intent E i intentID privateKeyHex s)
         else result (executeNativeIntent E i intentID privateKeyHex mpc s))"

text \<open>Everything between taking the lock and giving it back.\<close>

definition runLocked ::
  "('k, 'p, 't) env \<Rightarrow> TransactionIntent \<Rightarrow> string \<Rightarrow> ('w, 'k, 'p, 't) Server
   \<Rightarrow> response \<times> ('w, 'k, 'p, 't) Server" where
  "runLocked E i intentID s =
     (let mpc = mpcSigner i s
      in case loadKey E i mpc s of
           (Inl e, s1) \<Rightarrow> (sendError 500 (''Failed to load key: '' @ e), markFailed E intentID e s1)
         | (Inr privateKeyHex, s1) \<Rightarrow>
             (case zkGate E i s1 of
                (Panic, s2) \<Rightarrow> (recovered, s2)
              | (Ret (Inl e), s2) \<Rightarrow>
                  (sendError 403 (''Intent does not satisfy ZK policies: '' @ e),
                   markFailed E intentID (''ZK policy not satisfied: '' @ e) s2)
              | (Ret (Inr _), s2) \<Rightarrow>
                  (case sendIntent E i intentID mpc privateKeyHex s2 of
                     (Panic, s3) \<Rightarrow> (recovered, s3)
                   | (Ret (Inl r), s3) \<Rightarrow> (r, s3)
                   | (Ret (Inr (Inl e)), s3) \<Rightarrow> (sendError 500 (''Failed to send tx: '' @ e), s3)
                   | (Ret (Inr (Inr txHash)), s3) \<Rightarrow>
                       (sendJSON 200 (ExecutedBody txHash intentID),
                        snd (updateStatus E 2 intentID IntentStatusSent txHash [] s3)))))"

text \<open>
  \<^verbatim>\<open>LoadOrStore\<close> never waits: the lock is taken whether or not somebody else holds it. A goroutine that the
  timer overtakes takes it later, and nobody gives it back.
\<close>

definition runExecute ::
  "('k, 'p, 't) env \<Rightarrow> string \<Rightarrow> TransactionIntent \<Rightarrow> ('w, 'k, 'p, 't) Server
   \<Rightarrow> response \<times> ('w, 'k, 'p, 't) Server" where
  "runExecute E intentID i s =
     (let s1 = s\<lparr>walletLocks := insert (lockKey i) (walletLocks s)\<rparr>
      in if \<not> evLockInTime E then (sendError 423 ''Wallet is busy, try again later'', s1)
         else (case runLocked E i intentID s1 of
                 (r, s2) \<Rightarrow> (r, s2\<lparr>walletLocks := walletLocks s2 - {lockKey i}\<rparr>)))"

definition handleExecuteIntent ::
  "('k, 'p, 't) env \<Rightarrow> string \<Rightarrow> ('w, 'k, 'p, 't) Server \<Rightarrow> response \<times> ('w, 'k, 'p, 't) Server" where
  "handleExecuteIntent E intentID s =
     (case checkExecute intentID s of Inl r \<Rightarrow> (r, s) | Inr i \<Rightarrow> runExecute E intentID i s)"

section \<open>What an execution touches\<close>

lemma net_call_eq: "net_call m s = (r, s') \<Longrightarrow> \<exists>w. s' = s\<lparr>network := w\<rparr>"
  by (auto simp: net_call_def split: prod.splits)

lemma updateStatus_eq:
  "updateStatus E k intentID st h e s = (r, s') \<Longrightarrow>
     s' = s\<lparr>intentStore := run_op (OpStatus (evClock E k) intentID st h e) (intentStore s)\<rparr>"
  by (auto simp: updateStatus_def or_keep_def split: sum.splits)

text \<open>
  From one server to another by status updates of one intent, calls over the network, key migration
  and the files of the proof system.
\<close>

inductive touches :: "string \<Rightarrow> ('w, 'k, 'p, 't) Server \<Rightarrow> ('w, 'k, 'p, 't) Server \<Rightarrow> bool" for intentID where
  touches_refl: "touches intentID s s"
| touches_status: "touches intentID s t \<Longrightarrow>
    touches intentID s (t\<lparr>intentStore := run_op (OpStatus now intentID st h e) (intentStore t)\<rparr>)"
| touches_network: "touches intentID s t \<Longrightarrow> touches intentID s (t\<lparr>network := w\<rparr>)"
| touches_keys: "touches intentID s t \<Longrightarrow> touches intentID s (t\<lparr>keyStore := ks\<rparr>)"
| touches_zk: "touches intentID s t \<Longrightarrow> touches intentID s (t\<lparr>zkWorld := z\<rparr>)"

lemma touches_trans: "touches j t u \<Longrightarrow> touches j s t \<Longrightarrow> touches j s u"
  by (induction rule: touches.induct) (simp_all add: touches.intros del: run_op.simps)

lemma touches_net_call: "net_call m s = (r, s') \<Longrightarrow> touches j s s'"
  by (auto dest!: net_call_eq intro: touches.intros)

lemma touches_updateStatus: "updateStatus E k j st h e s = (r, s') \<Longrightarrow> touches j s s'"
  by (auto dest!: updateStatus_eq intro: touches_status touches_refl)

lemma touches_markFailed: "touches j s (markFailed E j e s)"
  unfolding markFailed_def by (metis prod.collapse touches_updateStatus)

lemma touches_failed: "failed E j m e s = (r, s') \<Longrightarrow> touches j s s'"
  by (auto simp: failed_def touches_markFailed)

lemma touches_whenExecuting:
  assumes "whenExecuting E j s k = (r, s')" and "\<And>t r t'. k t = (r, t') \<Longrightarrow> touches j t t'"
  shows "touches j s s'"
proof -
  obtain q t where u: "updateStatus E 1 j IntentStatusExecuting [] [] s = (q, t)" by fastforce
  note t = touches_updateStatus [OF u]
  show ?thesis
  proof (cases q)
    case (Inr v)
    with assms(1) u have "k t = (r, s')" by (simp add: whenExecuting_def)
    then show ?thesis using assms(2) t touches_trans by blast
  qed (use assms(1) u t in \<open>simp add: whenExecuting_def\<close>)
qed

lemmas touches_calls = touches_net_call touches_updateStatus touches_failed

lemma touches_executeSolanaNative: "executeSolanaNative E i j sg s = (r, s') \<Longrightarrow> touches j s s'"
  unfolding executeSolanaNative_def
  by (auto split: sum.splits prod.splits outcome.splits if_splits
      dest!: touches_calls touches_whenExecuting intro: touches_trans touches_calls)

lemma touches_executeEthereumNative: "executeEthereumNative E i j key s = (r, s') \<Longrightarrow> touches j s s'"
  unfolding executeEthereumNative_def Let_def
  by (auto split: sum.splits prod.splits outcome.splits if_splits
      dest!: touches_calls touches_whenExecuting intro: touches_trans touches_calls)

lemma touches_executeERC20Intent: "executeERC20Intent E i j key s = (r, s') \<Longrightarrow> touches j s s'"
  unfolding executeERC20Intent_def Let_def
  by (auto split: sum.splits prod.splits outcome.splits if_splits
      dest!: touches_calls touches_whenExecuting intro: touches_trans touches_calls)

lemma touches_executeSPLIntent: "executeSPLIntent E i j sg s = (r, s') \<Longrightarrow> touches j s s'"
  unfolding executeSPLIntent_def Let_def
  by (auto split: sum.splits prod.splits outcome.splits if_splits
      dest!: touches_calls touches_whenExecuting intro: touches_trans touches_calls)

lemma touches_executeNativeIntent: "executeNativeIntent E i j key mpc s = (r, s') \<Longrightarrow> touches j s s'"
  unfolding executeNativeIntent_def
  by (auto split: sum.splits option.splits if_splits
      dest: touches_failed touches_executeSolanaNative touches_executeEthereumNative)

lemma map_prod_outcome: "map_prod (map_outcome f) id p = (r, s') \<Longrightarrow> \<exists>q. p = (q, s') \<and> r = map_outcome f q"
  by (cases p) auto

lemma touches_sendIntent: "sendIntent E i j mpc key s = (r, s') \<Longrightarrow> touches j s s'"
  unfolding sendIntent_def Let_def
  by (auto split: sum.splits option.splits if_splits simp: touches_markFailed dest!: map_prod_outcome
      dest: touches_executeSPLIntent touches_executeERC20Intent touches_executeNativeIntent)

lemma touches_loadKey: "loadKey E i mpc s = (r, s') \<Longrightarrow> touches j s s'"
  using touches_keys [OF touches_refl, of j s] touches_refl [of j s]
  by (auto simp: loadKey_def split: sum.splits if_splits option.splits)

lemma touches_zkGate: "zkGate E i s = (r, s') \<Longrightarrow> touches j s s'"
  by (auto simp: zkGate_def split: sum.splits outcome.splits prod.splits option.splits intro: touches.intros)

lemma touches_runLocked:
  assumes "runLocked E i j s = (r, s')"
  shows "touches j s s'"
proof -
  obtain q1 s1 where l: "loadKey E i (mpcSigner i s) s = (q1, s1)" by fastforce
  note t1 = touches_loadKey [OF l, of j]
  show ?thesis
  proof (cases q1)
    case (Inl e)
    with assms l t1 show ?thesis by (auto simp: runLocked_def intro: touches_trans touches_markFailed)
  next
    case (Inr key)
    obtain q2 s2 where z: "zkGate E i s1 = (q2, s2)" by fastforce
    with t1 have t2: "touches j s s2" using touches_zkGate touches_trans by blast
    obtain q3 s3 where d: "sendIntent E i j (mpcSigner i s) key s2 = (q3, s3)" by fastforce
    with t2 have t3: "touches j s s3" using touches_sendIntent touches_trans by blast
    moreover have "touches j s3 (snd (updateStatus E 2 j IntentStatusSent h [] s3))" for h
      by (metis prod.collapse touches_updateStatus)
    ultimately show ?thesis
      using assms l Inr z d t2
      by (auto simp: runLocked_def split: outcome.splits sum.splits intro: touches_trans touches_markFailed)
  qed
qed

text \<open>What stays, and how the intents change.\<close>

definition status_ops :: "string \<Rightarrow> intent_op list \<Rightarrow> bool" where
  "status_ops j ops = list_all (\<lambda>p. case p of OpStatus _ k _ _ _ \<Rightarrow> k = j | _ \<Rightarrow> False) ops"

lemma touches_frame:
  assumes "touches j s t"
  shows "walletStore t = walletStore s" "txService t = txService s" "policyEngine t = policyEngine s"
    "mpcSolanaSigner t = mpcSolanaSigner s" "mpcEnabled t = mpcEnabled s" "svPassword t = svPassword s"
    "walletLocks t = walletLocks s"
  using assms by (induction) simp_all

lemma touches_intents:
  "touches j s t \<Longrightarrow> \<exists>ops. status_ops j ops \<and> intentStore t = fold run_op ops (intentStore s)"
proof (induction rule: touches.induct)
  case (touches_refl s)
  show ?case by (rule exI [of _ "[]"]) (simp add: status_ops_def)
next
  case (touches_status s t now st h e)
  then obtain ops where "status_ops j ops" "intentStore t = fold run_op ops (intentStore s)" by blast
  then show ?case
    by (intro exI [of _ "ops @ [OpStatus now j st h e]"]) (simp add: status_ops_def)
qed auto

section \<open>Guards\<close>

lemma checkExecute_Inr:
  "checkExecute j s = Inr i \<longleftrightarrow> GetIntent (intentStore s) j = Inr i \<and> iStatus i = IntentStatusApproved"
  by (auto simp: checkExecute_def split: sum.splits)

text \<open>
  C2: Only an approved intent is executed. For an intent that is missing or has any other status the request
  is refused with status 404, 409 or 400, and the server is exactly as before: no key is loaded, nothing
  is sent and no status changes.
\<close>

theorem execute_requires_approval:
  assumes "\<not> (\<exists>i. GetIntent (intentStore s) j = Inr i \<and> iStatus i = IntentStatusApproved)"
  shows "snd (handleExecuteIntent E j s) = s \<and> status (fst (handleExecuteIntent E j s)) \<in> {400, 404, 409}"
proof -
  have "\<nexists>i. checkExecute j s = Inr i" using assms by (simp add: checkExecute_Inr)
  then obtain r where r: "checkExecute j s = Inl r" by (cases "checkExecute j s") auto
  then have "status r \<in> {400, 404, 409}"
    by (auto simp: checkExecute_def sendError_def split: sum.splits if_splits)
  with r show ?thesis by (simp add: handleExecuteIntent_def)
qed

end
