(* ===== verification/Wallet_Admin.thy ===== *)
theory Wallet_Admin
  imports Wallet_Execution Mpc_Orchestrator
begin

text \<open>
  \<^verbatim>\<open>cmd/wallet-service\<close>: the configuration in \<^verbatim>\<open>main\<close>, the coordinator that joins the MPC signer to the signing
  orchestrator, and the share rotation request.
\<close>

section \<open>Configuration\<close>

definition env_or :: "(string \<Rightarrow> string) \<Rightarrow> string \<Rightarrow> string \<Rightarrow> string" where
  "env_or getenv name d = (if getenv name = [] then d else getenv name)"

definition env_positive :: "(string \<Rightarrow> string) \<Rightarrow> string \<Rightarrow> int \<Rightarrow> int" where
  "env_positive getenv name d =
     (case Atoi (getenv name) of Some n \<Rightarrow> if n > 0 then n else d | None \<Rightarrow> d)"

definition env_u32 :: "(string \<Rightarrow> string) \<Rightarrow> string \<Rightarrow> u32 \<Rightarrow> u32" where
  "env_u32 getenv name d = (case ParseUint32 (getenv name) of Some n \<Rightarrow> n | None \<Rightarrow> d)"

definition parseMPCPeers :: "string \<Rightarrow> (u32 \<rightharpoonup> string)" where
  "parseMPCPeers peersStr =
     (if peersStr = [] then Map.empty else number_peers 0 (Split peersStr CHR '','') Map.empty)"

definition mpcConfig :: "(string \<Rightarrow> string) \<Rightarrow> u32 \<Rightarrow> NodeConfig" where
  "mpcConfig getenv totalNodes =
     \<lparr>NodeID = env_u32 getenv ''MPC_NODE_ID'' 1,
      ClusterID = env_or getenv ''MPC_CLUSTER_ID'' ''wallet_demo'',
      Threshold = env_u32 getenv ''MPC_THRESHOLD'' 2, TotalNodes = totalNodes, ListenAddr = [], EnclaveAddr = [],
      PeerAddrs = parseMPCPeers (getenv ''MPC_PEERS''), TLSEnabled = False, MetricsAddr = [], ShareFile = []\<rparr>"

text \<open>
  \<^verbatim>\<open>mpcSignCoordinator.Sign\<close>. The orchestrator connects again in every call as long as it has no peers; the
  clock reading only names the session.
\<close>

definition coordinatorSign :: "'w net \<Rightarrow> u32 list \<Rightarrow> int \<Rightarrow> SignOrchestrator \<Rightarrow> 'w coordinator" where
  "coordinatorSign N ids nano orch msg unsignedTx url w =
     (case sgn_SignMessage N ids nano orch msg unsignedTx url w of
        (Inl e, _, w') \<Rightarrow> (Ret (Inl e), w')
      | (Inr result, _, w') \<Rightarrow> (Ret (Inr (srSignature result, srTxHash result)), w'))"

section \<open>Starting the server\<close>

text \<open>What the program finds when it starts.\<close>

record ('w, 'k, 'p, 't) host =
  hGetenv :: "string \<Rightarrow> string"
  hHome :: "string res"
  hMkdir :: "string \<Rightarrow> err option"
  hStat :: "string \<Rightarrow> bool"
  hWallets :: Store
  hKeys :: KeyStore
  hIntents :: IntentStore
  hGeth :: "('k, 'p, 't) geth"
  hHttp :: "string \<Rightarrow> RPCRequest \<Rightarrow> 'w \<Rightarrow> rpc_reply \<times> 'w"
  hNet :: "'w net"
  hPeerOrder :: "u32 list"
  hNano :: int
  hZk :: zk_world
  hWorld :: 'w

definition defaultSolanaRPCURL :: string where
  "defaultSolanaRPCURL = ''https://api.devnet.solana.com''"

definition startService :: "('w, 'k, 'p, 't) host \<Rightarrow> ('w, 'k, 'p, 't) Service" where
  "startService h =
     (let url = env_or (hGetenv h) ''ETHEREUM_RPC'' ''https://sepolia.infura.io/v3/9aa3d95b3bc440fa88ea12eaa4456161'';
          eth = NewTxBuilder (hGeth h) (NewRPCClient (hHttp h) url) 11155111;
          sol = sol_NewRPCClient (hHttp h) (env_or (hGetenv h) ''SOLANA_RPC'' defaultSolanaRPCURL)
      in AddSolanaChain (AddChain NewService ''ethereum'' eth) ''solana'' sol)"

text \<open>One policy, the transfer limit of 10000 with nothing spent; \<open>now\<close> is the clock of its proofs.\<close>

definition startEngine :: "('w, 'k, 'p, 't) host \<Rightarrow> gotime \<Rightarrow> ZkEngine option" where
  "startEngine h now =
     (let circuits = env_or (hGetenv h) ''ZK_CIRCUITS_DIR'' ''./pkg/zk/circuits'';
          prover = \<lparr>circuitsDir = circuits,
            artifactsDir = env_or (hGetenv h) ''ZK_ARTIFACTS_DIR'' ''./pkg/zk/artifacts''\<rparr>
      in if hStat h circuits
         then Some (NewEngine [transfer_limit now (NewTransferLimitPolicy ''10000'' ''0'' prover)] prover)
         else None)"

text \<open>The signer gets a coordinator and an address, and neither a share nor a public key.\<close>

definition startSigner :: "('w, 'k, 'p, 't) host \<Rightarrow> 'w MPCSolanaSigner option" where
  "startSigner h =
     (if hGetenv h ''MPC_ENABLED'' = ''true'' \<and> hGetenv h ''MPC_PEERS'' \<noteq> []
      then
        let cfg = mpcConfig (hGetenv h) 0;
            orch = sgn_ConnectToPeers (hNet h) (hPeerOrder h) (NewSignOrchestrator cfg)
        in case NewMPCSolanaSigner (NodeID cfg) (ClusterID cfg)
                  (Some (coordinatorSign (hNet h) (hPeerOrder h) (hNano h) orch)) of
             Inl _ \<Rightarrow> None
           | Inr sg \<Rightarrow> Some (SetRPCURL sg (env_or (hGetenv h) ''SOLANA_RPC'' defaultSolanaRPCURL))
      else None)"

text \<open>\<^verbatim>\<open>main\<close> up to the router; \<^verbatim>\<open>log.Fatalf\<close> is an error.\<close>

definition startServer :: "('w, 'k, 'p, 't) host \<Rightarrow> gotime \<Rightarrow> ('w, 'k, 'p, 't) Server res" where
  "startServer h now =
     (let storageDir = env_or (hGetenv h) ''WALLET_DIR'' ''~/.hsm/wallets''
      in case NewStore (hHome h) (hMkdir h) storageDir of
           Inl e \<Rightarrow> Inl (''Failed to initialize wallet store: '' @ e)
         | Inr _ \<Rightarrow>
             (case NewKeyStore (hMkdir h (storageDir @ ''/keys'')) (hKeys h) of
                Inl e \<Rightarrow> Inl (''Failed to initialize key store: '' @ e)
              | Inr keys \<Rightarrow>
                  (case NewIntentStore (hMkdir h (storageDir @ ''/intents'')) (hIntents h) of
                     Inl e \<Rightarrow> Inl (''Failed to initialize intent store: '' @ e)
                   | Inr intents \<Rightarrow>
                       Inr \<lparr>walletStore = hWallets h, keyStore = keys, intentStore = intents,
                         txService = startService h,
                         svPassword = env_or (hGetenv h) ''ENCRYPTION_PASSWORD'' ''hsm-default-password'',
                         intentExpiryHours = env_positive (hGetenv h) ''INTENT_EXPIRY_HOURS'' 24,
                         svMaxRetries = env_positive (hGetenv h) ''INTENT_MAX_RETRIES'' 3,
                         walletLocks = {}, policyEngine = startEngine h now,
                         mpcEnabled = (hGetenv h ''MPC_ENABLED'' = ''true''),
                         mpcSolanaSigner = startSigner h, zkWorld = hZk h, network = hWorld h\<rparr>)))"

section \<open>Share rotation\<close>

text \<open>\<open>shares\<close> are the share directories of the machine, by their path.\<close>

definition handleReshare ::
  "('k, 'p, 't) env \<Rightarrow> (string \<Rightarrow> string) \<Rightarrow> string res \<Rightarrow> 'w net \<Rightarrow> u32 list \<Rightarrow> int \<Rightarrow>
   (string \<Rightarrow> ShareStore) \<Rightarrow> ('w, 'k, 'p, 't) Server \<Rightarrow> response \<times> (string \<Rightarrow> ShareStore) \<times> ('w, 'k, 'p, 't) Server" where
  "handleReshare E getenv home N ids unix shares s =
     (if \<not> mpcEnabled s then (sendError 400 ''MPC not enabled'', shares, s)
      else if getenv ''MPC_SHARE_PASSWORD'' = []
      then (sendError 400 ''MPC_SHARE_PASSWORD environment variable required for resharing'', shares, s)
      else
        let cfg = mpcConfig getenv (word_of_nat (peer_count (getenv ''MPC_PEERS'') + 1));
            shareDir = env_or getenv ''MPC_SHARE_DIR'' ((case home of Inl _ \<Rightarrow> [] | Inr h \<Rightarrow> h) @ ''/.hsm/mpc'')
        in case RunRefresh (evCrypto E) N ids unix (NewRefreshOrchestrator cfg (shares shareDir))
                  (getenv ''MPC_SHARE_PASSWORD'') (network s) of
             (Inl e, orc, w) \<Rightarrow>
               (sendError 500 (''Share rotation failed: '' @ e), shares(shareDir := rfShareStore orc), s\<lparr>network := w\<rparr>)
           | (Inr result, orc, w) \<Rightarrow>
               (sendJSON 200 (ReshareBody (rrClusterID result) (hex_encode (rrPublicKey result)) (rrSameKey result)
                  (rrThreshold result) (rrTotalNodes result)),
                shares(shareDir := rfShareStore orc), s\<lparr>network := w\<rparr>))"

end
