(* ===== verification/Wallet_Safety.thy ===== *)
theory Wallet_Safety
  imports Wallet_Execution
begin

text \<open>
  What an execution request guarantees: nothing leaves the service unless the policies hold and their
  proof is verified; a success means that the approved intent was launched and is now recorded as sent;
  and what the missing parts of the error handling and of the locking lead to.
\<close>

section \<open>The gate\<close>

lemma zkGate_passes:
  assumes "policyEngine s = Some engine" and "zkGate E i s = (Ret (Inr u), s')"
  shows "\<exists>pf w. EvaluateAndProve (evClock E 3) engine (zk_intent i) (zkWorld s) = (Ret (Inr pf), w)"
  using assms by (auto simp: zkGate_def split: outcome.splits sum.splits prod.splits)

lemma zkGate_network: "zkGate E i s = (r, s') \<Longrightarrow> network s' = network s"
  by (auto simp: zkGate_def split: outcome.splits sum.splits prod.splits option.splits)

lemma zkGate_intents: "zkGate E i s = (r, s') \<Longrightarrow> intentStore s' = intentStore s"
  by (auto simp: zkGate_def split: outcome.splits sum.splits prod.splits option.splits)

lemma loadKey_frame:
  "loadKey E i mpc s = (r, s') \<Longrightarrow>
     network s' = network s \<and> policyEngine s' = policyEngine s \<and> zkWorld s' = zkWorld s \<and>
     intentStore s' = intentStore s"
  by (auto simp: loadKey_def split: sum.splits if_splits option.splits)

lemma markFailed_network [simp]: "network (markFailed E j e s) = network s"
  by (simp add: markFailed_def updateStatus_def split: sum.split)

lemma runLocked_gate:
  assumes r: "runLocked E i j s = (r, s')" and p: "policyEngine s = Some engine"
    and n: "network s' \<noteq> network s \<or> status r = 200"
  shows "\<exists>pf w. EvaluateAndProve (evClock E 3) engine (zk_intent i) (zkWorld s) = (Ret (Inr pf), w)"
proof -
  obtain q1 s1 where l: "loadKey E i (mpcSigner i s) s = (q1, s1)" by fastforce
  note f = loadKey_frame [OF l]
  obtain q2 s2 where z: "zkGate E i s1 = (q2, s2)" by fastforce
  have "q1 \<noteq> Inl e" for e
    using r l n f by (auto simp: runLocked_def sendError_def)
  then obtain key where k: "q1 = Inr key" by (cases q1) auto
  have "\<exists>u. q2 = Ret (Inr u)"
    using r l n f z zkGate_network [OF z] k
    by (auto simp: runLocked_def sendError_def recovered_def split: outcome.splits sum.splits)
  with zkGate_passes [of s1 engine E i _ s2] z p f show ?thesis by auto
qed

text \<open>
  C3: With a policy engine nothing is sent without a verified proof: when an execution request reaches the
  network, or succeeds, all policies accepted the intent, the first policy produced a proof and the
  verifier accepted that proof.
\<close>

theorem no_send_without_proof:
  assumes "policyEngine s = Some engine" and "GetIntent (intentStore s) j = Inr i"
    and "handleExecuteIntent E j s = (r, s')" and "network s' \<noteq> network s \<or> status r = 200"
  shows "(\<forall>p \<in> set (policies engine). EvaluatePolicy p (zk_intent i) = Inr True) \<and>
    (\<exists>pf w1 result w2. ProvePolicy (hd (policies engine)) (zk_intent i) (zkWorld s) = (Inr pf, w1) \<and>
       Verify (verifier engine) (evClock E 3) (Name (hd (policies engine))) pf w1 = (Inr result, w2) \<and>
       vrValid result)"
proof -
  have c: "checkExecute j s = Inr i"
  proof (rule ccontr)
    assume "checkExecute j s \<noteq> Inr i"
    with assms(2) obtain q where "checkExecute j s = Inl q" "status q \<noteq> 200"
      by (auto simp: checkExecute_def sendError_def split: if_splits)
    with assms(3,4) show False by (auto simp: handleExecuteIntent_def)
  qed
  define s1 where "s1 = s\<lparr>walletLocks := insert (lockKey i) (walletLocks s)\<rparr>"
  obtain q s2 where l: "runLocked E i j s1 = (q, s2)" by fastforce
  have "network s2 \<noteq> network s1 \<or> status q = 200"
    using assms(3,4) c l by (auto simp: handleExecuteIntent_def runExecute_def Let_def s1_def sendError_def
        split: if_splits)
  with runLocked_gate [OF l, of engine] assms(1) obtain pf w where
    "EvaluateAndProve (evClock E 3) engine (zk_intent i) (zkWorld s) = (Ret (Inr pf), w)"
    by (auto simp: s1_def)
  from EvaluateAndProve_sound [OF this] show ?thesis by blast
qed

section \<open>Launching\<close>

text \<open>The intent was saved as executing, and the network was used.\<close>

definition launched :: "('k, 'p, 't) env \<Rightarrow> string \<Rightarrow> ('w, 'k, 'p, 't) Server \<Rightarrow> ('w, 'k, 'p, 't) Server \<Rightarrow> bool" where
  "launched E j s s' \<longleftrightarrow>
     (\<exists>st w. UpdateIntentStatus (intentStore s) (evClock E 1) j IntentStatusExecuting [] [] = Inr st \<and>
        s' = s\<lparr>intentStore := st, network := w\<rparr>)"

lemma launchedI:
  "UpdateIntentStatus (intentStore s) (evClock E (Suc 0)) j IntentStatusExecuting [] [] = Inr st \<Longrightarrow>
     launched E j s (s\<lparr>intentStore := st, network := w\<rparr>)"
  unfolding launched_def by (metis One_nat_def)

lemma whenExecuting_Inr:
  "whenExecuting E j s k = (Ret (Inr h), s') \<Longrightarrow>
     \<exists>st. UpdateIntentStatus (intentStore s) (evClock E 1) j IntentStatusExecuting [] [] = Inr st \<and>
       k (s\<lparr>intentStore := st\<rparr>) = (Ret (Inr h), s')"
  by (auto simp: whenExecuting_def updateStatus_def split: sum.splits)

lemma launched_executeSolanaNative:
  "executeSolanaNative E i j sg s = (Ret (Inr h), s') \<Longrightarrow> launched E j s s'"
  unfolding executeSolanaNative_def
  by (auto simp: failed_def launchedI split: sum.splits prod.splits outcome.splits if_splits
      dest!: whenExecuting_Inr net_call_eq)

lemma launched_executeEthereumNative:
  "executeEthereumNative E i j key s = (Ret (Inr h), s') \<Longrightarrow> launched E j s s'"
  unfolding executeEthereumNative_def Let_def
  by (auto simp: failed_def launchedI split: sum.splits prod.splits outcome.splits if_splits
      dest!: whenExecuting_Inr net_call_eq)

lemma launched_executeERC20Intent:
  "executeERC20Intent E i j key s = (Ret (Inr h), s') \<Longrightarrow> launched E j s s'"
  unfolding executeERC20Intent_def Let_def
  by (auto simp: failed_def launchedI split: sum.splits prod.splits outcome.splits if_splits
      dest!: whenExecuting_Inr net_call_eq)

lemma launched_executeSPLIntent:
  "executeSPLIntent E i j sg s = (Ret (Inr h), s') \<Longrightarrow> launched E j s s'"
  unfolding executeSPLIntent_def Let_def
  by (auto simp: failed_def launchedI split: sum.splits prod.splits outcome.splits if_splits
      dest!: whenExecuting_Inr net_call_eq)

lemma launched_executeNativeIntent:
  "executeNativeIntent E i j key mpc s = (Ret (Inr h), s') \<Longrightarrow> launched E j s s'"
  unfolding executeNativeIntent_def
  by (auto simp: failed_def split: sum.splits option.splits if_splits
      dest: launched_executeSolanaNative launched_executeEthereumNative)

lemma map_outcome_Ret: "Ret (Inr r) = map_outcome Inr q \<Longrightarrow> q = Ret r"
  by (cases q) auto

lemma launched_sendIntent:
  "sendIntent E i j mpc key s = (Ret (Inr (Inr h)), s') \<Longrightarrow> launched E j s s'"
  unfolding sendIntent_def Let_def
  by (auto split: sum.splits option.splits if_splits dest!: map_prod_outcome map_outcome_Ret
      dest: launched_executeSPLIntent launched_executeERC20Intent launched_executeNativeIntent)

lemma UpdateIntentStatus_get:
  assumes "store_wf st" and "GetIntent st j = Inr i" and "UpdateIntentStatus st now j stat h e = Inr st'"
  shows "GetIntent st' j = Inr (i\<lparr>iStatus := stat, iUpdatedAt := now,
      iTxHash := (if h \<noteq> [] then h else iTxHash i), iError := (if e \<noteq> [] then e else iError i)\<rparr>)"
  using assms(3)
proof (rule UpdateIntentStatus_Inr)
  fix k :: TransactionIntent
  let ?k = "k\<lparr>iStatus := stat, iUpdatedAt := now, iTxHash := (if h \<noteq> [] then h else iTxHash k),
           iError := (if e \<noteq> [] then e else iError k)\<rparr>"
  assume k: "getIntentUnsafe st j = Inr k" and sv: "saveIntent st ?k = Inr st'"
  have "k = i" using k assms(2) by (simp add: GetIntent_getIntentUnsafe)
  moreover have "iID k = j" using store_wf_get [OF assms(1) k] by simp
  ultimately show ?thesis
    using getIntentUnsafe_saveIntent [OF sv, of j] by (simp add: GetIntent_getIntentUnsafe)
qed

lemma UpdateIntentStatus_again:
  assumes "store_wf st" and "UpdateIntentStatus st now j stat h e = Inr st'"
  shows "\<exists>st''. UpdateIntentStatus st' now' j stat' h' e' = Inr st''"
  using assms(2)
proof (rule UpdateIntentStatus_Inr)
  fix k :: TransactionIntent
  let ?k = "k\<lparr>iStatus := stat, iUpdatedAt := now, iTxHash := (if h \<noteq> [] then h else iTxHash k),
           iError := (if e \<noteq> [] then e else iError k)\<rparr>"
  assume k: "getIntentUnsafe st j = Inr k" and sv: "saveIntent st ?k = Inr st'"
  have j: "iID k = j" using store_wf_get [OF assms(1) k] by simp
  have g: "getIntentUnsafe st' j = Inr ?k" using getIntentUnsafe_saveIntent [OF sv, of j] j by simp
  have "write_fault st' (intentPath j) = None"
    using sv j WriteFile_frame(3) [of st "intentPath j" ?k st']
    by (auto simp: saveIntent_Inr WriteFile_def split: option.splits dirent.splits)
  then have "\<exists>s''. saveIntent st' q = Inr s''" if "iID q = j" for q
    using saveIntent_over [of st' q ?k] g that by (simp add: getIntentUnsafe_Inr)
  with g j show ?thesis by (simp add: UpdateIntentStatus_def Let_def)
qed

lemma map_outcome_not_Inl: "Ret (Inl r) \<noteq> map_outcome Inr q"
  by (cases q) auto

lemma sendIntent_early:
  "sendIntent E i j mpc key s = (Ret (Inl q), s') \<Longrightarrow> \<exists>e. q = sendError 500 (''Failed to create signer: '' @ e)"
  unfolding sendIntent_def Let_def
  by (auto simp: map_outcome_not_Inl split: sum.splits option.splits if_splits dest!: map_prod_outcome)

definition send_failed :: "response \<Rightarrow> err \<Rightarrow> bool" where
  "send_failed r e \<longleftrightarrow> r = sendError 500 (''Failed to send tx: '' @ e)"

lemma send_failed_only:
  "\<not> send_failed (sendError 500 (''Failed to load key: '' @ m)) e"
  "\<not> send_failed (sendError 500 (''Failed to create signer: '' @ m)) e"
  "\<not> send_failed (sendError 403 m) e" "\<not> send_failed (sendError 423 m) e"
  "\<not> send_failed recovered e" "\<not> send_failed (sendJSON 200 b) e"
  "send_failed (sendError 500 (''Failed to send tx: '' @ m)) e \<longleftrightarrow> m = e"
  by (auto simp: send_failed_def sendError_def recovered_def sendJSON_def)

lemmas send_failed_simps [simp] = send_failed_only [unfolded append.simps]

lemma answer_status [simp]: "status (sendError n m) = n" "status (sendJSON n b) = n" "status recovered = 500"
  "content (sendJSON n b) = b"
  by (simp_all add: sendError_def sendJSON_def recovered_def)

text \<open>A request that succeeds, or fails to send, got as far as sending.\<close>

lemma runLocked_sends:
  assumes "runLocked E i j s = (r, s')" and "status r = 200 \<or> (\<exists>e. send_failed r e)"
  shows "\<exists>mpc key s2 q s3. sendIntent E i j mpc key s2 = (Ret (Inr q), s3) \<and> intentStore s2 = intentStore s \<and>
    (case q of
       Inl e \<Rightarrow> send_failed r e \<and> s' = s3
     | Inr h \<Rightarrow> r = sendJSON 200 (ExecutedBody h j) \<and> s' = snd (updateStatus E 2 j IntentStatusSent h [] s3))"
proof -
  obtain q1 s1 where k: "loadKey E i (mpcSigner i s) s = (q1, s1)" by fastforce
  obtain q2 s2 where z: "zkGate E i s1 = (q2, s2)" by fastforce
  obtain key where q1: "q1 = Inr key" using assms k by (cases q1) (auto simp: runLocked_def)
  obtain q3 s3 where d: "sendIntent E i j (mpcSigner i s) key s2 = (q3, s3)" by fastforce
  have "intentStore s2 = intentStore s" using loadKey_frame [OF k] zkGate_intents [OF z] by simp
  moreover have "\<exists>q. q3 = Ret (Inr q) \<and>
      (case q of
         Inl e \<Rightarrow> send_failed r e \<and> s' = s3
       | Inr h \<Rightarrow> r = sendJSON 200 (ExecutedBody h j) \<and> s' = snd (updateStatus E 2 j IntentStatusSent h [] s3))"
    using assms k q1 z d
    by (auto simp: runLocked_def split: outcome.splits sum.splits dest!: sendIntent_early)
  ultimately show ?thesis using d by blast
qed

lemma execute_sends:
  fixes s :: "('w, 'k, 'p, 't) Server"
  assumes "handleExecuteIntent E j s = (r, s')" and "status r = 200 \<or> (\<exists>e. send_failed r e)"
    and "checkExecute j s = Inr i"
  shows "\<exists>mpc key (s2 :: ('w, 'k, 'p, 't) Server) q s3. sendIntent E i j mpc key s2 = (Ret (Inr q), s3) \<and> intentStore s2 = intentStore s \<and>
    (case q of
       Inl e \<Rightarrow> send_failed r e \<and> intentStore s' = intentStore s3
     | Inr h \<Rightarrow> r = sendJSON 200 (ExecutedBody h j) \<and>
                intentStore s' = intentStore (snd (updateStatus E 2 j IntentStatusSent h [] s3)))"
proof -
  define s0 where "s0 = s\<lparr>walletLocks := insert (lockKey i) (walletLocks s)\<rparr>"
  obtain s4 where l: "runLocked E i j s0 = (r, s4)" and s': "intentStore s' = intentStore s4"
    using assms by (auto simp: handleExecuteIntent_def runExecute_def Let_def s0_def split: if_splits prod.splits)
  obtain mpc key s2 q s3 where d: "sendIntent E i j mpc key s2 = (Ret (Inr q), s3)"
    and s2: "intentStore s2 = intentStore s0"
    and c: "case q of
       Inl e \<Rightarrow> send_failed r e \<and> s4 = s3
     | Inr h \<Rightarrow> r = sendJSON 200 (ExecutedBody h j) \<and> s4 = snd (updateStatus E 2 j IntentStatusSent h [] s3)"
    using runLocked_sends [OF l assms(2)] by blast
  have "case q of
       Inl e \<Rightarrow> send_failed r e \<and> intentStore s' = intentStore s3
     | Inr h \<Rightarrow> r = sendJSON 200 (ExecutedBody h j) \<and>
                intentStore s' = intentStore (snd (updateStatus E 2 j IntentStatusSent h [] s3))"
    using c s' by (cases q) simp_all
  moreover have "intentStore s2 = intentStore s" using s2 by (simp add: s0_def)
  ultimately show ?thesis using d by blast
qed

lemma launched_intents:
  "launched E j s s' \<Longrightarrow> UpdateIntentStatus (intentStore s) (evClock E 1) j IntentStatusExecuting [] [] = Inr (intentStore s')"
  by (auto simp: launched_def)


section \<open>Failed broadcasts\<close>

definition broadcast_error :: "err \<Rightarrow> bool" where
  "broadcast_error e \<longleftrightarrow> HasPrefix e ''failed to broadcast tx: ''"

lemma not_broadcast [simp]:
  "\<not> broadcast_error ''insufficient balance''" "\<not> broadcast_error ''token address required''"
  by (simp_all add: broadcast_error_def HasPrefix_def)

lemma UpdateIntentStatus_message:
  "UpdateIntentStatus st now j stat h m = Inl e \<Longrightarrow> \<not> broadcast_error e"
  by (auto simp: UpdateIntentStatus_def getIntentUnsafe_def saveIntent_def Let_def broadcast_error_def HasPrefix_def
      split: sum.splits os_err.splits content.splits)

lemma whenExecuting_broadcast:
  "whenExecuting E j s k = (Ret (Inl e), s') \<Longrightarrow> broadcast_error e \<Longrightarrow>
     \<exists>st. UpdateIntentStatus (intentStore s) (evClock E 1) j IntentStatusExecuting [] [] = Inr st \<and>
       k (s\<lparr>intentStore := st\<rparr>) = (Ret (Inl e), s')"
  using UpdateIntentStatus_message
  by (auto simp: whenExecuting_def updateStatus_def split: sum.splits)

lemma ecdsa_message: "NewECDSASignerFromHex g key = Inl e \<Longrightarrow> \<not> broadcast_error e"
  by (auto simp: NewECDSASignerFromHex_def broadcast_error_def HasPrefix_def split: sum.splits)

lemma broadcast_executeEthereumNative:
  "executeEthereumNative E i j key s = (Ret (Inl e), s') \<Longrightarrow> broadcast_error e \<Longrightarrow> launched E j s s'"
  unfolding executeEthereumNative_def Let_def
  by (auto simp: failed_def launchedI split: sum.splits prod.splits outcome.splits if_splits
      dest!: whenExecuting_broadcast net_call_eq dest: ecdsa_message)

lemma broadcast_executeERC20Intent:
  "executeERC20Intent E i j key s = (Ret (Inl e), s') \<Longrightarrow> broadcast_error e \<Longrightarrow> launched E j s s'"
  unfolding executeERC20Intent_def Let_def
  by (auto simp: failed_def launchedI split: sum.splits prod.splits outcome.splits if_splits
      dest!: whenExecuting_broadcast net_call_eq dest: ecdsa_message)

lemma broadcast_sendIntent:
  assumes "sendIntent E i j mpc key s = (Ret (Inr (Inl e)), s')" and "broadcast_error e"
    and "iChain i \<noteq> ''solana''" and "iTokenType i \<noteq> ''spl''"
  shows "launched E j s s'"
  using assms unfolding sendIntent_def Let_def executeNativeIntent_def
  by (auto split: if_splits dest!: map_prod_outcome map_outcome_Ret
      dest: broadcast_executeERC20Intent broadcast_executeEthereumNative)

text \<open>When the broadcast of an Ethereum transfer fails, the intent is left as executing.\<close>

lemma broadcast_failure_executing:
  fixes s :: "('w, 'k, 'p, 't) Server"
  assumes wf: "store_wf (intentStore s)" and run: "handleExecuteIntent E j s = (r, s')"
    and get: "GetIntent (intentStore s) j = Inr i" and ch: "iChain i \<noteq> ''solana''" "iTokenType i \<noteq> ''spl''"
    and r: "send_failed r e" and e: "broadcast_error e"
  shows "GetIntent (intentStore s') j = Inr (i\<lparr>iStatus := IntentStatusExecuting, iUpdatedAt := evClock E 1\<rparr>) \<and>
    store_wf (intentStore s')"
proof -
  have i: "checkExecute j s = Inr i"
    using run r get by (auto simp: handleExecuteIntent_def checkExecute_def send_failed_def sendError_def split: if_splits)
  obtain mpc key and s2 :: "('w, 'k, 'p, 't) Server" and q s3 where d: "sendIntent E i j mpc key s2 = (Ret (Inr q), s3)"
    and s2: "intentStore s2 = intentStore s"
    and c: "case q of
       Inl e \<Rightarrow> send_failed r e \<and> intentStore s' = intentStore s3
     | Inr h \<Rightarrow> r = sendJSON 200 (ExecutedBody h j) \<and>
                intentStore s' = intentStore (snd (updateStatus E 2 j IntentStatusSent h [] s3))"
    using execute_sends [OF run _ i] r by blast
  have q: "q = Inl e" and s': "intentStore s' = intentStore s3"
    using c r by (cases q; auto simp: send_failed_def sendError_def sendJSON_def)+
  have up: "UpdateIntentStatus (intentStore s) (evClock E 1) j IntentStatusExecuting [] [] = Inr (intentStore s')"
    using launched_intents [OF broadcast_sendIntent [OF _ e ch]] d q s2 s' by metis
  from UpdateIntentStatus_get [OF wf get up] store_wf_UpdateStatus [OF up wf] show ?thesis by simp
qed

section \<open>The lock\<close>

definition relock :: "string set \<Rightarrow> ('w, 'k, 'p, 't) Server \<Rightarrow> ('w, 'k, 'p, 't) Server" where
  "relock L s = s\<lparr>walletLocks := L\<rparr>"

lemma relock_fields [simp]:
  "walletStore (relock L s) = walletStore s" "keyStore (relock L s) = keyStore s"
  "intentStore (relock L s) = intentStore s" "txService (relock L s) = txService s"
  "policyEngine (relock L s) = policyEngine s" "mpcEnabled (relock L s) = mpcEnabled s"
  "mpcSolanaSigner (relock L s) = mpcSolanaSigner s" "svPassword (relock L s) = svPassword s"
  "zkWorld (relock L s) = zkWorld s" "network (relock L s) = network s"
  "(relock L s)\<lparr>network := w\<rparr> = relock L (s\<lparr>network := w\<rparr>)"
  "(relock L s)\<lparr>intentStore := st\<rparr> = relock L (s\<lparr>intentStore := st\<rparr>)"
  "(relock L s)\<lparr>keyStore := ks\<rparr> = relock L (s\<lparr>keyStore := ks\<rparr>)"
  "(relock L s)\<lparr>zkWorld := z\<rparr> = relock L (s\<lparr>zkWorld := z\<rparr>)"
  "relock L (s\<lparr>walletLocks := M\<rparr>) = relock L s" "(relock M s)\<lparr>walletLocks := L\<rparr> = relock L s"
  by (simp_all add: relock_def)

lemma relock_net_call [simp]: "net_call m (relock L s) = apsnd (relock L) (net_call m s)"
  by (simp add: net_call_def split: prod.split)

lemma relock_updateStatus [simp]: "updateStatus E k j st h e (relock L s) = apsnd (relock L) (updateStatus E k j st h e s)"
  by (simp add: updateStatus_def split: sum.split)

lemma relock_markFailed [simp]: "markFailed E j e (relock L s) = relock L (markFailed E j e s)"
  by (simp add: markFailed_def)

lemma relock_failed [simp]: "failed E j m e (relock L s) = apsnd (relock L) (failed E j m e s)"
  by (simp add: failed_def)

lemma relock_whenExecuting [simp]:
  "(\<And>t. k (relock L t) = apsnd (relock L) (k t)) \<Longrightarrow>
   whenExecuting E j (relock L s) k = apsnd (relock L) (whenExecuting E j s k)"
  by (simp add: whenExecuting_def split: prod.split sum.split)

lemma relock_executeSolanaNative [simp]:
  "executeSolanaNative E i j sg (relock L s) = apsnd (relock L) (executeSolanaNative E i j sg s)"
  by (simp add: executeSolanaNative_def split: prod.split sum.split outcome.split)

lemma relock_executeEthereumNative [simp]:
  "executeEthereumNative E i j key (relock L s) = apsnd (relock L) (executeEthereumNative E i j key s)"
  by (simp add: executeEthereumNative_def Let_def split: prod.split sum.split outcome.split)

lemma relock_executeERC20Intent [simp]:
  "executeERC20Intent E i j key (relock L s) = apsnd (relock L) (executeERC20Intent E i j key s)"
  by (simp add: executeERC20Intent_def Let_def split: prod.split sum.split outcome.split)

lemma relock_executeSPLIntent [simp]:
  "executeSPLIntent E i j sg (relock L s) = apsnd (relock L) (executeSPLIntent E i j sg s)"
  by (simp add: executeSPLIntent_def Let_def split: prod.split sum.split outcome.split)

lemma relock_executeNativeIntent [simp]:
  "executeNativeIntent E i j key mpc (relock L s) = apsnd (relock L) (executeNativeIntent E i j key mpc s)"
  by (simp add: executeNativeIntent_def split: sum.split option.split)

lemma relock_sendIntent [simp]:
  "sendIntent E i j mpc key (relock L s) = apsnd (relock L) (sendIntent E i j mpc key s)"
  by (simp add: sendIntent_def Let_def split: sum.split option.split) (simp add: apsnd_def prod.map_comp comp_def)?

lemma relock_loadKey [simp]: "loadKey E i mpc (relock L s) = apsnd (relock L) (loadKey E i mpc s)"
  by (simp add: loadKey_def split: sum.split option.split prod.split)

lemma relock_zkGate [simp]: "zkGate E i (relock L s) = apsnd (relock L) (zkGate E i s)"
  by (simp add: zkGate_def split: sum.split option.split prod.split outcome.split)

lemma relock_mpcSigner [simp]: "mpcSigner i (relock L s) = mpcSigner i s"
  by (simp add: mpcSigner_def cong: option.case_cong)

lemma relock_runLocked [simp]: "runLocked E i j (relock L s) = apsnd (relock L) (runLocked E i j s)"
proof -
  obtain q1 s1 where k: "loadKey E i (mpcSigner i s) s = (q1, s1)" by fastforce
  obtain q2 s2 where z: "zkGate E i s1 = (q2, s2)" by fastforce
  show ?thesis
  proof (cases q1)
    case (Inl e)
    then show ?thesis by (simp add: runLocked_def k)
  next
    case (Inr key)
    obtain q3 s3 where d: "sendIntent E i j (mpcSigner i s) key s2 = (q3, s3)" by fastforce
    show ?thesis by (simp add: runLocked_def k Inr z d split: outcome.split sum.split)
  qed
qed

text \<open>
  The lock excludes nobody: a request runs the same way whoever holds the lock of its wallet. Two
  requests that have both checked the same approved intent both go on to send it.
\<close>

theorem lock_excludes_nobody:
  assumes "evLockInTime E"
  shows "fst (runExecute E j i (s\<lparr>walletLocks := L\<rparr>)) = fst (runExecute E j i s) \<and>
    network (snd (runExecute E j i (s\<lparr>walletLocks := L\<rparr>))) = network (snd (runExecute E j i s)) \<and>
    intentStore (snd (runExecute E j i (s\<lparr>walletLocks := L\<rparr>))) = intentStore (snd (runExecute E j i s))"
proof -
  have "runLocked E i j (s\<lparr>walletLocks := M\<rparr>) = apsnd (relock M) (runLocked E i j s)" for M
    using relock_runLocked [of E i j M s] by (simp add: relock_def)
  moreover obtain r s2 where "runLocked E i j s = (r, s2)" by fastforce
  ultimately show ?thesis using assms by (simp add: runExecute_def Let_def)
qed

end
