(* ===== verification/Wallet_Requests.thy ===== *)
theory Wallet_Requests
  imports Wallet_Safety
begin

text \<open>
  \<^verbatim>\<open>cmd/wallet-service\<close>: the routes, and what holds through every sequence of requests and expiry ticks.
  Requests are served one after the other here; the interleaving of two executions is the subject of
  \<open>Wallet_Safety\<close>. The share rotation request, which touches none of the stores, is in \<open>Wallet_Admin\<close>.
\<close>

section \<open>Routes\<close>

datatype request =
    PostWallet "byte list"
  | GetWallets
  | GetWalletByID string
  | GetWalletAddress string
  | PostAddress string "byte list"
  | DeleteWalletByID string
  | DeleteAddressAt string string
  | GetWalletBalance string string
  | GetSummary string
  | PostIntent "byte list"
  | GetIntents "string \<Rightarrow> string"
  | GetIntentByID string
  | PostApprove string "byte list"
  | PostReject string "byte list"
  | PostRetry string
  | PostExecute string
  | GetFees string

primrec route ::
  "('k, 'p, 't) env \<Rightarrow> request \<Rightarrow> ('w, 'k, 'p, 't) Server \<Rightarrow> response \<times> ('w, 'k, 'p, 't) Server" where
  "route E (PostWallet b) s = handleCreateWallet E b s"
| "route E GetWallets s = (handleListWallets s, s)"
| "route E (GetWalletByID i) s = (handleGetWallet i s, s)"
| "route E (GetWalletAddress i) s = (handleGetAddress i s, s)"
| "route E (PostAddress i b) s = handleCreateAddress E i b s"
| "route E (DeleteWalletByID i) s = handleDeleteWallet i s"
| "route E (DeleteAddressAt i n) s = handleDeleteAddress i n s"
| "route E (GetWalletBalance i c) s = handleGetBalance i c s"
| "route E (GetSummary i) s = handleWalletSummary i s"
| "route E (PostIntent b) s = handleCreateIntent E b s"
| "route E (GetIntents q) s = (handleListIntents E q s, s)"
| "route E (GetIntentByID j) s = (handleGetIntent j s, s)"
| "route E (PostApprove j b) s = handleApproveIntent E j b s"
| "route E (PostReject j b) s = handleRejectIntent E j b s"
| "route E (PostRetry j) s = handleRetryIntent E j s"
| "route E (PostExecute j) s = handleExecuteIntent E j s"
| "route E (GetFees c) s = handleFeeEstimate c s"

text \<open>A new identifier is a UUID: it is not used yet, has no underscore and is not the word index.\<close>

definition fresh_uuid :: "('w, 'k, 'p, 't) Server \<Rightarrow> string \<Rightarrow> bool" where
  "fresh_uuid s u \<longleftrightarrow> CHR ''_'' \<notin> set u \<and> u \<noteq> ''index'' \<and> look (intentStore s) (intentPath u) = None"

inductive served :: "('w, 'k, 'p, 't) Server \<Rightarrow> ('w, 'k, 'p, 't) Server \<Rightarrow> bool" for s where
  start: "served s s"
| request: "served s t \<Longrightarrow> fresh_uuid t (evUuid E) \<Longrightarrow> served s (snd (route E r t))"
| tick: "served s t \<Longrightarrow> served s (expiryTick E t)"

section \<open>The stores stay well formed\<close>

definition wallets_wf :: "Store \<Rightarrow> bool" where
  "wallets_wf st \<longleftrightarrow> index_ok (walletDir st) \<and> accounts_ok (accountDir st) \<and>
     (\<forall>wid. wallet_at (walletDir st) wid \<longrightarrow> CHR ''_'' \<notin> set wid)"

lemma GetWallet_at: "GetWallet st wid = Inr w \<Longrightarrow> wallet_at (walletDir st) wid"
  by (auto simp: GetWallet_def wallet_at_def decoded_def split: sum.splits os_err.splits content.splits wallet_file.splits)

lemma wallet_at_not_index: "index_ok d \<Longrightarrow> wallet_at d wid \<Longrightarrow> wid \<noteq> ''index''"
  using index_ok_no_index by (auto simp: index_ok_def)

lemma wallets_wf_CreateWallet:
  assumes "wallets_wf st" and "CHR ''_'' \<notin> set u" and "u \<noteq> ''index''"
  shows "wallets_wf (snd (CreateWallet st u now name))"
proof (cases "WriteFile (walletDir st) (walletName u) (WalletFile \<lparr>wID = u, wName = name, wCreatedAt = now\<rparr>)")
  case (Inl e)
  with assms(1) show ?thesis by (simp add: CreateWallet_def Let_def)
next
  case (Inr d)
  have "index_ok (walletDir st)" using assms(1) by (simp add: wallets_wf_def)
  from CreateWallet_ok [OF this assms(3) Inr] obtain d' where
    d': "updateIndex d u = (Inr (), d')" "index_ok d'" "set (indexIDs d') = insert u (set (indexIDs (walletDir st)))"
    by blast
  then have "wallet_at d' wid \<longleftrightarrow> wid = u \<or> wallet_at (walletDir st) wid" for wid
    using \<open>index_ok (walletDir st)\<close> by (auto simp: index_ok_def)
  with assms d' Inr show ?thesis by (auto simp: CreateWallet_def Let_def wallets_wf_def)
qed

lemma wallets_wf_SaveAccount:
  "wallets_wf st \<Longrightarrow> CHR ''_'' \<notin> set (acWalletID a) \<Longrightarrow> SaveAccount st a = Inr st' \<Longrightarrow> wallets_wf st'"
  using accounts_ok_Save [of st a st'] by (auto simp: wallets_wf_def SaveAccount_def split: sum.splits)

lemma accounts_ok_Remove: "accounts_ok d \<Longrightarrow> Remove d n = Inr d' \<Longrightarrow> accounts_ok d'"
  by (auto simp: accounts_ok_def decoded_iff look_Remove split: if_splits intro: dir_ok_Remove)

lemma accounts_ok_removeFiles: "accounts_ok d \<Longrightarrow> accounts_ok (removeFiles d ns)"
  by (induction d ns rule: removeFiles.induct) (auto split: sum.split intro: accounts_ok_Remove)

lemma wallets_wf_DeleteWallet:
  assumes "wallets_wf st" and "wallet_at (walletDir st) wid"
  shows "wallets_wf (snd (DeleteWallet st wid))"
proof -
  have ok: "index_ok (walletDir st)" and acc: "accounts_ok (removeAccounts (accountDir st) wid)"
    using assms(1) accounts_ok_removeFiles by (auto simp: wallets_wf_def removeAccounts_def split: sum.split)
  show ?thesis
  proof (cases "Remove (walletDir st) (walletName wid)")
    case (Inl e)
    with assms(1) acc show ?thesis by (auto simp: DeleteWallet_def Let_def wallets_wf_def)
  next
    case (Inr d)
    from DeleteWallet_index [OF ok Inr wallet_at_not_index [OF ok assms(2)]] obtain d' where
      d': "removeFromIndex d wid = (Inr (), d')" "index_ok d'" "set (indexIDs d') = set (indexIDs (walletDir st)) - {wid}"
      by blast
    then have "wallet_at d' w \<Longrightarrow> wallet_at (walletDir st) w" for w
      using ok by (auto simp: index_ok_def)
    with assms(1) d' Inr acc show ?thesis by (auto simp: DeleteWallet_def Let_def wallets_wf_def)
  qed
qed

lemma wallets_wf_DeleteAccount: "wallets_wf st \<Longrightarrow> DeleteAccount st wid c n = Inr st' \<Longrightarrow> wallets_wf st'"
  by (auto simp: DeleteAccount_def wallets_wf_def split: if_splits sum.splits intro: accounts_ok_Remove)

lemma CreateWallet_id: "CreateWallet st u now name = (Inr w, st') \<Longrightarrow> wID w = u"
  by (auto simp: CreateWallet_def Let_def split: sum.splits prod.splits)

lemma storeKey_frame [simp]:
  "walletStore (storeKey E k a h s) = walletStore s" "intentStore (storeKey E k a h s) = intentStore s"
  by (simp_all add: storeKey_def)

lemma new_account:
  "ecdsaAccount E wid c n = Ret (Inr (a, h)) \<Longrightarrow> acWalletID a = wid"
  "solanaAccount E wid c n = Ret (Inr (a, h)) \<Longrightarrow> acWalletID a = wid"
  by (auto simp: ecdsaAccount_def solanaAccount_def Let_def split: sum.splits outcome.splits)

definition keeps_wallets :: "('w, 'k, 'p, 't) Server \<Rightarrow> ('w, 'k, 'p, 't) Server \<Rightarrow> bool" where
  "keeps_wallets s t \<longleftrightarrow> (wallets_wf (walletStore s) \<longrightarrow> wallets_wf (walletStore t)) \<and> intentStore t = intentStore s"

lemma keeps_wallets_refl [simp]: "keeps_wallets s s"
  by (simp add: keeps_wallets_def)

lemma keeps_wallets_trans: "keeps_wallets s t \<Longrightarrow> keeps_wallets t u \<Longrightarrow> keeps_wallets s u"
  by (simp add: keeps_wallets_def)

lemma keeps_wallets_net: "net_call m s = (r, t) \<Longrightarrow> keeps_wallets s t"
  by (auto dest!: net_call_eq simp: keeps_wallets_def)

lemma appendAccount_keeps:
  assumes "appendAccount E k new as s = (r, t)" and "\<And>a h. new = Ret (Inr (a, h)) \<Longrightarrow> CHR ''_'' \<notin> set (acWalletID a)"
  shows "keeps_wallets s t"
  using assms wallets_wf_SaveAccount
  by (auto simp: appendAccount_def keeps_wallets_def split: outcome.splits sum.splits)

lemma createAccounts_keeps:
  assumes "createAccounts E ty wid s = (r, t)" and "CHR ''_'' \<notin> set wid"
  shows "keeps_wallets s t"
proof (cases "ty = ''mpc_solana''")
  case True
  with assms show ?thesis
    by (auto simp: createAccounts_def keeps_wallets_def Let_def split: option.splits if_splits sum.splits)
      (erule wallets_wf_SaveAccount [rotated 2], simp_all)
next
  case False
  obtain q1 s1 where a1: "appendAccount E 0 (ecdsaAccount E wid ''ethereum'' 0) [] s = (q1, s1)" by fastforce
  have k1: "keeps_wallets s s1" using appendAccount_keeps [OF a1] new_account(1) assms(2) by metis
  show ?thesis
  proof (cases q1)
    case (Ret as)
    obtain q2 s2 where a2: "appendAccount E 1 (solanaAccount E wid ''solana'' 0) as s1 = (q2, s2)" by fastforce
    have "keeps_wallets s1 s2" using appendAccount_keeps [OF a2] new_account(2) assms(2) by metis
    with k1 assms(1) False a1 a2 Ret show ?thesis
      by (auto simp: createAccounts_def split: outcome.splits intro: keeps_wallets_trans)
  qed (use k1 assms(1) False a1 in \<open>auto simp: createAccounts_def\<close>)
qed

lemma handleCreateWallet_keeps:
  assumes "CHR ''_'' \<notin> set (evUuid E)" and "evUuid E \<noteq> ''index''"
  shows "keeps_wallets s (snd (handleCreateWallet E b s))"
proof -
  let ?C = "\<lambda>name. CreateWallet (walletStore s) (evUuid E) (evClock E 0) name"
  have c: "keeps_wallets s (s\<lparr>walletStore := st\<rparr>)" if "?C name = (q, st)" for name q st
    using wallets_wf_CreateWallet [OF _ assms, of "walletStore s" "evClock E 0" name] that
    by (simp add: keeps_wallets_def)
  have a: "keeps_wallets s t"
    if "?C name = (Inr w, st)" "createAccounts E ty (wID w) (s\<lparr>walletStore := st\<rparr>) = (q, t)" for name w st ty q t
    using keeps_wallets_trans [OF c [OF that(1)] createAccounts_keeps [OF that(2)]] CreateWallet_id [OF that(1)] assms(1)
    by simp
  show ?thesis
    by (auto simp: handleCreateWallet_def Let_def split: sum.split prod.split outcome.split dest: c a)
qed

lemma handleCreateAddress_keeps: "keeps_wallets s (snd (handleCreateAddress E wid b s))"
proof (cases "GetWallet (walletStore s) wid")
  case (Inr w)
  have plain: "CHR ''_'' \<notin> set wid" if "wallets_wf (walletStore s)"
    using that GetWallet_at [OF Inr] by (simp add: wallets_wf_def)
  have sv: "keeps_wallets s (storeKey E 0 a h s\<lparr>walletStore := st\<rparr>)"
    if "SaveAccount (walletStore s) a = Inr st" "acWalletID a = wid" for a h st
    using wallets_wf_SaveAccount [OF _ _ that(1)] that(2) plain by (simp add: keeps_wallets_def)
  have k: "keeps_wallets s (storeKey E 0 a h s)" for a h by (simp add: keeps_wallets_def)
  have new: "acWalletID a = wid"
    if "(if c = ''solana'' then solanaAccount E wid c n else ecdsaAccount E wid c n) = Ret (Inr (a, h))" for c n a h
    using that new_account by (cases "c = ''solana''") auto
  show ?thesis
    using new sv k by (auto simp: handleCreateAddress_def Inr Let_def simp del: if_image_distrib
        split: sum.split prod.split outcome.split split del: if_split)
qed (simp add: handleCreateAddress_def)

lemma handleDelete_keeps:
  "keeps_wallets s (snd (handleDeleteWallet wid s))" "keeps_wallets s (snd (handleDeleteAddress wid n s))"
  using wallets_wf_DeleteWallet [OF _ GetWallet_at, of "walletStore s" wid] wallets_wf_DeleteAccount
  by (auto simp: handleDeleteWallet_def handleDeleteAddress_def keeps_wallets_def split: sum.splits prod.splits)

lemma handleQuery_keeps:
  "keeps_wallets s (snd (handleGetBalance wid c s))" "keeps_wallets s (snd (handleWalletSummary wid s))"
  "keeps_wallets s (snd (handleFeeEstimate c s))"
  by (auto simp: handleGetBalance_def handleWalletSummary_def handleFeeEstimate_def Let_def
      split: sum.split prod.split outcome.split option.split dest: keeps_wallets_net)

lemmas keeps_simps = handleCreateWallet_keeps handleCreateAddress_keeps handleDelete_keeps handleQuery_keeps

section \<open>What the requests do to the intents\<close>

text \<open>A request works on the intents by a sequence of operations of the store.\<close>

definition by_ops :: "(intent_op \<Rightarrow> bool) \<Rightarrow> ('w, 'k, 'p, 't) Server \<Rightarrow> ('w, 'k, 'p, 't) Server \<Rightarrow> bool" where
  "by_ops P s t \<longleftrightarrow> walletStore t = walletStore s \<and>
     (\<exists>ops. list_all P ops \<and> intentStore t = fold run_op ops (intentStore s))"

lemma by_ops_none: "by_ops P s s"
  unfolding by_ops_def by (rule conjI [OF refl], rule exI [of _ "[]"]) simp

lemma by_ops_one: "P p \<Longrightarrow> by_ops P s (s\<lparr>intentStore := run_op p (intentStore s)\<rparr>)"
  unfolding by_ops_def by (simp, rule exI [of _ "[p]"]) simp

lemma by_ops_step:
  "by_ops P s t \<Longrightarrow> P p \<Longrightarrow> by_ops P s (t\<lparr>intentStore := run_op p (intentStore t)\<rparr>)"
  unfolding by_ops_def
  by (elim conjE exE, rule conjI, simp, rule_tac x = "ops @ [p]" in exI) simp

definition about :: "string \<Rightarrow> intent_op \<Rightarrow> bool" where
  "about j p \<longleftrightarrow> op_ok p \<and>
     (case p of OpStatus _ k _ _ _ \<Rightarrow> k = j | OpApprove _ k _ \<Rightarrow> k = j | OpRetry _ k \<Rightarrow> k = j
      | OpCreate u _ _ _ _ \<Rightarrow> u = j | OpUpdate _ i \<Rightarrow> iID i = j | OpExpire _ \<Rightarrow> False)"

lemma approve_ops: "by_ops (about j) s (snd (handleApproveIntent E j b s))"
proof -
  have "by_ops (about j) s (s\<lparr>intentStore := st\<rparr>)" if "ApproveIntent (intentStore s) now j a = Inr st" for now a st
    using by_ops_one [of "about j" "OpApprove now j a" s] that by (simp add: about_def or_keep_def)
  then show ?thesis by (simp add: handleApproveIntent_def Let_def by_ops_none split: sum.split)
qed

lemma status_ops_one:
  "UpdateIntentStatus (intentStore s) now j q h m = Inr st \<Longrightarrow> by_ops (about j) s (s\<lparr>intentStore := st\<rparr>)"
  using by_ops_one [of "about j" "OpStatus now j q h m" s] by (simp add: about_def or_keep_def)

lemma reject_ops: "by_ops (about j) s (snd (handleRejectIntent E j b s))"
  by (simp add: handleRejectIntent_def by_ops_none status_ops_one split: sum.split)

lemma retry_ops: "by_ops (about j) s (snd (handleRetryIntent E j s))"
proof -
  have "by_ops (about j) s (s\<lparr>intentStore := st\<rparr>)" if "RetryIntent (intentStore s) now j = Inr (i, st)" for now i st
    using by_ops_one [of "about j" "OpRetry now j" s] that by (simp add: about_def or_keep_snd_def)
  then show ?thesis by (simp add: handleRetryIntent_def by_ops_none split: sum.split prod.split)
qed

lemma execute_ops: "by_ops (about j) s (snd (handleExecuteIntent E j s))"
proof -
  have run: "by_ops (about j) s t" if tt: "touches j (s\<lparr>walletLocks := L\<rparr>) t" for t L
  proof -
    obtain ops where "status_ops j ops" "intentStore t = fold run_op ops (intentStore s)"
      using touches_intents [OF tt] by auto
    moreover have "status_ops j ops \<Longrightarrow> list_all (about j) ops" for ops
      unfolding status_ops_def by (erule list.pred_mono_strong) (simp add: about_def split: intent_op.splits)
    ultimately show ?thesis using touches_frame(1) [OF tt] unfolding by_ops_def by auto
  qed
  have locks: "by_ops P s (t\<lparr>walletLocks := L\<rparr>) \<longleftrightarrow> by_ops P s t" for P t L by (simp add: by_ops_def)
  have "by_ops (about j) s t" if "runLocked E i j (s\<lparr>walletLocks := L\<rparr>) = (q, t)" for i L q t
    using run [OF touches_runLocked [OF that]] .
  then show ?thesis
    by (auto simp: handleExecuteIntent_def runExecute_def Let_def locks by_ops_none split: sum.split prod.split)
qed

lemma CreateIntent_op:
  "CreateIntent st u t0 t1 t2 a = Inr (i, st') \<Longrightarrow>
     st' = run_op (OpCreate u t0 t1 t2 a) st \<and> i = newIntent u t0 t1 t2 a"
  by (auto simp: or_keep_snd_def CreateIntent_def Let_def split: sum.splits)

lemma addToken_op:
  "addToken now r i st = (i', st') \<Longrightarrow>
     iID i' = iID i \<and> (intent_wf i \<longrightarrow> st' = st \<or> (\<exists>k. iID k = iID i \<and> intent_wf k \<and> st' = run_op (OpUpdate now k) st))"
proof -
  assume a: "addToken now r i st = (i', st')"
  define k where "k = i\<lparr>iTokenAddress := rqTokenAddress r, iTokenDecimals := rqTokenDecimals r,
    iTokenSymbol := rqTokenSymbol r, iTokenType := rqTokenType r\<rparr>"
  have "iID k = iID i" "intent_wf k \<longleftrightarrow> intent_wf i" by (simp_all add: k_def intent_wf_def)
  moreover have "i' = i \<and> st' = st \<or> i' = k\<lparr>iUpdatedAt := now\<rparr> \<and> st' = run_op (OpUpdate now k) st"
    using a by (auto simp: addToken_def Let_def k_def split: if_splits)
  ultimately show ?thesis by auto
qed

lemma autoApprove_op:
  "autoApprove now r i st = (q, st') \<Longrightarrow> st' = st \<or> st' = run_op (OpApprove now (iID i) (rqCreator r)) st"
  by (auto simp: autoApprove_def or_keep_def split: if_splits sum.splits)

lemma create_ops: "by_ops (about (evUuid E)) s (snd (handleCreateIntent E b s))"
proof -
  let ?C = "CreateIntent (intentStore s) (evUuid E) (evClock E 0) (evClock E 1) (evClock E 2)"
  have "by_ops (about (evUuid E)) s (s\<lparr>intentStore := st2\<rparr>)"
    if c: "?C a = Inr (i0, st0)" and t: "addToken n1 r i0 st0 = (i1, st1)" and p: "autoApprove n2 r i1 st1 = (q, st2)"
    for a i0 st0 n1 r i1 st1 n2 q st2
  proof -
    have st0: "by_ops (about (evUuid E)) s (s\<lparr>intentStore := st0\<rparr>)" and i0: "iID i0 = evUuid E" "intent_wf i0"
      using CreateIntent_op [OF c] by (auto intro!: by_ops_one simp: about_def newIntent_wf simp del: run_op.simps)
    then have upd: "by_ops (about (evUuid E)) s (s\<lparr>intentStore := run_op (OpUpdate n1 k) st0\<rparr>)"
      if "iID k = evUuid E" "intent_wf k" for k
      using by_ops_step [of "about (evUuid E)" s "s\<lparr>intentStore := st0\<rparr>" "OpUpdate n1 k"] that
      by (simp add: about_def del: run_op.simps)
    have st1: "by_ops (about (evUuid E)) s (s\<lparr>intentStore := st1\<rparr>)"
      using addToken_op [OF t] i0 st0 upd by (metis (no_types))
    then have "by_ops (about (evUuid E)) s (s\<lparr>intentStore := run_op (OpApprove n2 (iID i1) (rqCreator r)) st1\<rparr>)"
      using by_ops_step [OF st1, of "OpApprove n2 (iID i1) (rqCreator r)"] addToken_op [OF t] i0
      by (simp add: about_def del: run_op.simps)
    with st1 show ?thesis using autoApprove_op [OF p] by auto
  qed
  then show ?thesis
    by (auto simp: handleCreateIntent_def Let_def by_ops_none split: sum.split prod.split outcome.split)
qed

section \<open>Through all requests\<close>

lemma by_ops_wf: "by_ops (about j) s t \<Longrightarrow> store_wf (intentStore s) \<Longrightarrow> store_wf (intentStore t)"
proof -
  have "list_all (about j) ops \<Longrightarrow> store_wf st \<Longrightarrow> store_wf (fold run_op ops st)" for ops st
    by (induction ops arbitrary: st) (auto simp: about_def store_wf_run_op simp del: run_op.simps)
  then show "by_ops (about j) s t \<Longrightarrow> store_wf (intentStore s) \<Longrightarrow> store_wf (intentStore t)"
    by (auto simp: by_ops_def)
qed

text \<open>Every request either works on the wallets, or works on one intent.\<close>

lemma route_cases:
  assumes "fresh_uuid s (evUuid E)"
  shows "keeps_wallets s (snd (route E r s)) \<or>
    (\<exists>j. by_ops (about j) s (snd (route E r s)) \<and>
       (r = PostExecute j \<or> (\<exists>b. r = PostApprove j b \<or> r = PostReject j b) \<or> r = PostRetry j \<or>
        j = evUuid E \<and> (\<exists>b. r = PostIntent b)))"
  using assms approve_ops reject_ops retry_ops execute_ops create_ops
  by (cases r) (simp_all add: fresh_uuid_def keeps_simps, blast+)

definition service_wf :: "('w, 'k, 'p, 't) Server \<Rightarrow> bool" where
  "service_wf s \<longleftrightarrow> store_wf (intentStore s) \<and> wallets_wf (walletStore s)"

lemma service_wf_route:
  assumes "fresh_uuid s (evUuid E)" and "service_wf s"
  shows "service_wf (snd (route E r s))"
  using route_cases [OF assms(1), of r] assms(2) by_ops_wf
  by (auto simp: service_wf_def keeps_wallets_def by_ops_def)

lemma service_wf_tick: "service_wf s \<Longrightarrow> service_wf (expiryTick E s)"
  by (auto simp: service_wf_def expiryTick_def or_keep_snd_def split: sum.split intro: store_wf_Expire)


text \<open>An operation about another intent leaves an intent alone.\<close>

lemma run_op_other:
  assumes "store_wf st" and "about k p" and "k \<noteq> j"
  shows "getIntentUnsafe (run_op p st) j = getIntentUnsafe st j"
proof (cases p)
  case (OpCreate u t0 t1 t2 a)
  with assms show ?thesis
    by (auto simp: or_keep_snd_def CreateIntent_def Let_def about_def getIntentUnsafe_saveIntent split: sum.split)
next
  case (OpApprove now i a)
  with assms show ?thesis
    by (auto simp: or_keep_def about_def getIntentUnsafe_saveIntent split: sum.split
        elim!: ApproveIntent_Inr dest!: store_wf_get)
next
  case (OpStatus now i q h e)
  with assms show ?thesis
    by (auto simp: or_keep_def about_def getIntentUnsafe_saveIntent split: sum.split
        elim!: UpdateIntentStatus_Inr dest!: store_wf_get)
next
  case (OpRetry now i)
  with assms show ?thesis
    by (auto simp: or_keep_snd_def about_def getIntentUnsafe_saveIntent split: sum.split
        elim!: RetryIntent_Inr dest!: store_wf_get)
next
  case (OpUpdate now i)
  with assms show ?thesis
    by (auto simp: or_keep_def about_def UpdateIntent_def getIntentUnsafe_saveIntent split: sum.split)
qed (use assms in \<open>simp add: about_def\<close>)

lemma by_ops_other:
  assumes "by_ops (about k) s t" and "store_wf (intentStore s)" and "k \<noteq> j"
  shows "GetIntent (intentStore t) j = GetIntent (intentStore s) j"
proof -
  have "list_all (about k) ops \<Longrightarrow> store_wf st \<Longrightarrow> getIntentUnsafe (fold run_op ops st) j = getIntentUnsafe st j" for ops st
    using assms(3)
    by (induction ops arbitrary: st) (auto simp: run_op_other store_wf_run_op about_def simp del: run_op.simps)
  then show ?thesis using assms(1,2) by (auto simp: by_ops_def GetIntent_getIntentUnsafe)
qed

section \<open>Intents that are left executing\<close>

lemma expire_loop_keeps:
  "store_wf st \<Longrightarrow> getIntentUnsafe st j = Inr i \<Longrightarrow> \<not> expirable now i \<Longrightarrow>
   getIntentUnsafe (snd (expire_loop now fs st n)) j = Inr i"
proof (induction fs arbitrary: st n)
  case Nil
  then show ?case by simp
next
  case (Cons f fs)
  show ?case
  proof (cases "\<exists>k st'. decoded st f = Some k \<and> expirable now k \<and> saveIntent st (expireIntent now k) = Inr st'")
    case True
    then obtain k st' where k: "decoded st f = Some k" "expirable now k" and
      sv: "saveIntent st (expireIntent now k) = Inr st'"
      by blast
    have "iID k \<noteq> j"
      using k Cons.prems store_wf_decoded [OF Cons.prems(1) k(1)] by (auto simp: getIntentUnsafe_Inr)
    then have "getIntentUnsafe st' j = Inr i"
      using getIntentUnsafe_saveIntent [OF sv, of j] Cons.prems(2) by simp
    moreover have "store_wf st'"
      using store_wf_save [OF sv Cons.prems(1)] store_wf_decoded [OF Cons.prems(1) k(1)] expireIntent_wf by blast
    ultimately show ?thesis using k sv Cons.IH [of st'] Cons.prems(3) by simp
  next
    case False
    then show ?thesis using Cons by (auto split: option.split sum.split)
  qed
qed

lemma tick_keeps:
  assumes "service_wf s" and "GetIntent (intentStore s) j = Inr i" and "iStatus i = IntentStatusExecuting"
  shows "GetIntent (intentStore (expiryTick E s)) j = Inr i"
proof -
  have "getIntentUnsafe (snd (expire_loop (evClock E 0) fs (intentStore s) n)) j = Inr i" for fs n
    using assms by (intro expire_loop_keeps) (simp_all add: service_wf_def GetIntent_getIntentUnsafe expirable_def)
  then show ?thesis
    using assms(2) by (simp add: expiryTick_def or_keep_snd_def ExpireIntents_def GetIntent_getIntentUnsafe split: sum.split)
      (metis snd_conv)
qed

lemma own_requests_refused:
  assumes "GetIntent (intentStore s) j = Inr i" and "iStatus i = IntentStatusExecuting"
  shows "handleExecuteIntent E j s = (sendError 409 ''Intent is already being executed'', s)"
    and "snd (handleApproveIntent E j b s) = s" and "snd (handleRejectIntent E j b s) = s"
    and "status (fst (handleRetryIntent E j s)) = 400" and "snd (handleRetryIntent E j s) = s"
  using assms
  by (simp_all add: handleExecuteIntent_def checkExecute_def handleApproveIntent_def handleRejectIntent_def
      handleRetryIntent_def ApproveIntent_def GetIntent_getIntentUnsafe Let_def split: sum.split)

lemma route_keeps:
  assumes "service_wf s" and "fresh_uuid s (evUuid E)"
    and "GetIntent (intentStore s) j = Inr i" and "iStatus i = IntentStatusExecuting"
  shows "GetIntent (intentStore (snd (route E r s))) j = Inr i"
proof -
  consider (wallets) "keeps_wallets s (snd (route E r s))"
    | (intent) k where "by_ops (about k) s (snd (route E r s))"
        "r = PostExecute k \<or> (\<exists>b. r = PostApprove k b \<or> r = PostReject k b) \<or> r = PostRetry k \<or>
         k = evUuid E \<and> (\<exists>b. r = PostIntent b)"
    using route_cases [OF assms(2), of r] by blast
  then show ?thesis
  proof cases
    case wallets
    with assms(3) show ?thesis by (simp add: keeps_wallets_def)
  next
    case (intent k)
    have "evUuid E \<noteq> j"
      using assms(2,3) by (auto simp: fresh_uuid_def GetIntent_getIntentUnsafe getIntentUnsafe_Inr decoded_iff)
    with intent(2) assms(3) own_requests_refused [OF assms(3,4), of E] by_ops_other [OF intent(1), of j] assms(1)
    show ?thesis by (cases "k = j") (auto simp: service_wf_def)
  qed
qed

lemma served_keeps:
  assumes "served s t" and "service_wf s" and "GetIntent (intentStore s) j = Inr i" and "iStatus i = IntentStatusExecuting"
  shows "service_wf t \<and> GetIntent (intentStore t) j = Inr i"
  using assms
  by (induction rule: served.induct) (auto intro: service_wf_route service_wf_tick tick_keeps route_keeps)

text \<open>
  C7: When the broadcast of an Ethereum or ERC-20 transfer fails, the intent is stranded: the answer is an
  error, the intent stays executing through every later sequence of requests and expiry ticks, every
  attempt to execute it again is refused with status 409 and every retry with status 400.
\<close>

theorem broadcast_failure_strands:
  assumes "service_wf s" and "handleExecuteIntent E j s = (r, s')"
    and "GetIntent (intentStore s) j = Inr i" and "iChain i \<noteq> ''solana''" and "iTokenType i \<noteq> ''spl''"
    and "send_failed r e" and "broadcast_error e" and "served s' t"
  shows "GetIntent (intentStore t) j = Inr (i\<lparr>iStatus := IntentStatusExecuting, iUpdatedAt := evClock E 1\<rparr>) \<and>
    (\<forall>E'. status (fst (handleExecuteIntent E' j t)) = 409 \<and> status (fst (handleRetryIntent E' j t)) = 400)"
proof -
  have wf: "store_wf (intentStore s)" using assms(1) by (simp add: service_wf_def)
  have g: "GetIntent (intentStore s') j = Inr (i\<lparr>iStatus := IntentStatusExecuting, iUpdatedAt := evClock E 1\<rparr>)"
    and "store_wf (intentStore s')"
    using broadcast_failure_executing [OF wf assms(2-7)] by blast+
  moreover have "walletStore s' = walletStore s"
    using execute_ops [of j s E] assms(2) by (simp add: by_ops_def)
  ultimately have "service_wf s'" using assms(1) by (simp add: service_wf_def)
  then have t: "GetIntent (intentStore t) j = Inr (i\<lparr>iStatus := IntentStatusExecuting, iUpdatedAt := evClock E 1\<rparr>)"
    using served_keeps [OF assms(8) _ g] by simp
  then show ?thesis using own_requests_refused [OF t] by simp
qed

end
