(* ===== verification/Wallet_Witness.thy ===== *)
theory Wallet_Witness
  imports Wallet_Requests
begin

text \<open>
  Runs of the wallet service on concrete data: a server with one approved Ethereum intent, its key, and
  a node that counts the transactions it receives, or refuses them. They show that the hypotheses of the
  theorems about executions can hold.
\<close>

section \<open>The server\<close>

definition wit_node :: "bool \<Rightarrow> nat RPCClient" where
  "wit_node up = NewRPCClient (\<lambda>url req w.
     if rqMethod req = ''eth_getTransactionCount'' then (Document (ok_response (JStr ''0x5'')), w)
     else if rqMethod req = ''eth_gasPrice'' then (Document (ok_response (JStr ''0x64'')), w)
     else if rqMethod req = ''eth_sendRawTransaction'' \<and> up then (Document (ok_response (JStr ''0xabc'')), Suc w)
     else (NoReply ''timeout'', w)) ''http://node''"

definition wit_builder :: "bool \<Rightarrow> (nat, unit, unit, EthTx) TxBuilder" where
  "wit_builder up = NewTxBuilder demo_geth (wit_node up) 1"

definition wit_intent :: TransactionIntent where
  "wit_intent = (newIntent ''i1'' 1 2 3 \<lparr>aWalletID = ''w'', aChain = ''ethereum'', aFrom = ''0xa'', aTo = ''0xb'',
     aValue = ''60'', aValueDisplay = ''60 ETH'', aGasLimit = 21000, aRequiredSigs = 1, aExpiryHours = 24,
     aMaxRetries = 3, aFeeSpeed = []\<rparr>)\<lparr>iStatus := IntentStatusApproved\<rparr>"

definition wit_keys :: KeyStore where
  "wit_keys = or_keep (empty_dir ''keys'') (SaveKey toy (Inr [1, 2]) (Inr (replicate 12 7)) (empty_dir ''keys'')
     \<lparr>kaWalletID = ''w'', kaChain = ''ethereum'', kaIndex = 0, kaAddress = ''0xa'', kaKeyHex = ''00ff'', kaPassword = ''pw''\<rparr>)"

definition wit_server :: "bool \<Rightarrow> ZkEngine option \<Rightarrow> (nat, unit, unit, EthTx) Server" where
  "wit_server up engine = \<lparr>walletStore = no_wallets, keyStore = wit_keys,
     intentStore = (empty_dir ''i'')\<lparr>ents := [(''i1.json'', File (Json wit_intent))]\<rparr>,
     txService = AddChain NewService ''ethereum'' (wit_builder up), svPassword = ''pw'', intentExpiryHours = 24,
     svMaxRetries = 3, walletLocks = {}, policyEngine = engine, mpcEnabled = False, mpcSolanaSigner = None,
     zkWorld = zk_demo_world, network = 0\<rparr>"

definition wit_env :: "(unit, unit, EthTx) env" where
  "wit_env = \<lparr>evGeth = demo_geth, evTx = demo_env, evCrypto = toy, evSalt = (\<lambda>_. Inr [1, 2]),
     evNonce = (\<lambda>_. Inr (replicate 12 7)), evClock = (\<lambda>k. 6 + int k), evUuid = ''u1'', evTime = (\<lambda>_. None),
     evOddText = (\<lambda>_. None), evOddSol = (\<lambda>_. None), evLockInTime = True, evBigFloat = (\<lambda>_. 0)\<rparr>"

lemma wit_key: "LoadKey toy wit_keys ''w'' ''ethereum'' 0 ''pw'' = Inr (''0xa'', ''00ff'', None)"
proof -
  let ?a = "\<lparr>kaWalletID = ''w'', kaChain = ''ethereum'', kaIndex = 0, kaAddress = ''0xa'', kaKeyHex = ''00ff'',
     kaPassword = ''pw''\<rparr>"
  have "is_ok (SaveKey toy (Inr [1, 2]) (Inr (replicate 12 7)) (empty_dir ''keys'') ?a)" by code_simp
  then obtain ks where "SaveKey toy (Inr [1, 2]) (Inr (replicate 12 7)) (empty_dir ''keys'') ?a = Inr ks"
    by (auto simp: is_ok_iff)
  with SaveKeyV2_LoadKey [OF toy_ok, of _ "replicate 12 7" _ ?a ks] show ?thesis
    by (simp add: wit_keys_def or_keep_def SaveKey_def NonceSize_def)
qed

lemma wit_answers:
  "answers (wit_node up) ''eth_getTransactionCount'' ps w (JStr ''0x5'') w"
  "answers (wit_node up) ''eth_gasPrice'' ps w (JStr ''0x64'') w"
  "answers (wit_node True) ''eth_sendRawTransaction'' ps w (JStr ''0xabc'') (Suc w)"
  by (simp_all add: answers_def wit_node_def NewRPCClient_def rpc_request_def)

lemma wit_silent:
  "rpc_call (wit_node up) ''eth_feeHistory'' ps w = (Ret (Inl ''http request failed: timeout''), w)"
  "rpc_call (wit_node up) ''eth_getBalance'' ps w = (Ret (Inl ''http request failed: timeout''), w)"
  "rpc_call (wit_node False) ''eth_sendRawTransaction'' ps w = (Ret (Inl ''http request failed: timeout''), w)"
  by (simp_all add: rpc_call_def wit_node_def NewRPCClient_def rpc_request_def)

lemma wit_nonce: "GetNonce (wit_node up) a w = (Ret (Inr 5), w)"
  by (simp add: GetNonce_def rpc_call_answer [OF wit_answers(1)] unmarshal_string_def Unmarshal_string
      unquote_plain demo_numbers)

lemma wit_fees: "GetFeeInfo (wit_node up) w = (Ret (Inr (feesFromGasPrice 100)), w)"
  by (simp add: GetFeeInfo_def chooseFees_def legacyFees_def GetGasPrice_def rpc_call_answer [OF wit_answers(2)]
      wit_silent unmarshal_string_def Unmarshal_string unquote_plain give_big_def from2_def demo_numbers)

lemma wit_send:
  "SendTransactionEIP1559 (AddChain NewService ''ethereum'' (wit_builder up)) ''ethereum'' to v (ecSigner demo_geth ()) sp w =
     (if up then (Ret (Inr ''0xabc''), Suc w)
      else (Ret (Inl (''failed to broadcast tx: '' @ ''failed to broadcast: '' @ ''failed to send raw tx: '' @
              ''http request failed: timeout'')), w))"
proof -
  have b: "\<exists>raw. BuildAndSignTxEIP1559 (wit_builder up) to v () sp w = (Ret (Inr (''0x'', raw)), w)"
    by (simp add: BuildAndSignTxEIP1559_def wit_builder_def NewTxBuilder_def wit_nonce wit_fees signAndEncode_def
        demo_geth_def split: prod.split)
  then obtain raw where "BuildAndSignTxEIP1559 (wit_builder up) to v () sp w = (Ret (Inr (''0x'', raw)), w)" by blast
  moreover have "SendRawTransaction (wit_node True) raw w = (Ret (Inr ''0xabc''), Suc w)"
    by (simp add: SendRawTransaction_def rpc_call_answer [OF wit_answers(3)] unmarshal_string_def Unmarshal_string
        unquote_plain)
  moreover have "SendRawTransaction (wit_node False) raw w =
      (Ret (Inl (''failed to send raw tx: '' @ ''http request failed: timeout'')), w)"
    by (simp add: SendRawTransaction_def wit_silent)
  ultimately show ?thesis
    by (simp add: SendTransactionEIP1559_def AddChain_def NewService_def buildAndBroadcast_def ecSigner_def
        ec_GetPrivateKey_def BroadcastTransaction_def wit_builder_def NewTxBuilder_def)
qed

section \<open>One execution\<close>

lemma wit_get: "GetIntent (intentStore (wit_server up engine)) ''i1'' = Inr wit_intent"
  by (simp add: wit_server_def GetIntent_def ReadFile_def look_def intentPath_def)

lemma wit_fields:
  "iStatus wit_intent = IntentStatusApproved" "iChain wit_intent = ''ethereum''" "iWalletID wit_intent = ''w''"
  "iTokenType wit_intent = []" "iTo wit_intent = ''0xb''" "iValue wit_intent = ''60''" "iID wit_intent = ''i1''"
  "zk_intent wit_intent = z_intent ''60''"
  by (simp_all add: wit_intent_def newIntent_def Let_def zk_intent_def z_intent_def)

lemma wit_wf: "store_wf (intentStore (wit_server up engine))"
proof -
  have "decoded (intentStore (wit_server up engine)) n = Some i \<Longrightarrow> n = ''i1.json'' \<and> i = wit_intent" for n i
    by (auto simp: decoded_iff wit_server_def look_def split: if_splits)
  moreover have "intent_wf wit_intent" by (simp add: intent_wf_def wit_intent_def newIntent_def Let_def)
  moreover have "dir_ok (intentStore (wit_server up engine))" by (simp add: wit_server_def dir_ok_def ents_ok_def)
  moreover have "intentPath (iID wit_intent) = ''i1.json''" by (simp add: intentPath_def wit_fields)
  ultimately show ?thesis unfolding store_wf_def by metis
qed

lemma wit_update: "\<exists>st. UpdateIntentStatus (intentStore (wit_server up engine)) now ''i1'' q h e = Inr st"
proof -
  have "\<exists>st. saveIntent (intentStore (wit_server up engine)) i = Inr st" if "iID i = ''i1''" for i
    using that by (auto simp: saveIntent_def WriteFile_def wit_server_def empty_dir_def look_def intentPath_def)
  then show ?thesis
    using wit_get [of up engine] by (simp add: UpdateIntentStatus_def GetIntent_getIntentUnsafe Let_def wit_fields)
qed

lemma wit_native:
  assumes "txService s = AddChain NewService ''ethereum'' (wit_builder up)"
    and "UpdateIntentStatus (intentStore s) 7 ''i1'' IntentStatusExecuting [] [] = Inr st"
  shows "executeEthereumNative wit_env wit_intent ''i1'' ''00ff'' s =
     (if up then (Ret (Inr ''0xabc''), s\<lparr>intentStore := st, network := Suc (network s)\<rparr>)
      else (Ret (Inl (''failed to broadcast tx: '' @ ''failed to broadcast: '' @ ''failed to send raw tx: '' @
              ''http request failed: timeout'')), s\<lparr>intentStore := st\<rparr>))"
proof -
  have sg: "NewECDSASignerFromHex (evGeth wit_env) ''00ff'' = Inr (ecSigner demo_geth ())"
    by (simp add: NewECDSASignerFromHex_def wit_env_def demo_geth_def)
  have "net_call (ts_CheckBalanceSufficient (txService s) ''ethereum'' a v g) s =
      (Ret (Inl (''failed to get balance: failed to get balance: http request failed: timeout'')), s)" for a v g
    by (simp add: net_call_def ts_CheckBalanceSufficient_def IsSolanaChain_def assms(1) AddChain_def NewService_def
        CheckBalanceSufficient_def GetBalance_def wit_builder_def NewTxBuilder_def wit_silent)
  moreover have "updateStatus wit_env 1 ''i1'' IntentStatusExecuting [] [] s = (Inr (), s\<lparr>intentStore := st\<rparr>)"
    using assms(2) by (simp add: updateStatus_def wit_env_def)
  ultimately show ?thesis
    using assms(1) by (simp add: executeEthereumNative_def Let_def wit_fields whenExecuting_def sg net_call_def wit_send)
qed

lemma wit_gate: "\<exists>z. zkGate wit_env wit_intent (wit_server up (Some zk_demo)\<lparr>walletLocks := L\<rparr>) =
    (Ret (Inr ()), wit_server up (Some zk_demo)\<lparr>walletLocks := L, zkWorld := z\<rparr>)"
proof -
  obtain pf z where "EvaluateAndProve 9 zk_demo (z_intent ''60'') zk_demo_world = (Ret (Inr pf), z)"
    using EvaluateAndProve_sound_witness by blast
  then have "EvaluateAndProve (evClock wit_env 3) zk_demo (zk_intent wit_intent)
      (zkWorld (wit_server up (Some zk_demo)\<lparr>walletLocks := L\<rparr>)) = (Ret (Inr pf), z)"
    by (simp add: wit_env_def wit_fields) (simp add: wit_server_def)
  moreover have "policyEngine (wit_server up (Some zk_demo)\<lparr>walletLocks := L\<rparr>) = Some zk_demo"
    by (simp add: wit_server_def)
  ultimately show ?thesis by (intro exI [of _ z]) (simp add: zkGate_def)
qed

lemma wit_run:
  "\<exists>s'. handleExecuteIntent wit_env ''i1'' (wit_server up (Some zk_demo)) =
     (if up then sendJSON 200 (ExecutedBody ''0xabc'' ''i1'')
      else sendError 500 (''Failed to send tx: '' @ ''failed to broadcast tx: '' @ ''failed to broadcast: '' @
        ''failed to send raw tx: '' @ ''http request failed: timeout''), s') \<and> network s' = (if up then 1 else 0)"
proof -
  let ?s = "wit_server up (Some zk_demo)"
  define s1 where "s1 = ?s\<lparr>walletLocks := insert (lockKey wit_intent) (walletLocks ?s)\<rparr>"
  have f: "txService ?s = AddChain NewService ''ethereum'' (wit_builder up)" "network ?s = 0"
    "keyStore ?s = wit_keys" "svPassword ?s = ''pw''" "mpcSolanaSigner ?s = None"
    by (simp_all add: wit_server_def)
  obtain st where st: "UpdateIntentStatus (intentStore ?s) 7 ''i1'' IntentStatusExecuting [] [] = Inr st"
    using wit_update by blast
  obtain z where z: "zkGate wit_env wit_intent s1 = (Ret (Inr ()), s1\<lparr>zkWorld := z\<rparr>)"
    using wit_gate unfolding s1_def by blast
  have m: "mpcSigner wit_intent s1 = None" by (simp add: mpcSigner_def wit_fields)
  have k: "loadKey wit_env wit_intent None s1 = (Inr ''00ff'', s1)"
    using wit_key by (simp add: loadKey_def s1_def f wit_fields) (simp add: wit_env_def)
  have "sendIntent wit_env wit_intent ''i1'' None ''00ff'' (s1\<lparr>zkWorld := z\<rparr>) =
     (if up then (Ret (Inr (Inr ''0xabc'')), s1\<lparr>zkWorld := z, intentStore := st, network := 1\<rparr>)
      else (Ret (Inr (Inl (''failed to broadcast tx: '' @ ''failed to broadcast: '' @ ''failed to send raw tx: '' @
              ''http request failed: timeout''))), s1\<lparr>zkWorld := z, intentStore := st\<rparr>))"
    using wit_native [of "s1\<lparr>zkWorld := z\<rparr>" up st] st f
    by (cases up) (simp_all add: sendIntent_def executeNativeIntent_def wit_fields s1_def)
  then have "runLocked wit_env wit_intent ''i1'' s1 =
     (if up then (sendJSON 200 (ExecutedBody ''0xabc'' ''i1''),
        snd (updateStatus wit_env 2 ''i1'' IntentStatusSent ''0xabc'' [] (s1\<lparr>zkWorld := z, intentStore := st, network := 1\<rparr>)))
      else (sendError 500 (''Failed to send tx: '' @ ''failed to broadcast tx: '' @ ''failed to broadcast: '' @
        ''failed to send raw tx: '' @ ''http request failed: timeout''), s1\<lparr>zkWorld := z, intentStore := st\<rparr>))"
    by (simp add: runLocked_def m k z)
  moreover have "network (snd (updateStatus E n j q h e t)) = network t" for E :: "(unit, unit, EthTx) env" and n j q h e
      and t :: "(nat, unit, unit, EthTx) Server"
    by (simp add: updateStatus_def split: sum.split)
  moreover have "checkExecute ''i1'' ?s = Inr wit_intent" by (simp add: checkExecute_Inr wit_get wit_fields)
  moreover have "evLockInTime wit_env" by (simp add: wit_env_def)
  ultimately show ?thesis
    by (simp add: handleExecuteIntent_def runExecute_def Let_def s1_def [symmetric] split: prod.split)
      (simp add: s1_def, simp add: wit_server_def)
qed

section \<open>Witnesses\<close>

text \<open>The intent of the demonstration is approved; the request for any other is refused.\<close>

theorem execute_requires_approval_witness:
  "snd (handleExecuteIntent wit_env ''i2'' (wit_server True None)) = wit_server True None"
proof -
  have "GetIntent (intentStore (wit_server True None)) ''i2'' = Inl ''intent not found''"
    by (simp add: wit_server_def GetIntent_def ReadFile_def look_def intentPath_def)
  then show ?thesis using execute_requires_approval [of "wit_server True None" "''i2''" wit_env] by simp
qed

theorem no_send_without_proof_witness:
  "\<exists>s'. handleExecuteIntent wit_env ''i1'' (wit_server True (Some zk_demo)) =
       (sendJSON 200 (ExecutedBody ''0xabc'' ''i1''), s') \<and>
     network s' \<noteq> network (wit_server True (Some zk_demo)) \<and>
     (\<forall>p \<in> set (policies zk_demo). EvaluatePolicy p (z_intent ''60'') = Inr True)"
proof -
  obtain s' where run: "handleExecuteIntent wit_env ''i1'' (wit_server True (Some zk_demo)) =
       (sendJSON 200 (ExecutedBody ''0xabc'' ''i1''), s')" and n: "network s' = 1"
    using wit_run [of True] by auto
  have "policyEngine (wit_server True (Some zk_demo)) = Some zk_demo" by (simp add: wit_server_def)
  from no_send_without_proof [OF this wit_get run] run n show ?thesis
    by (simp add: wit_fields) (simp add: wit_server_def)
qed


theorem lock_excludes_nobody_witness:
  "fst (runExecute wit_env ''i1'' wit_intent (wit_server True (Some zk_demo)\<lparr>walletLocks := {lockKey wit_intent}\<rparr>)) =
   sendJSON 200 (ExecutedBody ''0xabc'' ''i1'')"
proof -
  have "evLockInTime wit_env" by (simp add: wit_env_def)
  moreover have "checkExecute ''i1'' (wit_server True (Some zk_demo)) = Inr wit_intent"
    by (simp add: checkExecute_Inr wit_get wit_fields)
  ultimately show ?thesis
    using wit_run [of True] lock_excludes_nobody [where E = wit_env and j = "''i1''" and i = wit_intent and L = "{lockKey wit_intent}"
      and s = "wit_server True (Some zk_demo)"]
    by (auto simp: handleExecuteIntent_def)
qed

lemma wit_service_wf: "service_wf (wit_server up engine)"
proof -
  have "accounts_ok (accountDir no_wallets)"
    by (simp add: accounts_ok_def no_wallets_def decoded_iff look_def empty_dir_def dir_ok_def ents_ok_def)
  moreover have "\<not> wallet_at (walletDir no_wallets) w" for w
    by (simp add: wallet_at_look no_wallets_def look_def empty_dir_def)
  ultimately have "wallets_wf no_wallets" using no_wallets_ok by (simp add: wallets_wf_def)
  then show ?thesis using wit_wf by (simp add: service_wf_def) (simp add: wit_server_def)
qed


theorem broadcast_failure_strands_witness:
  "\<exists>s' i. handleExecuteIntent wit_env ''i1'' (wit_server False (Some zk_demo)) =
       (sendError 500 (''Failed to send tx: '' @ ''failed to broadcast tx: '' @ ''failed to broadcast: '' @
          ''failed to send raw tx: '' @ ''http request failed: timeout''), s') \<and>
     GetIntent (intentStore (expiryTick wit_env s')) ''i1'' = Inr i \<and> iStatus i = IntentStatusExecuting \<and>
     status (fst (handleExecuteIntent wit_env ''i1'' (expiryTick wit_env s'))) = 409"
proof -
  let ?e = "''failed to broadcast tx: '' @ ''failed to broadcast: '' @ ''failed to send raw tx: '' @
     ''http request failed: timeout''"
  obtain s' where run: "handleExecuteIntent wit_env ''i1'' (wit_server False (Some zk_demo)) =
       (sendError 500 (''Failed to send tx: '' @ ?e), s')"
    using wit_run [of False] by auto
  have "broadcast_error ?e" by (simp add: broadcast_error_def HasPrefix_def)
  moreover have "send_failed (sendError 500 (''Failed to send tx: '' @ ?e)) ?e" by (simp add: send_failed_def)
  moreover have "served s' (expiryTick wit_env s')" by (intro served.intros)
  ultimately show ?thesis
    using broadcast_failure_strands [OF wit_service_wf run wit_get] run by (simp add: wit_fields)
qed

end
