(* ===== verification/Wallet_Accounts.thy ===== *)
theory Wallet_Accounts
  imports Wallet_Admin Wallet_Witness
begin

text \<open>
  What the wallet service guarantees about new addresses, and about wallets whose key the MPC cluster
  holds.
\<close>

section \<open>New addresses\<close>

lemma u32_increment:
  assumes "(w :: u32) \<noteq> - 1"
  shows "w < w + 1"
proof -
  have "1 + w \<noteq> 0" using assms eq_neg_iff_add_eq_0 [of w 1] by (simp add: add.commute)
  then have "unat (w + 1) = Suc (unat w)" unfolding add.commute [of w 1] by (rule unatSuc)
  then show ?thesis by (simp add: word_less_nat_alt)
qed

lemma nextIndex_bound:
  assumes "\<forall>a \<in> set as. acIndex a \<noteq> - 1"
  shows "n \<le> nextIndex c as n \<and> (\<forall>a \<in> set as. acChain a = c \<longrightarrow> acIndex a < nextIndex c as n)"
  using assms
proof (induction as arbitrary: n)
  case Nil
  then show ?case by simp
next
  case (Cons a as)
  let ?m = "if acChain a = c \<and> n \<le> acIndex a then acIndex a + 1 else n"
  have inc: "acIndex a < acIndex a + 1" using Cons.prems by (intro u32_increment) simp
  have "n \<le> ?m" using inc by auto
  moreover have "acChain a = c \<Longrightarrow> acIndex a < ?m" using inc by auto
  moreover have "?m \<le> nextIndex c as ?m" "\<forall>b \<in> set as. acChain b = c \<longrightarrow> acIndex b < nextIndex c as ?m"
    using Cons by auto
  ultimately show ?case by (auto split del: if_split)
qed

lemma new_account_index:
  "ecdsaAccount E wid c n = Ret (Inr (a, h)) \<Longrightarrow> acIndex a = n \<and> acChain a = c"
  "solanaAccount E wid c n = Ret (Inr (a, h)) \<Longrightarrow> acIndex a = n \<and> acChain a = c"
  by (auto simp: ecdsaAccount_def solanaAccount_def Let_def split: sum.splits outcome.splits)

text \<open>
  C23: The index of a new address is above the index of every address the wallet has on that chain, unless one
  of them has reached the last index, 2 to the 32 minus 1. But when the directory of the accounts cannot be
  listed, the error is ignored and the new address gets index 0, and with it the key file of the first one.
\<close>

theorem new_address_index:
  assumes "handleCreateAddress E wid b s = (r, s')" and "content r = AddressCreated wid a" and "status r = 201"
  shows "(\<forall>as. GetAccountsForWallet (walletStore s) wid = Inr as \<and> (\<forall>x \<in> set as. acIndex x \<noteq> - 1) \<longrightarrow>
      (\<forall>x \<in> set as. acChain x = acChain a \<longrightarrow> acIndex x < acIndex a)) \<and>
    (\<forall>e. GetAccountsForWallet (walletStore s) wid = Inl e \<longrightarrow> acIndex a = 0)"
proof -
  have "\<exists>c. acChain a = c \<and> acIndex a = nextIndex c (accounts_or_none (walletStore s) wid) 0"
    using assms
    by (auto dest!: new_account_index simp: handleCreateAddress_def Let_def sendError_def sendJSON_def recovered_def
        split: sum.splits prod.splits outcome.splits if_splits)
  then have i: "acIndex a = nextIndex (acChain a) (accounts_or_none (walletStore s) wid) 0" by simp
  have "GetAccountsForWallet (walletStore s) wid = Inr as \<Longrightarrow> \<forall>x \<in> set as. acIndex x \<noteq> - 1 \<Longrightarrow>
      \<forall>x \<in> set as. acChain x = acChain a \<longrightarrow> acIndex x < acIndex a" for as
    using nextIndex_bound [of as 0 "acChain a"] i by (simp add: accounts_or_none_def)
  moreover have "GetAccountsForWallet (walletStore s) wid = Inl e \<Longrightarrow> acIndex a = 0" for e
    using i by (simp add: accounts_or_none_def)
  ultimately show ?thesis by blast
qed

lemma wit_accounts: "GetAccountsForWallet demo_wallets ''u1'' = Inr [Wallet_Store.demo_account ''u1'' 1]"
  "is_ok (GetWallet demo_wallets ''u1'')"
  "is_ok (SaveAccount demo_wallets (Wallet_Store.demo_account ''u1'' 2))"
  by code_simp+

lemma wit_new_account:
  "ecdsaAccount wit_env ''u1'' ''ethereum'' n = Ret (Inr (\<lparr>acWalletID = ''u1'', acChain = ''ethereum'',
     acAddress = AddressHex demo_geth (PubkeyToAddress demo_geth ()), acPubKey = replicate 33 2,
     acSignerType = ''ecdsa'', acIndex = n\<rparr>, ec_PrivateKeyHex demo_geth (ecSigner demo_geth ())))"
  by (simp add: ecdsaAccount_def wit_env_def Let_def NewECDSASigner_def ec_EthereumAddress_def ec_CompressedPublicKey_def
      ecSigner_def demo_geth_def)

theorem new_address_index_witness:
  "\<exists>r s' a. handleCreateAddress wit_env ''u1'' (bytes_of ''{}'') (wit_server True None\<lparr>walletStore := demo_wallets\<rparr>) =
       (r, s') \<and> content r = AddressCreated ''u1'' a \<and> 1 < acIndex a"
proof -
  let ?s = "wit_server True None\<lparr>walletStore := demo_wallets\<rparr>"
  obtain w where w: "GetWallet demo_wallets ''u1'' = Inr w" using wit_accounts(2) by (auto simp: is_ok_iff)
  have d: "json_Decode dec_CreateAddressRequest \<lparr>caChain = []\<rparr> (bytes_of ''{}'') = Inr \<lparr>caChain = []\<rparr>" by code_simp
  have i: "nextIndex ''ethereum'' (accounts_or_none demo_wallets ''u1'') 0 = 2"
    by (simp add: accounts_or_none_def wit_accounts Wallet_Store.demo_account_def)
  obtain a h where a: "ecdsaAccount wit_env ''u1'' ''ethereum'' 2 = Ret (Inr (a, h))" using wit_new_account by blast
  have "\<exists>st. SaveAccount demo_wallets a = Inr st"
    using wit_accounts(3) a wit_new_account [of 2]
    by (auto simp: is_ok_iff SaveAccount_def WriteFile_def Wallet_Store.demo_account_def
        split: sum.splits option.splits dirent.splits)
  then obtain st where st: "SaveAccount demo_wallets a = Inr st" by blast
  obtain s' where "handleCreateAddress wit_env ''u1'' (bytes_of ''{}'') ?s = (sendJSON 201 (AddressCreated ''u1'' a), s')"
    by (simp add: handleCreateAddress_def Let_def w d i a st)
  moreover from new_address_index [OF this] have "1 < acIndex a"
    using new_account_index(1) [OF a] wit_accounts(1)
    by (auto simp: sendJSON_def Wallet_Store.demo_account_def)
  ultimately show ?thesis by (auto simp: sendJSON_def)
qed

section \<open>MPC wallets\<close>

lemma startServer_signer:
  "startServer h now = Inr s \<Longrightarrow> mpcSolanaSigner s = Some sg \<Longrightarrow> ms_PublicKey sg = []"
  by (auto simp: startServer_def startSigner_def Let_def NewMPCSolanaSigner_def SetRPCURL_def ms_PublicKey_def bytes_or_nil_def
      split: sum.splits if_splits)

text \<open>
  No wallet with an MPC key can be created: \<^verbatim>\<open>main\<close> never gives the MPC signer a public key, so the request is
  refused whatever the configuration. The wallet it has created by then stays behind, without any account.
\<close>

theorem mpc_wallet_refused:
  assumes "startServer h now = Inr s"
    and "json_Decode dec_CreateWalletRequest \<lparr>cwName = [], cwSignerType = []\<rparr> b = Inr req"
    and "cwSignerType req = ''mpc_solana''"
    and "CreateWallet (walletStore s) (evUuid E) (evClock E 0)
      (if cwName req = [] then ''Default Wallet'' else cwName req) = (Inr wal, st)"
  shows "status (fst (handleCreateWallet E b s)) = 400 \<and> snd (handleCreateWallet E b s) = s\<lparr>walletStore := st\<rparr> \<and>
    accountDir st = accountDir (walletStore s)"
proof -
  have "accountDir st = accountDir (walletStore s)"
    using assms(4) by (auto simp: CreateWallet_def Let_def split: sum.splits prod.splits)
  with assms startServer_signer [OF assms(1)] show ?thesis
    by (auto simp: handleCreateWallet_def createAccounts_def Let_def split: option.split)
qed

definition wit_host :: "(unit, unit, unit, EthTx) host" where
  "wit_host = \<lparr>hGetenv = (\<lambda>n. if n = ''MPC_ENABLED'' then ''true'' else if n = ''MPC_PEERS'' then ''a:1,b:2'' else []),
     hHome = Inr ''/root'', hMkdir = (\<lambda>_. None), hStat = (\<lambda>_. False), hWallets = no_wallets,
     hKeys = empty_dir ''k'', hIntents = empty_dir ''i'', hGeth = demo_geth,
     hHttp = (\<lambda>_ _ w. (NoReply ''timeout'', w)), hNet = lonely_net, hPeerOrder = [1, 2], hNano = 0,
     hZk = zk_demo_world, hWorld = ()\<rparr>"

definition wit_mpc_request :: "byte list" where
  "wit_mpc_request = bytes_of (concat [''{'', [CHR 0x22], ''signer_type'', [CHR 0x22], '':'', [CHR 0x22],
     ''mpc_solana'', [CHR 0x22], ''}''])"

theorem mpc_wallet_refused_witness:
  "\<exists>s. startServer wit_host 0 = Inr s \<and> mpcEnabled s \<and>
     status (fst (handleCreateWallet wit_env wit_mpc_request s)) = 400"
proof -
  obtain s where s: "startServer wit_host 0 = Inr s" "mpcEnabled s" "walletStore s = no_wallets"
    by (simp add: startServer_def wit_host_def NewStore_def env_or_def NewKeyStore_def NewIntentStore_def)
  have d: "json_Decode dec_CreateWalletRequest \<lparr>cwName = [], cwSignerType = []\<rparr> wit_mpc_request =
      Inr \<lparr>cwName = [], cwSignerType = ''mpc_solana''\<rparr>"
    by code_simp
  have "is_ok (fst (CreateWallet no_wallets ''u1'' 6 ''Default Wallet''))" by code_simp
  then obtain wal st where "CreateWallet no_wallets ''u1'' 6 ''Default Wallet'' = (Inr wal, st)"
    by (metis is_ok_iff prod.collapse)
  with mpc_wallet_refused [OF s(1) d, of wit_env wal st] s show ?thesis by (simp add: wit_env_def)
qed

end
