(* ===== verification/Wallet_Responses.thy ===== *)
theory Wallet_Responses
  imports Wallet_Requests
begin

text \<open>
  The answers of the wallet service: a success carries data and a failure carries a message, for every
  request and in every state.
\<close>

fun is_data :: "body \<Rightarrow> bool" where
  "is_data (ErrorBody m) = False"
| "is_data NoBody = False"
| "is_data b = True"

definition response_ok :: "response \<Rightarrow> bool" where
  "response_ok r \<longleftrightarrow>
     status r \<in> {200, 201} \<and> is_data (content r) \<or>
     status r \<in> {400, 403, 404, 409, 423, 500} \<and> (\<exists>m. content r = ErrorBody m) \<or>
     r = recovered"

lemma response_ok_simps [simp]:
  "response_ok (sendError n m) \<longleftrightarrow> n \<in> {400, 403, 404, 409, 423, 500}"
  "n \<in> {200, 201} \<Longrightarrow> is_data b \<Longrightarrow> response_ok (sendJSON n b)" "response_ok recovered"
  by (auto simp: response_ok_def sendError_def sendJSON_def recovered_def)

lemma createAccounts_response: "createAccounts E ty wid s = (Ret (Inl r), s') \<Longrightarrow> response_ok r"
  by (auto simp: createAccounts_def Let_def split: option.splits if_splits sum.splits prod.splits outcome.splits)

lemma handleCreateWallet_response: "response_ok (fst (handleCreateWallet E b s))"
  by (auto simp: handleCreateWallet_def Let_def split: sum.split prod.split outcome.split
      dest: createAccounts_response)

lemma handleRead_response:
  "response_ok (handleListWallets s)" "response_ok (handleGetWallet wid s)" "response_ok (handleGetAddress wid s)"
  "response_ok (handleListIntents E q s)" "response_ok (handleGetIntent j s)"
  by (auto simp: handleListWallets_def handleGetWallet_def handleGetAddress_def handleListIntents_def
      handleGetIntent_def Let_def split: sum.split prod.split outcome.split)

lemma handleAddress_response:
  "response_ok (fst (handleCreateAddress E wid b s))" "response_ok (fst (handleDeleteWallet wid s))"
  "response_ok (fst (handleDeleteAddress wid n s))"
  by (auto simp: handleCreateAddress_def handleDeleteWallet_def handleDeleteAddress_def Let_def
      split: sum.split prod.split outcome.split)

lemma handleWalletSummary_response:
  "handleWalletSummary wid s = (r, s') \<Longrightarrow> response_ok r"
  by (auto simp: handleWalletSummary_def Let_def net_call_def attempt_Inr give_def
      split: sum.splits prod.splits outcome.splits)

lemma handleQuery_response:
  "response_ok (fst (handleGetBalance wid c s))" "response_ok (fst (handleFeeEstimate c s))"
  by (auto simp: handleGetBalance_def handleFeeEstimate_def Let_def split: sum.split prod.split outcome.split option.split)

lemma handleIntent_response:
  "response_ok (fst (handleCreateIntent E b s))" "response_ok (fst (handleApproveIntent E j b s))"
  "response_ok (fst (handleRejectIntent E j b s))" "response_ok (fst (handleRetryIntent E j s))"
  by (auto simp: handleCreateIntent_def handleApproveIntent_def handleRejectIntent_def handleRetryIntent_def Let_def
      split: sum.split prod.split outcome.split)

lemma runLocked_response:
  assumes "runLocked E i j s = (r, s')"
  shows "response_ok r"
proof -
  obtain q1 s1 where k: "loadKey E i (mpcSigner i s) s = (q1, s1)" by fastforce
  show ?thesis
  proof (cases q1)
    case (Inr key)
    obtain q2 s2 where z: "zkGate E i s1 = (q2, s2)" by fastforce
    obtain q3 s3 where d: "sendIntent E i j (mpcSigner i s) key s2 = (q3, s3)" by fastforce
    show ?thesis
      using assms k Inr z d
      by (auto simp: runLocked_def split: outcome.splits sum.splits dest!: sendIntent_early)
  qed (use assms k in \<open>auto simp: runLocked_def\<close>)
qed

lemma handleExecute_response: "response_ok (fst (handleExecuteIntent E j s))"
  by (auto simp: handleExecuteIntent_def checkExecute_def runExecute_def Let_def split: sum.split prod.split
      dest: runLocked_response)


end
