(* ===== verification/Go_Flag.thy ===== *)
theory Go_Flag
  imports Go_Prelude
begin

text \<open>
  What the command-line programs use of package \<^verbatim>\<open>flag\<close>: a set of named string and unsigned flags, and
  \<^verbatim>\<open>FlagSet.Parse\<close>, which reads \<^verbatim>\<open>-name value\<close>, \<^verbatim>\<open>--name value\<close> and \<^verbatim>\<open>-name=value\<close> up to the first other argument
  or \<^verbatim>\<open>--\<close>. The programs' flag sets leave the process on an error: with code 0 for the request for
  help and 2 otherwise.
\<close>

section \<open>Unsigned numbers in any base\<close>

text \<open>
  \<^verbatim>\<open>strconv.ParseUint(s, 0, 64)\<close>: the base is read from the prefix, underscores may separate digits.
  The two failures are the ones the package tells apart.
\<close>

datatype num_failure = BadSyntax | OutOfRange

definition lower :: "char \<Rightarrow> nat" where
  "lower c = (of_char c :: nat) mod 32 + 32 + (of_char c div 64) * 64"

definition digit_of :: "char \<Rightarrow> nat option" where
  "digit_of c =
     (if is_digit c then Some (digit_val c)
      else if 97 \<le> lower c \<and> lower c \<le> 122 then Some (lower c - 87) else None)"

fun scan_uint :: "nat \<Rightarrow> string \<Rightarrow> nat \<Rightarrow> num_failure + nat" where
  "scan_uint b [] n = Inr n"
| "scan_uint b (c # s) n =
     (if c = CHR ''_'' then scan_uint b s n
      else case digit_of c of
             None \<Rightarrow> Inl BadSyntax
           | Some d \<Rightarrow>
               if d \<ge> b then Inl BadSyntax
               else if n * b + d \<ge> 2 ^ 64 then Inl OutOfRange
               else scan_uint b s (n * b + d))"

definition base_prefix :: "string \<Rightarrow> nat \<times> string" where
  "base_prefix s =
     (if hd s = CHR ''0'' then
        if length s \<ge> 3 \<and> lower (s ! 1) = 98 then (2, drop 2 s)
        else if length s \<ge> 3 \<and> lower (s ! 1) = 111 then (8, drop 2 s)
        else if length s \<ge> 3 \<and> lower (s ! 1) = 120 then (16, drop 2 s)
        else (8, tl s)
      else (10, s))"

text \<open>\<^verbatim>\<open>underscoreOK\<close>, with the kind of the last character seen as the loop's state.\<close>

datatype seen = Start | Digit | Under | Other

fun underscores :: "bool \<Rightarrow> seen \<Rightarrow> string \<Rightarrow> bool" where
  "underscores hex saw [] = (saw \<noteq> Under)"
| "underscores hex saw (c # s) =
     (if is_digit c \<or> hex \<and> 97 \<le> lower c \<and> lower c \<le> 102 then underscores hex Digit s
      else if c = CHR ''_'' then (if saw = Digit then underscores hex Under s else False)
      else if saw = Under then False
      else underscores hex Other s)"

definition underscoreOK :: "string \<Rightarrow> bool" where
  "underscoreOK s0 =
     (let s = (if s0 \<noteq> [] \<and> (hd s0 = CHR ''-'' \<or> hd s0 = CHR ''+'') then tl s0 else s0)
      in if length s \<ge> 2 \<and> hd s = CHR ''0'' \<and> lower (s ! 1) \<in> {98, 111, 120}
         then underscores (lower (s ! 1) = 120) Digit (drop 2 s)
         else underscores False Start s)"

definition ParseUint0 :: "string \<Rightarrow> num_failure + u64" where
  "ParseUint0 s =
     (if s = [] then Inl BadSyntax
      else case base_prefix s of
             (b, t) \<Rightarrow>
               (case scan_uint b t 0 of
                  Inl e \<Rightarrow> Inl e
                | Inr n \<Rightarrow>
                    if CHR ''_'' \<in> set t \<and> \<not> underscoreOK s then Inl BadSyntax
                    else Inr (word_of_nat n)))"

section \<open>Flag sets\<close>

datatype fval = FString string | FUint u64

type_synonym flags = "string \<rightharpoonup> fval"

datatype flag_error =
    HelpWanted
  | BadFlagSyntax string
  | NotDefined string
  | NeedsArgument string
  | InvalidValue string string num_failure

text \<open>\<^verbatim>\<open>Value.Set\<close> of a flag that has the value \<open>old\<close>.\<close>

fun flag_set :: "fval \<Rightarrow> string \<Rightarrow> num_failure + fval" where
  "flag_set (FString _) v = Inr (FString v)"
| "flag_set (FUint _) v = (case ParseUint0 v of Inl e \<Rightarrow> Inl e | Inr n \<Rightarrow> Inr (FUint n))"

text \<open>A name, and the value after an equals sign that is not its first character.\<close>

definition split_equals :: "string \<Rightarrow> string \<times> string option" where
  "split_equals name =
     (let i = Suc (length (takeWhile (\<lambda>c. c \<noteq> CHR ''='') (tl name)))
      in if i < length name then (take i name, Some (drop (Suc i) name)) else (name, None))"

datatype flag_arg = NoFlag | Terminator | Malformed | FlagNamed string

definition classify :: "string \<Rightarrow> flag_arg" where
  "classify s =
     (if length s < 2 \<or> hd s \<noteq> CHR ''-'' then NoFlag
      else if s = ''--'' then Terminator
      else let name = (if s ! 1 = CHR ''-'' then drop 2 s else drop 1 s)
           in if name = [] \<or> hd name = CHR ''-'' \<or> hd name = CHR ''='' then Malformed
              else FlagNamed name)"

text \<open>The value of a flag is the text after the equals sign or else the next argument.\<close>

fun flag_value :: "string option \<Rightarrow> string list \<Rightarrow> (string \<times> string list) option" where
  "flag_value (Some v) args = Some (v, args)"
| "flag_value None [] = None"
| "flag_value None (v # args) = Some (v, args)"

lemma flag_value_length: "flag_value w args = Some (v, rest) \<Longrightarrow> length rest \<le> length args"
  by (cases "(w, args)" rule: flag_value.cases) auto

function Parse :: "flags \<Rightarrow> string list \<Rightarrow> flag_error + (flags \<times> string list)" where
  "Parse fs [] = Inr (fs, [])"
| "Parse fs (s # args) =
     (case classify s of
        NoFlag \<Rightarrow> Inr (fs, s # args)
      | Terminator \<Rightarrow> Inr (fs, args)
      | Malformed \<Rightarrow> Inl (BadFlagSyntax s)
      | FlagNamed text \<Rightarrow>
          (case split_equals text of
             (name, given) \<Rightarrow>
               (case fs name of
                  None \<Rightarrow> Inl (if name = ''help'' \<or> name = ''h'' then HelpWanted else NotDefined name)
                | Some old \<Rightarrow>
                    (case flag_value given args of
                       None \<Rightarrow> Inl (NeedsArgument name)
                     | Some (v, rest) \<Rightarrow>
                         (case flag_set old v of
                            Inl e \<Rightarrow> Inl (InvalidValue v name e)
                          | Inr new \<Rightarrow> Parse (fs(name \<mapsto> new)) rest)))))"
  by pat_completeness auto
termination
  by (relation "measure (length \<circ> snd)") (auto dest: flag_value_length)

text \<open>The code the process ends with when parsing fails.\<close>

fun flag_exit :: "flag_error \<Rightarrow> nat" where
  "flag_exit HelpWanted = 0"
| "flag_exit _ = 2"

text \<open>The variables behind the flags.\<close>

definition flag_string :: "flags \<Rightarrow> string \<Rightarrow> string" where
  "flag_string fs name = (case fs name of Some (FString v) \<Rightarrow> v | _ \<Rightarrow> [])"

definition flag_uint :: "flags \<Rightarrow> string \<Rightarrow> u64" where
  "flag_uint fs name = (case fs name of Some (FUint v) \<Rightarrow> v | _ \<Rightarrow> 0)"

end
