(* ===== verification/Console.thy ===== *)
theory Console
  imports Go_Flag Zk
begin

text \<open>
  What the command-line programs share: the lines they print, the code they leave with, the text of
  indented JSON and of a time in RFC 3339. The usage texts the package \<^verbatim>\<open>flag\<close> prints by itself are
  not part of the output.
\<close>

datatype line = Out string | Err string

record process =
  lines :: "line list"
  code :: nat

abbreviation leave :: "line list \<Rightarrow> nat \<Rightarrow> process" where
  "leave ls n \<equiv> \<lparr>lines = ls, code = n\<rparr>"

text \<open>A panic ends the process with code 2.\<close>

abbreviation crashed :: "line list \<Rightarrow> process" where
  "crashed ls \<equiv> leave ls 2"

definition prefixed :: "line list \<Rightarrow> process \<Rightarrow> process" where
  "prefixed ls p = p\<lparr>lines := ls @ lines p\<rparr>"

lemma prefixed_simps [simp]: "code (prefixed ls p) = code p" "lines (prefixed ls p) = ls @ lines p"
  by (simp_all add: prefixed_def)

definition nl :: string where
  "nl = [CHR 0x0A]"

text \<open>The signs the programs print, in UTF-8.\<close>

definition cross :: string where
  "cross = [CHR 0xE2, CHR 0x9D, CHR 0x8C]"

definition tick :: string where
  "tick = [CHR 0xE2, CHR 0x9C, CHR 0x85]"

section \<open>Indented JSON\<close>

text \<open>\<^verbatim>\<open>json.MarshalIndent\<close> with an indentation of two blanks.\<close>

definition indent :: "nat \<Rightarrow> string" where
  "indent n = nl @ replicate (2 * n) CHR '' ''"

fun indented :: "nat \<Rightarrow> json \<Rightarrow> string" and indented_elems :: "nat \<Rightarrow> json list \<Rightarrow> string" and
    indented_members :: "nat \<Rightarrow> (string \<times> json) list \<Rightarrow> string" where
  "indented n (JArr []) = ''[]''"
| "indented n (JArr (j # js)) = ''['' @ indented_elems (Suc n) (j # js) @ indent n @ '']''"
| "indented n (JObj []) = ''{}''"
| "indented n (JObj (m # ms)) = ''{'' @ indented_members (Suc n) (m # ms) @ indent n @ ''}''"
| "indented n j = text_of j"
| "indented_elems n [] = []"
| "indented_elems n (j # js) =
     indent n @ indented n j @ (if js = [] then [] else '','' @ indented_elems n js)"
| "indented_members n [] = []"
| "indented_members n ((k, j) # ms) =
     indent n @ quotes k @ '': '' @ indented n j @ (if ms = [] then [] else '','' @ indented_members n ms)"

text \<open>
  A \<^verbatim>\<open>json.RawMessage\<close> is written with the characters that are special in HTML escaped in its strings.
\<close>

definition html_char :: "char \<Rightarrow> string" where
  "html_char c =
     (if c = CHR ''<'' then CHR 0x5C # ''u003c'' else if c = CHR ''>'' then CHR 0x5C # ''u003e''
      else if c = CHR ''&'' then CHR 0x5C # ''u0026'' else [c])"

definition html_text :: "string \<Rightarrow> string" where
  "html_text s = concat (map html_char s)"

fun raw_doc :: "json \<Rightarrow> json" and raw_elems :: "json list \<Rightarrow> json list" and
    raw_members :: "(string \<times> json) list \<Rightarrow> (string \<times> json) list" where
  "raw_doc (JStr s) = JStr (html_text s)"
| "raw_doc (JArr js) = JArr (raw_elems js)"
| "raw_doc (JObj ms) = JObj (raw_members ms)"
| "raw_doc j = j"
| "raw_elems [] = []"
| "raw_elems (j # js) = raw_doc j # raw_elems js"
| "raw_members [] = []"
| "raw_members ((k, j) # ms) = (html_text k, raw_doc j) # raw_members ms"

section \<open>Times\<close>

text \<open>The date of a day counted from 1 January 1970 in the proleptic Gregorian calendar.\<close>

definition civil :: "int \<Rightarrow> int \<times> int \<times> int" where
  "civil days =
     (let z = days + 719468;
          era = z div 146097;
          doe = z mod 146097;
          yoe = (doe - doe div 1460 + doe div 36524 - doe div 146096) div 365;
          doy = doe - (365 * yoe + yoe div 4 - yoe div 100);
          mp = (5 * doy + 2) div 153;
          m = (if mp < 10 then mp + 3 else mp - 9)
      in (yoe + era * 400 + (if m \<le> 2 then 1 else 0), m, doy - (153 * mp + 2) div 5 + 1))"

definition padded :: "nat \<Rightarrow> int \<Rightarrow> string" where
  "padded n i = (let s = show_nat (nat \<bar>i\<bar>)
     in (if i < 0 then ''-'' else []) @ replicate (n - length s) CHR ''0'' @ s)"

text \<open>\<^verbatim>\<open>Format(time.RFC3339)\<close> of a time in UTC, given in nanoseconds.\<close>

definition RFC3339 :: "int \<Rightarrow> string" where
  "RFC3339 t =
     (let secs = t div 10 ^ 9; s = secs mod 86400; (y, m, d) = civil (secs div 86400)
      in padded 4 y @ ''-'' @ padded 2 m @ ''-'' @ padded 2 d @ ''T'' @ padded 2 (s div 3600) @ '':'' @
         padded 2 (s div 60 mod 60) @ '':'' @ padded 2 (s mod 60) @ ''Z'')"

lemma RFC3339_examples:
  "RFC3339 0 = ''1970-01-01T00:00:00Z''" "RFC3339 (951827696 * 10 ^ 9) = ''2000-02-29T12:34:56Z''"
  by code_simp+

end
