(* ===== verification/Zk_Cli.thy ===== *)
theory Zk_Cli
  imports Console
begin

text \<open>
  \<^verbatim>\<open>cmd/zk-cli\<close>: proving, verifying and inspecting from the command line. A process is a function of the
  arguments after the program's name and of the world of \<^theory_text>\<open>Zk\<close>; it returns what it printed, its exit
  code and the world it leaves.

  The two directories are flags of the default flag set, which the program never parses, so they always
  have their default values.
\<close>

definition zk_dirs :: Prover where
  "zk_dirs = \<lparr>circuitsDir = ''./pkg/zk/circuits'', artifactsDir = ''./pkg/zk/artifacts''\<rparr>"

definition zk_usage :: "line list" where
  "zk_usage = map Out
     [''zk-cli - ZK Proof Cryptographic Laboratory'', [], ''Usage:'', ''  zk-cli prove <circuit> [flags]'',
      ''  zk-cli verify [flags]'', ''  zk-cli inspect [flags]'', [], ''Commands:'',
      ''  prove      Generate a ZK proof for a circuit'', ''  verify     Verify a ZK proof'',
      ''  inspect    Inspect proof contents'', ''  help       Show this help message'', [], ''Prove Examples:'',
      ''  zk-cli prove transfer_limit --amount 500 --limit 10000 --spent 2000'', [], ''Verify Examples:'',
      ''  zk-cli verify --proof proof.json'', [], ''Inspect Examples:'', ''  zk-cli inspect --proof proof.json'']"

section \<open>Proving\<close>

definition empty_intent :: Intent where
  "empty_intent = \<lparr>zWalletID = [], zChain = [], zTo = [], zValue = [], zGasLimit = 0\<rparr>"

text \<open>The saved document; data that is no JSON makes the encoder fail, and nothing is saved.\<close>

definition proof_output :: "string \<Rightarrow> Proof \<Rightarrow> json option" where
  "proof_output circuitName pf =
     (case pfData pf of
        OtherFile _ \<Rightarrow> None
      | Doc j \<Rightarrow> Some (JObj
          [(''circuit'', JString circuitName), (''generated_at'', JString (RFC3339 (pfGeneratedAt pf))),
           (''proof'', raw_doc j), (''public_inputs'', strings_doc (pfPublicInputs pf)),
           (''success'', JBool True)]))"

text \<open>\<^verbatim>\<open>os.WriteFile\<close> with its error ignored.\<close>

definition save_file :: "zk_world \<Rightarrow> string \<Rightarrow> zfile \<Rightarrow> zk_world" where
  "save_file w path f = (case z_write w path f of Inl _ \<Rightarrow> w | Inr w' \<Rightarrow> w')"

definition runProve ::
  "int \<Rightarrow> int \<Rightarrow> string \<Rightarrow> string \<Rightarrow> string \<Rightarrow> string \<Rightarrow> zk_world \<Rightarrow> process \<times> zk_world" where
  "runProve now1 now2 circuitName amount limit spent w =
     (let hello = map Out
            [''Generating proof for circuit: '' @ circuitName, ''  Amount: '' @ amount, ''  Limit: '' @ limit,
             ''  Spent: '' @ spent];
          transferLimitPolicy = NewTransferLimitPolicy limit spent zk_dirs;
          engine = NewEngine [transfer_limit now1 transferLimitPolicy] zk_dirs
      in case EvaluateAndProve now2 engine (empty_intent\<lparr>zValue := amount\<rparr>) w of
           (Panic, w1) \<Rightarrow> (crashed hello, w1)
         | (Ret (Inl e), w1) \<Rightarrow>
             (leave (hello @ [Out (nl @ cross @ '' Proof generation failed: '' @ e)]) 1, w1)
         | (Ret (Inr pf), w1) \<Rightarrow>
             let out = proof_output circuitName pf;
                 text = (case out of None \<Rightarrow> [] | Some j \<Rightarrow> indented 0 j);
                 doc = (case out of None \<Rightarrow> OtherFile ''unexpected end of JSON input'' | Some j \<Rightarrow> Doc j);
                 proofPath = artifact zk_dirs circuitName ''_proof.json''
             in (leave (hello @ [Out (nl @ tick @ '' Proof generated successfully!'' @ nl), Out text,
                   Out (nl @ ''Proof saved to: '' @ proofPath)]) 0,
                 save_file w1 proofPath doc))"

section \<open>Verifying\<close>

text \<open>
  Reading the proof file, for both commands: its path is the user's, and the file is found at the
  cleaned path.
\<close>

definition read_saved :: "zk_world \<Rightarrow> string \<Rightarrow> (string \<times> json) list res" where
  "read_saved w proofPath =
     (case files w (Clean proofPath) of
        None \<Rightarrow> Inl (nl @ cross @ '' Failed to read proof file: '' @ no_file proofPath)
      | Some (OtherFile e) \<Rightarrow> Inl (nl @ cross @ '' Failed to parse proof JSON: '' @ e)
      | Some (Doc j) \<Rightarrow>
          (case Unmarshal dec_object_value [] (Some j) of
             Inl e \<Rightarrow> Inl (nl @ cross @ '' Failed to parse proof JSON: '' @ e)
           | Inr m \<Rightarrow> Inr m))"

text \<open>A value of the map, written again as a document; a missing one is nil.\<close>

definition rewritten :: "zk_world \<Rightarrow> (string \<times> json) list \<Rightarrow> string \<Rightarrow> json" where
  "rewritten w m k = (case map_of m k of None \<Rightarrow> JNull | Some j \<Rightarrow> canon (float_text w) j)"

definition saved_circuit :: "(string \<times> json) list \<Rightarrow> string" where
  "saved_circuit m = (case map_of m ''circuit'' of Some (JStr s) \<Rightarrow> unquote s | _ \<Rightarrow> ''transfer_limit'')"

definition saved_proof :: "zk_world \<Rightarrow> (string \<times> json) list \<Rightarrow> Proof" where
  "saved_proof w m =
     \<lparr>pfData = Doc (rewritten w m ''proof''),
      pfPublicInputs = snd (dec_strings (rewritten w m ''public_inputs'') None),
      pfCircuitName = saved_circuit m, pfGeneratedAt = 0\<rparr>"

definition verdict :: "VerificationResult \<Rightarrow> json" where
  "verdict r = JObj
     ([(''circuit'', JString (vrCircuitName r))] @
      (if vrValid r then [] else [(''errors'', strings_doc (Some (vrErrors r)))]) @
      [(''valid'', JBool (vrValid r)), (''verified_at'', JString (RFC3339 (vrVerifiedAt r)))])"

definition valid_line :: line where
  "valid_line = Out (nl @ tick @ '' Proof is valid!'' @ nl)"

definition invalid_line :: line where
  "invalid_line = Out (nl @ cross @ '' Proof is invalid!'' @ nl)"

definition runVerify :: "int \<Rightarrow> string \<Rightarrow> zk_world \<Rightarrow> process \<times> zk_world" where
  "runVerify now proofPath w =
     (let hello = [Out (''Verifying proof from: '' @ proofPath)]
      in case read_saved w proofPath of
           Inl e \<Rightarrow> (leave (hello @ [Out e]) 1, w)
         | Inr m \<Rightarrow>
             (case Verify zk_dirs now (saved_circuit m) (saved_proof w m) w of
                (Inl e, w1) \<Rightarrow> (leave (hello @ [Out (nl @ cross @ '' Verification error: '' @ e)]) 1, w1)
              | (Inr result, w1) \<Rightarrow>
                  (leave (hello @ [if vrValid result then valid_line else invalid_line,
                     Out (indented 0 (verdict result))]) 0, w1)))"

section \<open>Inspecting\<close>

text \<open>
  A decoded value as \<^verbatim>\<open>%v\<close> prints it; \<open>num\<close> prints the \<^verbatim>\<open>float64\<close> of a literal. The keys of a map are
  printed in order.
\<close>

fun show_any :: "(string \<Rightarrow> string) \<Rightarrow> json \<Rightarrow> string" and
    show_elems :: "(string \<Rightarrow> string) \<Rightarrow> json list \<Rightarrow> string list" and
    show_members :: "(string \<Rightarrow> string) \<Rightarrow> (string \<times> json) list \<Rightarrow> (string \<times> string) list" where
  "show_any num JNull = ''<nil>''"
| "show_any num (JBool b) = (if b then ''true'' else ''false'')"
| "show_any num (JNum n) = num n"
| "show_any num (JStr s) = unquote s"
| "show_any num (JArr js) = show_slice (show_elems num js)"
| "show_any num (JObj ms) =
     ''map'' @ show_slice (map (\<lambda>(k, v). k @ '':'' @ v)
       (sort_key fst (foldl (\<lambda>m (k, v). mput (unquote k) v m) [] (show_members num ms))))"
| "show_elems num [] = []"
| "show_elems num (j # js) = show_any num j # show_elems num js"
| "show_members num [] = []"
| "show_members num ((k, j) # ms) = (k, show_any num j) # show_members num ms"

definition rule_line :: line where
  "rule_line = Out (concat (replicate 18 [CHR 0xE2, CHR 0x94, CHR 0x80]))"

definition input_lines :: "(string \<Rightarrow> string) \<Rightarrow> json list \<Rightarrow> line list" where
  "input_lines num js =
     Out (''Public Inputs ('' @ show_nat (length js) @ ''):'') #
     map (\<lambda>(i, j). Out (''  ['' @ show_nat i @ ''] '' @ show_any num j)) (zip [0..<length js] js)"

fun data_line :: "(string \<Rightarrow> string) \<Rightarrow> string \<times> json \<Rightarrow> line" where
  "data_line num (k, JArr js) = Out (''  '' @ k @ '': ['' @ show_nat (length js) @ '' elements]'')"
| "data_line num (k, j) = Out (''  '' @ k @ '': '' @ show_any num j)"

text \<open>\<open>order\<close> is the order in which the loop meets the keys of the proof.\<close>

definition contents ::
  "(string \<Rightarrow> string) \<Rightarrow> ((string \<times> json) list \<Rightarrow> (string \<times> json) list) \<Rightarrow> (string \<times> json) list \<Rightarrow> line list" where
  "contents num order m =
     (case map_of m ''circuit'' of Some (JStr s) \<Rightarrow> [Out (''Circuit:     '' @ unquote s)] | _ \<Rightarrow> []) @
     (case map_of m ''success'' of
        Some (JBool b) \<Rightarrow> [Out (''Success:     '' @ (if b then ''true'' else ''false''))] | _ \<Rightarrow> []) @
     (case map_of m ''generated_at'' of Some (JStr s) \<Rightarrow> [Out (''Generated:   '' @ unquote s)] | _ \<Rightarrow> []) @
     (case map_of m ''public_inputs'' of Some (JArr js) \<Rightarrow> input_lines num js | _ \<Rightarrow> []) @
     (case map_of m ''proof'' of
        Some (JObj ms) \<Rightarrow> Out ''Proof Data:'' # map (data_line num) (order (put_members ms [])) | _ \<Rightarrow> [])"

definition runInspect ::
  "(string \<Rightarrow> string) \<Rightarrow> ((string \<times> json) list \<Rightarrow> (string \<times> json) list) \<Rightarrow> string \<Rightarrow> zk_world \<Rightarrow> process" where
  "runInspect num order proofPath w =
     prefixed [Out (''Inspecting proof from: '' @ proofPath)]
       (case read_saved w proofPath of
          Inl e \<Rightarrow> leave [Out e] 1
        | Inr m \<Rightarrow>
            leave ([Out (nl @ [CHR 0xF0, CHR 0x9F, CHR 0x93, CHR 0x8B] @ '' Proof Contents:''), rule_line] @
              contents num order m @ [rule_line]) 0)"

section \<open>The program\<close>

text \<open>What a run depends on besides the arguments and the files.\<close>

record zk_env =
  zClock :: "nat \<Rightarrow> int"
  zNum :: "string \<Rightarrow> string"
  zOrder :: "(string \<times> json) list \<Rightarrow> (string \<times> json) list"

definition proveFlags :: flags where
  "proveFlags = [''amount'' \<mapsto> FString [], ''limit'' \<mapsto> FString [], ''spent'' \<mapsto> FString []]"

definition proofFlags :: flags where
  "proofFlags = [''proof'' \<mapsto> FString []]"

definition circuit_arg :: "string list \<Rightarrow> string \<times> string list" where
  "circuit_arg args =
     (case args of
        a # rest \<Rightarrow> if HasPrefix a ''-'' then (''transfer_limit'', args) else (a, rest)
      | [] \<Rightarrow> (''transfer_limit'', []))"

definition cmd_prove :: "zk_env \<Rightarrow> string list \<Rightarrow> zk_world \<Rightarrow> process \<times> zk_world" where
  "cmd_prove E args0 w =
     (case circuit_arg args0 of
        (circuitName, args) \<Rightarrow>
          (case Parse proveFlags args of
             Inl e \<Rightarrow> (leave [] (flag_exit e), w)
           | Inr (fs, _) \<Rightarrow>
               if flag_string fs ''amount'' = [] \<or> flag_string fs ''limit'' = [] \<or> flag_string fs ''spent'' = []
               then (leave [Out ''Error: --amount, --limit, and --spent are required''] 1, w)
               else runProve (zClock E 0) (zClock E 1) circuitName (flag_string fs ''amount'')
                      (flag_string fs ''limit'') (flag_string fs ''spent'') w))"

definition with_proof :: "string list \<Rightarrow> zk_world \<Rightarrow> (string \<Rightarrow> process \<times> zk_world) \<Rightarrow> process \<times> zk_world" where
  "with_proof args w run =
     (case Parse proofFlags args of
        Inl e \<Rightarrow> (leave [] (flag_exit e), w)
      | Inr (fs, _) \<Rightarrow>
          if flag_string fs ''proof'' = [] then (leave [Out ''Error: --proof is required''] 1, w)
          else run (flag_string fs ''proof''))"

definition zk_main :: "zk_env \<Rightarrow> string list \<Rightarrow> zk_world \<Rightarrow> process \<times> zk_world" where
  "zk_main E args w =
     (case args of
        [] \<Rightarrow> (leave zk_usage 1, w)
      | c # rest \<Rightarrow>
          if c = ''prove'' then cmd_prove E rest w
          else if c = ''verify'' then with_proof rest w (\<lambda>p. runVerify (zClock E 0) p w)
          else if c = ''inspect'' then with_proof rest w (\<lambda>p. (runInspect (zNum E) (zOrder E) p w, w))
          else if c = ''help'' then (leave zk_usage 0, w)
          else (leave (Out (''Unknown command: '' @ c @ nl) # zk_usage) 0, w))"

section \<open>Rewritten documents\<close>

text \<open>Writing a decoded document again changes it only once.\<close>

lemma put_members_escaped:
  "distinct (map fst (acc @ m)) \<Longrightarrow>
   put_members (map (\<lambda>(k, j). (concat (map escape_char k), j)) m) acc = acc @ m"
  by (induction m arbitrary: acc) (auto simp: unquote_JString mput_new)

lemma distinct_put_members: "distinct (map fst acc) \<Longrightarrow> distinct (map fst (put_members ms acc))"
  by (induction ms acc rule: put_members.induct) (auto simp: distinct_mput)

lemma set_mput_values: "snd ` set (mput k v m) \<subseteq> insert v (snd ` set m)"
proof (induction m)
  case (Cons p m)
  then show ?case by (cases p) auto
qed simp

lemma put_members_values: "snd ` set (put_members ms acc) \<subseteq> snd ` set ms \<union> snd ` set acc"
proof (induction ms acc rule: put_members.induct)
  case (2 k j ms m)
  then show ?case using set_mput_values [of "unquote k" j m] by auto
qed simp

lemma canon_members_fixed: "\<forall>j \<in> snd ` set ms. canon ft j = j \<Longrightarrow> canon_members ft ms = ms"
  by (induction ms) auto

lemma canon_sorted_object:
  assumes "distinct (map fst m)" and "\<forall>j \<in> snd ` set m. canon ft j = j"
  shows "canon ft (sorted_object m) = sorted_object m"
proof -
  let ?s = "sort_key fst m"
  have "distinct (map fst ?s)"
    using assms(1) by (simp add: distinct_map)
  moreover have "canon_members ft (map (\<lambda>(k, j). (concat (map escape_char k), j)) ?s) =
      map (\<lambda>(k, j). (concat (map escape_char k), j)) ?s"
    using assms(2) by (intro canon_members_fixed) force
  ultimately show ?thesis
    using put_members_escaped [of "[]" ?s] by (simp add: sorted_object_def sort_key_id_if_sorted)
qed

text \<open>What is asked of the printed form of a number: printing it again gives the same, and it is finite.\<close>

definition float_ok :: "(string \<Rightarrow> string) \<Rightarrow> bool" where
  "float_ok ft \<longleftrightarrow> (\<forall>n. ft (ft n) = ft n \<and> (\<not> float64_overflows n \<longrightarrow> \<not> float64_overflows (ft n)))"

lemma canon_canon:
  "float_ok ft \<Longrightarrow> canon ft (canon ft j) = canon ft j"
  "float_ok ft \<Longrightarrow> canon_elems ft (canon_elems ft js) = canon_elems ft js"
  "float_ok ft \<Longrightarrow> \<forall>i \<in> snd ` set (canon_members ft ms). canon ft i = i"
proof (induction ft j and ft js and ft ms rule: canon_canon_elems_canon_members.induct)
  case (4 ft ms)
  have "\<forall>i \<in> snd ` set (put_members (canon_members ft ms) []). canon ft i = i"
    using 4 put_members_values [of "canon_members ft ms" "[]"] unfolding list.set image_empty by blast
  then show ?case
    using canon_sorted_object [OF distinct_put_members] by simp
qed (simp_all add: float_ok_def JString_def unquote_JString)

lemma float_errors_members_iff: "float_errors_members ms = [] \<longleftrightarrow> (\<forall>j \<in> snd ` set ms. float_errors j = [])"
  by (induction ms) auto

lemma float_errors_canon:
  "float_ok ft \<Longrightarrow> float_errors j = [] \<Longrightarrow> float_errors (canon ft j) = []"
  "float_ok ft \<Longrightarrow> float_errors_elems js = [] \<Longrightarrow> float_errors_elems (canon_elems ft js) = []"
  "float_ok ft \<Longrightarrow> float_errors_members ms = [] \<Longrightarrow> float_errors_members (canon_members ft ms) = []"
proof (induction ft j and ft js and ft ms rule: canon_canon_elems_canon_members.induct)
  case (4 ft ms)
  then have "\<forall>j \<in> snd ` set (put_members (canon_members ft ms) []). float_errors j = []"
    using put_members_values [of "canon_members ft ms" "[]"]
    unfolding list.set image_empty float_errors.simps float_errors_members_iff by blast
  then show ?case by (auto simp: sorted_object_def float_errors_members_iff)
qed (simp_all add: float_ok_def JString_def split: if_splits)

lemma float_errors_strings: "float_errors (strings_doc ps) = []"
proof (cases ps)
  case (Some xs)
  have "float_errors_elems (map JString xs) = []" by (induction xs) (simp_all add: JString_def)
  with Some show ?thesis by simp
qed simp

lemma canon_strings: "canon ft (strings_doc ps) = strings_doc ps"
proof (cases ps)
  case (Some xs)
  have "canon_elems ft (map JString xs) = map JString xs"
    by (induction xs) (simp_all add: JString_def unquote_JString)
  with Some show ?thesis by simp
qed simp

end
