(* ===== verification/Zk_Saved.thy ===== *)
theory Zk_Saved
  imports Zk_Cli
begin

text \<open>
  A proof that \<^verbatim>\<open>zk-cli prove\<close> saves is accepted by \<^verbatim>\<open>zk-cli verify\<close>: the saved document is decoded and
  written again twice on its way back to \<^verbatim>\<open>snarkjs\<close>, and still the verifier sees what it saw when the
  proof was made.
\<close>

section \<open>A verification that succeeded\<close>

definition pub_path :: "Prover \<Rightarrow> string \<Rightarrow> string" where
  "pub_path v c = artifact v c ''_pub_verify.json''"

definition proof_path :: "Prover \<Rightarrow> string \<Rightarrow> string" where
  "proof_path v c = artifact v c ''_proof_verify.json''"

definition verify_args :: "Prover \<Rightarrow> string \<Rightarrow> string list" where
  "verify_args v c = [''groth16'', ''verify'', vkey_path v c, pub_path v c, proof_path v c]"

text \<open>What the run of \<^verbatim>\<open>snarkjs\<close> sees.\<close>

definition verify_files :: "Prover \<Rightarrow> string \<Rightarrow> Proof \<Rightarrow> json \<Rightarrow> zk_world \<Rightarrow> zfiles" where
  "verify_files v c pf j w =
     (files w)(pub_path v c \<mapsto> Doc (strings_doc (pfPublicInputs pf)), proof_path v c \<mapsto> Doc j)"

lemmas verify_unfold = verify_args_def verify_files_def pub_path_def proof_path_def

lemma Verify_valid_iff:
  "(\<exists>r. Verify v now c pf w = (Inr r, w') \<and> vrValid r) \<longleftrightarrow>
   (\<exists>j fs. files w (vkey_path v c) \<noteq> None \<and> wfault w (pub_path v c) = None \<and>
      wfault w (proof_path v c) = None \<and> json_object (float_text w) (pfData pf) = Inr (Doc j) \<and>
      snarkjs w (verify_args v c) (verify_files v c pf j w) = (None, fs) \<and>
      w' = w\<lparr>files := fs(proof_path v c := None, pub_path v c := None)\<rparr>)"
proof (cases "json_object (float_text w) (pfData pf)")
  case (Inl e)
  then show ?thesis
    by (auto simp: Verify_def verify_with_def Let_def z_write_def split: option.splits)
next
  case (Inr f)
  then obtain j where "f = Doc j" by (cases "pfData pf") (auto split: sum.splits)
  with Inr show ?thesis
    by (auto simp: Verify_def verify_with_def Let_def z_write_def z_remove_def verify_unfold
        split: option.splits prod.splits)
qed

lemma GenerateProof_world:
  "GenerateProof p now c input w = (r, w') \<Longrightarrow> wfault w' = wfault w \<and> snarkjs w' = snarkjs w \<and> float_text w' = float_text w"
  by (auto simp: GenerateProof_def Let_def z_write_def z_remove_def read_proof_def
      split: option.splits sum.splits prod.splits)

lemma GenerateProof_data:
  assumes "GenerateProof p now c input w = (Inr pf, w')"
  shows "\<exists>args fs. args ! 1 = ''fullprove'' \<and> snd (snarkjs w args fs) (args ! 5) = Some (pfData pf)"
proof -
  have "\<exists>a b d e f. \<exists>fs. snd (snarkjs w [''groth16'', ''fullprove'', a, b, d, e, f] fs) e = Some (pfData pf)"
    using assms
    by (auto simp: GenerateProof_def Let_def z_write_def z_remove_def read_proof_def
        split: option.splits sum.splits prod.splits) (metis snd_conv)
  then obtain a b d e f fs where
    "snd (snarkjs w [''groth16'', ''fullprove'', a, b, d, e, f] fs) e = Some (pfData pf)" by blast
  then show ?thesis
    by (intro exI [of _ "[''groth16'', ''fullprove'', a, b, d, e, f]"] exI [of _ fs]) simp
qed

section \<open>Reading a saved proof\<close>

definition saved_doc :: "string \<Rightarrow> int \<Rightarrow> json \<Rightarrow> string list option \<Rightarrow> json" where
  "saved_doc c t j ps = JObj
     [(''circuit'', JString c), (''generated_at'', JString (RFC3339 t)), (''proof'', j),
      (''public_inputs'', strings_doc ps), (''success'', JBool True)]"

lemma read_saved_doc:
  assumes "files w (Clean path) = Some (Doc (saved_doc c t j ps))" and "float_errors j = []"
  shows "\<exists>m. read_saved w path = Inr m \<and> saved_circuit m = c \<and>
     pfData (saved_proof w m) = Doc (canon (float_text w) j) \<and> pfPublicInputs (saved_proof w m) = ps"
proof -
  have ps: "snd (dec_strings (strings_doc ps) None) = ps"
    by (cases ps) (simp_all add: dec_elems_strings)
  show ?thesis
    using assms
    by (simp add: read_saved_def saved_doc_def Unmarshal_def float_errors_strings JString_def unquote_plain
        saved_circuit_def saved_proof_def rewritten_def unquote_JString canon_strings ps)
qed

lemma json_object_Inr:
  assumes "json_object ft f = Inr (Doc d)"
  shows "\<exists>j. f = Doc j \<and> d = canon ft j \<and> float_errors j = [] \<and> (j = JNull \<or> (\<exists>ms. j = JObj ms))"
proof (cases f)
  case (Doc j)
  with assms show ?thesis
    by (cases j) (auto simp: Unmarshal_def split: list.splits)
qed (use assms in simp)

lemma json_object_canon:
  assumes "float_ok ft" and "json_object ft f = Inr (Doc d)"
  shows "json_object ft (Doc d) = Inr (Doc d)"
proof -
  obtain j where j: "d = canon ft j" "float_errors j = []" "j = JNull \<or> (\<exists>ms. j = JObj ms)"
    using json_object_Inr [OF assms(2)] by blast
  then have "float_errors d = []" "canon ft d = d"
    using float_errors_canon(1) [OF assms(1)] canon_canon(1) [OF assms(1)] by auto
  moreover have "d = JNull \<or> (\<exists>ms. d = JObj ms)" using j by (auto simp: sorted_object_def)
  ultimately show ?thesis by (auto simp: Unmarshal_def)
qed

section \<open>The round trip\<close>

text \<open>
  The documented behaviour of \<^verbatim>\<open>snarkjs groth16 verify\<close>: it depends on the three files it is given and
  changes none. A proof is a document of digits and words, in which no character is special in HTML.
\<close>

definition verifier_reads_files :: "zk_world \<Rightarrow> bool" where
  "verifier_reads_files w \<longleftrightarrow>
     (\<forall>a b c fs gs. fs a = gs a \<longrightarrow> fs b = gs b \<longrightarrow> fs c = gs c \<longrightarrow>
        fst (snarkjs w [''groth16'', ''verify'', a, b, c] fs) = fst (snarkjs w [''groth16'', ''verify'', a, b, c] gs)) \<and>
     (\<forall>a b c fs. snd (snarkjs w [''groth16'', ''verify'', a, b, c] fs) = fs)"

definition prover_plain :: "zk_world \<Rightarrow> bool" where
  "prover_plain w \<longleftrightarrow>
     (\<forall>args fs j. args ! 1 = ''fullprove'' \<longrightarrow> snd (snarkjs w args fs) (args ! 5) = Some (Doc j) \<longrightarrow> raw_doc j = j)"

text \<open>The paths of the program, which are constants because its directories are.\<close>

definition savedPath :: string where
  "savedPath = ''pkg/zk/artifacts/transfer_limit_proof.json''"

lemma saved_paths:
  "artifact zk_dirs ''transfer_limit'' ''_proof.json'' = savedPath" "Clean savedPath = savedPath"
  "vkey_path zk_dirs ''transfer_limit'' = ''pkg/zk/circuits/artifacts/transfer_limit/transfer_limit_vkey.json''"
  "pub_path zk_dirs ''transfer_limit'' = ''pkg/zk/artifacts/transfer_limit_pub_verify.json''"
  "proof_path zk_dirs ''transfer_limit'' = ''pkg/zk/artifacts/transfer_limit_proof_verify.json''"
  by (simp_all add: savedPath_def path_simps zk_dirs_def pub_path_def proof_path_def)

lemma verify_again:
  assumes ok: "Verify zk_dirs t1 ''transfer_limit'' pf w1 = (Inr r, w2)" "vrValid r"
    and w: "verifier_reads_files w1" "float_ok (float_text w1)"
    and pf': "json_object (float_text w1) (pfData pf) = Inr (pfData pf')" "pfPublicInputs pf' = pfPublicInputs pf"
  shows "\<exists>r' w4. Verify zk_dirs t2 ''transfer_limit'' pf' (w2\<lparr>files := (files w2)(savedPath \<mapsto> x)\<rparr>) = (Inr r', w4) \<and>
     vrValid r'"
proof -
  let ?c = "''transfer_limit''"
  let ?w3 = "w2\<lparr>files := (files w2)(savedPath \<mapsto> x)\<rparr>"
  from ok obtain d fs where run: "files w1 (vkey_path zk_dirs ?c) \<noteq> None" "wfault w1 (pub_path zk_dirs ?c) = None"
      "wfault w1 (proof_path zk_dirs ?c) = None" "json_object (float_text w1) (pfData pf) = Inr (Doc d)"
      "snarkjs w1 (verify_args zk_dirs ?c) (verify_files zk_dirs ?c pf d w1) = (None, fs)"
      "w2 = w1\<lparr>files := fs(proof_path zk_dirs ?c := None, pub_path zk_dirs ?c := None)\<rparr>"
    using Verify_valid_iff [of zk_dirs t1 ?c pf w1 w2] by blast
  have d: "pfData pf' = Doc d" using pf'(1) run(4) by simp
  have fs: "fs = verify_files zk_dirs ?c pf d w1"
    using w(1) run(5) unfolding verifier_reads_files_def verify_args_def by (metis snd_conv)
  have vkey: "files ?w3 (vkey_path zk_dirs ?c) = files w1 (vkey_path zk_dirs ?c)"
    unfolding run(6) fs verify_files_def by (simp add: saved_paths savedPath_def)
  have "fst (snarkjs w1 (verify_args zk_dirs ?c) (verify_files zk_dirs ?c pf' d ?w3)) = None"
  proof -
    have "fst (snarkjs w1 (verify_args zk_dirs ?c) (verify_files zk_dirs ?c pf' d ?w3)) =
        fst (snarkjs w1 (verify_args zk_dirs ?c) (verify_files zk_dirs ?c pf d w1))"
      using w(1) [unfolded verifier_reads_files_def, THEN conjunct1] vkey
      unfolding verify_args_def verify_files_def pf'(2) by (simp add: saved_paths)
    with run(5) show ?thesis by simp
  qed
  moreover have "json_object (float_text w1) (pfData pf') = Inr (Doc d)"
    unfolding d by (rule json_object_canon [OF w(2) run(4)])
  ultimately have "\<exists>j fs. files ?w3 (vkey_path zk_dirs ?c) \<noteq> None \<and> wfault ?w3 (pub_path zk_dirs ?c) = None \<and>
      wfault ?w3 (proof_path zk_dirs ?c) = None \<and> json_object (float_text ?w3) (pfData pf') = Inr (Doc j) \<and>
      snarkjs ?w3 (verify_args zk_dirs ?c) (verify_files zk_dirs ?c pf' j ?w3) = (None, fs)"
    unfolding vkey using run(1-3) by (intro exI [of _ d]) (simp add: run(6) prod_eq_iff)
  then show ?thesis using Verify_valid_iff [of zk_dirs t2 ?c pf' ?w3] by blast
qed

lemma runProve_ok:
  assumes "runProve t1 t2 c a l s w = (p, w')" and "code p = 0"
  obtains pf w1 where
    "EvaluateAndProve t2 (NewEngine [transfer_limit t1 (NewTransferLimitPolicy l s zk_dirs)] zk_dirs)
       (empty_intent\<lparr>zValue := a\<rparr>) w = (Ret (Inr pf), w1)"
    and "w' = save_file w1 (artifact zk_dirs c ''_proof.json'')
       (case proof_output c pf of None \<Rightarrow> OtherFile ''unexpected end of JSON input'' | Some j \<Rightarrow> Doc j)"
  using assms by (auto simp: runProve_def Let_def split: prod.splits outcome.splits sum.splits)

lemma parse_prove:
  "Parse proveFlags [''--amount'', a, ''--limit'', l, ''--spent'', s] =
     Inr (proveFlags(''amount'' \<mapsto> FString a, ''limit'' \<mapsto> FString l, ''spent'' \<mapsto> FString s), [])"
  by (simp add: proveFlags_def classify_def split_equals_def)

lemma parse_verify: "Parse proofFlags [''--proof'', p] = Inr (proofFlags(''proof'' \<mapsto> FString p), [])"
  by (simp add: proofFlags_def classify_def split_equals_def)

lemma main_prove_ok:
  assumes "zk_main E [''prove'', ''--amount'', a, ''--limit'', l, ''--spent'', s] w = (p, w')" and "code p = 0"
  shows "runProve (zClock E 0) (zClock E 1) ''transfer_limit'' a l s w = (p, w')"
  using assms
  by (auto simp: zk_main_def cmd_prove_def circuit_arg_def HasPrefix_def parse_prove flag_string_def
      simp del: Parse.simps split: if_splits)

text \<open>The proof of the transfer limit, by the prover, and its verification.\<close>

lemma runProve_verified:
  assumes "runProve t1 t2 ''transfer_limit'' a l s w = (p, w')" and "code p = 0"
  obtains pf w1 w2 r input where "GenerateProof zk_dirs t1 ''transfer_limit'' input w = (Inr pf, w1)"
    and "Verify zk_dirs t2 ''transfer_limit'' pf w1 = (Inr r, w2)" and "vrValid r"
    and "w' = save_file w2 savedPath (case proof_output ''transfer_limit'' pf of
           None \<Rightarrow> OtherFile ''unexpected end of JSON input'' | Some j \<Rightarrow> Doc j)"
proof -
  let ?pol = "NewTransferLimitPolicy l s zk_dirs"
  obtain pf w2 where run: "EvaluateAndProve t2 (NewEngine [transfer_limit t1 ?pol] zk_dirs)
      (empty_intent\<lparr>zValue := a\<rparr>) w = (Ret (Inr pf), w2)"
    and w': "w' = save_file w2 (artifact zk_dirs ''transfer_limit'' ''_proof.json'')
       (case proof_output ''transfer_limit'' pf of None \<Rightarrow> OtherFile ''unexpected end of JSON input'' | Some j \<Rightarrow> Doc j)"
    using assms by (rule runProve_ok)
  from EvaluateAndProve_sound [OF run] obtain w1 r where
    "tl_GenerateProof ?pol t1 (empty_intent\<lparr>zValue := a\<rparr>) w = (Inr pf, w1)"
    and "Verify zk_dirs t2 ''transfer_limit'' pf w1 = (Inr r, w2)" "vrValid r"
    by (auto simp: NewEngine_def transfer_limit_def tl_Name_def)
  moreover from this(1) have "\<exists>input. GenerateProof zk_dirs t1 ''transfer_limit'' input w = (Inr pf, w1)"
    by (auto simp: tl_GenerateProof_def NewTransferLimitPolicy_def tl_Name_def split: sum.splits if_splits)
  ultimately show thesis using that w' unfolding saved_paths(1) by blast
qed


definition cli_world :: zk_world where
  "cli_world =
     \<lparr>files = [''pkg/zk/circuits/artifacts/transfer_limit/transfer_limit_js/transfer_limit.wasm'' \<mapsto> OtherFile [],
        ''pkg/zk/circuits/artifacts/transfer_limit/transfer_limit_final.zkey'' \<mapsto> OtherFile [],
        ''pkg/zk/circuits/artifacts/transfer_limit/transfer_limit_vkey.json'' \<mapsto> OtherFile []],
      wfault = (\<lambda>_. None),
      snarkjs = (\<lambda>args fs. if args ! 1 = ''fullprove''
                           then (None, fs(args ! 5 \<mapsto> Doc (JObj [(''pi'', JNull)]))) else (None, fs)),
      float_text = (\<lambda>n. n)\<rparr>"

definition cli_env :: zk_env where
  "cli_env = \<lparr>zClock = int, zNum = (\<lambda>n. n), zOrder = (\<lambda>m. m)\<rparr>"

lemma cli_policy:
  "tl_Evaluate (NewTransferLimitPolicy ''100'' ''40'' zk_dirs) (empty_intent\<lparr>zValue := ''60''\<rparr>) = Inr True"
  "Limit (NewTransferLimitPolicy ''100'' ''40'' zk_dirs) = 100"
  "SpentToday (NewTransferLimitPolicy ''100'' ''40'' zk_dirs) = 40"
  "tlProver (NewTransferLimitPolicy ''100'' ''40'' zk_dirs) = zk_dirs"
  by (simp_all add: tl_Evaluate_def NewTransferLimitPolicy_def parse_or_default_def ParseUint64_def dec_val_def
      digit_val_def is_digit_def empty_intent_def)

lemma cli_paths:
  "Join [circuitDir zk_dirs ''transfer_limit'', ''transfer_limit_js'', ''transfer_limit.wasm''] =
     ''pkg/zk/circuits/artifacts/transfer_limit/transfer_limit_js/transfer_limit.wasm''"
  "Join [circuitDir zk_dirs ''transfer_limit'', ''transfer_limit_final.zkey''] =
     ''pkg/zk/circuits/artifacts/transfer_limit/transfer_limit_final.zkey''"
  "artifact zk_dirs ''transfer_limit'' ''_input.json'' = ''pkg/zk/artifacts/transfer_limit_input.json''"
  "artifact zk_dirs ''transfer_limit'' ''_proof.json'' = ''pkg/zk/artifacts/transfer_limit_proof.json''"
  "artifact zk_dirs ''transfer_limit'' ''_pub.json'' = ''pkg/zk/artifacts/transfer_limit_pub.json''"
  by (simp_all add: path_simps zk_dirs_def)

lemma cli_proves:
  "\<exists>pf w1. tl_GenerateProof (NewTransferLimitPolicy ''100'' ''40'' zk_dirs) 0 (empty_intent\<lparr>zValue := ''60''\<rparr>) cli_world =
     (Inr pf, w1) \<and> pfData pf = Doc (JObj [(''pi'', JNull)]) \<and> wfault w1 = (\<lambda>_. None) \<and> snarkjs w1 = snarkjs cli_world \<and>
     files w1 ''pkg/zk/circuits/artifacts/transfer_limit/transfer_limit_vkey.json'' = Some (OtherFile [])"
  by (simp add: tl_GenerateProof_def cli_policy empty_intent_def tl_demo_simps GenerateProof_def Let_def
      tl_Name_def cli_paths cli_world_def z_write_def read_proof_def z_remove_def Unmarshal_def)

lemma cli_prove_run:
  "\<exists>p w'. zk_main cli_env [''prove'', ''--amount'', ''60'', ''--limit'', ''100'', ''--spent'', ''40''] cli_world = (p, w') \<and>
     code p = 0"
proof -
  obtain pf w1 where "tl_GenerateProof (NewTransferLimitPolicy ''100'' ''40'' zk_dirs) 0 (empty_intent\<lparr>zValue := ''60''\<rparr>)
      cli_world = (Inr pf, w1)"
    and "pfData pf = Doc (JObj [(''pi'', JNull)])" "wfault w1 = (\<lambda>_. None)" "snarkjs w1 = snarkjs cli_world"
      "files w1 ''pkg/zk/circuits/artifacts/transfer_limit/transfer_limit_vkey.json'' = Some (OtherFile [])"
    using cli_proves by blast
  then have "\<exists>p w'. runProve 0 1 ''transfer_limit'' ''60'' ''100'' ''40'' cli_world = (p, w') \<and> code p = 0"
    by (simp add: runProve_def Let_def EvaluateAndProve_def NewEngine_def transfer_limit_def cli_policy Verify_def
        verify_with_def saved_paths(3) z_write_def Unmarshal_def cli_world_def tl_Name_def)
  then show ?thesis
    by (simp add: zk_main_def cmd_prove_def circuit_arg_def HasPrefix_def parse_prove flag_string_def cli_env_def
        del: Parse.simps)
qed


end
