(* ===== verification/Flag_Facts.thy ===== *)
theory Flag_Facts
  imports Go_Flag
begin

text \<open>
  Parsing a command line: the flags keep their names and kinds, and a command line written out from
  values is read back as these values.
\<close>

section \<open>Numbers\<close>

lemma scan_uint_digits:
  "list_all is_digit s \<Longrightarrow> foldl (\<lambda>a c. 10 * a + digit_val c) n s < 2 ^ 64 \<Longrightarrow>
   scan_uint 10 s n = Inr (foldl (\<lambda>a c. 10 * a + digit_val c) n s)"
proof (induction s arbitrary: n)
  case (Cons c s)
  let ?f = "\<lambda>a c. 10 * a + digit_val c"
  have grow: "m \<le> foldl ?f m t" for m t
    by (induction t arbitrary: m) (simp, metis (no_types, lifting) add_leD1 foldl_Cons le_add1 le_trans mult_le_mono1
        mult_numeral_1 numeral_One one_le_numeral trans_le_add1)
  have "digit_val c < 10" "c \<noteq> CHR ''_''"
    using Cons.prems(1) by (auto simp: is_digit_def digit_val_def)
  moreover have "n * 10 + digit_val c < 2 ^ 64"
    using grow [of "?f n c" s] Cons.prems(2) by (simp add: mult.commute)
  ultimately show ?case
    using Cons by (simp add: digit_of_def mult.commute)
qed simp

lemma show_nat_hd: "n \<noteq> 0 \<Longrightarrow> hd (show_nat n) \<noteq> CHR ''0''"
proof (induction n rule: show_nat.induct)
  case (1 n)
  show ?case
  proof (cases "n < 10")
    case True
    then have "n = 1 \<or> n = 2 \<or> n = 3 \<or> n = 4 \<or> n = 5 \<or> n = 6 \<or> n = 7 \<or> n = 8 \<or> n = 9"
      using 1(2) by presburger
    then show ?thesis by (auto simp: show_nat.simps [of n])
  next
    case False
    with 1 show ?thesis by (simp add: show_nat.simps [of n])
  qed
qed

lemma ParseUint0_show_nat: "n < 2 ^ 64 \<Longrightarrow> ParseUint0 (show_nat n) = Inr (word_of_nat n)"
proof (cases "n = 0")
  case True
  then show ?thesis by (simp add: ParseUint0_def base_prefix_def show_nat.simps)
next
  case False
  assume "n < 2 ^ 64"
  then have "scan_uint 10 (show_nat n) 0 = Inr n"
    using scan_uint_digits [of "show_nat n" 0] show_nat_digits [of _ n] dec_val_show_nat [of n]
    by (auto simp: list_all_iff dec_val_def)
  moreover have "CHR ''_'' \<notin> set (show_nat n)" by (rule show_nat_no_char) (simp add: is_digit_def)
  ultimately show ?thesis using show_nat_hd [OF False] by (simp add: ParseUint0_def base_prefix_def)
qed

section \<open>Command lines\<close>

fun same_kind :: "fval \<Rightarrow> fval \<Rightarrow> bool" where
  "same_kind (FString _) (FString _) = True"
| "same_kind (FUint _) (FUint _) = True"
| "same_kind _ _ = False"

lemma same_kind_refl [simp]: "same_kind v v" by (cases v) auto

lemma same_kind_trans: "same_kind u v \<Longrightarrow> same_kind v w \<Longrightarrow> same_kind u w"
  by (cases u; cases v; cases w) auto

lemma flag_set_kind: "flag_set old v = Inr new \<Longrightarrow> same_kind old new"
  by (cases old) (auto split: sum.splits)

definition kinds_kept :: "flags \<Rightarrow> flags \<Rightarrow> bool" where
  "kinds_kept fs gs \<longleftrightarrow> dom gs = dom fs \<and> (\<forall>k u v. fs k = Some u \<longrightarrow> gs k = Some v \<longrightarrow> same_kind u v)"

text \<open>
  Parsing ends with the flags it started with, each of its kind, and a rest of the arguments; so a
  program that reads its own flags afterwards finds a value of the kind it defined.
\<close>

theorem Parse_keeps_kinds:
  assumes "Parse fs args = Inr (gs, rest)"
  shows "kinds_kept fs gs \<and> (\<exists>used. args = used @ rest)"
  using assms
proof (induction fs args rule: Parse.induct)
  case (2 fs s args)
  show ?case
  proof (cases "classify s")
    case (FlagNamed arg)
    obtain name given where sp: "split_equals arg = (name, given)" by fastforce
    obtain old where old: "fs name = Some old" using 2(2) FlagNamed sp by (auto split: option.splits)
    obtain v r where v: "flag_value given args = Some (v, r)"
      using 2(2) FlagNamed sp old by (auto split: option.splits)
    obtain new where new: "flag_set old v = Inr new"
      using 2(2) FlagNamed sp old v by (auto split: sum.splits)
    have "Parse (fs(name \<mapsto> new)) r = Inr (gs, rest)" using 2(2) FlagNamed sp old v new by simp
    from 2(1) [OF FlagNamed sp [symmetric] old v refl new this]
    have ih: "kinds_kept (fs(name \<mapsto> new)) gs" "\<exists>used. r = used @ rest" by blast+
    have "\<exists>used. args = used @ r" using v by (cases "(given, args)" rule: flag_value.cases) auto
    with ih(2) have "\<exists>used. s # args = used @ rest" by (metis append.assoc append_Cons)
    moreover have "kinds_kept fs gs"
      unfolding kinds_kept_def
    proof (intro conjI allI impI)
      show "dom gs = dom fs" using ih(1) old by (auto simp: kinds_kept_def)
      fix k u v' assume k: "fs k = Some u" "gs k = Some v'"
      have "(fs(name \<mapsto> new)) k = Some u' \<Longrightarrow> same_kind u' v'" for u'
        using ih(1) k(2) unfolding kinds_kept_def by blast
      then show "same_kind u v'"
        using k old same_kind_trans [OF flag_set_kind [OF new]] by (cases "k = name") auto
    qed
    ultimately show ?thesis by blast
  qed (use 2(2) in \<open>auto simp: kinds_kept_def\<close>)
qed (simp add: kinds_kept_def)

text \<open>Flags written out as two arguments each.\<close>

fun flag_args :: "string \<times> fval \<Rightarrow> string list" where
  "flag_args (k, FString v) = [''--'' @ k, v]"
| "flag_args (k, FUint n) = [''--'' @ k, show_nat (unat n)]"

definition flag_name :: "string \<Rightarrow> bool" where
  "flag_name k \<longleftrightarrow> k \<noteq> [] \<and> CHR ''='' \<notin> set k \<and> hd k \<noteq> CHR ''-''"

lemma classify_flag: "flag_name k \<Longrightarrow> classify (''--'' @ k) = FlagNamed k"
  by (cases k) (auto simp: classify_def flag_name_def)

lemma split_equals_name: "flag_name k \<Longrightarrow> split_equals k = (k, None)"
proof (cases k)
  case (Cons c t)
  moreover assume "flag_name k"
  ultimately have "takeWhile (\<lambda>c. c \<noteq> CHR ''='') t = t"
    by (auto simp: flag_name_def takeWhile_eq_all_conv)
  then have "length (takeWhile (\<lambda>c. c \<noteq> CHR ''='') t) = length t" by (rule arg_cong)
  with Cons show ?thesis by (simp add: split_equals_def)
qed (simp add: flag_name_def)

lemma Parse_flag_args:
  assumes "flag_name k" and "fs k = Some old" and "same_kind old v"
  shows "Parse fs (flag_args (k, v) @ args) = Parse (fs(k \<mapsto> v)) args"
proof (cases v)
  case (FString x)
  with assms(3) obtain y where "old = FString y" by (cases old) auto
  with FString assms(1,2) classify_flag [OF assms(1)] show ?thesis
    by (simp add: split_equals_name)
next
  case (FUint n)
  with assms(3) obtain y where "old = FUint y" by (cases old) auto
  with FUint assms(1,2) classify_flag [OF assms(1)] ParseUint0_show_nat [of "unat n"] unat_u64_less [of n] show ?thesis
    by (simp add: split_equals_name)
qed

text \<open>
  A command line that gives defined flags one after the other, as \<^verbatim>\<open>--name value\<close>, is read back as
  exactly these values, the last one for a flag that occurs twice; parsing stops at the first argument
  that is no flag.
\<close>

theorem Parse_command_line:
  assumes "\<forall>(k, v) \<in> set kvs. flag_name k \<and> (\<exists>old. fs k = Some old \<and> same_kind old v)"
    and "rest = [] \<or> classify (hd rest) = NoFlag"
  shows "Parse fs (concat (map flag_args kvs) @ rest) = Inr (foldl (\<lambda>m (k, v). m(k \<mapsto> v)) fs kvs, rest)"
  using assms(1)
proof (induction kvs arbitrary: fs)
  case Nil
  from assms(2) show ?case by (cases rest) auto
next
  case (Cons kv kvs)
  obtain k v where kv: "kv = (k, v)" by fastforce
  with Cons.prems obtain old where k: "flag_name k" "fs k = Some old" "same_kind old v" by auto
  have "\<exists>o'. (fs(k \<mapsto> v)) j = Some o' \<and> same_kind o' u" if "fs j = Some o''" "same_kind o'' u" "(j, u) \<in> set kvs" for j u o''
    using that k same_kind_trans [of v old u] by (cases v; cases old; cases u) auto
  with Cons.prems have "\<forall>(j, u) \<in> set kvs. flag_name j \<and> (\<exists>o'. (fs(k \<mapsto> v)) j = Some o' \<and> same_kind o' u)"
    by fastforce
  with Cons.IH Parse_flag_args [of k fs old v, OF k] show ?case by (simp add: kv del: flag_args.simps)
qed

theorem Parse_command_line_witness:
  "Parse [''node-id'' \<mapsto> FUint 1, ''peers'' \<mapsto> FString []]
     [''--peers'', ''-a=b'', ''--node-id'', ''42'', ''dkg'', ''--peers''] =
   Inr ([''node-id'' \<mapsto> FUint 42, ''peers'' \<mapsto> FString ''-a=b''], [''dkg'', ''--peers''])"
proof -
  have "show_nat 42 = ''42''" by (simp add: show_nat.simps)
  with Parse_command_line [of "[(''peers'', FString ''-a=b''), (''node-id'', FUint 42)]"
      "[''node-id'' \<mapsto> FUint 1, ''peers'' \<mapsto> FString []]" "[''dkg'', ''--peers'']"]
  show ?thesis by (simp add: flag_name_def classify_def fun_upd_twist del: Parse.simps)
qed

theorem Parse_keeps_kinds_witness:
  "kinds_kept [''proof'' \<mapsto> FString []] [''proof'' \<mapsto> FString ''p.json''] \<and> (\<exists>used. [''-proof=p.json''] = used @ [])"
proof -
  have "Parse [''proof'' \<mapsto> FString []] [''-proof=p.json''] = Inr ([''proof'' \<mapsto> FString ''p.json''], [])"
    by (simp add: classify_def split_equals_def)
  from Parse_keeps_kinds [OF this] show ?thesis .
qed

end
