(* ===== verification/Node_Cli.thy ===== *)
theory Node_Cli
  imports Console Mpc_Server Amounts
begin

text \<open>
  The two programs that talk to a running node, \<^verbatim>\<open>cmd/operator\<close> and \<^verbatim>\<open>cmd/cli\<close>: their arguments, the
  remote calls they make and what they report. The node is reached through the network \<^theory_text>\<open>net\<close> of the
  node's own model.
\<close>

section \<open>Requests\<close>

definition status_request :: HandshakeRequest where
  "status_request = \<lparr>hqNodeId = 0, hqClusterId = ''unknown'', hqAttestation = []\<rparr>"

definition trigger :: "string \<Rightarrow> byte list \<Rightarrow> NodeMessage" where
  "trigger t payload = \<lparr>MessageType = t, FromNode = 0, ToNode = 0, Payload = payload\<rparr>"

definition show_bool :: "bool \<Rightarrow> string" where
  "show_bool b = (if b then ''true'' else ''false'')"

section \<open>\<^verbatim>\<open>operator\<close>\<close>

definition operatorFlags :: flags where
  "operatorFlags = [''node'' \<mapsto> FString ''localhost:7001'', ''action'' \<mapsto> FString [], ''message'' \<mapsto> FString [],
     ''signers'' \<mapsto> FString []]"

definition handleDKG :: "'w net \<Rightarrow> string \<Rightarrow> 'w \<Rightarrow> process \<times> 'w" where
  "handleDKG N node w =
     (case rpcDKG N node (trigger ''trigger_dkg'' (bytes_of ''start'')) w of
        (Inl e, w1) \<Rightarrow> (leave [Out ''Triggering DKG...'', Err (''DKG failed: '' @ e)] 1, w1)
      | (Inr resp, w1) \<Rightarrow>
          (leave ([Out ''Triggering DKG...'', Out (''DKG response: '' @ MessageType resp)] @
             (if Payload resp \<noteq> [] then [Out (''Public key: '' @ hex_encode (Payload resp))] else []) @
             [Out ''DKG completed successfully'']) 0, w1))"

text \<open>
  \<^verbatim>\<open>fmt.Sscanf\<close> cannot scan into a slice of numbers: the list of signers stays nil, and it is only printed.
\<close>

definition handleSign :: "'w net \<Rightarrow> string \<Rightarrow> string \<Rightarrow> string \<Rightarrow> 'w \<Rightarrow> process \<times> 'w" where
  "handleSign N node message signers w =
     (if message = [] \<or> signers = [] then (leave [Out ''sign action requires -message and -signers''] 1, w)
      else
        let hello = [Out (''Signing message: '' @ message), Out ''Signers: []'']
        in case rpcSign N node (trigger ''trigger_sign'' (bytes_of message)) w of
             (Inl e, w1) \<Rightarrow> (leave (hello @ [Err (''Signing failed: '' @ e)]) 1, w1)
           | (Inr resp, w1) \<Rightarrow>
               (leave (hello @ [Out (''Sign response: '' @ MessageType resp)] @
                  (if Payload resp \<noteq> [] then [Out (''Signature: '' @ hex_encode (Payload resp))] else []) @
                  [Out ''Signing completed successfully'']) 0, w1))"

definition handleStatus :: "'w net \<Rightarrow> string \<Rightarrow> 'w \<Rightarrow> process \<times> 'w" where
  "handleStatus N node w =
     (case rpcHandshake N node status_request w of
        (Inl e, w1) \<Rightarrow> (leave [Out ''Getting node status...'', Err (''Status check failed: '' @ e)] 1, w1)
      | (Inr resp, w1) \<Rightarrow>
          (leave [Out ''Getting node status...'', Out (''Node ID: '' @ show_nat (unat (hrNodeId resp))),
             Out (''Cluster ID: '' @ hrClusterId resp), Out (''Accepted: '' @ show_bool (hrAccepted resp))] 0, w1))"

definition operator_main :: "'w net \<Rightarrow> string list \<Rightarrow> 'w \<Rightarrow> process \<times> 'w" where
  "operator_main N args w =
     (case Parse operatorFlags args of
        Inl e \<Rightarrow> (leave [] (flag_exit e), w)
      | Inr (fs, _) \<Rightarrow>
          let node = flag_string fs ''node''; action = flag_string fs ''action''
          in if action = []
             then (leave [Out ''Usage: operator -node <addr> -action <dkg|sign|status> [-message <hex>] [-signers <ids>]''] 1, w)
             else
               (case rpcDial N node of
                  Some e \<Rightarrow> (leave [Err (''Failed to connect to node: '' @ e)] 1, w)
                | None \<Rightarrow>
                    if action = ''dkg'' then handleDKG N node w
                    else if action = ''sign''
                    then handleSign N node (flag_string fs ''message'') (flag_string fs ''signers'') w
                    else if action = ''status'' then handleStatus N node w
                    else (leave [Err (''Unknown action: '' @ action)] 1, w)))"

section \<open>\<^verbatim>\<open>hsm-cli\<close>\<close>

definition cliFlags :: flags where
  "cliFlags = [''node'' \<mapsto> FString ''localhost:7001'', ''enclave'' \<mapsto> FString ''localhost:7002'']"

definition cli_usage :: "line list" where
  "cli_usage = map Out
     [''HSM CLI - Distributed Key Custody'', [], ''Usage:'', ''  hsm-cli [options] <command> [arguments]'', [], ''Commands:'',
      ''  status              Check node status'', ''  dkg                 Start distributed key generation'',
      ''  sign <message>      Sign a message'', ''  verify <sig> <msg>  Verify a signature'',
      ''  key                 Show current public key'', ''  reshare             Refresh key shares'', [], ''Options:'']"

definition cmdStatus :: "'w net \<Rightarrow> string \<Rightarrow> 'w \<Rightarrow> process \<times> 'w" where
  "cmdStatus N node w =
     (case rpcHandshake N node status_request w of
        (Inl e, w1) \<Rightarrow> (leave [Err (''Error: '' @ e)] 1, w1)
      | (Inr resp, w1) \<Rightarrow>
          (leave [Out ''Node Status:'', Out (''  Node ID:     '' @ show_nat (unat (hrNodeId resp))),
             Out (''  Cluster ID:  '' @ hrClusterId resp),
             Out (''  Status:      '' @ (if hrAccepted resp then ''Ready'' else ''Not Ready''))] 0, w1))"

definition cmdDKG :: "'w net \<Rightarrow> string \<Rightarrow> 'w \<Rightarrow> process \<times> 'w" where
  "cmdDKG N node w =
     (case rpcDKG N node (trigger ''trigger_dkg'' (bytes_of ''start'')) w of
        (Inl e, w1) \<Rightarrow> (leave [Out ''Starting DKG...'', Err (''Error: '' @ e)] 1, w1)
      | (Inr resp, w1) \<Rightarrow>
          (leave ([Out ''Starting DKG...''] @
             (if Payload resp \<noteq> [] then [Out (''Public Key: '' @ hex_encode (Payload resp))] else []) @
             [Out ''DKG completed successfully'']) 0, w1))"

definition cmdSign :: "'w net \<Rightarrow> string \<Rightarrow> string list \<Rightarrow> 'w \<Rightarrow> process \<times> 'w" where
  "cmdSign N node args w =
     (case args of
        [] \<Rightarrow> (leave [Out ''Usage: hsm-cli sign <message>''] 1, w)
      | message # _ \<Rightarrow>
          (case rpcSign N node (trigger ''trigger_sign'' (bytes_of message)) w of
             (Inl e, w1) \<Rightarrow> (leave [Out (''Signing message: '' @ message), Err (''Error: '' @ e)] 1, w1)
           | (Inr resp, w1) \<Rightarrow>
               (leave ([Out (''Signing message: '' @ message)] @
                  (if Payload resp \<noteq> [] then [Out (''Signature: '' @ hex_encode (Payload resp))] else []) @
                  [Out ''Signing completed'']) 0, w1)))"

text \<open>
  The answer of the enclave's verification: the first document of the body, with decoding errors
  ignored.
\<close>

record verify_answer =
  vaValid :: bool
  vaError :: string

fun dec_bool :: "string \<Rightarrow> bool decoder" where
  "dec_bool place (JBool b) old = ([], b)"
| "dec_bool place JNull old = ([], old)"
| "dec_bool place j old = ([type_error (kind j) place ''bool''], old)"

definition dec_verify_answer :: "verify_answer decoder" where
  "dec_verify_answer = dec_struct
     [(''valid'', field (dec_bool (at_field [] ''valid'')) vaValid (\<lambda>b r. r\<lparr>vaValid := b\<rparr>)),
      (''error'', field (dec_string (at_field [] ''error'')) vaError (\<lambda>s r. r\<lparr>vaError := s\<rparr>))]
     at_value ''struct''"

definition first_document :: "string \<Rightarrow> json option" where
  "first_document s = (case parse_value (2 * length s + 1) 0 s of Inl _ \<Rightarrow> None | Inr (j, _) \<Rightarrow> Some j)"

definition verify_body :: "byte list \<Rightarrow> byte list \<Rightarrow> json" where
  "verify_body sig message = JObj [(''message'', JStr (EncodeToString message)), (''signature'', JStr (EncodeToString sig))]"

definition check_mark :: string where
  "check_mark = [CHR 0xE2, CHR 0x9C, CHR 0x93]"

definition ballot_x :: string where
  "ballot_x = [CHR 0xE2, CHR 0x9C, CHR 0x97]"

text \<open>\<open>httpPost\<close> is \<^verbatim>\<open>http.Post\<close> with a JSON body: the body of the answer, whatever its status, or an error.\<close>

definition cmdVerify ::
  "(string \<Rightarrow> json \<Rightarrow> 'w \<Rightarrow> string res \<times> 'w) \<Rightarrow> string list \<Rightarrow> string \<Rightarrow> 'w \<Rightarrow> process \<times> 'w" where
  "cmdVerify httpPost args enclaveAddr w =
     (case args of
        sigHex # message # _ \<Rightarrow>
          (case hex_decode sigHex of
             Inl e \<Rightarrow> (leave [Err (''Invalid signature hex: '' @ e)] 1, w)
           | Inr sig \<Rightarrow>
               let hello = [Out (''Verifying signature: '' @ sigHex), Out (''Message: '' @ message)]
               in case httpPost (''http://'' @ enclaveAddr @ ''/verify'') (verify_body sig (bytes_of message)) w of
                    (Inl e, w1) \<Rightarrow> (leave (hello @ [Err (''Verify request failed: '' @ e)]) 1, w1)
                  | (Inr body, w1) \<Rightarrow>
                      let none = \<lparr>vaValid = False, vaError = []\<rparr>;
                          resp = (case first_document body of None \<Rightarrow> none | Some j \<Rightarrow> snd (dec_verify_answer j none))
                      in (leave (hello @
                            (if vaValid resp then [Out (''Result: VALID '' @ check_mark)]
                             else Out (''Result: INVALID '' @ ballot_x) #
                               (if vaError resp \<noteq> [] then [Out (''Error: '' @ vaError resp)] else []))) 0, w1))
      | _ \<Rightarrow> (leave [Out ''Usage: hsm-cli verify <signature_hex> <message>''] 1, w))"

definition cmdKey :: "'w net \<Rightarrow> string \<Rightarrow> 'w \<Rightarrow> process \<times> 'w" where
  "cmdKey N node w =
     (case rpcHandshake N node status_request w of
        (Inl e, w1) \<Rightarrow> (leave [Err (''Error: '' @ e)] 1, w1)
      | (Inr resp, w1) \<Rightarrow>
          (leave [if hrPublicKey resp \<noteq> [] then Out (''Public Key: '' @ hex_encode (hrPublicKey resp))
                  else Out ''No public key available. Run 'dkg' first.''] 0, w1))"

definition cmdReshare :: "'w net \<Rightarrow> string \<Rightarrow> 'w \<Rightarrow> process \<times> 'w" where
  "cmdReshare N node w =
     (case rpcDKG N node (trigger ''trigger_reshare'' (bytes_of ''start'')) w of
        (Inl e, w1) \<Rightarrow> (leave [Out ''Starting key resharing...'', Err (''Error: '' @ e)] 1, w1)
      | (Inr resp, w1) \<Rightarrow> (leave [Out ''Starting key resharing...'', Out ''Resharing completed successfully''] 0, w1))"

definition parseSigners :: "string \<Rightarrow> u32 list" where
  "parseSigners s =
     (if s = [] then [1]
      else map (\<lambda>part. case sscan_u32 part of Inl _ \<Rightarrow> 0 | Inr i \<Rightarrow> i) (Split s CHR '',''))"

definition cli_main ::
  "'w net \<Rightarrow> (string \<Rightarrow> json \<Rightarrow> 'w \<Rightarrow> string res \<times> 'w) \<Rightarrow> string list \<Rightarrow> 'w \<Rightarrow> process \<times> 'w" where
  "cli_main N httpPost args w =
     (case Parse cliFlags args of
        Inl e \<Rightarrow> (leave cli_usage (flag_exit e), w)
      | Inr (fs, []) \<Rightarrow> (leave cli_usage 1, w)
      | Inr (fs, cmd # rest) \<Rightarrow>
          let node = flag_string fs ''node''
          in case rpcDial N node of
               Some e \<Rightarrow> (leave [Err (''Failed to connect to node: '' @ e)] 1, w)
             | None \<Rightarrow>
                 if cmd = ''status'' then cmdStatus N node w
                 else if cmd = ''dkg'' then cmdDKG N node w
                 else if cmd = ''sign'' then cmdSign N node rest w
                 else if cmd = ''verify'' then cmdVerify httpPost rest (flag_string fs ''enclave'') w
                 else if cmd = ''key'' then cmdKey N node w
                 else if cmd = ''reshare'' then cmdReshare N node w
                 else (leave [Err (''Unknown command: '' @ cmd)] 1, w))"

end
