(* ===== verification/Mpc_Cli.thy ===== *)
theory Mpc_Cli
  imports Console Mpc_Composition
begin

text \<open>
  \<^verbatim>\<open>cmd/mpc-cli\<close>: the program that runs key generation, signing and share rotation with the
  orchestrators. A process is a function of its arguments, of the network and of the share
  directories of the machine by their path; it returns its output, the directories and the network's
  world. The lines the logger writes are not part of the output.
\<close>

section \<open>The machine\<close>

record cli_host =
  chGetenv :: "string \<Rightarrow> string"
  chHome :: "string res"
  chUnix :: int
  chNano :: int
  chOrder :: "u32 list" \<comment> \<open>the order in which the configured peers are met\<close>
  chCrypto :: crypto
  chSalt :: "byte list res"
  chNonce :: "byte list res"

type_synonym shares = "string \<Rightarrow> ShareStore"

definition cli_getShareDir :: "cli_host \<Rightarrow> string" where
  "cli_getShareDir h = (case chHome h of Inl _ \<Rightarrow> ''~/.hsm/mpc'' | Inr home \<Rightarrow> home @ ''/.hsm/mpc'')"

definition cli_parsePeers :: "string \<Rightarrow> (u32 \<rightharpoonup> string)" where
  "cli_parsePeers peersStr =
     (if peersStr = [] then Map.empty else number_peers 0 (Split peersStr CHR '','') Map.empty)"

definition mpc_usage :: "line list" where
  "mpc_usage = map Out
     [''MPC CLI - Multi-Party Computation Operations'', [], ''Usage:'',
      ''  mpc-cli dkg [flags]     - Run Distributed Key Generation'',
      ''  mpc-cli sign [flags]    - Sign a message using MPC'',
      ''  mpc-cli key [flags]     - Key management operations'',
      ''  mpc-cli reshare [flags] - Rotate key shares (same-key refresh)'',
      ''  mpc-cli help            - Show this help message'', [], ''DKG Commands:'',
      ''  mpc-cli dkg init --cluster-id <id> --peers <addrs>'',
      ''    Initialize and run DKG to generate shared key'', [], ''Sign Commands:'',
      ''  mpc-cli sign --message <base64_or_hex>'', ''    Sign a message using MPC threshold signatures'', [],
      ''Key Commands:'', ''  mpc-cli key status'', ''    Check key share status'', [], ''Examples:'',
      ''  MPC_SHARE_PASSWORD=secret mpc-cli dkg init '' @ [CHR 0x5C],
      ''    --cluster-id wallet_123 '' @ [CHR 0x5C],
      ''    --peers localhost:8001,localhost:8002,localhost:8003'', [],
      ''  MPC_SHARE_PASSWORD=secret mpc-cli sign '' @ [CHR 0x5C], ''    --message base64EncodedMessage'']"

section \<open>Flags\<close>

text \<open>The variables behind the flags, with the values they have before any command parses its own.\<close>

definition clusterFlags :: flags where
  "clusterFlags = [''cluster-id'' \<mapsto> FString [], ''peers'' \<mapsto> FString [], ''threshold'' \<mapsto> FUint 2,
     ''total-nodes'' \<mapsto> FUint 3, ''node-id'' \<mapsto> FUint 1]"

definition signFlags :: flags where
  "signFlags = [''message'' \<mapsto> FString []]"

definition missing_password :: line where
  "missing_password = Err ''ERROR: MPC_SHARE_PASSWORD environment variable is required''"

text \<open>
  The guard that key generation and rotation share: \<^verbatim>\<open>len(peerAddrs) < int(total) - 1\<close>, in 64-bit
  arithmetic.
\<close>

definition too_few_peers :: "flags \<Rightarrow> bool" where
  "too_few_peers fs \<longleftrightarrow>
     int (peer_count (flag_string fs ''peers'')) < sint (flag_uint fs ''total-nodes'' - 1)"

definition peers_line :: "flags \<Rightarrow> line" where
  "peers_line fs = Err (''ERROR: Not enough peers. Need '' @ show_nat (unat (flag_uint fs ''total-nodes'' - 1)) @
     '', got '' @ show_nat (peer_count (flag_string fs ''peers'')))"

definition cli_cluster :: "cli_host \<Rightarrow> flags \<Rightarrow> string" where
  "cli_cluster h fs =
     (if flag_string fs ''cluster-id'' = [] then ''cluster-'' @ show_int (chUnix h) else flag_string fs ''cluster-id'')"

definition cli_config :: "cli_host \<Rightarrow> flags \<Rightarrow> NodeConfig" where
  "cli_config h fs =
     \<lparr>NodeID = ucast (flag_uint fs ''node-id''), ClusterID = cli_cluster h fs,
      Threshold = ucast (flag_uint fs ''threshold''), TotalNodes = ucast (flag_uint fs ''total-nodes''),
      ListenAddr = ''localhost:'' @ show_nat (unat (8000 + flag_uint fs ''node-id'')),
      EnclaveAddr = ''localhost:7002'', PeerAddrs = cli_parsePeers (flag_string fs ''peers''),
      TLSEnabled = False, MetricsAddr = [], ShareFile = []\<rparr>"

section \<open>Key generation\<close>

definition dkg_lines :: "DKGResult \<Rightarrow> line list" where
  "dkg_lines result = map Out
     [nl @ tick @ '' DKG Completed Successfully!'', ''   Cluster ID:   '' @ drClusterID result,
      ''   Public Key:   '' @ hex_encode (drPublicKey result),
      ''   Threshold:   '' @ show_nat (unat (drThreshold result)) @ ''-of-'' @ show_nat (unat (drTotalNodes result)),
      ''   Key Shares:   '' @ show_nat (length (drKeyShares result)) @ '' nodes'']"

text \<open>The store of a directory after the orchestrator has saved to it.\<close>

definition keep_store :: "shares \<Rightarrow> string \<Rightarrow> DKGOrchestrator \<Rightarrow> shares" where
  "keep_store sh dir orc = (case dkShareStore orc of None \<Rightarrow> sh | Some s \<Rightarrow> sh(dir := s))"

definition runDKGInit ::
  "cli_host \<Rightarrow> 'w net \<Rightarrow> flags \<Rightarrow> shares \<Rightarrow> 'w \<Rightarrow> process \<times> shares \<times> 'w" where
  "runDKGInit h N fs sh w =
     (let password = chGetenv h ''MPC_SHARE_PASSWORD'';
          cluster = cli_cluster h fs;
          hello = (if flag_string fs ''cluster-id'' = []
                   then [Out (''No cluster-id specified, using: '' @ cluster)] else []);
          cfg = cli_config h fs;
          dir = cli_getShareDir h
      in if password = [] then (leave [missing_password] 1, sh, w)
         else if too_few_peers fs then (leave (hello @ [peers_line fs]) 1, sh, w)
         else
           (case dkg_RunDKG N (chOrder h) (chUnix h) (NewDKGOrchestrator cfg (Some (sh dir))) w of
              (Inl e, _, w1) \<Rightarrow> (leave hello 1, sh, w1)
            | (Inr result, orc, w1) \<Rightarrow>
                (case SaveShareToDisk (chCrypto h) (chSalt h) (chNonce h) (chUnix h) orc (NodeID cfg)
                        (drClusterID result)
                        (case map_of (drKeyShares result) (NodeID cfg) of None \<Rightarrow> [] | Some k \<Rightarrow> k)
                        (drPublicKey result) password of
                   Inl e \<Rightarrow> (leave (hello @ dkg_lines result) 1, sh, w1)
                 | Inr orc' \<Rightarrow>
                     (leave (hello @ dkg_lines result @
                        [Out (''   Share saved:  '' @ dir @ ''/node_'' @ show_nat (unat (NodeID cfg)) @ ''/share.json'')]) 0,
                      keep_store sh dir orc', w1))))"

definition runDKGCommand ::
  "cli_host \<Rightarrow> 'w net \<Rightarrow> string list \<Rightarrow> shares \<Rightarrow> 'w \<Rightarrow> process \<times> shares \<times> 'w" where
  "runDKGCommand h N args sh w =
     (case args of
        [] \<Rightarrow> (leave [Out ''Usage: mpc-cli dkg init [flags]''] 1, sh, w)
      | sub # rest \<Rightarrow>
          if sub = ''help'' then (leave [Out ''DKG Commands:'', Out ''  mpc-cli dkg init   - Initialize and run DKG''] 0, sh, w)
          else if sub = ''init''
          then (case Parse clusterFlags rest of
                  Inl e \<Rightarrow> (leave [] (flag_exit e), sh, w)
                | Inr (fs, _) \<Rightarrow> runDKGInit h N fs sh w)
          else (leave [Out (''Unknown dkg subcommand: '' @ sub)] 1, sh, w))"

section \<open>Signing\<close>

text \<open>The peers and the threshold have no flag in this command: they have their default values.\<close>

definition signConfig :: NodeConfig where
  "signConfig =
     \<lparr>NodeID = 1, ClusterID = [], Threshold = 2, TotalNodes = 0, ListenAddr = [], EnclaveAddr = [],
      PeerAddrs = cli_parsePeers [], TLSEnabled = False, MetricsAddr = [], ShareFile = []\<rparr>"

text \<open>
  \<^verbatim>\<open>mustBase64Decode\<close> returns the text as it is; \<^verbatim>\<open>mustHexDecode\<close> leaves the process.
\<close>

definition message_bytes :: "string \<Rightarrow> byte list option" where
  "message_bytes m =
     (if HasPrefix m ''base64:'' then Some (bytes_of (drop 7 m))
      else if HasPrefix m ''hex:'' then None
      else Some (bytes_of m))"

definition show_u32s :: "u32 list \<Rightarrow> string" where
  "show_u32s xs = show_slice (map (\<lambda>x. show_nat (unat x)) xs)"

definition runSignCommand :: "cli_host \<Rightarrow> 'w net \<Rightarrow> string list \<Rightarrow> 'w \<Rightarrow> process \<times> 'w" where
  "runSignCommand h N args w =
     (if args = [] then (leave [Out ''Usage: mpc-cli sign --message <base64_or_hex>''] 1, w)
      else
        (case Parse signFlags args of
           Inl e \<Rightarrow> (leave [] (flag_exit e), w)
         | Inr (fs, _) \<Rightarrow>
             let message = flag_string fs ''message''
             in if message = [] then (leave [Err ''ERROR: --message is required''] 1, w)
                else
                  (case message_bytes message of
                     None \<Rightarrow> (leave [Err ''hex decoding not implemented''] 1, w)
                   | Some msgBytes \<Rightarrow>
                       (case sgn_SignMessage N (chOrder h) (chNano h) (NewSignOrchestrator signConfig) msgBytes [] [] w of
                          (Inl e, _, w1) \<Rightarrow> (leave [] 1, w1)
                        | (Inr result, _, w1) \<Rightarrow>
                            (leave (map Out [nl @ tick @ '' MPC Signing Completed!'',
                               ''   Session ID:   '' @ srSessionID result,
                               ''   Signers:      '' @ show_u32s (srSigners result),
                               ''   Signature:    '' @ hex_encode (srSignature result)]) 0, w1)))))"

section \<open>The status of the key\<close>

definition runKeyStatus :: "cli_host \<Rightarrow> shares \<Rightarrow> process" where
  "runKeyStatus h sh =
     (let password = chGetenv h ''MPC_SHARE_PASSWORD''; s = sh (cli_getShareDir h); nodeID = 1
      in if password = [] then leave [Err ''ERROR: MPC_SHARE_PASSWORD is required''] 1
         else if ShareExists s nodeID then
           (case LoadShare (chCrypto h) s nodeID password of
              Inl e \<Rightarrow> leave [Out (cross @ '' Failed to load share: '' @ e)] 1
            | Inr (clusterID, share, pubkey) \<Rightarrow>
                leave (map Out [tick @ '' Key Share Found'', ''   Node ID:     node_'' @ show_nat (unat nodeID),
                  ''   Cluster ID:  '' @ clusterID, ''   Public Key:  '' @ hex_encode pubkey,
                  ''   Share Size:  '' @ show_nat (length share) @ '' bytes'']) 0)
         else leave (map Out [cross @ '' No key share found for node_'' @ show_nat (unat nodeID),
                ''   Run 'mpc-cli dkg init' to generate one'']) 1)"

definition runKeyCommand :: "cli_host \<Rightarrow> string list \<Rightarrow> shares \<Rightarrow> process" where
  "runKeyCommand h args sh =
     (case args of
        [] \<Rightarrow> leave [Out ''Key Commands:'', Out ''  mpc-cli key status   - Show key share status''] 0
      | sub # _ \<Rightarrow>
          if sub = ''status'' then runKeyStatus h sh else leave [Out (''Unknown key subcommand: '' @ sub)] 1)"

section \<open>Share rotation\<close>

definition refresh_lines :: "RefreshResult \<Rightarrow> line list" where
  "refresh_lines r = map Out
     [nl @ tick @ '' Share Rotation Completed!'', ''   Cluster ID:       '' @ rrClusterID r,
      ''   Public Key:       '' @ hex_encode (rrPublicKey r),
      ''   Threshold:        '' @ show_nat (unat (rrThreshold r)) @ ''-of-'' @ show_nat (unat (rrTotalNodes r)),
      ''   Same Key:         '' @ (if rrSameKey r then ''true'' else ''false''),
      ''   Old share backed up. New shares active.'', ''   Address unchanged. No fund migration needed.'']"

definition runReshareCommand ::
  "cli_host \<Rightarrow> 'w net \<Rightarrow> string list \<Rightarrow> shares \<Rightarrow> 'w \<Rightarrow> process \<times> shares \<times> 'w" where
  "runReshareCommand h N args sh w =
     (case Parse clusterFlags args of
        Inl e \<Rightarrow> (leave [] (flag_exit e), sh, w)
      | Inr (fs, _) \<Rightarrow>
          let password = chGetenv h ''MPC_SHARE_PASSWORD''; dir = cli_getShareDir h
          in if password = [] then (leave [missing_password] 1, sh, w)
             else if too_few_peers fs then (leave [peers_line fs] 1, sh, w)
             else
               (case RunRefresh (chCrypto h) N (chOrder h) (chUnix h)
                       (NewRefreshOrchestrator (cli_config h fs) (sh dir)) password w of
                  (Inl e, orc, w1) \<Rightarrow> (leave [] 1, sh(dir := rfShareStore orc), w1)
                | (Inr result, orc, w1) \<Rightarrow> (leave (refresh_lines result) 0, sh(dir := rfShareStore orc), w1)))"

section \<open>The program\<close>

definition mpc_main :: "cli_host \<Rightarrow> 'w net \<Rightarrow> string list \<Rightarrow> shares \<Rightarrow> 'w \<Rightarrow> process \<times> shares \<times> 'w" where
  "mpc_main h N args sh w =
     (case args of
        [] \<Rightarrow> (leave mpc_usage 1, sh, w)
      | command # rest \<Rightarrow>
          if command = ''dkg'' then runDKGCommand h N rest sh w
          else if command = ''sign'' then (case runSignCommand h N rest w of (p, w1) \<Rightarrow> (p, sh, w1))
          else if command = ''key'' then (runKeyCommand h rest sh, sh, w)
          else if command = ''reshare'' then runReshareCommand h N rest sh w
          else if command = ''help'' then (leave mpc_usage 0, sh, w)
          else (leave (Out (''Unknown command: '' @ command @ nl) # mpc_usage) 1, sh, w))"

end
