(* ===== verification/Mpc_Daemon.thy ===== *)
theory Mpc_Daemon
  imports Console Mpc_Cluster Share_Store
begin

text \<open>
  \<^verbatim>\<open>cmd/mpc-node\<close>: the program that runs a node. It reads its password, its share directory and its
  configuration, looks at the share on disk, starts the node and stops it when a signal arrives. The
  lines the logger writes are not part of the output.
\<close>

record daemon_host =
  dhGetenv :: "string \<Rightarrow> string"
  dhHome :: "string res"
  dhReadFile :: "string \<Rightarrow> string res"
  dhYaml :: "string \<Rightarrow> NodeConfig res"
  dhOrder :: "u32 list" \<comment> \<open>the order in which the configured peers are met\<close>
  dhCrypto :: crypto
  dhShares :: "string \<Rightarrow> ShareStore"

definition daemonFlags :: flags where
  "daemonFlags = [''config'' \<mapsto> FString [], ''node-id'' \<mapsto> FUint 0, ''cluster-id'' \<mapsto> FString [],
     ''threshold'' \<mapsto> FUint 2, ''total-nodes'' \<mapsto> FUint 2, ''listen'' \<mapsto> FString '':7001'',
     ''enclave-port'' \<mapsto> FUint 7002, ''peers'' \<mapsto> FString [], ''password-file'' \<mapsto> FString [],
     ''share-dir'' \<mapsto> FString []]"

section \<open>Settings\<close>

definition getPassword :: "daemon_host \<Rightarrow> flags \<Rightarrow> string \<times> line list" where
  "getPassword h fs =
     (if flag_string fs ''password-file'' \<noteq> []
      then (case dhReadFile h (flag_string fs ''password-file'') of
              Inl e \<Rightarrow> ([], [Err (''ERROR: Failed to read password file: '' @ e)])
            | Inr data \<Rightarrow> (TrimSpace data, []))
      else (dhGetenv h ''MPC_SHARE_PASSWORD'', []))"

definition getShareDir :: "daemon_host \<Rightarrow> flags \<Rightarrow> string" where
  "getShareDir h fs =
     (if flag_string fs ''share-dir'' \<noteq> [] then flag_string fs ''share-dir''
      else (case dhHome h of Inl _ \<Rightarrow> ''~/.hsm/mpc'' | Inr home \<Rightarrow> home @ ''/.hsm/mpc''))"

text \<open>Peers as \<^verbatim>\<open>nodeID:host:port\<close>; an entry of another form is reported and skipped.\<close>

fun read_peers :: "string list \<Rightarrow> (u32 \<rightharpoonup> string) \<Rightarrow> (u32 \<rightharpoonup> string) \<times> line list" where
  "read_peers [] m = (m, [])"
| "read_peers (peer # ps) m =
     (case Split peer CHR '':'' of
        [i, host, port] \<Rightarrow>
          (case ParseUint32 i of
             None \<Rightarrow> (case read_peers ps m of (m', ls) \<Rightarrow> (m', Err (''Invalid peer node ID: '' @ i) # ls))
           | Some nodeID \<Rightarrow> read_peers ps (m(nodeID \<mapsto> host @ '':'' @ port)))
      | _ \<Rightarrow> (case read_peers ps m of
               (m', ls) \<Rightarrow> (m', Err (''Invalid peer format: '' @ peer @ '' (expected nodeID:host:port)'') # ls)))"

definition parsePeers :: "string \<Rightarrow> (u32 \<rightharpoonup> string) \<times> line list" where
  "parsePeers peersStr =
     (if peersStr = [] then (Map.empty, []) else read_peers (Split peersStr CHR '','') Map.empty)"

definition share_file :: "string \<Rightarrow> nat \<Rightarrow> string" where
  "share_file dir i = dir @ ''/node_'' @ show_nat i @ ''/share.json''"

definition node_config :: "daemon_host \<Rightarrow> flags \<Rightarrow> (NodeConfig \<times> line list) res" where
  "node_config h fs =
     (let dir = getShareDir h fs; path = flag_string fs ''config''
      in if path \<noteq> [] then
           (case LoadNodeConfig (dhReadFile h) (dhYaml h) path of
              Inl e \<Rightarrow> Inl e
            | Inr c \<Rightarrow> Inr (if ShareFile c = [] then c\<lparr>ShareFile := share_file dir (unat (NodeID c))\<rparr> else c, []))
         else
           (case parsePeers (flag_string fs ''peers'') of
              (peers, ls) \<Rightarrow>
                Inr (\<lparr>NodeID = ucast (flag_uint fs ''node-id''), ClusterID = flag_string fs ''cluster-id'',
                   Threshold = ucast (flag_uint fs ''threshold''), TotalNodes = ucast (flag_uint fs ''total-nodes''),
                   ListenAddr = flag_string fs ''listen'',
                   EnclaveAddr = ''localhost:'' @ show_nat (unat (flag_uint fs ''enclave-port'')),
                   PeerAddrs = peers, TLSEnabled = False, MetricsAddr = [],
                   ShareFile = share_file dir (unat (flag_uint fs ''node-id''))\<rparr>, ls)))"

section \<open>The share on disk\<close>

text \<open>What the program finds out about its share, and only logs. The node is the one of the flag.\<close>

datatype share_status = NoShare | ShareUnreadable err | ShareFound string "byte list"

definition look_at_share :: "daemon_host \<Rightarrow> flags \<Rightarrow> string \<Rightarrow> share_status" where
  "look_at_share h fs password =
     (let s = dhShares h (getShareDir h fs); nodeID = (ucast (flag_uint fs ''node-id'') :: u32)
      in if ShareExists s nodeID then
           (case LoadShare (dhCrypto h) s nodeID password of
              Inl e \<Rightarrow> ShareUnreadable e
            | Inr (clusterID, _, pubkey) \<Rightarrow> ShareFound clusterID pubkey)
         else NoShare)"

section \<open>The program\<close>

text \<open>A run up to the point where the node waits: the process has ended, or a node is running.\<close>

datatype 'w launch =
    Ended process
  | Running "line list" share_status "'w MPCNode" 'w

definition launch ::
  "(string \<Rightarrow> string \<Rightarrow> enclave_request option \<Rightarrow> 'w \<Rightarrow> http_result \<times> 'w) \<Rightarrow> 'w net \<Rightarrow> daemon_host \<Rightarrow>
   string list \<Rightarrow> 'w \<Rightarrow> 'w launch" where
  "launch H N h args w =
     (case Parse daemonFlags args of
        Inl e \<Rightarrow> Ended (leave [] (flag_exit e))
      | Inr (fs, _) \<Rightarrow>
          (case getPassword h fs of
             (password, ls0) \<Rightarrow>
               if password = []
               then Ended (leave (ls0 @ [Err ''ERROR: MPC_SHARE_PASSWORD environment variable or --password-file is required'',
                      Err ''Usage: Set MPC_SHARE_PASSWORD env var or use --password-file=/path/to/secret'']) 1)
               else
                 let ls1 = ls0 @ [Out (''MPC Share directory: '' @ getShareDir h fs)]
                 in case node_config h fs of
                      Inl e \<Rightarrow> Ended (leave ls1 1)
                    | Inr (cfg, ls2) \<Rightarrow>
                        if Validate cfg \<noteq> None then Ended (leave (ls1 @ ls2) 1)
                        else
                          (case NewNode H cfg of
                             Inl e \<Rightarrow> Ended (leave (ls1 @ ls2) 1)
                           | Inr n \<Rightarrow>
                               (case Start N (dhOrder h) n w of
                                  (Inl e, _, _) \<Rightarrow> Ended (leave (ls1 @ ls2) 1)
                                | (Inr _, n1, w1) \<Rightarrow> Running (ls1 @ ls2) (look_at_share h fs password) n1 w1))))"

text \<open>The signal: the node is stopped and the process ends.\<close>

fun shutdown :: "'w launch \<Rightarrow> process \<times> 'w MPCNode option" where
  "shutdown (Ended p) = (p, None)"
| "shutdown (Running ls _ n _) = (leave ls 0, Some (Stop n))"

end
