(* ===== verification/Cli_Facts.thy ===== *)
theory Cli_Facts
  imports Flag_Facts Node_Cli Mpc_Cli Mpc_Daemon
begin

text \<open>
  What the command-line programs achieve with the nodes of this repository, and what they report.
\<close>

section \<open>\<^verbatim>\<open>mpc-cli sign\<close>\<close>

lemma dial_no_peers: "PeerAddrs cfg = Map.empty \<Longrightarrow> dial_peers N cfg ids peers = peers"
  by (induction ids) auto

lemma sign_without_peers:
  "sgn_SignMessage N ids nano (NewSignOrchestrator signConfig) message tx url w =
     (Inl (not_enough ''peers connected'' 0 2), NewSignOrchestrator signConfig, w)"
  by (simp add: sgn_SignMessage_def NewSignOrchestrator_def sgn_ConnectToPeers_def signConfig_def cli_parsePeers_def
      dial_no_peers)

text \<open>
  C26: \<^verbatim>\<open>mpc-cli sign\<close> never signs. The command defines no flag for the peers, so it has none, while it keeps
  the default threshold of two: whatever its arguments and whatever the network, it sends nothing,
  changes nothing, and ends with code 0 only when it is asked for help.
\<close>

theorem mpc_sign_never_signs:
  assumes "mpc_main h N (''sign'' # args) sh w = (p, sh', w')"
  shows "sh' = sh \<and> w' = w \<and> (code p = 0 \<longrightarrow> Parse signFlags args = Inl HelpWanted \<and> lines p = [])"
proof -
  have "flag_exit e = 0 \<Longrightarrow> e = HelpWanted" for e by (cases e) auto
  moreover obtain q v where run: "runSignCommand h N args w = (q, v)" by fastforce
  then have "v = w \<and> (code q = 0 \<longrightarrow> (\<exists>e. Parse signFlags args = Inl e \<and> flag_exit e = 0) \<and> lines q = [])"
    by (auto simp: runSignCommand_def Let_def sign_without_peers split: if_splits sum.splits option.splits)
  ultimately show ?thesis using assms run by (auto simp: mpc_main_def)
qed

section \<open>Reports on a node\<close>

lemma cluster_handshake:
  "clNodes W a = Some n \<Longrightarrow>
   rpcHandshake (cluster_net M rnd sess pick1 pick2 clock uuid dial) a req W = (Inr (Handshake n req), W)"
  by (simp add: cluster_net_def at_node_def fun_upd_idem)

lemma Handshake_key: "hrPublicKey (Handshake n req) = []"
  by (simp add: Handshake_def Let_def)

lemma Handshake_identity: "hrNodeId (Handshake n req) = NodeID (ncfg n)" "hrClusterId (Handshake n req) = ClusterID (ncfg n)"
  by (simp_all add: Handshake_def Let_def)

lemma parse_cli: "classify c = NoFlag \<Longrightarrow> Parse cliFlags (''--node'' # a # c # rest) =
    Inr (cliFlags(''node'' \<mapsto> FString a), c # rest)"
  using Parse_flag_args [of "''node''" cliFlags "FString ''localhost:7001''" "FString a" "c # rest"]
  by (simp add: flag_name_def cliFlags_def)

text \<open>
  C28: For every node of a cluster, in whatever state it is, \<^verbatim>\<open>hsm-cli status\<close> names the node and its
  cluster and calls it not ready, and \<^verbatim>\<open>hsm-cli key\<close> finds no public key, before and after a key
  generation alike. The handshake both use rejects every caller and carries no key.
\<close>

theorem cli_sees_no_ready_node:
  assumes "clNodes W a = Some n" and "dial a = None"
  shows "cli_main (cluster_net M rnd sess pick1 pick2 clock uuid dial) httpPost [''--node'', a, ''status''] W =
      (leave [Out ''Node Status:'', Out (''  Node ID:     '' @ show_nat (unat (NodeID (ncfg n)))),
         Out (''  Cluster ID:  '' @ ClusterID (ncfg n)), Out ''  Status:      Not Ready''] 0, W) \<and>
    cli_main (cluster_net M rnd sess pick1 pick2 clock uuid dial) httpPost [''--node'', a, ''key''] W =
      (leave [Out ''No public key available. Run 'dkg' first.''] 0, W)"
proof -
  have "rpcDial (cluster_net M rnd sess pick1 pick2 clock uuid dial) a = None"
    using assms(2) by (simp add: cluster_net_def)
  moreover have "classify ''status'' = NoFlag" "classify ''key'' = NoFlag" by (simp_all add: classify_def)
  ultimately show ?thesis
    by (simp add: cli_main_def parse_cli flag_string_def cmdStatus_def cmdKey_def cluster_handshake [OF assms(1)]
        handshake_rejects Handshake_key Handshake_identity del: Parse.simps)
qed

theorem cli_sees_no_ready_node_witness:
  "fst (cli_main demo_cluster_net (\<lambda>u j w. (Inl ''down'', w)) [''--node'', ''b'', ''key''] demo_cluster) =
     leave [Out ''No public key available. Run 'dkg' first.''] 0"
proof -
  have "clNodes demo_cluster ''b'' = Some demo_node" by (simp add: demo_cluster_def)
  from cli_sees_no_ready_node [OF this refl] show ?thesis unfolding demo_cluster_net_def by (metis fst_conv)
qed

definition demo_host :: cli_host where
  "demo_host = \<lparr>chGetenv = (\<lambda>_. ''pw''), chHome = Inr ''/root'', chUnix = 5, chNano = 6, chOrder = [1], chCrypto = toy,
     chSalt = Inr (replicate 16 1), chNonce = Inr (replicate 12 2)\<rparr>"

lemma demo_host_simps:
  "chGetenv demo_host v = ''pw''" "chHome demo_host = Inr ''/root''" "chUnix demo_host = 5" "chNano demo_host = 6"
  "chOrder demo_host = [1]" "chCrypto demo_host = toy" "chSalt demo_host = Inr (replicate 16 1)"
  "chNonce demo_host = Inr (replicate 12 2)"
  by (simp_all add: demo_host_def)

theorem mpc_sign_never_signs_witness:
  "code (fst (mpc_main demo_host demo_cluster_net [''sign'', ''--message'', ''m''] (\<lambda>_. no_shares) demo_cluster)) \<noteq> 0"
proof -
  obtain p sh' w' where run: "mpc_main demo_host demo_cluster_net [''sign'', ''--message'', ''m''] (\<lambda>_. no_shares) demo_cluster =
      (p, sh', w')" by (metis prod.exhaust)
  have "Parse signFlags [''--message'', ''m''] = Inr (signFlags(''message'' \<mapsto> FString ''m''), [])"
    by (simp add: signFlags_def classify_def split_equals_def)
  with mpc_sign_never_signs [OF run] show ?thesis by (simp add: run del: Parse.simps)
qed

section \<open>Errors reported as success\<close>

lemma cluster_sign_error:
  assumes "clNodes W a = Some n" and "MessageType req = ''trigger_sign''"
    and "Sign M rnd n sess (Payload req) (NodeID (ncfg n) # map fst (npeers n)) (clWorld W) = (Ret (Inl e), n', v)"
  shows "\<exists>W'. rpcSign (cluster_net M rnd sess pick1 pick2 clock uuid dial) a req W = (Inr (reply_error n' req e), W')"
  using assms by (simp add: cluster_net_def at_node_def SignMessage_def handleTriggerSign_def)

lemma parse_operator:
  "Parse operatorFlags [''--node'', a, ''--action'', ''sign'', ''--message'', m, ''--signers'', s] =
     Inr (operatorFlags(''node'' \<mapsto> FString a, ''action'' \<mapsto> FString ''sign'', ''message'' \<mapsto> FString m,
       ''signers'' \<mapsto> FString s), [])"
  by (simp add: operatorFlags_def classify_def split_equals_def)

text \<open>
  C27: When a node cannot sign, the operator's command says that signing completed successfully, ends
  with code 0, and prints the text of the error in hexadecimal as the signature: the node sends its
  error as a message, and the program looks only at errors of the connection.
\<close>

theorem operator_reports_error_as_signature:
  assumes "clNodes W a = Some n" and "dial a = None" and "message \<noteq> []" and "signers \<noteq> []" and "e \<noteq> []"
    and "Sign M rnd n sess (bytes_of message) (NodeID (ncfg n) # map fst (npeers n)) (clWorld W) = (Ret (Inl e), n', v)"
  shows "\<exists>ls W'. operator_main (cluster_net M rnd sess pick1 pick2 clock uuid dial)
        [''--node'', a, ''--action'', ''sign'', ''--message'', message, ''--signers'', signers] W = (leave ls 0, W') \<and>
      Out ''Signing completed successfully'' \<in> set ls \<and> Out (''Signature: '' @ hex_encode (bytes_of e)) \<in> set ls"
proof -
  let ?N = "cluster_net M rnd sess pick1 pick2 clock uuid dial"
  let ?req = "trigger ''trigger_sign'' (bytes_of message)"
  obtain W' where "rpcSign ?N a ?req W = (Inr (reply_error n' ?req e), W')"
    using cluster_sign_error [of W a n ?req M rnd sess e n' v] assms(1,6) by (fastforce simp: trigger_def)
  moreover have "rpcDial ?N a = None" using assms(2) by (simp add: cluster_net_def)
  ultimately show ?thesis
    using assms(3-5)
    by (simp add: operator_main_def parse_operator flag_string_def handleSign_def Let_def reply_error_def bytes_of_def
        del: Parse.simps)
qed

theorem operator_reports_error_as_signature_witness:
  "\<exists>ls W'. operator_main demo_cluster_net
        [''--node'', ''b'', ''--action'', ''sign'', ''--message'', ''m'', ''--signers'', ''1,2'']
        (demo_cluster\<lparr>clNodes := [''b'' \<mapsto> setState demo_node StateFailed]\<rparr>) = (leave ls 0, W') \<and>
     Out ''Signing completed successfully'' \<in> set ls"
proof -
  let ?n = "setState demo_node StateFailed" and ?W = "demo_cluster\<lparr>clNodes := [''b'' \<mapsto> setState demo_node StateFailed]\<rparr>"
  have s: "Sign demo_net (\<lambda>k. Inr 0) ?n (\<lambda>_. ''s'') (bytes_of ''m'') (NodeID (ncfg ?n) # map fst (npeers ?n)) (clWorld ?W) =
      (Ret (Inl (''node not ready, state: '' @ show_nat (state_num StateFailed))), ?n, clWorld ?W)"
    by (simp add: Sign_def setState_def getState_def)
  have "\<exists>ls W'. operator_main demo_cluster_net
        [''--node'', ''b'', ''--action'', ''sign'', ''--message'', ''m'', ''--signers'', ''1,2''] ?W = (leave ls 0, W') \<and>
     Out ''Signing completed successfully'' \<in> set ls \<and>
     Out (''Signature: '' @ hex_encode (bytes_of (''node not ready, state: '' @ show_nat (state_num StateFailed)))) \<in> set ls"
    unfolding demo_cluster_net_def by (rule operator_reports_error_as_signature [OF _ _ _ _ _ s]) simp_all
  then show ?thesis by blast
qed

section \<open>\<^verbatim>\<open>mpc-cli dkg init\<close>\<close>

lemma dkg_init_ok:
  assumes "runDKGInit h N fs sh w = (p, sh', w')" and "code p = 0"
  obtains result orc s' where
    "dkg_RunDKG N (chOrder h) (chUnix h) (NewDKGOrchestrator (cli_config h fs) (Some (sh (cli_getShareDir h)))) w = (Inr result, orc, w')"
    and "SaveShareToDisk (chCrypto h) (chSalt h) (chNonce h) (chUnix h) orc (NodeID (cli_config h fs)) (drClusterID result)
       (case map_of (drKeyShares result) (NodeID (cli_config h fs)) of None \<Rightarrow> [] | Some k \<Rightarrow> k) (drPublicKey result)
       (chGetenv h ''MPC_SHARE_PASSWORD'') = Inr s'"
    and "sh' = keep_store sh (cli_getShareDir h) s'"
proof -
  obtain x orc w1 where r: "dkg_RunDKG N (chOrder h) (chUnix h)
      (NewDKGOrchestrator (cli_config h fs) (Some (sh (cli_getShareDir h)))) w = (x, orc, w1)" by (metis prod.exhaust)
  note run = assms(1) [unfolded runDKGInit_def Let_def r prod.case]
  with assms(2) obtain result where x: "x = Inr result" by (cases x) (auto split: if_split_asm)
  define s where "s = SaveShareToDisk (chCrypto h) (chSalt h) (chNonce h) (chUnix h) orc (NodeID (cli_config h fs))
     (drClusterID result) (case map_of (drKeyShares result) (NodeID (cli_config h fs)) of None \<Rightarrow> [] | Some k \<Rightarrow> k)
     (drPublicKey result) (chGetenv h ''MPC_SHARE_PASSWORD'')"
  note run' = run [unfolded x sum.case, folded s_def]
  with assms(2) obtain s' where s': "s = Inr s'" by (cases s) (auto split: if_split_asm)
  from run' assms(2) have "w1 = w' \<and> sh' = keep_store sh (cli_getShareDir h) s'"
    unfolding s' by (auto split: if_split_asm)
  with r x s' that show thesis unfolding s_def by blast
qed

lemma cli_cluster_given: "cli_cluster h fs \<noteq> []"
  by (simp add: cli_cluster_def)

lemma dkg_init_share:
  assumes "crypto_ok (chCrypto h)" and "chSalt h = Inr salt" "length salt = saltLen"
    and "chNonce h = Inr nonce" "length nonce = NonceSize"
    and "runDKGInit h (cluster_net M rnd sess pick1 pick2 clock uuid dial) fs sh w = (p, sh', w')" and "code p = 0"
  shows "LoadShare (chCrypto h) (sh' (cli_getShareDir h)) (ucast (flag_uint fs ''node-id'')) (chGetenv h ''MPC_SHARE_PASSWORD'') =
      Inr (cli_cluster h fs, [], []) \<and> ShareExists (sh' (cli_getShareDir h)) (ucast (flag_uint fs ''node-id''))"
proof -
  let ?dir = "cli_getShareDir h" and ?pw = "chGetenv h ''MPC_SHARE_PASSWORD''" and ?cfg = "cli_config h fs"
  obtain result orc orc' where
    run: "dkg_RunDKG (cluster_net M rnd sess pick1 pick2 clock uuid dial) (chOrder h) (chUnix h)
        (NewDKGOrchestrator ?cfg (Some (sh ?dir))) w = (Inr result, orc, w')"
    and save: "SaveShareToDisk (chCrypto h) (chSalt h) (chNonce h) (chUnix h) orc (NodeID ?cfg) (drClusterID result)
       (case map_of (drKeyShares result) (NodeID ?cfg) of None \<Rightarrow> [] | Some k \<Rightarrow> k) (drPublicKey result) ?pw = Inr orc'"
    and sh': "sh' = keep_store sh ?dir orc'"
    using assms(6,7) by (rule dkg_init_ok)
  have cfg: "ClusterID ?cfg = cli_cluster h fs" "NodeID ?cfg = ucast (flag_uint fs ''node-id'')"
    by (simp_all add: cli_config_def)
  have "drPublicKey result = []" "drKeyShares result = [(NodeID ?cfg, [])]" "drClusterID result = cli_cluster h fs"
    "dkShareStore orc = Some (sh ?dir)"
    using dkg_result_empty [OF run] cli_cluster_given [of h fs] by (simp_all add: NewDKGOrchestrator_def cfg)
  with save assms(2,4) obtain s' where "SaveShare (chCrypto h) (Inr salt) (Inr nonce) (chUnix h) (sh ?dir) (NodeID ?cfg)
      (cli_cluster h fs) [] [] ?pw = Inr s'" and "orc' = orc\<lparr>dkShareStore := Some s'\<rparr>"
    by (auto simp: SaveShareToDisk_def split: sum.splits)
  with share_roundtrip [OF assms(1,3,5) this(1)] show ?thesis by (simp add: sh' keep_store_def cfg)
qed

text \<open>
  C25: When \<^verbatim>\<open>mpc-cli dkg init\<close> ends with code 0 against nodes of this repository, having reported a
  completed key generation, the share it saved for the node is empty and so is the public key;
  \<^verbatim>\<open>mpc-cli key status\<close> then finds a key share of 0 bytes, provided the node is number 1, the only one it
  looks for.
\<close>

theorem dkg_init_saves_empty_share:
  assumes "crypto_ok (chCrypto h)" and "chSalt h = Inr salt" "length salt = saltLen"
    and "chNonce h = Inr nonce" "length nonce = NonceSize" and "chGetenv h ''MPC_SHARE_PASSWORD'' \<noteq> []"
    and "Parse clusterFlags args = Inr (fs, rest)"
    and "mpc_main h (cluster_net M rnd sess pick1 pick2 clock uuid dial) (''dkg'' # ''init'' # args) sh w = (p, sh', w')"
    and "code p = 0"
  shows "LoadShare (chCrypto h) (sh' (cli_getShareDir h)) (ucast (flag_uint fs ''node-id'')) (chGetenv h ''MPC_SHARE_PASSWORD'') =
      Inr (cli_cluster h fs, [], []) \<and>
    (flag_uint fs ''node-id'' = 1 \<longrightarrow>
       mpc_main h N [''key'', ''status''] sh' v =
         (leave (map Out [tick @ '' Key Share Found'', ''   Node ID:     node_1'', ''   Cluster ID:  '' @ cli_cluster h fs,
            ''   Public Key:  '', ''   Share Size:  0 bytes'']) 0, sh', v))"
proof -
  have "runDKGInit h (cluster_net M rnd sess pick1 pick2 clock uuid dial) fs sh w = (p, sh', w')"
    using assms(7,8) by (simp add: mpc_main_def runDKGCommand_def)
  from dkg_init_share [OF assms(1-5) this assms(9)] assms(6) show ?thesis
    by (auto simp: mpc_main_def runKeyCommand_def runKeyStatus_def Let_def show_nat.simps)
qed

definition init_flags :: flags where
  "init_flags = clusterFlags(''peers'' \<mapsto> FString ''b'', ''total-nodes'' \<mapsto> FUint 2, ''cluster-id'' \<mapsto> FString ''c'')"

lemma init_flags_simps:
  "Parse clusterFlags [''--peers'', ''b'', ''--total-nodes'', ''2'', ''--cluster-id'', ''c''] = Inr (init_flags, [])"
  "flag_string init_flags ''peers'' = ''b''" "flag_string init_flags ''cluster-id'' = ''c''"
  "flag_uint init_flags ''total-nodes'' = 2" "flag_uint init_flags ''threshold'' = 2" "flag_uint init_flags ''node-id'' = 1"
proof -
  show "Parse clusterFlags [''--peers'', ''b'', ''--total-nodes'', ''2'', ''--cluster-id'', ''c''] = Inr (init_flags, [])"
    by (simp add: clusterFlags_def init_flags_def classify_def split_equals_def ParseUint0_def base_prefix_def digit_of_def
        is_digit_def digit_val_def)
qed (simp_all add: flag_string_def flag_uint_def init_flags_def clusterFlags_def)

lemma init_config:
  "ClusterID (cli_config demo_host init_flags) = ''c''" "TotalNodes (cli_config demo_host init_flags) = 2"
  "Threshold (cli_config demo_host init_flags) = 2" "NodeID (cli_config demo_host init_flags) = 1"
  "PeerAddrs (cli_config demo_host init_flags) 1 = Some ''b''"
  by (simp_all add: cli_config_def init_flags_simps cli_cluster_def cli_parsePeers_def TrimSpace_def is_space_def)

lemma demo_save:
  "\<exists>s'. SaveShare toy (Inr (replicate 16 1)) (Inr (replicate 12 2)) 5 no_shares 1 c k pk ''pw'' = Inr s'"
  by (simp add: SaveShare_def encryptShare_def shareKey_def toy_def argon2KeyLen_def no_shares_def NewShareStore_def
      empty_dir_def WriteFile_def look_def Let_def del: EncodeToString.simps)

lemma demo_init_run:
  "\<exists>p sh' w'. mpc_main demo_host demo_cluster_net
      [''dkg'', ''init'', ''--peers'', ''b'', ''--total-nodes'', ''2'', ''--cluster-id'', ''c''] (\<lambda>_. no_shares) demo_cluster =
      (p, sh', w') \<and> code p = 0"
proof -
  obtain r W where run: "dkg_RunDKG demo_cluster_net [1] 5 (NewDKGOrchestrator (cli_config demo_host init_flags) (Some no_shares))
      demo_cluster = (Inr r, \<lparr>dkConfig = cli_config demo_host init_flags, dkPeers = [(1, ''b'')], dkShareStore = Some no_shares\<rparr>, W)"
    using demo_dkg_run [of "cli_config demo_host init_flags" 1 5 "Some no_shares"] by (auto simp: init_config)
  have few: "\<not> too_few_peers init_flags" by (simp add: too_few_peers_def init_flags_simps peer_count_def)
  obtain s' where "SaveShare toy (Inr (replicate 16 1)) (Inr (replicate 12 2)) 5 no_shares 1 (drClusterID r)
      (case map_of (drKeyShares r) 1 of None \<Rightarrow> [] | Some k \<Rightarrow> k) (drPublicKey r) ''pw'' = Inr s'"
    using demo_save by blast
  then show ?thesis
    using run few
    by (simp add: mpc_main_def runDKGCommand_def init_flags_simps runDKGInit_def Let_def demo_host_simps
        SaveShareToDisk_def init_config del: Parse.simps)
qed

theorem dkg_init_saves_empty_share_witness:
  "\<exists>p sh' w'. mpc_main demo_host demo_cluster_net
      [''dkg'', ''init'', ''--peers'', ''b'', ''--total-nodes'', ''2'', ''--cluster-id'', ''c''] (\<lambda>_. no_shares) demo_cluster =
      (p, sh', w') \<and> code p = 0 \<and> LoadShare toy (sh' ''/root/.hsm/mpc'') 1 ''pw'' = Inr (''c'', [], [])"
proof -
  obtain p sh' w' where run: "mpc_main demo_host demo_cluster_net
      [''dkg'', ''init'', ''--peers'', ''b'', ''--total-nodes'', ''2'', ''--cluster-id'', ''c''] (\<lambda>_. no_shares) demo_cluster =
      (p, sh', w')" "code p = 0"
    using demo_init_run by blast
  have "crypto_ok (chCrypto demo_host)" "chGetenv demo_host ''MPC_SHARE_PASSWORD'' \<noteq> []"
    by (simp_all add: demo_host_simps toy_ok)
  from dkg_init_saves_empty_share [OF this(1) demo_host_simps(7) _ demo_host_simps(8) _ this(2) init_flags_simps(1)
      run(1) [unfolded demo_cluster_net_def] run(2), THEN conjunct1]
  have "LoadShare toy (sh' ''/root/.hsm/mpc'') 1 ''pw'' = Inr (''c'', [], [])"
    by (simp add: saltLen_def NonceSize_def demo_host_simps cli_getShareDir_def init_flags_simps cli_cluster_def del: Parse.simps)
  with run show ?thesis by blast
qed

section \<open>\<^verbatim>\<open>mpc-node\<close>\<close>

lemma Start_ready: "Start N ids n w = (Inr u, n', w') \<Longrightarrow> nstate n' = StateReady \<and> ncfg n' = ncfg n"
  by (auto simp: Start_def connectToPeers_def setState_def split: prod.splits sum.splits)

lemma launch_Running:
  assumes "launch H N h args w = Running ls st n w'"
  obtains fs rest password ls0 cfg ls2 n0 where "Parse daemonFlags args = Inr (fs, rest)"
    and "getPassword h fs = (password, ls0)" "password \<noteq> []" and "node_config h fs = Inr (cfg, ls2)"
    and "Validate cfg = None" and "NewNode H cfg = Inr n0" and "Start N (dhOrder h) n0 w = (Inr (), n, w')"
    and "st = look_at_share h fs password"
proof -
  obtain fs rest where p: "Parse daemonFlags args = Inr (fs, rest)"
    using assms by (cases "Parse daemonFlags args") (auto simp: launch_def)
  obtain password ls0 where pw: "getPassword h fs = (password, ls0)" by fastforce
  note run = assms [unfolded launch_def p sum.case prod.case pw Let_def]
  then have ne: "password \<noteq> []" by (auto split: if_splits)
  obtain cfg ls2 where c: "node_config h fs = Inr (cfg, ls2)"
    using run ne by (cases "node_config h fs") auto
  then have v: "Validate cfg = None" using run ne by (auto split: if_splits)
  obtain n0 where n0: "NewNode H cfg = Inr n0" using run ne c v by (cases "NewNode H cfg") auto
  obtain x n1 w1 where s: "Start N (dhOrder h) n0 w = (x, n1, w1)" by (metis prod.exhaust)
  with run ne c v n0 have "x = Inr ()" "n1 = n" "w1 = w'" "st = look_at_share h fs password"
    by (cases x; simp)+
  with that p pw ne c v n0 s show thesis by blast
qed

text \<open>
  C29: A node that \<^verbatim>\<open>mpc-node\<close> starts runs on a valid configuration and is ready; a signal ends the process
  with code 0. When its settings come from a file and no number is given as a flag, the program finds
  no share on disk, whatever shares there are: it looks for the share of node 0, not of the node in
  the file.
\<close>

theorem daemon_runs_valid_node:
  assumes "launch H N h args w = Running ls st n w'"
  shows "Validate (ncfg n) = None \<and> nstate n = StateReady \<and> code (fst (shutdown (Running ls st n w'))) = 0 \<and>
    (\<forall>fs rest. Parse daemonFlags args = Inr (fs, rest) \<longrightarrow> flag_uint fs ''node-id'' = 0 \<longrightarrow>
       flag_string fs ''config'' \<noteq> [] \<and> st = NoShare)"
proof -
  from assms obtain fs rest password ls0 cfg ls2 n0 where p: "Parse daemonFlags args = Inr (fs, rest)"
    and c: "node_config h fs = Inr (cfg, ls2)" and v: "Validate cfg = None" and n0: "NewNode H cfg = Inr n0"
    and s: "Start N (dhOrder h) n0 w = (Inr (), n, w')" and st: "st = look_at_share h fs password"
    by (rule launch_Running)
  have "ncfg n0 = cfg" using n0 by (auto simp: NewNode_def split: sum.splits)
  moreover have "st = NoShare" if "flag_uint fs ''node-id'' = 0"
    using that by (simp add: st look_at_share_def Let_def ShareExists_def)
  moreover have "flag_string fs ''config'' \<noteq> []" if "flag_uint fs ''node-id'' = 0"
  proof
    assume "flag_string fs ''config'' = []"
    with c that have "NodeID cfg = 0" by (auto simp: node_config_def Let_def split: prod.splits)
    with v show False by (simp add: Validate_def)
  qed
  ultimately show ?thesis using Start_ready [OF s] v p by auto
qed

definition demo_daemon :: daemon_host where
  "demo_daemon = \<lparr>dhGetenv = (\<lambda>_. ''pw''), dhHome = Inr ''/root'', dhReadFile = (\<lambda>_. Inr []),
     dhYaml = (\<lambda>_. Inr defaultNodeConfig), dhOrder = [], dhCrypto = toy, dhShares = (\<lambda>_. one_share)\<rparr>"

theorem daemon_runs_valid_node_witness:
  "\<exists>ls st n w'. launch (\<lambda>u m b w. (Answer 200 (Inr ok_response), w)) demo_net demo_daemon [''--config'', ''node.yaml''] () =
     Running ls st n w' \<and> nstate n = StateReady \<and> st = NoShare"
proof -
  let ?fs = "daemonFlags(''config'' \<mapsto> FString ''node.yaml'')"
  have p: "Parse daemonFlags [''--config'', ''node.yaml''] = Inr (?fs, [])"
    by (simp add: daemonFlags_def classify_def split_equals_def)
  have f: "flag_uint ?fs ''node-id'' = 0" "flag_string ?fs ''password-file'' = []" "flag_string ?fs ''config'' = ''node.yaml''"
    by (simp_all add: daemonFlags_def flag_uint_def flag_string_def)
  have "\<exists>ls st n w'. launch (\<lambda>u m b w. (Answer 200 (Inr ok_response), w)) demo_net demo_daemon
      [''--config'', ''node.yaml''] () = Running ls st n w'"
    by (simp add: launch_def p getPassword_def f node_config_def demo_daemon_def Let_def LoadNodeConfig_def Validate_def
        defaultNodeConfig_def NewNode_def NewClient_def Start_def Initialize_def post_def doRequest_def ok_response_def
        connectToPeers_def split: prod.split del: Parse.simps)
  then obtain ls st n w' where run: "launch (\<lambda>u m b w. (Answer 200 (Inr ok_response), w)) demo_net demo_daemon
      [''--config'', ''node.yaml''] () = Running ls st n w'" by blast
  with daemon_runs_valid_node [OF run] p f(1) show ?thesis by blast
qed

end
