(* ===== verification/Spec2Isabelle.thy ===== *)
theory Spec2Isabelle
  imports Intent_Lifecycle Wallet_Store Key_Store Share_Store Policy_Engine Config Zk Enclave_Client
    Mpc_Composition Mpc_Runs Mpc_Protocol
    Transaction_Service Wallet_Accounts Wallet_Responses
    Zk_Saved Cli_Facts
begin

text \<open>
  Verification of the HSM treasury infrastructure, a custody platform for Ethereum and Solana: a wallet
  service that keeps wallets, keys and transaction intents and executes approved intents, a cluster of
  MPC nodes with enclaves that hold key shares, zero-knowledge policies that guard executions, and the
  command-line programs around them. The Go code under \<^verbatim>\<open>src/cmd\<close> and \<^verbatim>\<open>src/pkg\<close> is modelled file by file.

  \<^bold>\<open>The program and how its parts interact.\<close> An HTTP request reaches \<^verbatim>\<open>cmd/wallet-service\<close>, which stores
  wallets and accounts (\<^verbatim>\<open>pkg/wallet/store.go\<close>), encrypted keys (\<^verbatim>\<open>keystore.go\<close>) and intents (\<^verbatim>\<open>intent.go\<close>) as
  JSON files. An intent is created, approved by distinct approvers up to its quorum, and executed: the
  service loads the key, asks the policy engine of \<^verbatim>\<open>pkg/zk\<close> for a verified proof, and hands the transfer to
  \<^verbatim>\<open>pkg/transaction\<close>, which builds, signs and sends it with \<^verbatim>\<open>pkg/blockchain\<close> and \<^verbatim>\<open>pkg/signer\<close>. An account
  whose key is shared is signed for by the orchestrators of \<^verbatim>\<open>pkg/mpc/node\<close>, which call the gRPC servers of
  the nodes; a node drives its enclave through \<^verbatim>\<open>pkg/enclave\<close> and keeps its share in an encrypted file.

  \<^bold>\<open>Theories and sources.\<close>
  \<^item> Foundations: \<open>Go_Prelude\<close> (results, panics, machine integers, decimal and hexadecimal texts, strings),
    \<open>Go_Float\<close> (\<^verbatim>\<open>float64\<close> and \<^verbatim>\<open>big.Float\<close> rounding), \<open>Go_Flag\<close> and \<open>Flag_Facts\<close> (package \<^verbatim>\<open>flag\<close>), \<open>Base58\<close>,
    \<open>Base64\<close>, \<open>Json\<close> and \<open>Json_Text\<close> (\<^verbatim>\<open>encoding/json\<close>: documents, decoding into Go values, the scanner),
    \<open>Crypto\<close> (the primitives as parameters), \<open>Filesystem\<close> (directories of JSON files, the locales of the
    stores).
  \<^item> \<^verbatim>\<open>pkg/wallet\<close>: \<open>Intent_Store\<close> and \<open>Intent_Lifecycle\<close> (\<^verbatim>\<open>intent.go\<close>), \<open>Wallet_Store\<close> (\<^verbatim>\<open>wallet.go\<close>,
    \<^verbatim>\<open>store.go\<close>), \<open>Key_Store\<close> (\<^verbatim>\<open>keystore.go\<close>).
  \<^item> \<^verbatim>\<open>pkg/policy\<close>: \<open>Policy_Engine\<close>. \<^verbatim>\<open>pkg/config\<close>: \<open>Config\<close>. \<^verbatim>\<open>pkg/zk\<close>: \<open>Zk\<close>. \<^verbatim>\<open>pkg/enclave\<close>: \<open>Enclave_Client\<close>.
  \<^item> \<^verbatim>\<open>pkg/mpc/node\<close>: \<open>Mpc_Codec\<close> (payloads), \<open>Mpc_Node\<close> and \<open>Mpc_Signing\<close> (\<^verbatim>\<open>node.go\<close>), \<open>Mpc_Server\<close>
    (\<^verbatim>\<open>server.go\<close>), \<open>Mpc_Cluster\<close> (both sides), \<open>Share_Store\<close> (\<^verbatim>\<open>share_store.go\<close>), \<open>Mpc_Orchestrator\<close> (the three
    orchestrators), \<open>Mpc_Composition\<close> (orchestrators against a cluster of servers),
    \<open>Mpc_Runs\<close> (a cluster over time). \<^verbatim>\<open>pkg/mpc/protocol\<close>: \<open>Mpc_Protocol\<close>.
  \<^item> \<^verbatim>\<open>pkg/blockchain\<close>: \<open>Ethereum_Rpc\<close>, \<open>Ethereum_Tx\<close>, \<open>Solana_Rpc\<close>, \<open>Solana_Codec\<close>, \<open>Solana_Tx\<close>, \<open>Amounts\<close>.
    \<^verbatim>\<open>pkg/signer\<close>: \<open>Signers\<close>. \<^verbatim>\<open>pkg/transaction\<close>: \<open>Transaction_Service\<close>.
  \<^item> \<^verbatim>\<open>cmd/wallet-service\<close>: \<open>Wallet_Service\<close> (state, wallets, balances, fees), \<open>Wallet_Intents\<close> (intents),
    \<open>Wallet_Execution\<close> (execution), \<open>Wallet_Admin\<close> (configuration, share rotation), with \<open>Wallet_Safety\<close>,
    \<open>Wallet_Requests\<close>, \<open>Wallet_Responses\<close>, \<open>Wallet_Accounts\<close> for what holds and \<open>Wallet_Witness\<close> for concrete runs.
  \<^item> The other programs: \<open>Console\<close> (output, exit codes), \<open>Zk_Cli\<close> and \<open>Zk_Saved\<close> (\<^verbatim>\<open>cmd/zk-cli\<close>), \<open>Node_Cli\<close>
    (\<^verbatim>\<open>cmd/operator\<close>, \<^verbatim>\<open>cmd/cli\<close>), \<open>Mpc_Cli\<close> (\<^verbatim>\<open>cmd/mpc-cli\<close>), \<open>Mpc_Daemon\<close> (\<^verbatim>\<open>cmd/mpc-node\<close>), \<open>Cli_Facts\<close>.

  \<^bold>\<open>State and operations.\<close> A struct is a record with the fields the code uses, prefixed where names would
  clash; an operation keeps the name of the function it translates. A fallible operation returns
  \<^theory_text>\<open>err + 'a\<close> with the text of the error; an operation that can panic returns an \<^theory_text>\<open>outcome\<close>. State is passed
  explicitly: a store is a directory of decoded JSON files with the faults of its operations; the server
  of the wallet service is the record \<^theory_text>\<open>Server\<close> of its stores, engines and network; a node is the record
  \<^theory_text>\<open>MPCNode\<close> and a cluster the record \<^theory_text>\<open>cluster\<close> of nodes by address; a command-line program is a function
  from arguments and world to output, exit code and world. Requests over time are sequences: the relation
  \<^theory_text>\<open>served\<close> of \<open>Wallet_Requests\<close> is the reflexive transitive closure of requests and expiry ticks, \<^theory_text>\<open>sys_run\<close> of
  \<open>Mpc_Runs\<close> that of messages, background tasks, crashes and shutdowns of the nodes, and an
  execution is split at the point where another request can come in between. Integers that can overflow
  are words or wrap explicitly; amounts are computed with the rounding of the floating-point types.

  \<^bold>\<open>Interfaces.\<close> \<^theory_text>\<open>keyed_dir\<close> is what a directory promises about its entries, and \<^theory_text>\<open>record_store\<close> what a store
  of records promises its clients; \<^theory_text>\<open>node_service\<close> is the part of the server's contract on which the
  orchestrators' results depend; \<^theory_text>\<open>signer\<close> is the zeroization contract of the four signers. Each is
  interpreted on the definitions of the code.

  \<^bold>\<open>What is shown.\<close>
  \<^item> Intents: approval exactly at the quorum, expiry of exactly the overdue intents, the retry budget, a
    listing as the page of the stably sorted matches.
  \<^item> The service: only approved intents are executed; with a policy engine nothing is sent without a verified
    proof; a success means that the intent was sent and recorded; the stores stay well formed and the index
    exact through every sequence of requests; every answer has the shape of its status. A failed broadcast
    leaves an intent that can be neither executed nor retried, and the wallet lock excludes nobody.
  \<^item> Stores: keys and shares are loaded back as saved, migration changes no key, deletion removes exactly the
    accounts of a wallet.
  \<^item> Policies: the daily limit over a day of transfers, the removal of private inputs, the first match of the
    rule engine, and that a saved proof is verified again.
  \<^item> MPC: a signature rests on a threshold of signers, signing succeeds with responsive signers, packages
    arrive as sent, a running node keeps its settings and its open session; and what the composition of orchestrators and servers does not achieve: no node accepts a
    peer, orchestrated keys are empty, a refresh changes nothing.
  \<^item> Chains: transactions as signed and encoded, fees and balances at their bounds, amounts of money exact or
    one unit less, base58 read back.
  \<^item> Programs: what \<^verbatim>\<open>zk-cli\<close>, \<^verbatim>\<open>mpc-cli\<close>, \<^verbatim>\<open>hsm-cli\<close>, \<^verbatim>\<open>operator\<close> and \<^verbatim>\<open>mpc-node\<close> report about these parts.

  \<^bold>\<open>Loops, fuel and bounds.\<close> Every function is total. The JSON scanner has the fuel \<^theory_text>\<open>2 * length s + 1\<close>, which
  is shown to be enough for every text (\<^theory_text>\<open>parse_json_answers\<close>): each step consumes a character or descends
  into one. The bubble sort of listings, the reversal of base58 digits, the reading of string escapes and the
  parsing of flags have measures. The retry loops of the nodes count down from the three attempts of the
  code. The wait for a confirmation runs over the events of its timer, whose last one ends it.

  \<^bold>\<open>Parameters and hypotheses.\<close> Argon2, SHA-256, AES-GCM, Ed25519 and secp256k1, go-ethereum, the base58
  decoder, YAML, \<^verbatim>\<open>snarkjs\<close>, HTTP and gRPC transports, clocks, random sources and identifiers are arguments.
  Where a theorem relies on one of them, the hypothesis is its documented contract (\<^theory_text>\<open>crypto_ok\<close>: what was sealed
  opens under its key; \<^theory_text>\<open>verifier_reads_files\<close>: a verification depends on its files) and a witness instantiates it.
  The order in which Go iterates over a map is an argument, one order per run. Files are decoded JSON values or
  bytes that do not decode; white space in them is not kept, nor are file modes. The printed form of a
  \<^verbatim>\<open>float64\<close> in rewritten JSON is an argument. Texts are ASCII where case or quoting matters.

  \<^bold>\<open>Not modelled.\<close> The code \<^verbatim>\<open>protoc\<close> generates under \<^verbatim>\<open>api\<close>, whose calls are the functions of the record
  \<^theory_text>\<open>net\<close>; logging, CORS and HTTP middleware; the goroutines of a node that change no state (server loop,
  heartbeats); types and helpers nothing uses. The enclaves are written in Rust and the dashboard in
  TypeScript; both are seen through their interfaces.
\<close>

end
